(* ===== verification/Prelude.thy ===== *)
theory Prelude
  imports Main "HOL-Library.List_Lexorder" "HOL-Library.Char_ord" "HOL-Library.Sublist"
begin

text \<open>
  Shared vocabulary of the development: the names of the value types the Go code and its
  SQLite store exchange, signed 64-bit wrap-around, and tables with an AUTOINCREMENT row id.

  A Go string is a sequence of bytes, which is HOL's \<open>string\<close>; the orders of
  List_Lexorder and Char_ord make \<open><\<close> on strings the byte-wise order that Go's
  \<open><\<close> and SQLite's BINARY collation use.
\<close>

named_theorems table_simps \<open>effect of the SQL statements on the rows of a table\<close>
named_theorems repo_defs \<open>definitions of repository operations\<close>

type_synonym rowid = int
type_synonym timestamp = string
type_synonym bytes = string

section \<open>Results with an error\<close>

text \<open>
  A Go function that returns \<open>(T, error)\<close> gives \<open>Inl e\<close> or \<open>Inr v\<close>; \<open>and_then\<close> is the early
  return \<open>if err != nil { return err }\<close>.
\<close>

definition and_then :: "'e + 'a \<Rightarrow> ('a \<Rightarrow> 'e + 'b) \<Rightarrow> 'e + 'b" where
  "and_then m f = (case m of Inl e \<Rightarrow> Inl e | Inr x \<Rightarrow> f x)"

lemma and_then_simps [simp]: "and_then (Inl e) f = Inl e" "and_then (Inr x) f = f x"
  by (simp_all add: and_then_def)

lemma and_then_Inr: "and_then m f = Inr y \<longleftrightarrow> (\<exists>x. m = Inr x \<and> f x = Inr y)"
  by (cases m) auto

lemma and_then_Inl: "and_then m f = Inl e \<longleftrightarrow> m = Inl e \<or> (\<exists>x. m = Inr x \<and> f x = Inl e)"
  by (cases m) auto

section \<open>Signed 64-bit integers\<close>

text \<open>Go's \<open>int64\<close> (and \<open>int\<close> on 64-bit hosts) as integers, with the wrap-around written out.\<close>

definition wrap64 :: "int \<Rightarrow> int" where
  "wrap64 x = (x + 2 ^ 63) mod 2 ^ 64 - 2 ^ 63"

lemma wrap64_id [simp]: "- (2 ^ 63) \<le> x \<Longrightarrow> x < 2 ^ 63 \<Longrightarrow> wrap64 x = x"
  by (simp add: wrap64_def)

lemma wrap64_range: "- (2 ^ 63) \<le> wrap64 x \<and> wrap64 x < 2 ^ 63"
  by (simp add: wrap64_def)

section \<open>Tables with an AUTOINCREMENT row id\<close>

text \<open>
  \<open>tseq\<close> is SQLite's \<open>sqlite_sequence\<close> entry: the largest row id ever handed out.
  AUTOINCREMENT never reuses an id, so the rows stand in ascending id order.
\<close>

record 'r table =
  tseq :: int
  rows :: "'r list"

definition empty_table :: "'r table" where
  "empty_table = \<lparr>tseq = 0, rows = []\<rparr>"

definition insert_row :: "(rowid \<Rightarrow> 'r) \<Rightarrow> 'r table \<Rightarrow> rowid \<times> 'r table" where
  "insert_row mk t = (let i = tseq t + 1 in (i, t\<lparr>tseq := i, rows := rows t @ [mk i]\<rparr>))"

text \<open>\<open>UPDATE .. WHERE\<close>: the number of rows affected and the new table.\<close>

definition update_where :: "('r \<Rightarrow> bool) \<Rightarrow> ('r \<Rightarrow> 'r) \<Rightarrow> 'r table \<Rightarrow> nat \<times> 'r table" where
  "update_where P f t =
     (length (filter P (rows t)), t\<lparr>rows := map (\<lambda>r. if P r then f r else r) (rows t)\<rparr>)"

definition delete_where :: "('r \<Rightarrow> bool) \<Rightarrow> 'r table \<Rightarrow> 'r table" where
  "delete_where P t = t\<lparr>rows := filter (\<lambda>r. \<not> P r) (rows t)\<rparr>"

definition find_row :: "('r \<Rightarrow> bool) \<Rightarrow> 'r table \<Rightarrow> 'r option" where
  "find_row P t = List.find P (rows t)"

definition wf_table :: "('r \<Rightarrow> rowid) \<Rightarrow> 'r table \<Rightarrow> bool" where
  "wf_table rid t \<longleftrightarrow>
     sorted_wrt (<) (map rid (rows t)) \<and> (\<forall>r \<in> set (rows t). 0 < rid r \<and> rid r \<le> tseq t) \<and> 0 \<le> tseq t"

lemma rows_update_where [table_simps]:
  "rows (snd (update_where P f t)) = map (\<lambda>r. if P r then f r else r) (rows t)"
  by (simp add: update_where_def)

lemma tseq_update_where [table_simps]: "tseq (snd (update_where P f t)) = tseq t"
  by (simp add: update_where_def)

lemma fst_update_where_0 [table_simps]:
  "fst (update_where P f t) = 0 \<longleftrightarrow> (\<forall>r \<in> set (rows t). \<not> P r)"
  by (simp add: update_where_def filter_empty_conv)

lemma rows_delete_where [table_simps]: "rows (delete_where P t) = filter (\<lambda>r. \<not> P r) (rows t)"
  by (simp add: delete_where_def)

lemma tseq_delete_where [table_simps]: "tseq (delete_where P t) = tseq t"
  by (simp add: delete_where_def)

lemma rows_insert_row [table_simps]: "rows (snd (insert_row mk t)) = rows t @ [mk (tseq t + 1)]"
  by (simp add: insert_row_def Let_def)

lemma tseq_insert_row [table_simps]: "tseq (snd (insert_row mk t)) = tseq t + 1"
  by (simp add: insert_row_def Let_def)

lemma fst_insert_row [table_simps]: "fst (insert_row mk t) = tseq t + 1"
  by (simp add: insert_row_def Let_def)

lemma list_find_Some: "List.find P xs = Some x \<Longrightarrow> x \<in> set xs \<and> P x"
  by (induction xs) (auto split: if_splits)

lemma list_find_unique:
  "distinct (map f xs) \<Longrightarrow> x \<in> set xs \<Longrightarrow> f x = k \<Longrightarrow> List.find (\<lambda>y. f y = k) xs = Some x"
  by (induction xs) auto

lemma find_row_Some: "find_row P t = Some r \<Longrightarrow> r \<in> set (rows t) \<and> P r"
  by (simp add: find_row_def list_find_Some)

lemma find_row_None: "find_row P t = None \<longleftrightarrow> (\<forall>r \<in> set (rows t). \<not> P r)"
  unfolding find_row_def by (auto simp: find_None_iff)

lemma wf_table_empty [simp]: "wf_table rid empty_table"
  by (simp add: wf_table_def empty_table_def)

lemma wf_table_distinct: "wf_table rid t \<Longrightarrow> distinct (map rid (rows t))"
  by (simp add: wf_table_def strict_sorted_iff)

lemma wf_sorted_ids: "wf_table rid t \<Longrightarrow> sort (map rid (rows t)) = map rid (rows t)"
  by (simp add: wf_table_def strict_sorted_iff sorted_sort_id)

lemma wf_sorted_rows:
  assumes "wf_table rid t"
  shows "sort_key rid (filter P (rows t)) = filter P (rows t)"
proof -
  have "sorted (map rid (rows t))" using assms by (simp add: wf_table_def strict_sorted_iff)
  then have "sorted (map rid (filter P (rows t)))" by (rule sorted_filter)
  then show ?thesis by (rule sort_key_id_if_sorted)
qed

lemma wf_sorted_all: "wf_table rid t \<Longrightarrow> sort_key rid (rows t) = rows t"
  using wf_sorted_rows [of rid t "\<lambda>_. True"] by simp

lemma wf_table_inj:
  "wf_table rid t \<Longrightarrow> r \<in> set (rows t) \<Longrightarrow> r' \<in> set (rows t) \<Longrightarrow> rid r = rid r' \<Longrightarrow> r = r'"
  using wf_table_distinct [of rid t] by (auto simp: distinct_map dest: inj_onD)

lemma wf_table_find:
  assumes "wf_table rid t" "r \<in> set (rows t)"
  shows "find_row (\<lambda>x. rid x = rid r) t = Some r"
proof (cases "find_row (\<lambda>x. rid x = rid r) t")
  case None
  with assms show ?thesis by (auto simp: find_row_None)
next
  case (Some r')
  then have "r' \<in> set (rows t)" "rid r' = rid r" by (auto dest: find_row_Some)
  with assms Some show ?thesis by (auto dest: wf_table_inj)
qed

lemma wf_table_update_where:
  assumes "wf_table rid t" and "\<And>r. rid (f r) = rid r"
  shows "wf_table rid (snd (update_where P f t))"
proof -
  have "map rid (map (\<lambda>r. if P r then f r else r) (rows t)) = map rid (rows t)"
    by (simp add: assms(2))
  with assms show ?thesis by (auto simp: wf_table_def table_simps simp del: map_map)
qed

lemma wf_table_delete_where:
  assumes "wf_table rid t"
  shows "wf_table rid (delete_where P t)"
proof -
  have "sorted_wrt (<) (map rid (filter (\<lambda>r. \<not> P r) (rows t)))"
    using assms by (simp add: wf_table_def sorted_wrt_map sorted_wrt_filter)
  with assms show ?thesis by (auto simp: wf_table_def table_simps)
qed

text \<open>
  The interface a repository relies on: a row constructor that stores the id it is given.
  What follows holds for every table of the store once its constructor obeys that law.
\<close>

locale rowid_table =
  fixes rid :: "'r \<Rightarrow> rowid" and build :: "'p \<Rightarrow> rowid \<Rightarrow> 'r"
  assumes rid_build: "rid (build p i) = i"
begin

lemma insert_wf: "wf_table rid t \<Longrightarrow> wf_table rid (snd (insert_row (build p) t))"
  by (auto simp: wf_table_def table_simps rid_build sorted_wrt_append)

lemma insert_fresh:
  "wf_table rid t \<Longrightarrow> r \<in> set (rows t) \<Longrightarrow> rid r < fst (insert_row (build p) t)"
  by (auto simp: wf_table_def table_simps)

lemma insert_found:
  assumes "wf_table rid t"
  shows "find_row (\<lambda>r. rid r = fst (insert_row (build p) t)) (snd (insert_row (build p) t))
         = Some (build p (fst (insert_row (build p) t)))"
proof -
  let ?i = "fst (insert_row (build p) t)" and ?t = "snd (insert_row (build p) t)"
  have "build p ?i \<in> set (rows ?t)" by (simp add: table_simps)
  from wf_table_find [OF insert_wf [OF assms] this] show ?thesis by (simp add: rid_build)
qed

lemma insert_frame:
  assumes "wf_table rid t" and "i \<noteq> fst (insert_row (build p) t)"
  shows "find_row (\<lambda>r. rid r = i) (snd (insert_row (build p) t)) = find_row (\<lambda>r. rid r = i) t"
proof -
  have "List.find P (xs @ [x]) = List.find P xs" if "\<not> P x" for P :: "'r \<Rightarrow> bool" and xs x
    using that by (induction xs) auto
  then show ?thesis using assms(2) by (simp add: find_row_def table_simps rid_build)
qed

end

section \<open>Lookups by id after an update\<close>

lemma find_update_id:
  assumes "\<And>r. rid (f r) = rid r"
  shows "find_row (\<lambda>r. rid r = i) (snd (update_where (\<lambda>r. rid r = j) f t))
         = (if i = j then map_option f (find_row (\<lambda>r. rid r = i) t)
            else find_row (\<lambda>r. rid r = i) t)"
proof -
  have "List.find (\<lambda>r. rid r = i) (map (\<lambda>r. if rid r = j then f r else r) xs)
        = (if i = j then map_option f (List.find (\<lambda>r. rid r = i) xs)
           else List.find (\<lambda>r. rid r = i) xs)" for xs
    by (induction xs) (auto simp: assms)
  then show ?thesis by (simp add: find_row_def table_simps)
qed

lemma find_delete_id:
  "find_row (\<lambda>r. rid r = i) (delete_where (\<lambda>r. rid r = j) t)
   = (if i = j then None else find_row (\<lambda>r. rid r = i) t)"
proof -
  have "List.find (\<lambda>r. rid r = i) (filter (\<lambda>r. rid r \<noteq> j) xs)
        = (if i = j then None else List.find (\<lambda>r. rid r = i) xs)" for xs
    by (induction xs) auto
  then show ?thesis by (simp add: find_row_def table_simps)
qed

section \<open>Byte-wise string order\<close>

lemma append_less_append:
  fixes x y :: "'a::linorder list"
  assumes "length a = length b"
  shows "a @ x < b @ y \<longleftrightarrow> a < b \<or> a = b \<and> x < y"
  using assms by (induction a b rule: list_induct2) auto

end
