(* ===== verification/GoStrings.thy ===== *)
theory GoStrings
  imports Prelude
begin

text \<open>
  The parts of Go's \<open>strings\<close>, \<open>strconv\<close> and \<open>unicode\<close> packages the gateway calls, on byte
  strings. White space is Unicode White Space as \<open>unicode.IsSpace\<close> defines it, given by the
  UTF-8 encodings of its code points.
\<close>

section \<open>White space\<close>

definition go_spaces :: "string list" where
  "go_spaces = [[CHR 0x09], [CHR 0x0A], [CHR 0x0B], [CHR 0x0C], [CHR 0x0D], [CHR 0x20],
     [CHR 0xC2, CHR 0x85], [CHR 0xC2, CHR 0xA0], [CHR 0xE1, CHR 0x9A, CHR 0x80],
     [CHR 0xE2, CHR 0x80, CHR 0x80], [CHR 0xE2, CHR 0x80, CHR 0x81], [CHR 0xE2, CHR 0x80, CHR 0x82],
     [CHR 0xE2, CHR 0x80, CHR 0x83], [CHR 0xE2, CHR 0x80, CHR 0x84], [CHR 0xE2, CHR 0x80, CHR 0x85],
     [CHR 0xE2, CHR 0x80, CHR 0x86], [CHR 0xE2, CHR 0x80, CHR 0x87], [CHR 0xE2, CHR 0x80, CHR 0x88],
     [CHR 0xE2, CHR 0x80, CHR 0x89], [CHR 0xE2, CHR 0x80, CHR 0x8A], [CHR 0xE2, CHR 0x80, CHR 0xA8],
     [CHR 0xE2, CHR 0x80, CHR 0xA9], [CHR 0xE2, CHR 0x80, CHR 0xAF], [CHR 0xE2, CHR 0x81, CHR 0x9F],
     [CHR 0xE3, CHR 0x80, CHR 0x80]]"

text \<open>The length of the first encoding of \<open>encs\<close> that \<open>s\<close> starts with, 0 if there is none.\<close>

definition lead_len :: "string list \<Rightarrow> string \<Rightarrow> nat" where
  "lead_len encs s = (case List.find (\<lambda>p. prefix p s) encs of None \<Rightarrow> 0 | Some p \<Rightarrow> length p)"

lemma lead_len_le: "lead_len encs s \<le> length s"
  by (auto simp: lead_len_def find_Some_iff dest: prefix_length_le split: option.splits)

function strip_lead :: "string list \<Rightarrow> string \<Rightarrow> string" where
  "strip_lead encs s =
     (if lead_len encs s = 0 then s else strip_lead encs (drop (lead_len encs s) s))"
  by pat_completeness auto
termination
proof (relation "measure (\<lambda>(encs, s). length s)")
  fix encs :: "string list" and s :: string
  assume "lead_len encs s \<noteq> 0"
  moreover have "lead_len encs s \<le> length s" by (rule lead_len_le)
  ultimately show "((encs, drop (lead_len encs s) s), encs, s) \<in> measure (\<lambda>(encs, s). length s)"
    by auto
qed simp

declare strip_lead.simps [simp del]

lemma strip_lead_done [simp]: "lead_len encs s = 0 \<Longrightarrow> strip_lead encs s = s"
  by (simp add: strip_lead.simps)

lemma lead_len_strip_lead [simp]: "lead_len encs (strip_lead encs s) = 0"
proof (induction encs s rule: strip_lead.induct)
  case (1 encs s)
  then show ?case by (cases "lead_len encs s = 0") (simp_all add: strip_lead.simps [of encs s])
qed

lemma lead_len_0_iff:
  "[] \<notin> set encs \<Longrightarrow> lead_len encs s = 0 \<longleftrightarrow> (\<forall>p \<in> set encs. \<not> prefix p s)"
  by (induction encs) (auto simp: lead_len_def)

lemma lead_len_mono:
  assumes "[] \<notin> set encs" "lead_len encs s = 0" "prefix t s"
  shows "lead_len encs t = 0"
  using assms by (auto simp: lead_len_0_iff dest: prefix_order.trans)

definition space_len :: "string \<Rightarrow> nat" where
  "space_len s = lead_len go_spaces s"

definition trim_left :: "string \<Rightarrow> string" where
  "trim_left s = strip_lead go_spaces s"

definition trim_right :: "string \<Rightarrow> string" where
  "trim_right s = rev (strip_lead (map rev go_spaces) (rev s))"

definition trim_space :: "string \<Rightarrow> string" where
  "trim_space s = trim_right (trim_left s)"

lemma suffix_strip_lead: "suffix (strip_lead encs s) s"
proof (induction encs s rule: strip_lead.induct)
  case (1 encs s)
  show ?case
  proof (cases "lead_len encs s = 0")
    case False
    with 1 have "suffix (strip_lead encs (drop (lead_len encs s) s)) (drop (lead_len encs s) s)"
      by simp
    with False show ?thesis
      by (simp add: strip_lead.simps [of encs s]) (meson suffix_drop suffix_order.trans)
  qed simp
qed

lemma prefix_trim_right: "prefix (trim_right s) s"
  using suffix_strip_lead [of "map rev go_spaces" "rev s"]
  by (simp add: trim_right_def suffix_to_prefix)

lemma go_spaces_nonempty: "[] \<notin> set go_spaces"
  by (simp add: go_spaces_def)

lemma trim_space_idem [simp]: "trim_space (trim_space s) = trim_space s"
proof -
  have "lead_len go_spaces (trim_left s) = 0" by (simp add: trim_left_def)
  then have "lead_len go_spaces (trim_space s) = 0"
    using lead_len_mono go_spaces_nonempty prefix_trim_right unfolding trim_space_def by blast
  then have "trim_left (trim_space s) = trim_space s" by (simp add: trim_left_def)
  moreover have "trim_right (trim_right x) = trim_right x" for x by (simp add: trim_right_def)
  ultimately show ?thesis by (simp add: trim_space_def)
qed

lemma trim_space_length: "length (trim_space s) \<le> length s"
  using prefix_length_le [OF prefix_trim_right [of "trim_left s"]]
    suffix_length_le [OF suffix_strip_lead [of go_spaces s]]
  by (simp add: trim_space_def trim_left_def)

lemma trim_space_Nil [simp]: "trim_space [] = []"
  using trim_space_length [of "[]"] by simp

text \<open>Printable ASCII is left alone.\<close>

definition plain_char :: "char \<Rightarrow> bool" where
  "plain_char c \<longleftrightarrow> 0x20 < (of_char c :: nat) \<and> (of_char c :: nat) < 0x80"

lemma trim_space_plain:
  assumes "list_all plain_char s"
  shows "trim_space s = s"
proof -
  have ends: "list_all (\<lambda>p. p \<noteq> [] \<and> \<not> plain_char (hd p) \<and> \<not> plain_char (last p)) go_spaces"
    by (simp add: go_spaces_def plain_char_def)
  have "\<not> prefix p s" if "p \<in> set go_spaces" for p
    using ends that assms by (cases p) (auto simp: list_all_iff prefix_def)
  moreover have "\<not> prefix p (rev s)" if "p \<in> set (map rev go_spaces)" for p
  proof -
    from that obtain q where q: "q \<in> set go_spaces" "p = rev q" by auto
    with ends have "q \<noteq> []" "\<not> plain_char (last q)" by (auto simp: list_all_iff)
    with q assms show ?thesis by (cases q rule: rev_cases) (auto simp: list_all_iff prefix_def rev_swap)
  qed
  moreover have "[] \<notin> set (map rev go_spaces)" using go_spaces_nonempty by auto
  ultimately have "lead_len go_spaces s = 0" "lead_len (map rev go_spaces) (rev s) = 0"
    by (simp_all add: lead_len_0_iff [OF go_spaces_nonempty] lead_len_0_iff [of "map rev go_spaces"])
  then show ?thesis by (simp add: trim_space_def trim_left_def trim_right_def)
qed

section \<open>Searching and splitting\<close>

fun contains :: "string \<Rightarrow> string \<Rightarrow> bool" where
  "contains sub [] = (sub = [])"
| "contains sub (c # s) = (prefix sub (c # s) \<or> contains sub s)"

definition trim_prefix :: "string \<Rightarrow> string \<Rightarrow> string" where
  "trim_prefix p s = (if prefix p s then drop (length p) s else s)"

definition trim_suffix :: "string \<Rightarrow> string \<Rightarrow> string" where
  "trim_suffix p s = (if suffix p s then take (length s - length p) s else s)"

text \<open>\<open>strings.TrimRight\<close> and \<open>TrimLeft\<close> with the one-character cutset \<open>"/"\<close>.\<close>

definition trim_right_slash :: "string \<Rightarrow> string" where
  "trim_right_slash s = rev (dropWhile (\<lambda>c. c = CHR ''/'') (rev s))"

definition trim_left_slash :: "string \<Rightarrow> string" where
  "trim_left_slash s = dropWhile (\<lambda>c. c = CHR ''/'') s"

text \<open>\<open>strings.Split\<close> with a one-byte separator: the empty string gives one empty part.\<close>

fun split_on :: "char \<Rightarrow> string \<Rightarrow> string list" where
  "split_on c [] = [[]]"
| "split_on c (x # xs) =
     (if x = c then [] # split_on c xs
      else (case split_on c xs of [] \<Rightarrow> [[x]] | p # ps \<Rightarrow> (x # p) # ps))"

fun join_with :: "string \<Rightarrow> string list \<Rightarrow> string" where
  "join_with sep [] = []"
| "join_with sep [p] = p"
| "join_with sep (p # q # ps) = p @ sep @ join_with sep (q # ps)"

lemma split_on_nonempty [simp]: "split_on c s \<noteq> []"
  by (induction s) (auto split: list.splits)

lemma join_split: "join_with [c] (split_on c s) = s"
proof (induction s)
  case (Cons x xs)
  obtain p ps where ps: "split_on c xs = p # ps" by (cases "split_on c xs") auto
  with Cons show ?case by (cases ps) auto
qed simp

text \<open>\<open>strings.Cut\<close> with a one-byte separator.\<close>

fun cut_at :: "char \<Rightarrow> string \<Rightarrow> (string \<times> string) option" where
  "cut_at c [] = None"
| "cut_at c (x # xs) =
     (if x = c then Some ([], xs) else map_option (\<lambda>(a, b). (x # a, b)) (cut_at c xs))"

text \<open>\<open>strings.Fields\<close>: the maximal runs of bytes between white space.\<close>

fun word_head :: "string \<Rightarrow> string" where
  "word_head [] = []"
| "word_head (c # s) = (if space_len (c # s) = 0 then c # word_head s else [])"

lemma word_head_nonempty: "s \<noteq> [] \<Longrightarrow> space_len s = 0 \<Longrightarrow> word_head s \<noteq> []"
  by (cases s) auto

function fields :: "string \<Rightarrow> string list" where
  "fields s =
     (let s' = trim_left s
      in if s' = [] then [] else word_head s' # fields (drop (length (word_head s')) s'))"
  by pat_completeness auto
termination
proof (relation "measure length")
  fix s s' :: string
  assume s': "s' = trim_left s" and ne: "s' \<noteq> []"
  have "length s' \<le> length s"
    using suffix_length_le [OF suffix_strip_lead] by (simp add: s' trim_left_def)
  moreover have "word_head s' \<noteq> []"
    using ne by (intro word_head_nonempty) (simp_all add: s' trim_left_def space_len_def)
  ultimately show "(drop (length (word_head s')) s', s) \<in> measure length"
    using ne by (cases s') auto
qed simp

declare fields.simps [simp del]

section \<open>Case\<close>

definition lower_byte :: "char \<Rightarrow> char" where
  "lower_byte c = (let n = of_char c :: nat in if 65 \<le> n \<and> n \<le> 90 then char_of (n + 32) else c)"

text \<open>
  \<open>strings.ToLower\<close>. Two code points outside ASCII have an ASCII lower case: the Kelvin sign
  (to k) and the dotted capital I (to i). Other letters outside ASCII keep a lower case outside
  ASCII and are left alone here; the gateway only compares results with ASCII texts.
\<close>

fun to_lower :: "string \<Rightarrow> string" where
  "to_lower [] = []"
| "to_lower (a # b # c # s) =
     (if a = CHR 0xE2 \<and> b = CHR 0x84 \<and> c = CHR 0xAA then CHR ''k'' # to_lower s
      else if a = CHR 0xC4 \<and> b = CHR 0xB0 then CHR ''i'' # to_lower (c # s)
      else lower_byte a # to_lower (b # c # s))"
| "to_lower [a, b] =
     (if a = CHR 0xC4 \<and> b = CHR 0xB0 then ''i'' else [lower_byte a, lower_byte b])"
| "to_lower [a] = [lower_byte a]"

section \<open>Numbers\<close>

definition digit :: "nat \<Rightarrow> char" where
  "digit d = char_of (48 + d)"

definition is_digit :: "char \<Rightarrow> bool" where
  "is_digit c \<longleftrightarrow> (let n = of_char c :: nat in 48 \<le> n \<and> n \<le> 57)"

definition digit_val :: "char \<Rightarrow> nat" where
  "digit_val c = of_char c - 48"

lemma digit_val_digit [simp]: "d < 10 \<Longrightarrow> digit_val (digit d) = d"
  by (simp add: digit_val_def digit_def)

lemma is_digit_digit [simp]: "d < 10 \<Longrightarrow> is_digit (digit d)"
  by (simp add: is_digit_def digit_def)

lemma digit_less [simp]: "d < e \<Longrightarrow> e < 10 \<Longrightarrow> digit d < digit e"
  by (simp add: digit_def less_char_def)

fun nat_dec :: "nat \<Rightarrow> string" where
  "nat_dec n = (if n < 10 then [digit n] else nat_dec (n div 10) @ [digit (n mod 10)])"

declare nat_dec.simps [simp del]

text \<open>\<open>strconv.Itoa\<close> and \<open>FormatInt(_, 10)\<close>.\<close>

definition itoa :: "int \<Rightarrow> string" where
  "itoa i = (if i < 0 then ''-'' @ nat_dec (nat (- i)) else nat_dec (nat i))"

definition digits_val :: "string \<Rightarrow> nat" where
  "digits_val s = foldl (\<lambda>acc c. 10 * acc + digit_val c) 0 s"

text \<open>\<open>strconv.ParseInt(s, 10, 64)\<close> (and \<open>Atoi\<close> on a 64-bit host); None is the error.\<close>

definition parse_int64 :: "string \<Rightarrow> int option" where
  "parse_int64 s =
     (let neg = (case s of c # _ \<Rightarrow> c = CHR ''-'' | [] \<Rightarrow> False);
          body = (case s of c # r \<Rightarrow> if c = CHR ''-'' \<or> c = CHR ''+'' then r else s | [] \<Rightarrow> []);
          v = int (digits_val body)
      in if body = [] \<or> \<not> list_all is_digit body then None
         else if neg then (if v \<le> 2 ^ 63 then Some (- v) else None)
         else (if v < 2 ^ 63 then Some v else None))"

lemma nat_dec_nonempty [simp]: "nat_dec n \<noteq> []"
  by (subst nat_dec.simps) simp

lemma nat_dec_digits [simp]: "list_all is_digit (nat_dec n)"
  by (induction n rule: nat_dec.induct) (subst nat_dec.simps, simp)

lemma digits_val_nat_dec [simp]: "digits_val (nat_dec n) = n"
proof (induction n rule: nat_dec.induct)
  case (1 n)
  then show ?case by (subst nat_dec.simps) (auto simp: digits_val_def)
qed

lemma is_digit_not_sign: "is_digit c \<Longrightarrow> c \<noteq> CHR ''-'' \<and> c \<noteq> CHR ''+''"
  by (auto simp: is_digit_def)

lemma parse_int64_itoa:
  assumes "- (2 ^ 63) \<le> i" "i < 2 ^ 63"
  shows "parse_int64 (itoa i) = Some i"
proof (cases "i < 0")
  case True
  then show ?thesis using assms by (simp add: itoa_def parse_int64_def Let_def)
next
  case False
  obtain c r where c: "nat_dec (nat i) = c # r" by (cases "nat_dec (nat i)") auto
  have "is_digit c" using nat_dec_digits [of "nat i"] by (simp add: c)
  then have s: "c \<noteq> CHR ''-'' \<and> c \<noteq> CHR ''+''" by (rule is_digit_not_sign)
  have d: "list_all is_digit (c # r)" using nat_dec_digits [of "nat i"] by (simp only: c)
  have v: "digits_val (c # r) = nat i" using digits_val_nat_dec [of "nat i"] by (simp only: c)
  show ?thesis using False assms s d v
    by (simp add: itoa_def parse_int64_def Let_def c)
qed

definition parse_bool :: "string \<Rightarrow> bool option" where
  "parse_bool s =
     (if s \<in> set [''1'', ''t'', ''T'', ''TRUE'', ''true'', ''True''] then Some True
      else if s \<in> set [''0'', ''f'', ''F'', ''FALSE'', ''false'', ''False''] then Some False
      else None)"

definition format_bool :: "bool \<Rightarrow> string" where
  "format_bool b = (if b then ''true'' else ''false'')"

lemma parse_format_bool [simp]: "parse_bool (format_bool b) = Some b"
  by (simp add: parse_bool_def format_bool_def)

end
