(* ===== verification/GoNetip.thy ===== *)
theory GoNetip
  imports GoStrings
begin

text \<open>
  Go's \<open>net/netip\<close>: parsing IP address literals and the address classes the gateway asks for.
  An IPv4 address is four octets, an IPv6 address eight 16-bit groups; a zone is kept as text.
\<close>

datatype ip_addr = V4 "nat list" | V6 "nat list" string

definition hex_digit :: "char \<Rightarrow> nat option" where
  "hex_digit c =
     (let n = of_char c :: nat
      in if 48 \<le> n \<and> n \<le> 57 then Some (n - 48)
         else if 97 \<le> n \<and> n \<le> 102 then Some (n - 87)
         else if 65 \<le> n \<and> n \<le> 70 then Some (n - 55) else None)"

definition parse_octet :: "string \<Rightarrow> nat option" where
  "parse_octet s =
     (if s \<noteq> [] \<and> list_all is_digit s \<and> length s \<le> 3 \<and> (length s = 1 \<or> hd s \<noteq> CHR ''0'')
         \<and> digits_val s \<le> 255
      then Some (digits_val s) else None)"

definition parse_v4 :: "string \<Rightarrow> nat list option" where
  "parse_v4 s =
     (let ps = map parse_octet (split_on (CHR ''.'') s)
      in if length ps = 4 \<and> None \<notin> set ps then Some (map the ps) else None)"

definition is_hex :: "char \<Rightarrow> bool" where
  "is_hex c \<longleftrightarrow> hex_digit c \<noteq> None"

definition hex_value :: "string \<Rightarrow> nat" where
  "hex_value s = foldl (\<lambda>a c. 16 * a + (case hex_digit c of Some d \<Rightarrow> d | None \<Rightarrow> 0)) 0 s"

text \<open>
  The groups read so far and the position of the double colon. The first argument bounds the
  number of groups: eight fill the address, so no valid address needs more.
\<close>

fun v6_groups :: "nat \<Rightarrow> nat list \<Rightarrow> nat option \<Rightarrow> string \<Rightarrow> (nat list \<times> nat option) option" where
  "v6_groups 0 acc el s = (if s = [] then Some (acc, el) else None)"
| "v6_groups (Suc n) acc el s =
     (let h = takeWhile is_hex s; r = dropWhile is_hex s
      in if h = [] \<or> 4 < length h then None
         else if prefix ''.'' r then
           (if (el = None \<and> length acc \<noteq> 6) \<or> 6 < length acc then None
            else (case parse_v4 s of
                    Some [a, b, c, d] \<Rightarrow> Some (acc @ [256 * a + b, 256 * c + d], el)
                  | _ \<Rightarrow> None))
         else (let acc' = acc @ [hex_value h]
           in (case r of
                 [] \<Rightarrow> Some (acc', el)
               | c # r1 \<Rightarrow>
                   if c \<noteq> CHR '':'' \<or> r1 = [] then None
                   else if hd r1 = CHR '':'' then
                     (if el \<noteq> None then None
                      else if tl r1 = [] then Some (acc', Some (length acc'))
                      else v6_groups n acc' (Some (length acc')) (tl r1))
                   else v6_groups n acc' el r1)))"

definition expand_v6 :: "nat list \<times> nat option \<Rightarrow> nat list option" where
  "expand_v6 p =
     (case p of
        (gs, None) \<Rightarrow> if length gs = 8 then Some gs else None
      | (gs, Some k) \<Rightarrow>
          if length gs < 8 then Some (take k gs @ replicate (8 - length gs) 0 @ drop k gs) else None)"

definition parse_v6 :: "string \<Rightarrow> nat list option" where
  "parse_v6 s =
     (if prefix ''::'' s then
        (if drop 2 s = [] then Some (replicate 8 0)
         else Option.bind (v6_groups 8 [] (Some 0) (drop 2 s)) expand_v6)
      else Option.bind (v6_groups 8 [] None s) expand_v6)"

text \<open>\<open>netip.ParseAddr\<close>: the first dot, colon or percent sign decides the family.\<close>

definition parse_addr :: "string \<Rightarrow> ip_addr option" where
  "parse_addr s =
     (case List.find (\<lambda>c. c \<in> set ''.:%'') s of
        None \<Rightarrow> None
      | Some c \<Rightarrow>
          if c = CHR ''.'' then map_option V4 (parse_v4 s)
          else if c = CHR '':'' then
            (case cut_at (CHR ''%'') s of
               None \<Rightarrow> map_option (\<lambda>g. V6 g []) (parse_v6 s)
             | Some (a, z) \<Rightarrow> if z = [] then None else map_option (\<lambda>g. V6 g z) (parse_v6 a))
          else None)"

text \<open>\<open>Unmap\<close>: an IPv4-mapped IPv6 address becomes the IPv4 address.\<close>

fun unmap :: "ip_addr \<Rightarrow> ip_addr" where
  "unmap (V6 gs z) =
     (if length gs = 8 \<and> take 6 gs = [0, 0, 0, 0, 0, 0xFFFF]
      then V4 [gs ! 6 div 256, gs ! 6 mod 256, gs ! 7 div 256, gs ! 7 mod 256] else V6 gs z)"
| "unmap a = a"

text \<open>The value of the address bits, most significant first, and prefix membership.\<close>

fun addr_bits :: "ip_addr \<Rightarrow> nat" where
  "addr_bits (V4 os) = foldl (\<lambda>a x. 256 * a + x) 0 os"
| "addr_bits (V6 gs z) = foldl (\<lambda>a x. 65536 * a + x) 0 gs"

fun is_v4 :: "ip_addr \<Rightarrow> bool" where
  "is_v4 (V4 _) = True"
| "is_v4 (V6 _ _) = False"

fun has_zone :: "ip_addr \<Rightarrow> bool" where
  "has_zone (V4 _) = False"
| "has_zone (V6 _ z) = (z \<noteq> [])"

definition in_v4_prefix :: "nat list \<Rightarrow> nat \<Rightarrow> ip_addr \<Rightarrow> bool" where
  "in_v4_prefix os len a \<longleftrightarrow>
     is_v4 a \<and> addr_bits a div 2 ^ (32 - len) = addr_bits (V4 os) div 2 ^ (32 - len)"

definition in_v6_prefix :: "nat list \<Rightarrow> nat \<Rightarrow> ip_addr \<Rightarrow> bool" where
  "in_v6_prefix gs len a \<longleftrightarrow>
     \<not> is_v4 a \<and> \<not> has_zone a \<and> addr_bits a div 2 ^ (128 - len) = addr_bits (V6 gs []) div 2 ^ (128 - len)"

definition is_loopback :: "ip_addr \<Rightarrow> bool" where
  "is_loopback a = (case a of V4 os \<Rightarrow> os ! 0 = 127 | V6 gs _ \<Rightarrow> gs = [0, 0, 0, 0, 0, 0, 0, 1])"

definition is_private :: "ip_addr \<Rightarrow> bool" where
  "is_private a =
     (case a of
        V4 os \<Rightarrow> os ! 0 = 10 \<or> os ! 0 = 172 \<and> os ! 1 div 16 = 1 \<or> os ! 0 = 192 \<and> os ! 1 = 168
      | V6 gs _ \<Rightarrow> gs ! 0 div 512 = 126)"

definition is_link_local :: "ip_addr \<Rightarrow> bool" where
  "is_link_local a =
     (case a of V4 os \<Rightarrow> os ! 0 = 169 \<and> os ! 1 = 254 | V6 gs _ \<Rightarrow> gs ! 0 div 64 = 0x3FA)"

definition is_multicast :: "ip_addr \<Rightarrow> bool" where
  "is_multicast a = (case a of V4 os \<Rightarrow> os ! 0 div 16 = 14 | V6 gs _ \<Rightarrow> gs ! 0 div 256 = 255)"

definition is_unspecified :: "ip_addr \<Rightarrow> bool" where
  "is_unspecified a = (case a of V4 os \<Rightarrow> os = [0, 0, 0, 0] | V6 gs z \<Rightarrow> gs = replicate 8 0 \<and> z = [])"

text \<open>\<open>IsGlobalUnicast\<close> of Go: neither unspecified, loopback, multicast nor link-local, nor the IPv4 broadcast address.\<close>

definition is_global_unicast :: "ip_addr \<Rightarrow> bool" where
  "is_global_unicast a \<longleftrightarrow>
     a \<noteq> V4 [255, 255, 255, 255] \<and> \<not> is_unspecified a \<and> \<not> is_loopback a \<and> \<not> is_multicast a
     \<and> \<not> is_link_local a"

end
