(* ===== verification/GoUrl.thy ===== *)
theory GoUrl
  imports GoNetip
begin

text \<open>
  Go's \<open>net/url\<close>: parsing an absolute or relative reference into its components and writing
  it back, with the escaping rules of the path and host positions. Only what the gateway calls is
  here: \<open>Parse\<close>, \<open>Hostname\<close>, \<open>EscapedPath\<close> and \<open>String\<close>.
\<close>

record go_url =
  u_scheme :: string
  u_opaque :: string
  u_user :: "string option"
  u_host :: string
  u_path :: string
  u_raw_path :: string
  u_omit_host :: bool
  u_force_query :: bool
  u_raw_query :: string
  u_fragment :: string

definition empty_url :: go_url where
  "empty_url = \<lparr>u_scheme = [], u_opaque = [], u_user = None, u_host = [], u_path = [],
     u_raw_path = [], u_omit_host = False, u_force_query = False, u_raw_query = [],
     u_fragment = []\<rparr>"

section \<open>Character classes and escaping\<close>

datatype escape_mode = EncodePath | EncodeHost | EncodeZone | EncodeUser | EncodeFragment

definition is_alpha :: "char \<Rightarrow> bool" where
  "is_alpha c \<longleftrightarrow> (let n = of_char c :: nat in 65 \<le> n \<and> n \<le> 90 \<or> 97 \<le> n \<and> n \<le> 122)"

definition is_alnum :: "char \<Rightarrow> bool" where
  "is_alnum c \<longleftrightarrow> is_alpha c \<or> is_digit c"

definition should_escape :: "escape_mode \<Rightarrow> char \<Rightarrow> bool" where
  "should_escape m c =
     (if is_alnum c then False
      else if m \<in> set [EncodeHost, EncodeZone] \<and> c \<in> set ''!$&()*+,;=:[]<>'' \<union> set [CHR 0x27, CHR 0x22]
        then False
      else if c \<in> set ''-_.~'' then False
      else if c \<in> set ''$&+,/:;=?@'' then
        (case m of EncodePath \<Rightarrow> c = CHR ''?''
         | EncodeUser \<Rightarrow> c \<in> set ''@/?:''
         | EncodeFragment \<Rightarrow> False
         | _ \<Rightarrow> True)
      else if m = EncodeFragment \<and> c \<in> set ''!()*'' then False
      else True)"

definition hex_val :: "char \<Rightarrow> nat option" where
  "hex_val c =
     (let n = of_char c :: nat
      in if 48 \<le> n \<and> n \<le> 57 then Some (n - 48)
         else if 97 \<le> n \<and> n \<le> 102 then Some (n - 87)
         else if 65 \<le> n \<and> n \<le> 70 then Some (n - 55) else None)"

definition hex_upper :: "nat \<Rightarrow> char" where
  "hex_upper n = (if n < 10 then char_of (48 + n) else char_of (55 + n))"

text \<open>\<open>unescape\<close>: None for a malformed escape or a host byte that must not stand raw.\<close>

fun unescape :: "escape_mode \<Rightarrow> string \<Rightarrow> string option" where
  "unescape m [] = Some []"
| "unescape m (c # s) =
     (if c = CHR ''%'' then
        (case s of
           a # b # r \<Rightarrow>
             (case (hex_val a, hex_val b) of
                (Some x, Some y) \<Rightarrow>
                  (if m = EncodeHost \<and> x < 8 \<and> [a, b] \<noteq> ''25'' then None
                   else if m = EncodeZone \<and> [a, b] \<noteq> ''25'' \<and> 16 * x + y \<noteq> 32
                     \<and> should_escape EncodeHost (char_of (16 * x + y)) then None
                   else map_option ((#) (char_of (16 * x + y))) (unescape m r))
              | _ \<Rightarrow> None)
         | _ \<Rightarrow> None)
      else if m \<in> set [EncodeHost, EncodeZone] \<and> (of_char c :: nat) < 128 \<and> should_escape m c then None
      else map_option ((#) c) (unescape m s))"

definition escape :: "escape_mode \<Rightarrow> string \<Rightarrow> string" where
  "escape m s = concat (map (\<lambda>c. if should_escape m c
     then [CHR ''%'', hex_upper (of_char c div 16), hex_upper (of_char c mod 16)] else [c]) s)"

definition valid_encoded_path :: "string \<Rightarrow> bool" where
  "valid_encoded_path s = list_all (\<lambda>c. c \<in> set ''!$&()*+,;=:@[]%'' \<union> set [CHR 0x27]
     \<or> \<not> should_escape EncodePath c) s"

section \<open>Parsing\<close>

text \<open>\<open>getScheme\<close>: the outer None is the missing protocol scheme error.\<close>

fun scheme_end :: "string \<Rightarrow> bool \<Rightarrow> string \<Rightarrow> (string \<times> string) option option" where
  "scheme_end acc first [] = Some None"
| "scheme_end acc first (c # s) =
     (if is_alpha c then scheme_end (acc @ [c]) False s
      else if is_digit c \<or> c \<in> set ''+-.'' then
        (if first then Some None else scheme_end (acc @ [c]) False s)
      else if c = CHR '':'' then (if first then None else Some (Some (acc, s)))
      else Some None)"

definition get_scheme :: "string \<Rightarrow> (string \<times> string) option" where
  "get_scheme s =
     (case scheme_end [] True s of
        None \<Rightarrow> None
      | Some None \<Rightarrow> Some ([], s)
      | Some (Some p) \<Rightarrow> Some p)"

text \<open>The split at the last occurrence of a byte; None when it does not occur.\<close>

definition cut_last :: "char \<Rightarrow> string \<Rightarrow> (string \<times> string) option" where
  "cut_last c s = map_option (\<lambda>(a, b). (rev b, rev a)) (cut_at c (rev s))"

definition valid_optional_port :: "string \<Rightarrow> bool" where
  "valid_optional_port p = (case p of [] \<Rightarrow> True | c # ds \<Rightarrow> c = CHR '':'' \<and> list_all is_digit ds)"

fun cut_sub :: "string \<Rightarrow> string \<Rightarrow> (string \<times> string) option" where
  "cut_sub sub [] = (if sub = [] then Some ([], []) else None)"
| "cut_sub sub (c # s) =
     (if prefix sub (c # s) then Some ([], c # s)
      else map_option (\<lambda>(a, b). (c # a, b)) (cut_sub sub s))"

text \<open>
  \<open>parseHost\<close> of Go 1.26: brackets enclose a valid IPv6 literal that starts the host, and the
  first colon of any other host starts its port.
\<close>

definition parse_host :: "string \<Rightarrow> string option" where
  "parse_host h =
     (if CHR ''['' \<in> set h then
        (case cut_last (CHR '']'') h of
           None \<Rightarrow> None
         | Some (before, port) \<Rightarrow>
             if \<not> prefix ''['' h \<or> CHR ''['' \<in> set (tl before) \<or> \<not> valid_optional_port port then None
             else (case (case cut_sub ''%25'' (tl before) of
                           Some (h1, zone) \<Rightarrow>
                             (case (unescape EncodeHost h1, unescape EncodeZone zone) of
                                (Some a, Some b) \<Rightarrow> Some (a @ b) | _ \<Rightarrow> None)
                         | None \<Rightarrow> unescape EncodeHost (tl before)) of
                     None \<Rightarrow> None
                   | Some name \<Rightarrow>
                       (case parse_addr name of
                          Some (V6 _ _) \<Rightarrow> Some (''['' @ name @ '']'' @ port)
                        | _ \<Rightarrow> None)))
      else (case cut_at (CHR '':'') h of
              Some (_, ds) \<Rightarrow>
                if list_all is_digit ds then unescape EncodeHost h else None
            | None \<Rightarrow> unescape EncodeHost h))"

definition valid_userinfo :: "string \<Rightarrow> bool" where
  "valid_userinfo s =
     list_all (\<lambda>c. is_alnum c \<or> c \<in> set ''-._:~!$&()*+,;=%@'' \<union> set [CHR 0x27]) s"

text \<open>\<open>parseAuthority\<close>: the user information (kept as written) and the host.\<close>

definition parse_authority :: "string \<Rightarrow> (string option \<times> string) option" where
  "parse_authority a =
     (case cut_last (CHR ''@'') a of
        None \<Rightarrow> map_option (Pair None) (parse_host a)
      | Some (ui, h) \<Rightarrow>
          (case parse_host h of
             None \<Rightarrow> None
           | Some host \<Rightarrow>
               if \<not> valid_userinfo ui then None
               else (case cut_at (CHR '':'') ui of
                       None \<Rightarrow> (case unescape EncodeUser ui of
                                 None \<Rightarrow> None | Some _ \<Rightarrow> Some (Some ui, host))
                     | Some (n, p) \<Rightarrow>
                         (case (unescape EncodeUser n, unescape EncodeUser p) of
                            (Some _, Some _) \<Rightarrow> Some (Some ui, host) | _ \<Rightarrow> None))))"

definition is_ctl :: "char \<Rightarrow> bool" where
  "is_ctl c \<longleftrightarrow> (of_char c :: nat) < 32 \<or> c = CHR 0x7F"

definition set_path :: "string \<Rightarrow> go_url \<Rightarrow> go_url option" where
  "set_path p u =
     (case unescape EncodePath p of
        None \<Rightarrow> None
      | Some path \<Rightarrow>
          Some (u\<lparr>u_path := path, u_raw_path := (if p = escape EncodePath path then [] else p)\<rparr>))"

text \<open>\<open>parse\<close> without the fragment.\<close>

definition parse_ref :: "string \<Rightarrow> go_url option" where
  "parse_ref s =
     (if list_ex is_ctl s then None
      else if s = ''*'' then Some (empty_url\<lparr>u_path := ''*''\<rparr>)
      else (case get_scheme s of
        None \<Rightarrow> None
      | Some (sch, rest0) \<Rightarrow>
        (let scheme = to_lower sch;
             force = suffix ''?'' rest0 \<and> CHR ''?'' \<notin> set (butlast rest0);
             rest = (if force then butlast rest0 else takeWhile (\<lambda>c. c \<noteq> CHR ''?'') rest0);
             query = (if force then [] else drop 1 (dropWhile (\<lambda>c. c \<noteq> CHR ''?'') rest0));
             u = empty_url\<lparr>u_scheme := scheme, u_force_query := force, u_raw_query := query\<rparr>
         in if \<not> prefix ''/'' rest \<and> scheme \<noteq> [] then Some (u\<lparr>u_opaque := rest\<rparr>)
            else if \<not> prefix ''/'' rest
                 \<and> CHR '':'' \<in> set (takeWhile (\<lambda>c. c \<noteq> CHR ''/'') rest) then None
            else if (scheme \<noteq> [] \<or> \<not> prefix ''///'' rest) \<and> prefix ''//'' rest then
              (case parse_authority (takeWhile (\<lambda>c. c \<noteq> CHR ''/'') (drop 2 rest)) of
                 None \<Rightarrow> None
               | Some (user, host) \<Rightarrow>
                   set_path (dropWhile (\<lambda>c. c \<noteq> CHR ''/'') (drop 2 rest))
                     (u\<lparr>u_user := user, u_host := host\<rparr>))
            else set_path rest (u\<lparr>u_omit_host := scheme \<noteq> [] \<and> prefix ''/'' rest\<rparr>))))"

definition parse_url :: "string \<Rightarrow> go_url option" where
  "parse_url s =
     (case parse_ref (takeWhile (\<lambda>c. c \<noteq> CHR ''#'') s) of
        None \<Rightarrow> None
      | Some u \<Rightarrow>
          (let frag = drop 1 (dropWhile (\<lambda>c. c \<noteq> CHR ''#'') s)
           in if frag = [] then Some u
              else (case unescape EncodeFragment frag of
                      None \<Rightarrow> None | Some f \<Rightarrow> Some (u\<lparr>u_fragment := f\<rparr>))))"

section \<open>Reading the components and writing the reference\<close>

definition host_name :: "go_url \<Rightarrow> string" where
  "host_name u =
     (let h = (case cut_last (CHR '':'') (u_host u) of
                 Some (a, ds) \<Rightarrow> if list_all is_digit ds then a else u_host u
               | None \<Rightarrow> u_host u)
      in if prefix ''['' h \<and> suffix '']'' h then butlast (tl h) else h)"

definition escaped_path :: "go_url \<Rightarrow> string" where
  "escaped_path u =
     (if u_raw_path u \<noteq> [] \<and> valid_encoded_path (u_raw_path u)
         \<and> unescape EncodePath (u_raw_path u) = Some (u_path u) then u_raw_path u
      else if u_path u = ''*'' then ''*'' else escape EncodePath (u_path u))"

text \<open>
  \<open>String\<close>. The gateway never writes a reference with user information or a fragment: it
  rejects both first, and the model writes them as they were read. The \<open>./\<close> prefix Go puts
  before a relative path with a colon does not arise for a reference with a scheme.
\<close>

definition url_string :: "go_url \<Rightarrow> string" where
  "url_string u =
     (if u_scheme u \<noteq> [] then u_scheme u @ '':'' else []) @
     (if u_opaque u \<noteq> [] then u_opaque u
      else
        (if (u_scheme u \<noteq> [] \<or> u_host u \<noteq> [] \<or> u_user u \<noteq> None)
            \<and> \<not> (u_omit_host u \<and> u_host u = [] \<and> u_user u = None)
         then (if u_host u \<noteq> [] \<or> u_path u \<noteq> [] \<or> u_user u \<noteq> None then ''//'' else []) @
              (case u_user u of None \<Rightarrow> [] | Some ui \<Rightarrow> ui @ ''@'') @
              escape EncodeHost (u_host u)
         else []) @
        (if escaped_path u \<noteq> [] \<and> hd (escaped_path u) \<noteq> CHR ''/'' \<and> u_host u \<noteq> [] then ''/'' else []) @
        escaped_path u) @
     (if u_force_query u \<or> u_raw_query u \<noteq> [] then ''?'' @ u_raw_query u else []) @
     (if u_fragment u \<noteq> [] then ''#'' @ u_fragment u else [])"

end
