(* ===== verification/Redact.thy ===== *)
theory Redact
  imports GoUrl
begin

text \<open>
  \<open>providers.Redact\<close> (internal/providers/keys.go): the three regular expressions as leftmost,
  greedy matchers on byte strings, their successive replacement, and the truncation. Proved: the
  result is never empty and at most 259 bytes long, and a result that was not truncated holds no
  text of the shape \<open>(sk|tvly|fc|xai)[-_]\<close> followed by eight or more letters and digits.
\<close>

section \<open>Matchers\<close>

definition is_word :: "char \<Rightarrow> bool" where
  "is_word c \<longleftrightarrow> is_alnum c \<or> c = CHR ''_''"

definition re_space :: "char \<Rightarrow> bool" where
  "re_space c \<longleftrightarrow> c \<in> set [CHR 0x09, CHR 0x0A, CHR 0x0C, CHR 0x0D, CHR 0x20]"

text \<open>
  Bytes of the longest run of \<open>[A-Za-z0-9._\-]\<close> under the \<open>(?i)\<close> flag, which adds the long s
  and the Kelvin sign to the letters.
\<close>

fun token_run :: "string \<Rightarrow> nat" where
  "token_run [] = 0"
| "token_run (a # s) =
     (if is_alnum a \<or> a \<in> set ''._-'' then Suc (token_run s)
      else (case s of
              b # t \<Rightarrow>
                if a = CHR 0xC5 \<and> b = CHR 0xBF then 2 + token_run t
                else (case t of
                        c # r \<Rightarrow> if a = CHR 0xE2 \<and> b = CHR 0x84 \<and> c = CHR 0xAA then 3 + token_run r else 0
                      | [] \<Rightarrow> 0)
            | [] \<Rightarrow> 0))"

definition prefix_ci :: "string \<Rightarrow> string \<Rightarrow> bool" where
  "prefix_ci p s \<longleftrightarrow> length p \<le> length s \<and> map lower_byte (take (length p) s) = p"

text \<open>Each matcher gives the length of the match at the head of the text, 0 for no match.\<close>

definition bearer_len :: "char option \<Rightarrow> string \<Rightarrow> nat" where
  "bearer_len prev s =
     (if prefix_ci ''bearer'' s then
        (let r = drop 6 s; sp = length (takeWhile re_space r); tk = token_run (drop sp r)
         in if sp = 0 \<or> tk = 0 then 0 else 6 + sp + tk)
      else 0)"

definition key_word_len :: "string \<Rightarrow> nat" where
  "key_word_len s =
     (if prefix_ci ''key'' s then 3
      else if prefix [CHR 0xE2, CHR 0x84, CHR 0xAA] s \<and> prefix_ci ''ey'' (drop 3 s) then 5 else 0)"

definition api_key_len :: "char option \<Rightarrow> string \<Rightarrow> nat" where
  "api_key_len prev s =
     (if prefix_ci ''api'' s then
        (let r = drop 3 s;
             sep = (case r of c # _ \<Rightarrow> if c \<in> set ''_-'' then 1 else 0 | [] \<Rightarrow> 0);
             k = key_word_len (drop sep r);
             r2 = drop (sep + k) r;
             s1 = length (takeWhile re_space r2)
         in if k = 0 \<or> \<not> prefix ''='' (drop s1 r2) then 0
            else (let r3 = drop (s1 + 1) r2;
                      s2 = length (takeWhile re_space r3);
                      v = length (takeWhile (\<lambda>c. \<not> re_space c \<and> c \<noteq> CHR ''&'') (drop s2 r3))
                  in if v = 0 then 0 else 3 + sep + k + s1 + 1 + s2 + v))
      else 0)"

definition sk_labels :: "string list" where
  "sk_labels = [''sk'', ''tvly'', ''fc'', ''xai'']"

definition sk_like_len :: "char option \<Rightarrow> string \<Rightarrow> nat" where
  "sk_like_len prev s =
     (if (case prev of None \<Rightarrow> False | Some p \<Rightarrow> is_word p) then 0
      else (case List.find (\<lambda>p. prefix p s) sk_labels of
              None \<Rightarrow> 0
            | Some p \<Rightarrow>
                (case drop (length p) s of
                   [] \<Rightarrow> 0
                 | c # t \<Rightarrow>
                     (let run = takeWhile is_alnum t; r = drop (length run) t
                      in if c \<in> set ''-_'' \<and> 8 \<le> length run \<and> (r = [] \<or> \<not> is_word (hd r))
                         then length p + 1 + length run else 0))))"

section \<open>Replacement\<close>

text \<open>\<open>ReplaceAllString\<close>: the scan resumes after each match; \<open>prev\<close> is the byte before the text.\<close>

function replace_all ::
  "(char option \<Rightarrow> string \<Rightarrow> nat) \<Rightarrow> string \<Rightarrow> char option \<Rightarrow> string \<Rightarrow> string" where
  "replace_all m rep prev [] = []"
| "replace_all m rep prev (c # s) =
     (if m prev (c # s) = 0 then c # replace_all m rep (Some c) s
      else rep @ replace_all m rep (Some (last (take (m prev (c # s)) (c # s))))
             (drop (m prev (c # s)) (c # s)))"
  by pat_completeness auto
termination
  by (relation "measure (\<lambda>(m, rep, prev, s). length s)") auto

definition redact_max_len :: nat where
  "redact_max_len = 256"

definition ellipsis :: string where
  "ellipsis = [CHR 0xE2, CHR 0x80, CHR 0xA6]"

definition redact_text :: "string \<Rightarrow> string" where
  "redact_text msg =
     (let s = replace_all bearer_len ''Bearer [REDACTED]'' None msg;
          s = replace_all api_key_len ''api_key=[REDACTED]'' None s;
          s = replace_all sk_like_len ''[REDACTED]'' None s
      in trim_space s)"

definition redact :: "string \<Rightarrow> string" where
  "redact msg =
     (if msg = [] then ''upstream_error''
      else (let s = redact_text msg
            in if s = [] then ''upstream_error''
               else if redact_max_len < length s then take redact_max_len s @ ellipsis
               else s))"

lemma redact_nonempty: "redact msg \<noteq> []"
  by (auto simp: redact_def Let_def ellipsis_def)

lemma redact_length: "length (redact msg) \<le> 259"
  by (auto simp: redact_def Let_def ellipsis_def redact_max_len_def)

section \<open>No key-like text survives\<close>

fun clean :: "(char option \<Rightarrow> string \<Rightarrow> nat) \<Rightarrow> char option \<Rightarrow> string \<Rightarrow> bool" where
  "clean m prev [] = True"
| "clean m prev (c # s) = (m prev (c # s) = 0 \<and> clean m (Some c) s)"

text \<open>The byte before the text that follows \<open>u\<close>.\<close>

fun prev_of :: "char option \<Rightarrow> string \<Rightarrow> char option" where
  "prev_of prev [] = prev"
| "prev_of prev (c # u) = prev_of (Some c) u"

lemma prev_of_last: "u \<noteq> [] \<Longrightarrow> prev_of prev u = Some (last u)"
  by (induction u arbitrary: prev) auto

lemma sk_match_run:
  assumes "list_all is_alnum run" "r = [] \<or> \<not> is_word (hd r)"
  shows "takeWhile is_alnum (run @ r) = run"
proof -
  have "r = [] \<or> \<not> is_alnum (hd r)" using assms(2) by (auto simp: is_word_def)
  then have "takeWhile is_alnum r = []" by (cases r) auto
  with assms(1) show ?thesis by (simp add: list_all_iff takeWhile_append2)
qed

text \<open>A match consists of a label, a separator and a run of letters and digits that ends at a word boundary.\<close>

lemma sk_like_len_pos:
  "sk_like_len prev s \<noteq> 0 \<longleftrightarrow>
     (case prev of None \<Rightarrow> True | Some p \<Rightarrow> \<not> is_word p) \<and>
     (\<exists>p c run r. s = p @ c # run @ r \<and> List.find (\<lambda>p. prefix p s) sk_labels = Some p \<and>
        c \<in> set ''-_'' \<and> list_all is_alnum run \<and> 8 \<le> length run \<and> (r = [] \<or> \<not> is_word (hd r)))"
  (is "?L \<longleftrightarrow> ?P \<and> ?R")
proof
  assume L: ?L
  then have P: ?P by (auto simp: sk_like_len_def split: option.splits if_splits)
  obtain p where p: "List.find (\<lambda>p. prefix p s) sk_labels = Some p"
    using L by (auto simp: sk_like_len_def split: option.splits if_splits)
  then have "prefix p s" by (auto simp: find_Some_iff)
  then obtain t0 where t0: "s = p @ t0" by (auto elim: prefixE)
  then obtain c t where ct: "t0 = c # t"
    using L p by (cases t0) (auto simp: sk_like_len_def split: option.splits if_splits)
  let ?run = "takeWhile is_alnum t"
  let ?r = "drop (length ?run) t"
  have "c \<in> set ''-_'' \<and> 8 \<le> length ?run \<and> (?r = [] \<or> \<not> is_word (hd ?r))"
    using L p t0 ct by (auto simp: sk_like_len_def Let_def split: option.splits if_splits)
  moreover have "s = p @ c # ?run @ ?r"
    using t0 ct by (simp add: dropWhile_eq_drop [symmetric])
  moreover have "list_all is_alnum ?run" by (auto simp: list_all_iff dest: set_takeWhileD)
  ultimately show "?P \<and> ?R" using P p by blast
next
  assume R: "?P \<and> ?R"
  then obtain p c run r where *: "s = p @ c # run @ r"
    "List.find (\<lambda>p. prefix p s) sk_labels = Some p" "c \<in> set ''-_''" "list_all is_alnum run"
    "8 \<le> length run" "r = [] \<or> \<not> is_word (hd r)" by blast
  note tw = sk_match_run [OF *(4,6)]
  have d: "drop (length p) s = c # run @ r" using *(1) by simp
  from R have P: ?P by blast
  show ?L
    using P *(2,3,5,6) tw by (simp add: sk_like_len_def d split: option.splits)
qed

text \<open>The replaced text agrees with the original up to the first match, where it has a bracket.\<close>

lemma replace_all_split:
  assumes "hd rep = CHR ''[''" "rep \<noteq> []"
  shows "\<exists>u v w. s = u @ w \<and> replace_all m rep prev s = u @ v \<and>
    (w = [] \<and> v = [] \<or> v \<noteq> [] \<and> hd v = CHR ''['' \<and> w \<noteq> [] \<and> m (prev_of prev u) w \<noteq> 0)"
proof (induction s arbitrary: prev)
  case (Cons c s)
  show ?case
  proof (cases "m prev (c # s) = 0")
    case True
    from Cons [of "Some c"] obtain u v w where *: "s = u @ w" "replace_all m rep (Some c) s = u @ v"
      "w = [] \<and> v = [] \<or> v \<noteq> [] \<and> hd v = CHR ''['' \<and> w \<noteq> [] \<and> m (prev_of (Some c) u) w \<noteq> 0"
      by blast
    have "c # s = (c # u) @ w" "replace_all m rep prev (c # s) = (c # u) @ v"
      using *(1,2) True by simp_all
    moreover have "prev_of prev (c # u) = prev_of (Some c) u" by simp
    ultimately show ?thesis using *(3) by metis
  next
    case False
    then show ?thesis
      using assms by (intro exI [of _ "[]"] exI [of _ "replace_all m rep prev (c # s)"] exI [of _ "c # s"]) auto
  qed
qed simp

lemma sk_label_chars:
  assumes "List.find (\<lambda>p. prefix p s) sk_labels = Some p"
  shows "p \<in> set sk_labels \<and> prefix p s"
  using assms by (auto simp: find_Some_iff)

lemma sk_label_find:
  assumes "p \<in> set sk_labels" "prefix p s"
  shows "List.find (\<lambda>p. prefix p s) sk_labels = Some p"
proof -
  from assms(2) obtain z where "s = p @ z" by (auto elim: prefixE)
  then show ?thesis using assms(1) by (auto simp: sk_labels_def)
qed

lemma sk_like_stable:
  assumes "u \<noteq> []" "v = [] \<or> hd v = CHR ''[''" "w \<noteq> [] \<Longrightarrow> sk_like_len (prev_of prev u) w \<noteq> 0"
    and "sk_like_len prev (u @ v) \<noteq> 0"
  shows "sk_like_len prev (u @ w) \<noteq> 0"
proof -
  from assms(4) obtain p c run r where m: "u @ v = p @ c # run @ r"
    and f: "List.find (\<lambda>p. prefix p (u @ v)) sk_labels = Some p" and c: "c \<in> set ''-_''"
    and run: "list_all is_alnum run" "8 \<le> length run" and r: "r = [] \<or> \<not> is_word (hd r)"
    and prev: "case prev of None \<Rightarrow> True | Some p \<Rightarrow> \<not> is_word p"
    unfolding sk_like_len_pos by blast
  let ?h = "p @ c # run"
  have lab: "p \<in> set sk_labels" using sk_label_chars [OF f] by simp
  have nb: "CHR ''['' \<notin> set ?h"
    using lab c run(1) by (auto simp: sk_labels_def list_all_iff is_alnum_def is_alpha_def is_digit_def)
  have eq: "u @ v = ?h @ r" using m by simp
  have "prefix ?h u"
  proof -
    have "prefix u (?h @ r)" unfolding eq [symmetric] by simp
    moreover have "prefix ?h (?h @ r)" by (rule prefixI) (rule refl)
    ultimately consider "prefix ?h u" | "prefix u ?h" using prefix_same_cases by blast
    then show ?thesis
    proof cases
      case 2
      then obtain z where z: "?h = u @ z" by (auto elim: prefixE)
      show ?thesis
      proof (cases z)
        case Nil
        with z show ?thesis by simp
      next
        case (Cons x xs)
        then have "v = z @ r" using eq unfolding z by simp
        moreover have "CHR ''['' \<notin> set z" using nb unfolding z by simp
        ultimately show ?thesis using assms(2) Cons by auto
      qed
    qed
  qed
  then obtain u' where u': "u = ?h @ u'" by (auto elim: prefixE)
  have "u' @ w = [] \<or> \<not> is_word (hd (u' @ w))"
  proof (cases u')
    case Nil
    have "w = []"
    proof (rule ccontr)
      assume "w \<noteq> []"
      then have "\<not> is_word (last u)"
        using assms(3) unfolding sk_like_len_pos prev_of_last [OF assms(1)] by simp
      moreover have "last u = last run" "run \<noteq> []" using u' Nil run(2) by auto
      moreover have "is_alnum (last run)" using run(1) \<open>run \<noteq> []\<close> by (simp add: list_all_iff)
      ultimately show False by (simp add: is_word_def)
    qed
    with Nil show ?thesis by simp
  next
    case (Cons x xs)
    then have "r = u' @ v" using eq u' by simp
    with r Cons show ?thesis by simp
  qed
  moreover have "List.find (\<lambda>q. prefix q (u @ w)) sk_labels = Some p"
    using lab u' by (intro sk_label_find) simp_all
  moreover have "u @ w = p @ c # run @ (u' @ w)" using u' by simp
  ultimately show ?thesis using prev c run unfolding sk_like_len_pos by blast
qed

lemma clean_replace_sk:
  "clean sk_like_len prev (replace_all sk_like_len ''[REDACTED]'' prev s)"
proof (induction sk_like_len "''[REDACTED]''" prev s rule: replace_all.induct)
  case (2 prev c s)
  show ?case
  proof (cases "sk_like_len prev (c # s) = 0")
    case True
    obtain u v w where s: "s = u @ w" and R: "replace_all sk_like_len ''[REDACTED]'' (Some c) s = u @ v"
      and vw: "w = [] \<and> v = [] \<or> v \<noteq> [] \<and> hd v = CHR ''['' \<and> w \<noteq> [] \<and>
        sk_like_len (prev_of (Some c) u) w \<noteq> 0"
      using replace_all_split [of "''[REDACTED]''" s sk_like_len "Some c"] by auto
    have "sk_like_len prev ((c # u) @ v) = 0"
    proof (rule ccontr)
      assume "sk_like_len prev ((c # u) @ v) \<noteq> 0"
      then have "sk_like_len prev ((c # u) @ w) \<noteq> 0"
        using vw by (intro sk_like_stable [of "c # u" v w prev]) auto
      with True s show False by simp
    qed
    with True 2(1) R show ?thesis by simp
  next
    case False
    let ?n = "sk_like_len prev (c # s)"
    let ?t = "replace_all sk_like_len ''[REDACTED]'' (Some (last (take ?n (c # s)))) (drop ?n (c # s))"
    have lead: "sk_like_len q (x # y) = 0" if "x \<notin> set ''stfx''" for q x y
    proof -
      have "List.find (\<lambda>p. prefix p (x # y)) sk_labels = None"
        using that by (auto simp: sk_labels_def)
      then show ?thesis by (simp add: sk_like_len_def split: option.splits)
    qed
    from False obtain p x run r where m: "c # s = p @ x # run @ r" "list_all is_alnum run"
      "8 \<le> length run" "r = [] \<or> \<not> is_word (hd r)"
      "List.find (\<lambda>p. prefix p (c # s)) sk_labels = Some p" "x \<in> set ''-_''"
      unfolding sk_like_len_pos by blast
    have n: "?n = length (p @ x # run)"
      using False m(2,4) unfolding sk_like_len_def m(1) [symmetric] m(5)
      by (simp add: m(1) sk_match_run split: option.splits if_splits)
    have "run \<noteq> []" using m(3) by auto
    moreover have t: "take ?n (c # s) = p @ x # run" "drop ?n (c # s) = r"
      by (simp_all only: n) (simp_all add: m(1))
    ultimately have l: "is_word (last (take ?n (c # s)))" "drop ?n (c # s) = r"
      using m(2) by (simp_all add: list_all_iff is_word_def)
    have "clean sk_like_len (Some (CHR '']'')) ?t"
    proof (cases r)
      case (Cons y ys)
      have "sk_like_len q (y # z) = 0" for q z
        using m(4) Cons by (intro lead) (auto simp: is_word_def is_alnum_def is_alpha_def)
      then show ?thesis using 2(2) [OF False] l Cons by simp
    qed (simp add: l)
    then have "clean sk_like_len prev (''[REDACTED]'' @ ?t)"
      by (simp add: lead)
    with False show ?thesis by simp
  qed
qed simp


text \<open>Trimming white space keeps a text clean: no space byte is a word byte or starts a match.\<close>

lemma clean_drop: "clean m prev (u @ s) \<Longrightarrow> clean m (prev_of prev u) s"
  by (induction u arbitrary: prev) auto

lemma clean_weaken:
  assumes "\<not> is_word p" "clean sk_like_len (Some p) s"
  shows "clean sk_like_len None s"
  using assms by (cases s) (auto simp: sk_like_len_def)


lemma sk_like_extend:
  assumes "sk_like_len prev t \<noteq> 0" "b = [] \<or> \<not> is_word (hd b)"
  shows "sk_like_len prev (t @ b) \<noteq> 0"
proof -
  from assms(1) obtain p c run r where m: "t = p @ c # run @ r"
    "List.find (\<lambda>p. prefix p t) sk_labels = Some p" "c \<in> set ''-_''" "list_all is_alnum run"
    "8 \<le> length run" "r = [] \<or> \<not> is_word (hd r)"
    and prev: "case prev of None \<Rightarrow> True | Some p \<Rightarrow> \<not> is_word p"
    unfolding sk_like_len_pos by blast
  have "t @ b = p @ c # run @ (r @ b)" by (simp add: m(1))
  moreover have "List.find (\<lambda>q. prefix q (t @ b)) sk_labels = Some p"
    using sk_label_chars [OF m(2)] by (intro sk_label_find) (simp_all add: m(1))
  moreover have "r @ b = [] \<or> \<not> is_word (hd (r @ b))" using m(6) assms(2) by (cases r) auto
  ultimately show ?thesis using prev m(3-5) unfolding sk_like_len_pos by blast
qed

lemma clean_take:
  assumes "clean sk_like_len prev (t @ b)" "b = [] \<or> \<not> is_word (hd b)"
  shows "clean sk_like_len prev t"
  using assms(1)
proof (induction t arbitrary: prev)
  case (Cons c t)
  then have "sk_like_len prev (c # t) = 0"
    using sk_like_extend [of prev "c # t" b] assms(2) by auto
  with Cons show ?case by simp
qed simp

lemma strip_lead_split:
  assumes "\<And>p. p \<in> set encs \<Longrightarrow> p \<noteq> [] \<and> Q (last p)"
  shows "\<exists>a. s = a @ strip_lead encs s \<and> (a = [] \<or> Q (last a))"
  using assms
proof (induction encs s rule: strip_lead.induct)
  case (1 encs s)
  show ?case
  proof (cases "lead_len encs s = 0")
    case False
    then obtain p where p: "List.find (\<lambda>p. prefix p s) encs = Some p" "lead_len encs s = length p"
      by (auto simp: lead_len_def split: option.splits)
    then have "p \<in> set encs" "prefix p s" by (auto simp: find_Some_iff)
    then have pq: "p \<noteq> []" "Q (last p)" "s = p @ drop (length p) s"
      using 1(2) by (auto elim!: prefixE)
    from 1(1) [OF False 1(2)] obtain a where
      a: "drop (length p) s = a @ strip_lead encs (drop (length p) s)" "a = [] \<or> Q (last a)"
      unfolding p(2) by blast
    have "strip_lead encs s = strip_lead encs (drop (length p) s)"
      using False p(2) by (simp add: strip_lead.simps [of encs s])
    with a pq show ?thesis by (intro exI [of _ "p @ a"]) (metis append_assoc last_append)
  qed simp
qed

lemma clean_trim_space:
  assumes "clean sk_like_len None s"
  shows "clean sk_like_len None (trim_space s)"
proof -
  have sp: "p \<in> set go_spaces \<Longrightarrow> p \<noteq> [] \<and> \<not> is_word (last p) \<and> \<not> is_word (hd p)" for p
    by (auto simp: go_spaces_def is_word_def is_alnum_def is_alpha_def is_digit_def)
  obtain a where a: "s = a @ trim_left s" "a = [] \<or> \<not> is_word (last a)"
    using strip_lead_split [of go_spaces "\<lambda>c. \<not> is_word c" s] sp unfolding trim_left_def by blast
  have "clean sk_like_len (prev_of None a) (trim_left s)"
    using assms by (intro clean_drop) (simp flip: a(1))
  then have l: "clean sk_like_len None (trim_left s)"
    using a(2) by (cases "a = []") (auto simp: prev_of_last dest: clean_weaken)
  have "p \<noteq> [] \<and> \<not> is_word (last p)" if "p \<in> set (map rev go_spaces)" for p
    using that sp by (auto simp: last_rev)
  then obtain b where b: "rev (trim_left s) = b @ strip_lead (map rev go_spaces) (rev (trim_left s))"
      "b = [] \<or> \<not> is_word (last b)"
    using strip_lead_split [of "map rev go_spaces" "\<lambda>c. \<not> is_word c" "rev (trim_left s)"]
    by blast
  have "trim_left s = trim_space s @ rev b"
    using arg_cong [OF b(1), of rev] by (simp add: trim_space_def trim_right_def)
  moreover have "rev b = [] \<or> \<not> is_word (hd (rev b))" using b(2) by (auto simp: hd_rev)
  ultimately show ?thesis using l clean_take by metis
qed

lemma clean_redact_text: "clean sk_like_len None (redact_text msg)"
  unfolding redact_text_def Let_def by (intro clean_trim_space clean_replace_sk)

end
