(* ===== verification/ProviderConfig.thy ===== *)
theory ProviderConfig
  imports Redact
begin

text \<open>
  The static configuration of the providers: internal/providers/providers.go (names and default
  base URLs), endpoints.go (validation of endpoint URLs and joining a route to one), paging.go, and
  endpoint_quota.go (the quota mode and flow of an endpoint). Proved: an accepted base URL is an
  http(s) origin with a path, free of user information, query and fragment; joining a route keeps
  the origin; the quota policy of each provider.
\<close>

section \<open>Errors of the providers package\<close>

text \<open>
  The sentinels of the package, with the reason where one sentinel covers several; \<open>ErrQuotaURL\<close>
  is the error that wraps both ErrInvalidQuotaConfig and ErrInvalidBaseURL, and \<open>ErrOther\<close> an
  error without a sentinel.
\<close>

datatype provider_error =
    ErrUnknownProvider
  | ErrNoEnabledKey
  | ErrDuplicateName
  | ErrInvalidBaseURL string
  | ErrProviderKeyNotFound
  | ErrInvalidPoolView
  | ErrInvalidQuotaConfig string
  | ErrQuotaURL string
  | ErrQuotaDisabled
  | ErrQuotaNotConfigured
  | ErrOther string

text \<open>\<open>errors.Is\<close> against the sentinels that the callers map to a bad request.\<close>

fun is_invalid_base_url :: "provider_error \<Rightarrow> bool" where
  "is_invalid_base_url (ErrInvalidBaseURL _) = True"
| "is_invalid_base_url (ErrQuotaURL _) = True"
| "is_invalid_base_url _ = False"

fun is_invalid_quota_config :: "provider_error \<Rightarrow> bool" where
  "is_invalid_quota_config (ErrInvalidQuotaConfig _) = True"
| "is_invalid_quota_config (ErrQuotaURL _) = True"
| "is_invalid_quota_config _ = False"

section \<open>Providers\<close>

definition provider_grok :: string where "provider_grok = ''grok''"
definition provider_tavily :: string where "provider_tavily = ''tavily''"
definition provider_firecrawl :: string where "provider_firecrawl = ''firecrawl''"

definition default_grok_base_url :: string where
  "default_grok_base_url = ''https://api.x.ai/v1''"
definition default_tavily_base_url :: string where
  "default_tavily_base_url = ''https://api.tavily.com''"
definition default_firecrawl_base_url :: string where
  "default_firecrawl_base_url = ''https://api.firecrawl.dev/v2''"

lemmas provider_names [simp] = provider_grok_def provider_tavily_def provider_firecrawl_def

definition all_providers :: "string list" where
  "all_providers = [provider_grok, provider_tavily, provider_firecrawl]"

definition validate_provider :: "string \<Rightarrow> provider_error + unit" where
  "validate_provider p =
     (if p = provider_grok \<or> p = provider_tavily \<or> p = provider_firecrawl then Inr ()
      else Inl ErrUnknownProvider)"

definition default_base_url :: "string \<Rightarrow> string" where
  "default_base_url p =
     (if p = provider_grok then default_grok_base_url
      else if p = provider_tavily then default_tavily_base_url
      else if p = provider_firecrawl then default_firecrawl_base_url
      else [])"

lemma validate_provider_ok: "validate_provider p = Inr u \<longleftrightarrow> p \<in> set all_providers"
  by (auto simp: validate_provider_def all_providers_def)

lemma validate_provider_bad: "validate_provider p = Inl e \<longleftrightarrow> p \<notin> set all_providers \<and> e = ErrUnknownProvider"
  by (auto simp: validate_provider_def all_providers_def)

section \<open>Paging\<close>

definition clamp_limit_offset :: "int \<Rightarrow> int \<Rightarrow> int \<Rightarrow> int \<Rightarrow> int \<times> int" where
  "clamp_limit_offset limit offset default_limit max_limit =
     (let limit = (if limit \<le> 0 then default_limit else limit);
          limit = (if limit > max_limit then max_limit else limit);
          offset = (if offset < 0 then 0 else offset)
      in (limit, offset))"

lemma clamp_limit_offset_bounds:
  "clamp_limit_offset l off d m = (l', off') \<Longrightarrow> 0 < d \<Longrightarrow> d \<le> m \<Longrightarrow> 0 < l' \<and> l' \<le> m \<and> 0 \<le> off'"
  by (auto simp: clamp_limit_offset_def Let_def split: if_splits)

section \<open>Endpoint URLs\<close>

definition normalize_base_url :: "string \<Rightarrow> provider_error + string" where
  "normalize_base_url raw0 =
     (let raw = trim_space raw0 in
      if raw = [] then Inl (ErrInvalidBaseURL ''base URL is required'')
      else (case parse_url raw of
        None \<Rightarrow> Inl (ErrInvalidBaseURL ''parse base URL'')
      | Some u0 \<Rightarrow>
        (let u = u0\<lparr>u_scheme := to_lower (u_scheme u0)\<rparr> in
         if u_scheme u \<noteq> ''http'' \<and> u_scheme u \<noteq> ''https''
           then Inl (ErrInvalidBaseURL ''base URL scheme must be http or https'')
         else if host_name u = [] \<or> u_opaque u \<noteq> []
           then Inl (ErrInvalidBaseURL ''base URL must include a host'')
         else if u_user u \<noteq> None
           then Inl (ErrInvalidBaseURL ''base URL must not include user information'')
         else if u_raw_query u \<noteq> [] \<or> u_force_query u
           then Inl (ErrInvalidBaseURL ''base URL must not include a query string'')
         else if u_fragment u \<noteq> []
           then Inl (ErrInvalidBaseURL ''base URL must not include a fragment'')
         else Inr (url_string (u\<lparr>u_path := trim_right_slash (u_path u),
                                 u_raw_path := trim_right_slash (u_raw_path u)\<rparr>)))))"

definition join_endpoint_url :: "string \<Rightarrow> string \<Rightarrow> string \<Rightarrow> provider_error + string" where
  "join_endpoint_url base_url suffix_path raw_query =
     and_then (normalize_base_url base_url) (\<lambda>normalized.
       if suffix_path = [] \<or> \<not> prefix ''/'' suffix_path
       then Inl (ErrOther ''endpoint path must start with /'')
       else (case parse_url normalized of
         None \<Rightarrow> Inl (ErrOther ''parse normalized base URL'')
       | Some u \<Rightarrow>
           Inr (url_string (u\<lparr>u_path := trim_right_slash (u_path u) @ ''/'' @ trim_left_slash suffix_path,
                              u_raw_path := [], u_raw_query := raw_query\<rparr>))))"

section \<open>Quota configuration of an endpoint\<close>

type_synonym quota_mode = string
type_synonym quota_flow = string

definition quota_disabled :: quota_mode where "quota_disabled = ''disabled''"
definition quota_endpoint_credentials :: quota_mode where
  "quota_endpoint_credentials = ''endpoint_credentials''"
definition quota_separate_credentials :: quota_mode where
  "quota_separate_credentials = ''separate_credentials''"

definition flow_grok2api_admin :: quota_flow where "flow_grok2api_admin = ''grok2api_admin''"
definition flow_grok2api_v3_admin :: quota_flow where "flow_grok2api_v3_admin = ''grok2api_v3_admin''"
definition flow_tavily_usage :: quota_flow where "flow_tavily_usage = ''tavily_usage''"
definition flow_firecrawl_credit_usage :: quota_flow where
  "flow_firecrawl_credit_usage = ''firecrawl_credit_usage''"

lemmas quota_names = quota_disabled_def quota_endpoint_credentials_def quota_separate_credentials_def
  flow_grok2api_admin_def flow_grok2api_v3_admin_def flow_tavily_usage_def
  flow_firecrawl_credit_usage_def

record quota_policy =
  qp_default :: quota_flow
  qp_allowed :: "quota_flow list"

record endpoint_quota_input =
  qi_mode :: quota_mode
  qi_flow :: quota_flow
  qi_base_url :: string
  qi_raw_key :: string

record resolved_quota =
  rq_endpoint_id :: rowid
  rq_provider :: string
  rq_mode :: quota_mode
  rq_flow :: quota_flow
  rq_base_url :: string
  rq_api_key :: string

definition quota_flow_policy :: "string \<Rightarrow> provider_error + quota_policy" where
  "quota_flow_policy p =
     and_then (validate_provider p) (\<lambda>_.
       if p = provider_grok then
         Inr \<lparr>qp_default = flow_grok2api_admin, qp_allowed = [flow_grok2api_admin, flow_grok2api_v3_admin]\<rparr>
       else if p = provider_tavily then
         Inr \<lparr>qp_default = flow_tavily_usage, qp_allowed = [flow_tavily_usage]\<rparr>
       else if p = provider_firecrawl then
         Inr \<lparr>qp_default = flow_firecrawl_credit_usage, qp_allowed = [flow_firecrawl_credit_usage]\<rparr>
       else Inl ErrUnknownProvider)"

definition default_flow :: "string \<Rightarrow> provider_error + quota_flow" where
  "default_flow p = and_then (quota_flow_policy p) (\<lambda>pol. Inr (qp_default pol))"

definition default_quota_config :: "string \<Rightarrow> provider_error + quota_mode \<times> quota_flow" where
  "default_quota_config p =
     and_then (default_flow p) (\<lambda>flow.
       if p = provider_grok then Inr (quota_disabled, flow)
       else if p = provider_tavily \<or> p = provider_firecrawl then Inr (quota_endpoint_credentials, flow)
       else Inl ErrUnknownProvider)"

definition validate_mode :: "quota_mode \<Rightarrow> provider_error + unit" where
  "validate_mode m =
     (if m = quota_disabled \<or> m = quota_endpoint_credentials \<or> m = quota_separate_credentials
      then Inr () else Inl (ErrInvalidQuotaConfig ''unknown quota mode''))"

definition validate_flow_for_provider :: "string \<Rightarrow> quota_flow \<Rightarrow> provider_error + unit" where
  "validate_flow_for_provider p flow =
     and_then (quota_flow_policy p) (\<lambda>pol.
       if flow \<in> set (qp_allowed pol) then Inr ()
       else Inl (ErrInvalidQuotaConfig ''flow is not valid for provider''))"

definition validate_quota_config ::
  "string \<Rightarrow> endpoint_quota_input \<Rightarrow> bool \<Rightarrow> provider_error + endpoint_quota_input" where
  "validate_quota_config p inp require_raw_key =
     and_then (validate_provider p) (\<lambda>_.
     (let mode = trim_space (qi_mode inp);
          flow = trim_space (qi_flow inp);
          base_url = trim_space (qi_base_url inp);
          raw_key = trim_space (qi_raw_key inp)
      in and_then (validate_mode mode) (\<lambda>_.
         and_then (validate_flow_for_provider p flow) (\<lambda>_.
           if flow = flow_grok2api_v3_admin \<and> mode = quota_endpoint_credentials
             then Inl (ErrInvalidQuotaConfig ''requires separate_credentials mode'')
           else if mode = quota_disabled \<or> mode = quota_endpoint_credentials then
             (if base_url \<noteq> [] \<or> raw_key \<noteq> []
              then Inl (ErrInvalidQuotaConfig ''mode must not set quota URL or key'')
              else Inr \<lparr>qi_mode = mode, qi_flow = flow, qi_base_url = [], qi_raw_key = []\<rparr>)
           else if mode = quota_separate_credentials then
             (if base_url = []
              then Inl (ErrInvalidQuotaConfig ''separate_credentials requires a quota base URL'')
              else (case normalize_base_url base_url of
                Inl (ErrInvalidBaseURL why) \<Rightarrow> Inl (ErrQuotaURL why)
              | Inl e \<Rightarrow> Inl e
              | Inr normalized \<Rightarrow>
                  if require_raw_key \<and> raw_key = []
                  then Inl (ErrInvalidQuotaConfig ''separate_credentials requires a quota key on create'')
                  else Inr \<lparr>qi_mode = mode, qi_flow = flow, qi_base_url = normalized,
                            qi_raw_key = raw_key\<rparr>))
           else Inl (ErrInvalidQuotaConfig ''unknown quota mode'')))))"

section \<open>Shape of an accepted base URL\<close>

text \<open>Written form of an http(s) origin followed by an absolute path without a trailing slash.\<close>

definition endpoint_shape :: "string \<Rightarrow> bool" where
  "endpoint_shape s \<longleftrightarrow>
     (\<exists>scheme host path. s = scheme @ ''://'' @ host @ path \<and> (scheme = ''http'' \<or> scheme = ''https'')
        \<and> host \<noteq> [] \<and> CHR ''/'' \<notin> set host \<and> CHR ''@'' \<notin> set host
        \<and> (path = [] \<or> hd path = CHR ''/'' \<and> last path \<noteq> CHR ''/'')
        \<and> CHR ''?'' \<notin> set s \<and> CHR ''#'' \<notin> set s)"

lemma hex_upper_alnum: "n < 16 \<Longrightarrow> is_alnum (hex_upper n)"
  by (auto simp: hex_upper_def is_alnum_def is_alpha_def is_digit_def)

lemma escape_set:
  assumes "c \<in> set (escape m s)"
  shows "c = CHR ''%'' \<or> is_alnum c \<or> \<not> should_escape m c"
proof -
  obtain d where d: "d \<in> set s" "c \<in> set (if should_escape m d
     then [CHR ''%'', hex_upper (of_char d div 16), hex_upper (of_char d mod 16)] else [d])"
    using assms unfolding escape_def set_concat set_map by blast
  have "is_alnum (hex_upper (of_char d div 16))" "is_alnum (hex_upper (of_char d mod 16))"
    using nat_of_char_less_256 [of d] by (auto intro!: hex_upper_alnum simp: less_mult_imp_div_less)
  with d(2) show ?thesis by (cases "should_escape m d") auto
qed

lemma escape_absent: "should_escape m c \<Longrightarrow> c \<noteq> CHR ''%'' \<Longrightarrow> \<not> is_alnum c \<Longrightarrow> c \<notin> set (escape m s)"
  using escape_set by blast

lemma escape_Nil_iff [simp]: "escape m s = [] \<longleftrightarrow> s = []"
proof (cases s)
  case (Cons c t)
  then show ?thesis by (cases "should_escape m c") (simp_all add: escape_def)
qed (simp add: escape_def)

lemma escape_last:
  assumes "s \<noteq> []" "last s \<noteq> CHR ''/''"
  shows "last (escape m s) \<noteq> CHR ''/''"
proof -
  obtain t c where s: "s = t @ [c]" using assms(1) by (cases s rule: rev_cases) auto
  have "is_alnum (hex_upper (of_char c mod 16))" by (intro hex_upper_alnum) simp
  then have "hex_upper (of_char c mod 16) \<noteq> CHR ''/''"
    by (auto simp: is_alnum_def is_alpha_def is_digit_def)
  then show ?thesis using assms(2) by (simp add: escape_def s)
qed

lemma trim_right_slash_last:
  assumes "trim_right_slash s \<noteq> []"
  shows "last (trim_right_slash s) \<noteq> CHR ''/''"
proof -
  have "dropWhile (\<lambda>c. c = CHR ''/'') (rev s) \<noteq> []"
    using assms by (simp only: trim_right_slash_def rev_is_Nil_conv not_False_eq_True)
  from hd_dropWhile [OF this] show ?thesis by (simp only: trim_right_slash_def last_rev not_False_eq_True)
qed

lemma url_marks:
  "should_escape EncodeHost (CHR ''?'')" "should_escape EncodeHost (CHR ''#'')"
  "should_escape EncodeHost (CHR ''/'')" "should_escape EncodeHost (CHR ''@'')"
  "should_escape EncodePath (CHR ''?'')" "should_escape EncodePath (CHR ''#'')"
  "\<not> is_alnum (CHR ''?'')" "\<not> is_alnum (CHR ''#'')" "\<not> is_alnum (CHR ''/'')" "\<not> is_alnum (CHR ''@'')"
  by (simp_all add: should_escape_def is_alnum_def is_alpha_def is_digit_def)

lemma escaped_path_cases:
  obtains "escaped_path u = u_raw_path u" "valid_encoded_path (u_raw_path u)"
  | "escaped_path u = ''*''"
  | "escaped_path u = escape EncodePath (u_path u)"
  unfolding escaped_path_def by presburger

lemma escaped_path_marks:
  assumes "c \<in> {CHR ''?'', CHR ''#''}"
  shows "c \<notin> set (escaped_path u)"
proof -
  have c: "should_escape EncodePath c" "c \<noteq> CHR ''%''" "\<not> is_alnum c"
    using assms url_marks by auto
  show ?thesis
  proof (cases u rule: escaped_path_cases)
    case 1
    have "c \<notin> set ''!$&()*+,;=:@[]%'' \<union> set [CHR 0x27]" using assms by auto
    with c(1) 1(2) have "c \<notin> set (u_raw_path u)"
      unfolding valid_encoded_path_def list_all_iff by blast
    with 1(1) show ?thesis by simp
  next
    case 2
    with assms show ?thesis by auto
  next
    case 3
    with escape_absent [OF c] show ?thesis by simp
  qed
qed

lemma escaped_path_last:
  assumes "escaped_path u \<noteq> []"
    and "u_path u = trim_right_slash p" "u_raw_path u = trim_right_slash r"
  shows "last (escaped_path u) \<noteq> CHR ''/''"
proof (cases u rule: escaped_path_cases)
  case 1
  with assms trim_right_slash_last [of r] show ?thesis by simp
next
  case 2
  then show ?thesis by simp
next
  case 3
  with assms have "u_path u \<noteq> []" by simp
  with assms(2) 3 show ?thesis using escape_last trim_right_slash_last by metis
qed

lemma host_name_host: "host_name u \<noteq> [] \<Longrightarrow> u_host u \<noteq> []"
  by (auto simp: host_name_def cut_last_def)

lemma normalize_base_url_shape:
  assumes "normalize_base_url raw = Inr out"
  shows "endpoint_shape out"
proof -
  from assms obtain u0 where u0: "parse_url (trim_space raw) = Some u0"
    and sch: "to_lower (u_scheme u0) = ''http'' \<or> to_lower (u_scheme u0) = ''https''"
    and parts: "host_name (u0\<lparr>u_scheme := to_lower (u_scheme u0)\<rparr>) \<noteq> []" "u_opaque u0 = []"
      "u_user u0 = None" "u_raw_query u0 = []" "\<not> u_force_query u0" "u_fragment u0 = []"
    and out: "out = url_string (u0\<lparr>u_scheme := to_lower (u_scheme u0),
        u_path := trim_right_slash (u_path u0), u_raw_path := trim_right_slash (u_raw_path u0)\<rparr>)"
    by (auto simp: normalize_base_url_def Let_def split: if_splits option.splits)
  let ?u = "u0\<lparr>u_scheme := to_lower (u_scheme u0), u_path := trim_right_slash (u_path u0),
      u_raw_path := trim_right_slash (u_raw_path u0)\<rparr>"
  let ?sch = "to_lower (u_scheme u0)" and ?h = "escape EncodeHost (u_host u0)"
  let ?p = "(if escaped_path ?u \<noteq> [] \<and> hd (escaped_path ?u) \<noteq> CHR ''/'' then ''/'' else []) @ escaped_path ?u"
  have h: "u_host u0 \<noteq> []" using host_name_host [OF parts(1)] by simp
  have eq: "out = ?sch @ ''://'' @ ?h @ ?p"
    using sch parts h unfolding out url_string_def by auto
  have last: "escaped_path ?u \<noteq> [] \<Longrightarrow> last (escaped_path ?u) \<noteq> CHR ''/''"
    using escaped_path_last [of ?u "u_path u0" "u_raw_path u0"] by simp
  have p: "?p = [] \<or> hd ?p = CHR ''/'' \<and> last ?p \<noteq> CHR ''/''" using last by auto
  have host: "CHR ''/'' \<notin> set ?h" "CHR ''@'' \<notin> set ?h" "CHR ''?'' \<notin> set ?h" "CHR ''#'' \<notin> set ?h"
    using escape_absent url_marks by simp_all
  have path: "CHR ''?'' \<notin> set ?p" "CHR ''#'' \<notin> set ?p" using escaped_path_marks by auto
  have "CHR ''?'' \<notin> set out" "CHR ''#'' \<notin> set out"
    using sch host path unfolding eq by (auto simp del: append_assoc)
  then show ?thesis
    using sch h host(1,2) p eq unfolding endpoint_shape_def by (metis escape_Nil_iff)
qed

section \<open>What a validated quota configuration satisfies\<close>

definition allowed_flows :: "string \<Rightarrow> quota_flow list" where
  "allowed_flows p = (case quota_flow_policy p of Inl _ \<Rightarrow> [] | Inr pol \<Rightarrow> qp_allowed pol)"

definition quota_valid :: "string \<Rightarrow> quota_mode \<Rightarrow> quota_flow \<Rightarrow> bool" where
  "quota_valid p m f \<longleftrightarrow>
     p \<in> set all_providers \<and> m \<in> set [quota_disabled, quota_endpoint_credentials, quota_separate_credentials]
     \<and> f \<in> set (allowed_flows p) \<and> \<not> (f = flow_grok2api_v3_admin \<and> m = quota_endpoint_credentials)"

lemma quota_modes_distinct [simp]:
  "quota_disabled \<noteq> quota_endpoint_credentials" "quota_disabled \<noteq> quota_separate_credentials"
  "quota_endpoint_credentials \<noteq> quota_disabled" "quota_endpoint_credentials \<noteq> quota_separate_credentials"
  "quota_separate_credentials \<noteq> quota_disabled" "quota_separate_credentials \<noteq> quota_endpoint_credentials"
  by (simp_all add: quota_names)

lemma validate_quota_config_valid:
  assumes "validate_quota_config p inp rk = Inr q"
  shows "quota_valid p (qi_mode q) (qi_flow q)"
    and "qi_mode q \<noteq> quota_separate_credentials \<Longrightarrow> qi_base_url q = [] \<and> qi_raw_key q = []"
    and "qi_mode q = quota_separate_credentials \<Longrightarrow> endpoint_shape (qi_base_url q) \<and> (rk \<longrightarrow> qi_raw_key q \<noteq> [])"
proof -
  from assms have p: "p \<in> set all_providers"
    by (auto simp: validate_quota_config_def and_then_Inr validate_provider_ok)
  from assms obtain pol where pol: "quota_flow_policy p = Inr pol"
    and f: "trim_space (qi_flow inp) \<in> set (qp_allowed pol)"
    by (auto simp: validate_quota_config_def and_then_Inr Let_def validate_flow_for_provider_def
        split: if_splits)
  note unf = validate_quota_config_def and_then_Inr Let_def validate_mode_def
  have q: "qi_flow q = trim_space (qi_flow inp)" "qi_mode q = trim_space (qi_mode inp)"
    "qi_mode q \<in> set [quota_disabled, quota_endpoint_credentials, quota_separate_credentials]"
    "\<not> (qi_flow q = flow_grok2api_v3_admin \<and> qi_mode q = quota_endpoint_credentials)"
    using assms by (auto simp: unf split: if_splits sum.splits provider_error.splits)
  then show "quota_valid p (qi_mode q) (qi_flow q)"
    using p pol f by (simp add: quota_valid_def allowed_flows_def)
  show "qi_mode q \<noteq> quota_separate_credentials \<Longrightarrow> qi_base_url q = [] \<and> qi_raw_key q = []"
    using assms by (auto simp: unf split: if_splits sum.splits provider_error.splits)
  show "qi_mode q = quota_separate_credentials \<Longrightarrow> endpoint_shape (qi_base_url q) \<and> (rk \<longrightarrow> qi_raw_key q \<noteq> [])"
    using assms normalize_base_url_shape
    by (auto simp: unf split: if_splits sum.splits provider_error.splits)
qed

lemma default_quota_config_valid: "default_quota_config p = Inr (m, f) \<Longrightarrow> quota_valid p m f"
  by (auto simp: default_quota_config_def default_flow_def quota_flow_policy_def and_then_Inr
      validate_provider_ok quota_valid_def allowed_flows_def all_providers_def quota_names
      validate_provider_def split: if_splits)

end
