(* ===== verification/GoTime.thy ===== *)
theory GoTime
  imports GoStrings "HOL-Library.Monad_Syntax"
begin

text \<open>
  Go's \<open>time\<close> package as the gateway uses it. An instant is the integer count of nanoseconds
  since 1970-01-01T00:00:00Z, a duration an integer count of nanoseconds. Every timestamp in the
  store is the text \<open>t.UTC().Format(time.RFC3339Nano)\<close>, which drops trailing zeros of the
  fraction, and SQL compares these texts byte by byte. This theory defines the format and
  \<open>time.Parse\<close> for it, proves that parsing inverts formatting, and relates the byte order of
  the texts to the order of the instants: the two agree for instants in different seconds, and
  may disagree inside one second.
\<close>

type_synonym instant = int
type_synonym duration = int

abbreviation second :: duration where "second \<equiv> 1000000000"
abbreviation minute :: duration where "minute \<equiv> 60 * second"
abbreviation hour :: duration where "hour \<equiv> 60 * minute"
abbreviation day :: duration where "day \<equiv> 24 * hour"

section \<open>The civil calendar\<close>

definition leap :: "int \<Rightarrow> bool" where
  "leap y \<longleftrightarrow> y mod 4 = 0 \<and> (y mod 100 \<noteq> 0 \<or> y mod 400 = 0)"

text \<open>The number of days of the k-th year of a 400-year cycle that starts in 1970.\<close>

definition year_days :: "nat \<Rightarrow> nat" where
  "year_days k = (if leap (1970 + int k) then 366 else 365)"

definition month_days :: "bool \<Rightarrow> nat list" where
  "month_days lp = [31, if lp then 29 else 28, 31, 30, 31, 30, 31, 31, 30, 31, 30, 31]"

function split_year :: "nat \<Rightarrow> nat \<Rightarrow> nat \<times> nat" where
  "split_year k n = (if n < year_days k then (k, n) else split_year (Suc k) (n - year_days k))"
  by pat_completeness auto
termination
  by (relation "measure (\<lambda>(k, n). n)") (auto simp: year_days_def split: if_splits)

declare split_year.simps [simp del]

fun split_month :: "nat list \<Rightarrow> nat \<Rightarrow> nat \<Rightarrow> nat \<times> nat" where
  "split_month [] m n = (m, n)"
| "split_month (l # ls) m n = (if n < l then (m, n) else split_month ls (Suc m) (n - l))"

abbreviation cycle_days :: int where "cycle_days \<equiv> 146097"

text \<open>Year, month (1 to 12) and day of month (from 1) of a day number.\<close>

definition civil :: "int \<Rightarrow> int \<times> nat \<times> nat" where
  "civil d =
     (let (k, n) = split_year 0 (nat (d mod cycle_days));
          y = 1970 + 400 * (d div cycle_days) + int k;
          (m, r) = split_month (month_days (leap y)) 1 n
      in (y, m, r + 1))"

definition year_start :: "nat \<Rightarrow> nat" where
  "year_start k = sum_list (map year_days [0..<k])"

definition days_of_civil :: "int \<Rightarrow> nat \<Rightarrow> nat \<Rightarrow> int" where
  "days_of_civil y m d =
     (let c = (y - 1970) div 400; k = nat ((y - 1970) mod 400)
      in c * cycle_days + int (year_start k) + int (sum_list (take (m - 1) (month_days (leap y))))
         + int d - 1)"

lemma year_start_Suc [simp]: "year_start (Suc k) = year_start k + year_days k"
  by (simp add: year_start_def)

lemma leap_int: "leap (int n) \<longleftrightarrow> n mod 4 = 0 \<and> (n mod 100 \<noteq> 0 \<or> n mod 400 = 0)"
proof -
  have "(int n mod int k = 0) = (n mod k = 0)" for k
    by (simp only: of_nat_mod [symmetric] of_nat_eq_0_iff)
  from this [of 4] this [of 100] this [of 400] show ?thesis by (simp add: leap_def)
qed

lemma leap_step:
  "int (Suc m div 4) - int (m div 4) - (int (Suc m div 100) - int (m div 100))
     + (int (Suc m div 400) - int (m div 400)) = (if leap (int (Suc m)) then 1 else 0)"
proof -
  have "Suc m mod 400 = 0 \<Longrightarrow> Suc m mod 100 = 0" "Suc m mod 100 = 0 \<Longrightarrow> Suc m mod 4 = 0"
    using dvd_trans [of 100 400 "Suc m"] dvd_trans [of 4 100 "Suc m"]
    unfolding mod_eq_0_iff_dvd by simp_all
  then show ?thesis unfolding leap_int div_Suc by auto
qed

lemma year_start_closed:
  "int (year_start k) = 365 * int k + int ((1969 + k) div 4) - int ((1969 + k) div 100)
     + int ((1969 + k) div 400) - 477"
proof (induction k)
  case 0
  show ?case by (simp add: year_start_def)
next
  case (Suc k)
  have "int (year_days k) = 365 + (if leap (int (Suc (1969 + k))) then 1 else 0)"
    by (simp add: year_days_def)
  also note leap_step [of "1969 + k", symmetric]
  finally show ?case using Suc by simp
qed

lemma year_start_400: "year_start 400 = 146097"
  using year_start_closed [of 400] by simp

lemma year_start_mono: "j \<le> k \<Longrightarrow> year_start j \<le> year_start k"
  by (rule lift_Suc_mono_le) simp

lemma leap_cycle: "leap (y + 400 * c) = leap y"
proof -
  have "(y + 400 * c) mod 4 = (y + (100 * c) * 4) mod 4"
    "(y + 400 * c) mod 100 = (y + (4 * c) * 100) mod 100" by (simp_all add: mult.commute)
  then have "(y + 400 * c) mod 4 = y mod 4" "(y + 400 * c) mod 100 = y mod 100"
    by (simp_all only: mod_mult_self1)
  then show ?thesis by (simp add: leap_def)
qed

lemma split_year_sound:
  "split_year k n = (k', r) \<Longrightarrow> year_start k + n = year_start k' + r \<and> r < year_days k' \<and> k \<le> k'"
proof (induction k n rule: split_year.induct)
  case (1 k n)
  then show ?case
    by (cases "n < year_days k") (auto simp: split_year.simps [of k n])
qed

lemma split_year_mono:
  "n < n' \<Longrightarrow> fst (split_year k n) < fst (split_year k n') \<or>
     fst (split_year k n) = fst (split_year k n') \<and> snd (split_year k n) < snd (split_year k n')"
proof (induction k n arbitrary: n' rule: split_year.induct)
  case (1 k n)
  show ?case
  proof (cases "n < year_days k")
    case True
    obtain k' r where "split_year (Suc k) (n' - year_days k) = (k', r)" by fastforce
    then have "Suc k \<le> k'" "split_year (Suc k) (n' - year_days k) = (k', r)"
      by (auto dest: split_year_sound)
    with True 1 show ?thesis by (simp add: split_year.simps [of k])
  next
    case False
    with 1 have "n - year_days k < n' - year_days k" by linarith
    with 1 False show ?thesis by (simp add: split_year.simps [of k])
  qed
qed

lemma split_month_sound:
  assumes "split_month ls m n = (m', r)" "n < sum_list ls"
  shows "\<exists>j < length ls. m' = m + j \<and> r < ls ! j \<and> n = sum_list (take j ls) + r"
  using assms
proof (induction ls m n rule: split_month.induct)
  case (2 l ls m n)
  show ?case
  proof (cases "n < l")
    case False
    with 2(2,3) have "split_month ls (Suc m) (n - l) = (m', r)" "n - l < sum_list ls" by auto
    from 2(1) [OF False this] obtain j where "j < length ls" "m' = Suc m + j" "r < ls ! j"
      "n - l = sum_list (take j ls) + r" by blast
    with False show ?thesis by (intro exI [of _ "Suc j"]) auto
  qed (use 2 in auto)
qed simp

lemma split_month_ge: "split_month ls m n = (m', r) \<Longrightarrow> m \<le> m'"
  by (induction ls m n rule: split_month.induct) (auto split: if_splits)

lemma split_month_mono:
  "n < n' \<Longrightarrow> fst (split_month ls m n) < fst (split_month ls m n') \<or>
     fst (split_month ls m n) = fst (split_month ls m n') \<and>
     snd (split_month ls m n) < snd (split_month ls m n')"
proof (induction ls m n arbitrary: n' rule: split_month.induct)
  case (2 l ls m n)
  show ?case
  proof (cases "n < l")
    case True
    obtain k' r where "split_month ls (Suc m) (n' - l) = (k', r)" by fastforce
    moreover from this have "Suc m \<le> k'" by (rule split_month_ge)
    ultimately show ?thesis using True 2 by simp
  next
    case False
    with 2(2) have "n - l < n' - l" by linarith
    with 2 False show ?thesis by simp
  qed
qed simp

lemma sum_month_days: "sum_list (month_days lp) = (if lp then 366 else 365)"
  by (simp add: month_days_def)

lemma civil_parts:
  assumes "civil d = (y, m, dd)"
  obtains k n where "split_year 0 (nat (d mod cycle_days)) = (k, n)"
    and "y = 1970 + 400 * (d div cycle_days) + int k" and "k < 400" and "n < year_days k"
    and "d = cycle_days * (d div cycle_days) + int (year_start k) + int n"
    and "split_month (month_days (leap y)) 1 n = (m, dd - 1)" and "1 \<le> dd"
    and "n < sum_list (month_days (leap y))"
proof -
  obtain k n where kn: "split_year 0 (nat (d mod cycle_days)) = (k, n)" by fastforce
  from split_year_sound [OF this] have n: "nat (d mod cycle_days) = year_start k + n"
    and nk: "n < year_days k" by (simp_all add: year_start_def)
  have lt: "d mod cycle_days < 146097" "0 \<le> d mod cycle_days" by simp_all
  have k: "k < 400"
  proof (rule ccontr)
    assume "\<not> k < 400"
    then have "year_start 400 \<le> year_start k" by (intro year_start_mono) simp
    with n lt show False by (simp add: year_start_400)
  qed
  have y: "y = 1970 + 400 * (d div cycle_days) + int k"
    using assms kn by (simp add: civil_def Let_def split: prod.splits)
  have lk: "leap y = leap (1970 + int k)"
    using leap_cycle [of "1970 + int k" "d div cycle_days"] by (simp add: y algebra_simps)
  have sm: "split_month (month_days (leap y)) 1 n = (m, dd - 1)" "1 \<le> dd"
    using assms kn by (auto simp: civil_def Let_def y split: prod.splits)
  have "d = cycle_days * (d div cycle_days) + d mod cycle_days" by simp
  also have "d mod cycle_days = int (year_start k) + int n" using n lt by linarith
  finally have d: "d = cycle_days * (d div cycle_days) + int (year_start k) + int n" by simp
  have "n < sum_list (month_days (leap y))"
    using nk by (simp add: sum_month_days lk year_days_def)
  with that kn y k nk d sm show ?thesis by blast
qed

lemma civil_bounds:
  assumes "civil d = (y, m, dd)"
  shows "1 \<le> m \<and> m \<le> 12 \<and> 1 \<le> dd \<and> dd \<le> month_days (leap y) ! (m - 1)"
proof -
  from civil_parts [OF assms] obtain n where
    sm: "split_month (month_days (leap y)) 1 n = (m, dd - 1)" "1 \<le> dd"
      "n < sum_list (month_days (leap y))" by metis
  from split_month_sound [OF sm(1,3)] sm(2) show ?thesis by (auto simp: month_days_def)
qed

lemma month_days_le: "j < 12 \<Longrightarrow> month_days lp ! j \<le> 31"
  by (auto simp: month_days_def nth_Cons split: nat.splits)

lemma civil_day_le: "civil d = (y, m, dd) \<Longrightarrow> dd \<le> 31"
  using civil_bounds [of d y m dd] month_days_le [of "m - 1" "leap y"] by linarith

lemma days_of_civil_civil:
  assumes "civil d = (y, m, dd)"
  shows "days_of_civil y m dd = d"
proof -
  from civil_parts [OF assms] obtain k n where
    y: "y = 1970 + 400 * (d div cycle_days) + int k" and k: "k < 400"
    and d: "d = cycle_days * (d div cycle_days) + int (year_start k) + int n"
    and sm: "split_month (month_days (leap y)) 1 n = (m, dd - 1)" "1 \<le> dd"
      "n < sum_list (month_days (leap y))" by metis
  have "(y - 1970) div 400 = d div cycle_days" "(y - 1970) mod 400 = int k"
    using k by (simp_all add: y)
  moreover from split_month_sound [OF sm(1,3)]
  have "n = sum_list (take (m - 1) (month_days (leap y))) + (dd - 1)" by auto
  ultimately show ?thesis
    using d sm(2) by (simp add: days_of_civil_def Let_def of_nat_diff)
qed

text \<open>The civil date is strictly monotone in the day number, lexicographically.\<close>

definition civil_less :: "int \<times> nat \<times> nat \<Rightarrow> int \<times> nat \<times> nat \<Rightarrow> bool" where
  "civil_less a b \<longleftrightarrow> fst a < fst b \<or> fst a = fst b \<and>
     (fst (snd a) < fst (snd b) \<or> fst (snd a) = fst (snd b) \<and> snd (snd a) < snd (snd b))"

lemma civil_mono:
  assumes "d < d'"
  shows "civil_less (civil d) (civil d')"
proof -
  obtain y m dd y' m' dd' where c: "civil d = (y, m, dd)" "civil d' = (y', m', dd')"
    by (metis prod_cases3)
  from civil_parts [OF c(1)] obtain k n where
    1: "split_year 0 (nat (d mod cycle_days)) = (k, n)"
      "y = 1970 + 400 * (d div cycle_days) + int k" "k < 400"
      "split_month (month_days (leap y)) 1 n = (m, dd - 1)" "1 \<le> dd" by metis
  from civil_parts [OF c(2)] obtain k' n' where
    2: "split_year 0 (nat (d' mod cycle_days)) = (k', n')"
      "y' = 1970 + 400 * (d' div cycle_days) + int k'" "k' < 400"
      "split_month (month_days (leap y')) 1 n' = (m', dd' - 1)" "1 \<le> dd'" by metis
  have le: "d div cycle_days \<le> d' div cycle_days" using assms by (simp add: zdiv_mono1)
  show ?thesis
  proof (cases "d div cycle_days = d' div cycle_days")
    case False
    with le 1(2,3) 2(2,3) have "y < y'" by linarith
    with c show ?thesis by (simp add: civil_less_def)
  next
    case True
    then have "d mod cycle_days < d' mod cycle_days"
      using assms by (metis add_less_cancel_left mult_div_mod_eq)
    then have "nat (d mod cycle_days) < nat (d' mod cycle_days)" by simp
    from split_year_mono [OF this, of 0] consider "k < k'" | "k = k'" "n < n'"
      using 1(1) 2(1) by auto
    then show ?thesis
    proof cases
      case 1
      with True \<open>y = _\<close> \<open>y' = _\<close> c show ?thesis by (simp add: civil_less_def)
    next
      case 2
      then have "y = y'" using True \<open>y = _\<close> \<open>y' = _\<close> by simp
      with split_month_mono [OF 2(2), of "month_days (leap y)" 1] 1(4,5) \<open>1 \<le> dd'\<close>
        \<open>split_month (month_days (leap y')) 1 n' = _\<close> c
      show ?thesis by (auto simp: civil_less_def)
    qed
  qed
qed


section \<open>Fixed-width decimal fields\<close>

fun dec :: "nat \<Rightarrow> nat \<Rightarrow> string" where
  "dec 0 n = []"
| "dec (Suc w) n = dec w (n div 10) @ [digit (n mod 10)]"

lemma length_dec [simp]: "length (dec w n) = w"
  by (induction w arbitrary: n) auto

lemma dec_digits [simp]: "list_all is_digit (dec w n)"
  by (induction w arbitrary: n) auto

lemma digits_val_snoc [simp]: "digits_val (s @ [c]) = 10 * digits_val s + digit_val c"
  by (simp add: digits_val_def)

lemma digits_val_Nil [simp]: "digits_val [] = 0"
  by (simp add: digits_val_def)

lemma digits_val_dec [simp]: "n < 10 ^ w \<Longrightarrow> digits_val (dec w n) = n"
proof (induction w arbitrary: n)
  case (Suc w)
  then have "n div 10 < 10 ^ w" by (simp add: less_mult_imp_div_less mult.commute)
  with Suc.IH show ?case by simp
qed simp

lemma div_mod_less:
  fixes n m k :: nat
  assumes "n < m" "0 < k"
  shows "n div k < m div k \<or> n div k = m div k \<and> n mod k < m mod k"
proof (cases "n div k = m div k")
  case True
  with assms show ?thesis by (metis div_mult_mod_eq add_less_cancel_left)
next
  case False
  with div_le_mono [of n m k] assms show ?thesis by linarith
qed

lemma dec_mono: "n < m \<Longrightarrow> m < 10 ^ w \<Longrightarrow> dec w n < dec w m"
proof (induction w arbitrary: n m)
  case (Suc w)
  have m: "m div 10 < 10 ^ w" using Suc.prems(2) by (simp add: less_mult_imp_div_less mult.commute)
  have "n div 10 < m div 10 \<or> n div 10 = m div 10 \<and> n mod 10 < m mod 10"
    using Suc.prems(1) by (intro div_mod_less) simp_all
  then consider "n div 10 < m div 10" | "n div 10 = m div 10" "n mod 10 < m mod 10" by blast
  then show ?case
  proof cases
    case 1
    with Suc.IH m show ?thesis by (simp add: append_less_append)
  next
    case 2
    then show ?thesis by (simp add: append_less_append)
  qed
qed simp

section \<open>Formatting\<close>

definition pad4 :: "nat \<Rightarrow> string" where
  "pad4 n = (if n < 10000 then dec 4 n else nat_dec n)"

definition year_text :: "int \<Rightarrow> string" where
  "year_text y = (if y < 0 then ''-'' @ pad4 (nat (- y)) else pad4 (nat y))"

definition clock_text :: "nat \<Rightarrow> string" where
  "clock_text r = dec 2 (r div 3600) @ '':'' @ dec 2 (r div 60 mod 60) @ '':'' @ dec 2 (r mod 60)"

definition date_text :: "int \<Rightarrow> string" where
  "date_text d = (case civil d of (y, m, dd) \<Rightarrow> year_text y @ ''-'' @ dec 2 m @ ''-'' @ dec 2 dd)"

definition trim_zeros :: "string \<Rightarrow> string" where
  "trim_zeros s = rev (dropWhile (\<lambda>c. c = CHR ''0'') (rev s))"

definition frac_text :: "nat \<Rightarrow> string" where
  "frac_text n = (if n = 0 then [] else ''.'' @ trim_zeros (dec 9 n))"

text \<open>\<open>t.UTC().Format(time.RFC3339Nano)\<close>.\<close>

definition stamp :: "instant \<Rightarrow> timestamp" where
  "stamp t =
     (let s = t div second
      in date_text (s div 86400) @ ''T'' @ clock_text (nat (s mod 86400))
         @ frac_text (nat (t mod second)) @ ''Z'')"

text \<open>The years 0000 to 9999, which the format writes with four digits.\<close>

definition in_range :: "instant \<Rightarrow> bool" where
  "in_range t \<longleftrightarrow> - 62167219200 * second \<le> t \<and> t < 253402300800 * second"

lemma year_text_4: "0 \<le> y \<Longrightarrow> y < 10000 \<Longrightarrow> year_text y = dec 4 (nat y)"
  by (simp add: year_text_def pad4_def nat_less_iff)

lemma civil_year_range:
  assumes "- 719528 \<le> d" "d < 2932897" "civil d = (y, m, dd)"
  shows "0 \<le> y \<and> y < 10000"
proof -
  have lo: "civil (- 719528) = (0, 1, 1)" and hi: "civil 2932896 = (9999, 12, 31)"
    by (simp_all add: civil_def split_year.simps year_days_def leap_def month_days_def Let_def)
  have "civil_less (civil (- 719528)) (civil d) \<or> d = - 719528"
    using assms(1) civil_mono [of "- 719528" d] by linarith
  moreover have "civil_less (civil d) (civil 2932896) \<or> d = 2932896"
    using assms(2) civil_mono [of d 2932896] by linarith
  ultimately show ?thesis using assms(3) lo hi by (auto simp: civil_less_def)
qed

lemma in_range_days:
  assumes "in_range t"
  shows "- 719528 \<le> t div second div 86400 \<and> t div second div 86400 < 2932897"
proof -
  have "t div second div 86400 = t div (86400 * second)" by (simp add: zdiv_zmult2_eq mult.commute)
  moreover have "- 719528 * (86400 * second) \<le> t" "t < 2932897 * (86400 * second)"
    using assms by (simp_all add: in_range_def)
  ultimately show ?thesis by linarith
qed

lemma date_text_mono:
  assumes "d < d'" "- 719528 \<le> d" "d' < 2932897"
  shows "date_text d < date_text d' \<and> length (date_text d) = length (date_text d')"
proof -
  obtain y m dd y' m' dd' where c: "civil d = (y, m, dd)" "civil d' = (y', m', dd')"
    by (metis prod_cases3)
  have yy: "0 \<le> y" "y < 10000" "0 \<le> y'" "y' < 10000"
    using civil_year_range [OF _ _ c(1)] civil_year_range [OF _ _ c(2)] assms by auto
  have b: "m \<le> 12" "dd \<le> 31" "m' \<le> 12" "dd' \<le> 31"
    using civil_bounds [OF c(1)] civil_bounds [OF c(2)] civil_day_le [OF c(1)]
      civil_day_le [OF c(2)] by auto
  have "civil_less (y, m, dd) (y', m', dd')" using civil_mono [OF assms(1)] c by simp
  then consider "y < y'" | "y = y'" "m < m'" | "y = y'" "m = m'" "dd < dd'"
    by (auto simp: civil_less_def)
  then show ?thesis
  proof cases
    case 1
    then have "dec 4 (nat y) < dec 4 (nat y')" using yy by (intro dec_mono) simp_all
    with yy c show ?thesis by (simp add: date_text_def year_text_4 append_less_append)
  next
    case 2
    then have "dec 2 m < dec 2 m'" using b by (intro dec_mono) simp_all
    with 2 yy c show ?thesis by (simp add: date_text_def year_text_4 append_less_append)
  next
    case 3
    then have "dec 2 dd < dec 2 dd'" using b by (intro dec_mono) simp_all
    with 3 yy c show ?thesis by (simp add: date_text_def year_text_4 append_less_append)
  qed
qed

lemma clock_text_mono:
  assumes "r < r'" "r' < 86400"
  shows "clock_text r < clock_text r'"
proof -
  have h: "r div 3600 < 100" "r' div 3600 < 100" using assms by auto
  have e: "r div 3600 = r div 60 div 60" for r :: nat by (simp add: div_mult2_eq [symmetric])
  have "r div 3600 < r' div 3600 \<or>
     r div 3600 = r' div 3600 \<and> r div 60 mod 60 < r' div 60 mod 60 \<or>
     r div 3600 = r' div 3600 \<and> r div 60 mod 60 = r' div 60 mod 60 \<and> r mod 60 < r' mod 60"
    using div_mod_less [OF assms(1), of 60] div_mod_less [of "r div 60" "r' div 60" 60]
    unfolding e by auto
  then consider "r div 3600 < r' div 3600"
    | "r div 3600 = r' div 3600" "r div 60 mod 60 < r' div 60 mod 60"
    | "r div 3600 = r' div 3600" "r div 60 mod 60 = r' div 60 mod 60" "r mod 60 < r' mod 60"
    by blast
  then show ?thesis
  proof cases
    case 1
    then have "dec 2 (r div 3600) < dec 2 (r' div 3600)" using h by (intro dec_mono) simp_all
    then show ?thesis by (simp add: clock_text_def append_less_append)
  next
    case 2
    have "r' div 60 mod 60 < 60" by simp
    with 2 have "dec 2 (r div 60 mod 60) < dec 2 (r' div 60 mod 60)" by (intro dec_mono) simp_all
    with 2 show ?thesis by (simp add: clock_text_def append_less_append)
  next
    case 3
    have "r' mod 60 < 60" by simp
    with 3 have "dec 2 (r mod 60) < dec 2 (r' mod 60)" by (intro dec_mono) simp_all
    with 3 show ?thesis by (simp add: clock_text_def append_less_append)
  qed
qed

lemma length_clock_text [simp]: "length (clock_text r) = 8"
  by (simp add: clock_text_def)


section \<open>Order of the texts and order of the instants\<close>

theorem stamp_mono_seconds:
  assumes "in_range t" "in_range t'" "t div second < t' div second"
  shows "stamp t < stamp t'"
proof -
  let ?s = "t div second" and ?s' = "t' div second"
  have d: "- 719528 \<le> ?s div 86400" "?s' div 86400 < 2932897"
    using in_range_days assms(1,2) by auto
  have le: "?s div 86400 \<le> ?s' div 86400" using assms(3) by (simp add: zdiv_mono1)
  show ?thesis
  proof (cases "?s div 86400 = ?s' div 86400")
    case False
    with le have "?s div 86400 < ?s' div 86400" by simp
    from date_text_mono [OF this d]
    show ?thesis by (simp add: stamp_def Let_def append_less_append)
  next
    case True
    then have "?s mod 86400 < ?s' mod 86400"
      using assms(3) by (metis add_less_cancel_left mult_div_mod_eq)
    moreover have "nat (?s' mod 86400) < 86400" by (simp add: nat_less_iff)
    ultimately have "clock_text (nat (?s mod 86400)) < clock_text (nat (?s' mod 86400))"
      by (intro clock_text_mono) simp_all
    then show ?thesis unfolding stamp_def Let_def True by (simp add: append_less_append)
  qed
qed

lemma stamp_apart:
  assumes "in_range t" "in_range t'" "t + second \<le> t'"
  shows "stamp t < stamp t'"
proof -
  have "t div second < t' div second" using assms(3) by linarith
  with assms(1,2) show ?thesis by (rule stamp_mono_seconds)
qed

lemma stamp_less_within:
  assumes "in_range t" "in_range t'" "stamp t < stamp t'"
  shows "t < t' + second"
proof (rule ccontr)
  assume "\<not> t < t' + second"
  then have "stamp t' < stamp t" using assms by (intro stamp_apart) auto
  with assms(3) show False by simp
qed

section \<open>Parsing\<close>

text \<open>
  \<open>time.Parse(time.RFC3339Nano, s)\<close>: four digits of year, two-digit fields, an hour that may
  have one digit only, an optional fraction after a period or comma of which nine digits count,
  and \<open>Z\<close> or a numeric zone offset. None is a parse error.
\<close>

definition expect :: "char \<Rightarrow> string \<Rightarrow> string option" where
  "expect c s = (case s of [] \<Rightarrow> None | x # r \<Rightarrow> if x = c then Some r else None)"

definition get_num :: "bool \<Rightarrow> string \<Rightarrow> (nat \<times> string) option" where
  "get_num fixed s =
     (case s of
        [] \<Rightarrow> None
      | a # s1 \<Rightarrow>
          if \<not> is_digit a then None
          else (case s1 of
                  [] \<Rightarrow> if fixed then None else Some (digit_val a, s1)
                | b # s2 \<Rightarrow>
                    if is_digit b then Some (10 * digit_val a + digit_val b, s2)
                    else if fixed then None else Some (digit_val a, s1)))"

definition get_year :: "string \<Rightarrow> (int \<times> string) option" where
  "get_year s =
     (if 4 \<le> length s \<and> list_all is_digit (take 4 s)
      then Some (int (digits_val (take 4 s)), drop 4 s) else None)"

definition get_frac :: "string \<Rightarrow> nat \<times> string" where
  "get_frac s =
     (case s of
        p # d # r \<Rightarrow>
          if (p = CHR ''.'' \<or> p = CHR '','') \<and> is_digit d
          then (let ds = take 9 (takeWhile is_digit (d # r))
                in (digits_val ds * 10 ^ (9 - length ds), dropWhile is_digit (d # r)))
          else (0, s)
      | _ \<Rightarrow> (0, s))"

definition get_zone :: "string \<Rightarrow> (int \<times> string) option" where
  "get_zone s =
     (case s of
        [] \<Rightarrow> None
      | c # r \<Rightarrow>
          if c = CHR ''Z'' then Some (0, r)
          else if c = CHR ''+'' \<or> c = CHR ''-'' then do {
            (hh, r) \<leftarrow> get_num True r;
            r \<leftarrow> expect (CHR '':'') r;
            (mm, r) \<leftarrow> get_num True r;
            if hh \<le> 24 \<and> mm \<le> 60
            then Some ((if c = CHR ''-'' then - 1 else 1) * int (hh * 60 + mm) * 60, r)
            else None }
          else None)"

definition parse_stamp :: "timestamp \<Rightarrow> instant option" where
  "parse_stamp s = do {
     (y, s) \<leftarrow> get_year s;
     s \<leftarrow> expect (CHR ''-'') s;
     (m, s) \<leftarrow> get_num True s;
     s \<leftarrow> expect (CHR ''-'') s;
     (d, s) \<leftarrow> get_num True s;
     s \<leftarrow> expect (CHR ''T'') s;
     (hh, s) \<leftarrow> get_num False s;
     s \<leftarrow> expect (CHR '':'') s;
     (mi, s) \<leftarrow> get_num True s;
     s \<leftarrow> expect (CHR '':'') s;
     (sec, s) \<leftarrow> get_num True s;
     (case get_frac s of (ns, s) \<Rightarrow> do {
       (off, s) \<leftarrow> get_zone s;
       if s = [] \<and> 1 \<le> m \<and> m \<le> 12 \<and> 1 \<le> d \<and> d \<le> month_days (leap y) ! (m - 1)
          \<and> hh < 24 \<and> mi < 60 \<and> sec < 60
       then Some ((days_of_civil y m d * 86400 + int (hh * 3600 + mi * 60 + sec) - off) * second
                  + int ns)
       else None }) }"

lemma expect_Cons [simp]: "expect c (c # s) = Some s"
  by (simp add: expect_def)

lemma get_num_dec [simp]:
  assumes "n < 100"
  shows "get_num fixed (dec 2 n @ s) = Some (n, s)"
proof -
  have "dec 2 n = [digit (n div 10), digit (n mod 10)]"
    using assms by (simp add: numeral_2_eq_2)
  moreover have "n div 10 < 10" using assms by simp
  ultimately show ?thesis by (simp add: get_num_def)
qed

lemma get_year_dec [simp]:
  assumes "n < 10000"
  shows "get_year (dec 4 n @ s) = Some (int n, s)"
  using assms by (simp add: get_year_def)

lemma trim_zeros_replicate: "\<exists>k. s = trim_zeros s @ replicate k (CHR ''0'')"
proof (induction s rule: rev_induct)
  case (snoc c s)
  then obtain k where k: "s = trim_zeros s @ replicate k (CHR ''0'')" by blast
  show ?case
  proof (cases "c = CHR ''0''")
    case True
    have "trim_zeros (s @ [c]) = trim_zeros s" by (simp add: trim_zeros_def True)
    moreover have "s @ [c] = trim_zeros s @ replicate (Suc k) (CHR ''0'')"
      by (subst k) (simp add: True replicate_append_same)
    ultimately show ?thesis by metis
  qed (auto simp: trim_zeros_def intro: exI [of _ 0])
qed (simp add: trim_zeros_def)

lemma digits_val_zeros: "digits_val (s @ replicate k (CHR ''0'')) = digits_val s * 10 ^ k"
proof (induction k)
  case (Suc k)
  have "digits_val (s @ replicate (Suc k) (CHR ''0'')) =
        digits_val ((s @ replicate k (CHR ''0'')) @ [CHR ''0''])"
    by (simp add: replicate_append_same)
  also have "\<dots> = 10 * (digits_val s * 10 ^ k)"
    by (simp only: digits_val_snoc Suc) (simp add: digit_val_def)
  finally show ?case by simp
qed simp

lemma get_frac_text:
  assumes "n < 10 ^ 9"
  shows "get_frac (frac_text n @ ''Z'') = (n, ''Z'')"
proof (cases "n = 0")
  case True
  then show ?thesis by (simp add: frac_text_def get_frac_def)
next
  case False
  let ?t = "trim_zeros (dec 9 n)"
  obtain k where k: "dec 9 n = ?t @ replicate k (CHR ''0'')" using trim_zeros_replicate by blast
  have len: "length ?t + k = 9" using arg_cong [OF k, of length] by simp
  have n: "digits_val ?t * 10 ^ k = n"
    using arg_cong [OF k, of digits_val] assms by (simp only: digits_val_zeros digits_val_dec)
  have all: "list_all is_digit ?t"
    using dec_digits [of 9 n] by (subst (asm) k) simp
  obtain d r where dr: "?t = d # r"
    using n False by (cases ?t) auto
  have "takeWhile is_digit (?t @ ''Z'') = ?t" "dropWhile is_digit (?t @ ''Z'') = ''Z''"
    using all by (simp_all add: list_all_iff takeWhile_append dropWhile_append is_digit_def)
  moreover have "9 - length ?t = k" "length ?t \<le> 9" using len by linarith+
  ultimately show ?thesis
    using False all n by (simp add: frac_text_def get_frac_def dr)
qed

lemma get_zone_Z [simp]: "get_zone ''Z'' = Some (0, [])"
  by (simp add: get_zone_def)

lemma expect_append [simp]: "expect c ([c] @ s) = Some s"
  by (simp add: expect_def)

lemma parse_fields:
  assumes "y < 10000" "1 \<le> m" "m \<le> 12" "1 \<le> d" "d \<le> 31"
    "d \<le> month_days (leap (int y)) ! (m - 1)" "hh < 24" "mi < 60" "sec < 60" "n < 10 ^ 9"
  shows "parse_stamp (dec 4 y @ ''-'' @ dec 2 m @ ''-'' @ dec 2 d @ ''T'' @ dec 2 hh @ '':''
      @ dec 2 mi @ '':'' @ dec 2 sec @ frac_text n @ ''Z'')
    = Some ((days_of_civil (int y) m d * 86400 + int (hh * 3600 + mi * 60 + sec)) * second + int n)"
proof -
  have f: "get_frac (frac_text n @ ''Z'') = (n, ''Z'')" by (rule get_frac_text [OF assms(10)])
  show ?thesis
    unfolding parse_stamp_def
    using assms(1-9)
    by (simp only: get_year_dec get_num_dec expect_append f get_zone_Z Option.bind.bind_lunit
        prod.case order_less_le_trans [of _ _ 100])
       (simp add: f)
qed

text \<open>Reading back a formatted timestamp gives the instant it was made from.\<close>

theorem parse_stamp_stamp:
  assumes "in_range t"
  shows "parse_stamp (stamp t) = Some t"
proof -
  let ?s = "t div second"
  let ?r = "nat (?s mod 86400)"
  obtain y m d where c: "civil (?s div 86400) = (y, m, d)" by (metis prod_cases3)
  have y: "0 \<le> y" "y < 10000"
    using civil_year_range [OF _ _ c] in_range_days [OF assms] by auto
  have b: "1 \<le> m" "m \<le> 12" "1 \<le> d" "d \<le> month_days (leap y) ! (m - 1)" "d \<le> 31"
    using civil_bounds [OF c] civil_day_le [OF c] by auto
  have r: "?r < 86400" by (simp add: nat_less_iff)
  then have h: "?r div 3600 < 24" "?r div 60 mod 60 < 60" "?r mod 60 < 60"
    by (auto simp: less_mult_imp_div_less)
  have rs: "?r div 3600 * 3600 + ?r div 60 mod 60 * 60 + ?r mod 60 = ?r"
  proof -
    have "?r div 3600 = ?r div 60 div 60" by (simp add: div_mult2_eq [symmetric])
    moreover have "?r = 60 * (?r div 60) + ?r mod 60"
      "?r div 60 = 60 * (?r div 60 div 60) + ?r div 60 mod 60" by simp_all
    ultimately show ?thesis by linarith
  qed
  have ns: "nat (t mod second) < 10 ^ 9" by (simp add: nat_less_iff)
  have "days_of_civil y m d = ?s div 86400" by (rule days_of_civil_civil [OF c])
  moreover have "?s div 86400 * 86400 + int ?r = ?s" by simp
  moreover have "?s * second + int (nat (t mod second)) = t" by simp
  ultimately have t: "(days_of_civil y m d * 86400 + int (?r div 3600 * 3600 + ?r div 60 mod 60 * 60
      + ?r mod 60)) * second + int (nat (t mod second)) = t"
    unfolding rs by simp
  have st: "stamp t = dec 4 (nat y) @ ''-'' @ dec 2 m @ ''-'' @ dec 2 d @ ''T'' @ dec 2 (?r div 3600)
      @ '':'' @ dec 2 (?r div 60 mod 60) @ '':'' @ dec 2 (?r mod 60)
      @ frac_text (nat (t mod second)) @ ''Z''"
    by (simp only: stamp_def Let_def date_text_def c clock_text_def prod.case year_text_4 [OF y]
        append_assoc)
  have ny: "nat y < 10000" "int (nat y) = y" using y by (simp_all add: nat_less_iff)
  have dd: "d \<le> month_days (leap (int (nat y))) ! (m - 1)" using b(4) by (simp only: ny)
  show ?thesis
    unfolding st parse_fields [OF ny(1) b(1,2,3,5) dd h ns] ny(2) t ..
qed

lemma stamp_inj: "in_range t \<Longrightarrow> in_range t' \<Longrightarrow> stamp t = stamp t' \<longleftrightarrow> t = t'"
  by (metis option.inject parse_stamp_stamp)

text \<open>
  Inside one second the byte order is not the order of the instants: the text of a whole
  second ends in \<open>Z\<close>, which is greater than the period that starts a fraction.
\<close>

lemma stamp_order_inverted:
  assumes "t div second = t' div second" "t mod second \<noteq> 0" "t' mod second = 0"
  shows "stamp t < stamp t' \<and> t' < t"
proof -
  have "0 < t mod second" using assms(2) by (simp add: order_less_le)
  then have "frac_text (nat (t mod second)) = ''.'' @ trim_zeros (dec 9 (nat (t mod second)))"
    by (simp add: frac_text_def)
  moreover have "frac_text (nat (t' mod second)) = []" by (simp add: frac_text_def assms(3))
  moreover have "CHR ''.'' # s < ''Z''" for s :: string by (simp add: less_char_def)
  ultimately have "frac_text (nat (t mod second)) @ ''Z'' < frac_text (nat (t' mod second)) @ ''Z''"
    by simp
  then have "stamp t < stamp t'"
    unfolding stamp_def Let_def assms(1) by (simp only: append_less_append simp_thms)
  moreover have "t' < t"
    using assms \<open>0 < t mod second\<close> by (metis add_less_cancel_left mult_div_mod_eq)
  ultimately show ?thesis ..
qed

end
