(* ===== verification/Cooldown.thy ===== *)
theory Cooldown
  imports GoTime
begin

text \<open>
  internal/cooldown/cooldown.go: how long a provider key rests after a failed upstream answer,
  and whether the proxy tries another key. \<open>http.ParseTime\<close> is the argument \<open>parse_http_date\<close>.
\<close>

definition default_rate_limit_cooldown :: duration where "default_rate_limit_cooldown = 60 * second"
definition default_transient_cooldown :: duration where "default_transient_cooldown = 30 * second"
definition default_credential_cooldown :: duration where "default_credential_cooldown = hour"
definition default_max_retries :: int where "default_max_retries = 3"
definition max_retry_after :: duration where "max_retry_after = 10 * minute"

record settings =
  rate_limit :: duration
  transient :: duration
  credential :: duration
  max_retries :: int

definition default_settings :: settings where
  "default_settings =
     \<lparr>rate_limit = default_rate_limit_cooldown,
      transient = default_transient_cooldown,
      credential = default_credential_cooldown,
      max_retries = default_max_retries\<rparr>"

lemmas cooldown_consts = default_rate_limit_cooldown_def default_transient_cooldown_def
  default_credential_cooldown_def default_max_retries_def max_retry_after_def

section \<open>Durations at their width\<close>

text \<open>\<open>time.Duration(secs) * time.Second\<close> multiplies in 64 bits; \<open>Time.Sub\<close> saturates.\<close>

definition seconds_duration :: "int \<Rightarrow> duration" where
  "seconds_duration secs = wrap64 (secs * second)"

definition time_sub :: "instant \<Rightarrow> instant \<Rightarrow> duration" where
  "time_sub t u = max (- (2 ^ 63)) (min (2 ^ 63 - 1) (t - u))"

section \<open>Retry-After\<close>

definition cap_retry_after :: "duration \<Rightarrow> duration" where
  "cap_retry_after d = (if d > max_retry_after then max_retry_after else d)"

definition parse_retry_after ::
  "(string \<Rightarrow> instant option) \<Rightarrow> string \<Rightarrow> instant \<Rightarrow> duration option" where
  "parse_retry_after parse_http_date header0 now =
     (let header = trim_space header0 in
      if header = [] then None
      else (case (case parse_int64 header of
                    Some secs \<Rightarrow> if secs \<ge> 0 then Some secs else None
                  | None \<Rightarrow> None) of
        Some secs \<Rightarrow> Some (cap_retry_after (seconds_duration secs))
      | None \<Rightarrow>
          (case parse_http_date header of
             Some t \<Rightarrow>
               (let d = time_sub t now; d = (if d < 0 then 0 else d) in Some (cap_retry_after d))
           | None \<Rightarrow> None)))"

lemma cap_retry_after_le: "cap_retry_after d \<le> max_retry_after"
  by (simp add: cap_retry_after_def)

lemma parse_retry_after_le: "parse_retry_after ph h now = Some d \<Longrightarrow> d \<le> max_retry_after"
  by (auto simp: parse_retry_after_def Let_def cap_retry_after_le split: if_splits option.splits)

text \<open>Seconds whose product with 10^9 fits in 64 bits give a duration within the bounds.\<close>

lemma seconds_duration_exact:
  "0 \<le> secs \<Longrightarrow> secs \<le> 9223372036 \<Longrightarrow> seconds_duration secs = secs * second"
  unfolding seconds_duration_def by (rule wrap64_id) simp_all

lemma seconds_duration_overflow: "seconds_duration 9223372037 < 0"
  by (simp add: seconds_duration_def wrap64_def)

section \<open>Policy for an upstream status\<close>

record policy =
  pol_cooldown :: duration
  pol_reason :: string
  pol_apply :: bool
  pol_retry :: bool

definition no_policy :: policy where
  "no_policy = \<lparr>pol_cooldown = 0, pol_reason = [], pol_apply = False, pol_retry = False\<rparr>"

definition policy_for_status :: "int \<Rightarrow> settings \<Rightarrow> policy" where
  "policy_for_status status s =
     (if status \<in> set [200, 201, 202, 204] then no_policy
      else if status = 429 then
        \<lparr>pol_cooldown = rate_limit s, pol_reason = ''rate_limited'', pol_apply = True, pol_retry = True\<rparr>
      else if status \<in> set [408, 500, 502, 503, 504] then
        \<lparr>pol_cooldown = transient s, pol_reason = ''transient'', pol_apply = True, pol_retry = True\<rparr>
      else if status \<in> set [401, 403] then
        \<lparr>pol_cooldown = credential s, pol_reason = ''credential_error'', pol_apply = True, pol_retry = True\<rparr>
      else if status \<ge> 200 \<and> status < 300 then no_policy
      else no_policy)"

definition should_mark_success :: "int \<Rightarrow> bool" where
  "should_mark_success status \<longleftrightarrow> status \<ge> 200 \<and> status < 300"

lemma policy_apply_retry: "pol_apply (policy_for_status st s) = pol_retry (policy_for_status st s)"
  by (simp add: policy_for_status_def no_policy_def)

lemma policy_apply_iff:
  "pol_apply (policy_for_status st s) \<longleftrightarrow> st \<in> {401, 403, 408, 429, 500, 502, 503, 504}"
  by (auto simp: policy_for_status_def no_policy_def)

lemma success_no_policy: "should_mark_success st \<Longrightarrow> policy_for_status st s = no_policy"
  by (auto simp: policy_for_status_def should_mark_success_def)

lemma policy_cooldown_bound:
  "pol_cooldown (policy_for_status st s) \<le> max 0 (max (rate_limit s) (max (transient s) (credential s)))"
  by (auto simp: policy_for_status_def no_policy_def)

end
