(* ===== verification/Secrets.thy ===== *)
theory Secrets
  imports GoUrl
begin

text \<open>
  internal/secrets: sealing of stored credentials with AES-256-GCM (crypto.go) and the master
  key file (masterkey.go), and internal/idgen: random identifiers. The block cipher, SHA-256
  and the random source are parameters: a record of functions and explicit random bytes.
\<close>

section \<open>Cryptographic primitives\<close>

text \<open>
  \<open>seal key nonce plain\<close> is GCM's ciphertext with its tag and \<open>gcm_open\<close> its inverse, None for a
  failed authentication; \<open>sha256\<close> gives the 32-byte digest.
\<close>

record crypto =
  seal :: "bytes \<Rightarrow> bytes \<Rightarrow> bytes \<Rightarrow> bytes"
  gcm_open :: "bytes \<Rightarrow> bytes \<Rightarrow> bytes \<Rightarrow> bytes option"
  sha256 :: "bytes \<Rightarrow> bytes"

definition gcm_nonce_size :: nat where "gcm_nonce_size = 12"
definition master_key_size :: nat where "master_key_size = 32"

text \<open>The documented behaviour of GCM the gateway relies on: opening undoes sealing.\<close>

definition aead_ok :: "crypto \<Rightarrow> bool" where
  "aead_ok cr \<longleftrightarrow> (\<forall>k n p. length k = master_key_size \<longrightarrow> length n = gcm_nonce_size \<longrightarrow>
     gcm_open cr k n (seal cr k n p) = Some p)"

text \<open>SHA-256 gives 32 bytes.\<close>

definition digest_ok :: "crypto \<Rightarrow> bool" where
  "digest_ok cr \<longleftrightarrow> (\<forall>m. length (sha256 cr m) = 32)"

section \<open>Encrypt and Decrypt\<close>

datatype secrets_error =
    ErrKeySize
  | ErrCiphertextShort
  | ErrOpen
  | ErrNonceRead
  | ErrMasterKeySize nat
  | ErrMasterKeyRead

text \<open>\<open>nonce\<close> is what the random reader delivered.\<close>

definition encrypt :: "crypto \<Rightarrow> bytes \<Rightarrow> bytes \<Rightarrow> bytes \<Rightarrow> secrets_error + bytes" where
  "encrypt cr key nonce plaintext =
     (if length key \<noteq> 32 then Inl ErrKeySize
      else if length nonce \<noteq> gcm_nonce_size then Inl ErrNonceRead
      else Inr (nonce @ seal cr key nonce plaintext))"

definition decrypt :: "crypto \<Rightarrow> bytes \<Rightarrow> bytes \<Rightarrow> secrets_error + bytes" where
  "decrypt cr key ciphertext =
     (if length key \<noteq> 32 then Inl ErrKeySize
      else if length ciphertext < gcm_nonce_size then Inl ErrCiphertextShort
      else (case gcm_open cr key (take gcm_nonce_size ciphertext) (drop gcm_nonce_size ciphertext) of
              None \<Rightarrow> Inl ErrOpen
            | Some plaintext \<Rightarrow> Inr plaintext))"

lemma decrypt_encrypt:
  assumes "aead_ok cr" "encrypt cr key nonce p = Inr c"
  shows "decrypt cr key c = Inr p"
  using assms by (auto simp: encrypt_def decrypt_def aead_ok_def gcm_nonce_size_def
      master_key_size_def split: if_splits)

lemma encrypt_length:
  "encrypt cr key nonce p = Inr c \<Longrightarrow> gcm_nonce_size \<le> length c \<and> length key = 32"
  by (auto simp: encrypt_def split: if_splits)

section \<open>The master key file\<close>

text \<open>
  \<open>LoadOrCreate\<close> against the content of the file: \<open>None\<close> when it does not exist, \<open>Some None\<close> when
  it cannot be read. The result is the key and the content left on disk.
\<close>

definition load_or_create ::
  "bytes \<Rightarrow> bytes option option \<Rightarrow> secrets_error + bytes \<times> bytes option option" where
  "load_or_create fresh file =
     (case file of
        Some None \<Rightarrow> Inl ErrMasterKeyRead
      | None \<Rightarrow> Inr (fresh, Some (Some fresh))
      | Some (Some data) \<Rightarrow>
          if length data \<noteq> master_key_size then Inl (ErrMasterKeySize (length data))
          else Inr (data, file))"

lemma load_or_create_stable:
  assumes "load_or_create fresh file = Inr (k, file')" "length fresh = master_key_size"
  shows "length k = master_key_size \<and> load_or_create fresh' file' = Inr (k, file')"
  using assms by (auto simp: load_or_create_def split: option.splits if_splits)

section \<open>Hexadecimal text\<close>

text \<open>\<open>hex.EncodeToString\<close> and \<open>hex.DecodeString\<close>.\<close>

definition hex_lower :: "nat \<Rightarrow> char" where
  "hex_lower n = (if n < 10 then char_of (48 + n) else char_of (87 + n))"

definition hex_encode :: "bytes \<Rightarrow> string" where
  "hex_encode bs = concat (map (\<lambda>b. [hex_lower (of_char b div 16), hex_lower (of_char b mod 16)]) bs)"

fun hex_decode :: "string \<Rightarrow> bytes option" where
  "hex_decode [] = Some []"
| "hex_decode [_] = None"
| "hex_decode (a # b # s) =
     (case (hex_val a, hex_val b) of
        (Some x, Some y) \<Rightarrow> map_option ((#) (char_of (16 * x + y))) (hex_decode s)
      | _ \<Rightarrow> None)"

lemma hex_val_lower [simp]:
  assumes "n < 16"
  shows "hex_val (hex_lower n) = Some n"
proof (cases "n < 10")
  case True
  then show ?thesis by (simp add: hex_val_def hex_lower_def Let_def)
next
  case False
  with assms have "of_char (char_of (87 + n) :: char) = 87 + n" by simp
  with False assms show ?thesis by (simp add: hex_val_def hex_lower_def Let_def)
qed

lemma hex_decode_encode [simp]: "hex_decode (hex_encode bs) = Some bs"
proof (induction bs)
  case (Cons b bs)
  have "of_char b div (16 :: nat) < 16" using nat_of_char_less_256 [of b]
    by (simp add: less_mult_imp_div_less)
  with Cons show ?case by (simp add: hex_encode_def)
qed (simp add: hex_encode_def)

lemma hex_encode_length [simp]: "length (hex_encode bs) = 2 * length bs"
  by (induction bs) (simp_all add: hex_encode_def)

section \<open>Random identifiers\<close>

definition base62_alphabet :: string where
  "base62_alphabet = ''ABCDEFGHIJKLMNOPQRSTUVWXYZabcdefghijklmnopqrstuvwxyz0123456789''"

definition base62_limit :: nat where
  "base62_limit = (256 div length base62_alphabet) * length base62_alphabet"

text \<open>
  \<open>RandomBase62\<close>: the inner loop draws bytes until one is below the limit. The random source is
  the list of bytes it delivers; None is its failure (no byte left).
\<close>

fun base62_char :: "bytes \<Rightarrow> (char \<times> bytes) option" where
  "base62_char [] = None"
| "base62_char (b # bs) =
     (if of_char b < base62_limit
      then Some (base62_alphabet ! (of_char b mod length base62_alphabet), bs)
      else base62_char bs)"

fun random_base62 :: "nat \<Rightarrow> bytes \<Rightarrow> (string \<times> bytes) option" where
  "random_base62 0 src = Some ([], src)"
| "random_base62 (Suc n) src =
     (case base62_char src of
        None \<Rightarrow> None
      | Some (c, src') \<Rightarrow>
          (case random_base62 n src' of
             None \<Rightarrow> None
           | Some (cs, rest) \<Rightarrow> Some (c # cs, rest)))"

lemma base62_sizes [simp]: "length base62_alphabet = 62" "base62_limit = 248"
  by (simp_all add: base62_limit_def base62_alphabet_def)

lemma base62_char_alphabet: "base62_char src = Some (c, rest) \<Longrightarrow> c \<in> set base62_alphabet \<and> suffix rest src"
proof (induction src)
  case (Cons b bs)
  show ?case
  proof (cases "of_char b < base62_limit")
    case True
    have "base62_alphabet ! (of_char b mod 62) \<in> set base62_alphabet"
      by (intro nth_mem) simp
    with True Cons.prems show ?thesis by (auto simp: suffix_Cons)
  next
    case False
    with Cons show ?thesis by (auto simp: suffix_Cons)
  qed
qed simp

lemma random_base62_shape:
  "random_base62 n src = Some (s, rest) \<Longrightarrow>
   length s = n \<and> set s \<subseteq> set base62_alphabet \<and> suffix rest src"
proof (induction n arbitrary: src s)
  case (Suc n)
  then obtain c src' cs where c: "base62_char src = Some (c, src')"
    and cs: "random_base62 n src' = Some (cs, rest)" "s = c # cs"
    by (auto split: option.splits)
  from base62_char_alphabet [OF c] Suc.IH [OF cs(1)] cs(2) show ?case
    by (auto intro: suffix_order.trans)
qed simp

lemma base62_char_enough:
  "(\<exists>b \<in> set src. of_char b < base62_limit) \<Longrightarrow> \<exists>c rest. base62_char src = Some (c, rest)"
  by (induction src) auto

text \<open>Rejection makes the draw unbiased: each letter is hit by exactly four byte values.\<close>

lemma base62_unbiased:
  assumes "i < length base62_alphabet"
  shows "card {b. b < base62_limit \<and> b mod length base62_alphabet = i} = 4"
proof -
  have i: "i < 62" using assms by simp
  have "b = i \<or> b = i + 62 \<or> b = i + 124 \<or> b = i + 186" if "b < 248" "b mod 62 = i" for b :: nat
  proof -
    have "b = 62 * (b div 62) + i" using that(2) div_mult_mod_eq [of b 62] by simp
    moreover have "b div 62 < 4" using that(1) by (simp add: less_mult_imp_div_less)
    then have "b div 62 \<in> {0, 1, 2, 3}" by auto
    ultimately show ?thesis by auto
  qed
  then have "b < 248 \<and> b mod 62 = i \<longleftrightarrow> b = i \<or> b = i + 62 \<or> b = i + 124 \<or> b = i + 186" for b :: nat
    using i mod_mult_self1 [of i 1 62] mod_mult_self1 [of i 2 62] mod_mult_self1 [of i 3 62] by auto
  then have "{b. b < base62_limit \<and> b mod length base62_alphabet = i} = {i, i + 62, i + 124, i + 186}"
    by auto
  then show ?thesis by simp
qed

lemma base62_alnum: "c \<in> set base62_alphabet \<Longrightarrow> is_alnum c"
proof -
  have "list_all is_alnum base62_alphabet"
    by (simp add: base62_alphabet_def is_alnum_def is_alpha_def is_digit_def)
  then show "c \<in> set base62_alphabet \<Longrightarrow> is_alnum c" by (simp add: list_all_iff)
qed

lemma alnum_plain: "is_alnum c \<Longrightarrow> plain_char c"
  by (auto simp: is_alnum_def is_alpha_def is_digit_def plain_char_def Let_def)

text \<open>A label of plain characters followed by random letters is stable under trimming.\<close>

lemma trim_space_random:
  assumes "random_base62 n src = Some (s, rest)" "list_all plain_char label"
  shows "trim_space (label @ s) = label @ s"
  using random_base62_shape [OF assms(1)] assms(2)
  by (intro trim_space_plain) (auto simp: list_all_iff intro: alnum_plain base62_alnum)

end
