(* ===== verification/ProviderSettings.thy ===== *)
theory ProviderSettings
  imports ProviderConfig Cooldown Secrets
begin

text \<open>
  internal/providers/settings.go: the tables provider_settings and settings, with the typed
  readers and writers on top of them. A table with a TEXT primary key is a map from the key to
  the value and its updated_at. Proved: what a reader returns after a writer, that invalid stored
  values fall back to defaults, and bounds on the cooldown settings a reader can return.
\<close>

record settings_db =
  sd_providers :: "string \<rightharpoonup> string \<times> timestamp"
  sd_settings :: "string \<rightharpoonup> string \<times> timestamp"

section \<open>The key/value table\<close>

definition get_setting_string :: "settings_db \<Rightarrow> string \<Rightarrow> string \<Rightarrow> string" where
  "get_setting_string db key fallback =
     (case sd_settings db key of None \<Rightarrow> fallback | Some (val, _) \<Rightarrow> val)"

definition set_cooldown_setting :: "instant \<Rightarrow> string \<Rightarrow> string \<Rightarrow> settings_db \<Rightarrow> settings_db" where
  "set_cooldown_setting now key val db = db\<lparr>sd_settings := (sd_settings db)(key \<mapsto> (val, stamp now))\<rparr>"

definition get_setting_duration :: "settings_db \<Rightarrow> string \<Rightarrow> duration \<Rightarrow> duration" where
  "get_setting_duration db key fallback =
     (let val = get_setting_string db key [] in
      if val = [] then fallback
      else (case parse_int64 val of
              None \<Rightarrow> fallback
            | Some secs \<Rightarrow> if secs < 0 then fallback else seconds_duration secs))"

definition get_setting_int :: "settings_db \<Rightarrow> string \<Rightarrow> int \<Rightarrow> int" where
  "get_setting_int db key fallback =
     (let val = get_setting_string db key [] in
      if val = [] then fallback
      else (case parse_int64 val of
              None \<Rightarrow> fallback
            | Some n \<Rightarrow> if n < 1 then fallback else n))"

section \<open>Provider base URLs\<close>

definition get_base_url :: "settings_db \<Rightarrow> string \<Rightarrow> provider_error + string" where
  "get_base_url db provider =
     and_then (validate_provider provider) (\<lambda>_.
       case sd_providers db provider of
         None \<Rightarrow> Inr (default_base_url provider)
       | Some (url, _) \<Rightarrow> Inr url)"

definition set_base_url ::
  "instant \<Rightarrow> string \<Rightarrow> string \<Rightarrow> settings_db \<Rightarrow> provider_error + settings_db" where
  "set_base_url now provider base_url db =
     and_then (validate_provider provider) (\<lambda>_.
       if base_url = [] then Inl (ErrOther ''set base url: empty url'')
       else and_then (normalize_base_url base_url) (\<lambda>normalized.
         Inr (db\<lparr>sd_providers := (sd_providers db)(provider \<mapsto> (normalized, stamp now))\<rparr>)))"

section \<open>Names of the settings\<close>

definition setting_cooldown_rate_limit :: string where
  "setting_cooldown_rate_limit = ''cooldown_rate_limit_seconds''"
definition setting_cooldown_transient :: string where
  "setting_cooldown_transient = ''cooldown_transient_seconds''"
definition setting_cooldown_credential :: string where
  "setting_cooldown_credential = ''cooldown_credential_seconds''"
definition setting_max_retries :: string where "setting_max_retries = ''max_retries''"
definition setting_proxy_debug_attempts :: string where
  "setting_proxy_debug_attempts = ''proxy_debug_attempts''"
definition setting_display_timezone :: string where
  "setting_display_timezone = ''display_timezone''"
definition setting_oauth_operator_password_hash :: string where
  "setting_oauth_operator_password_hash = ''oauth_operator_password_hash''"

lemmas setting_names = setting_cooldown_rate_limit_def setting_cooldown_transient_def
  setting_cooldown_credential_def setting_max_retries_def setting_proxy_debug_attempts_def
  setting_display_timezone_def setting_oauth_operator_password_hash_def

section \<open>Cooldown and retry settings\<close>

definition get_cooldown_settings :: "settings_db \<Rightarrow> settings" where
  "get_cooldown_settings db =
     (let def = default_settings in
      \<lparr>rate_limit = get_setting_duration db setting_cooldown_rate_limit (rate_limit def),
       transient = get_setting_duration db setting_cooldown_transient (transient def),
       credential = get_setting_duration db setting_cooldown_credential (credential def),
       max_retries = get_setting_int db setting_max_retries (max_retries def)\<rparr>)"

section \<open>The display time zone\<close>

text \<open>
  The host as the process sees it: the TZ variable (empty when unset), the zones
  \<open>time.LoadLocation\<close> knows, the resolved target of the /etc/localtime link (None when it cannot
  be read) and the name of \<open>time.Local\<close>.
\<close>

record host_zone =
  hz_env :: string
  hz_known :: "string \<Rightarrow> bool"
  hz_link :: "string option"
  hz_local :: string

text \<open>What follows the last occurrence of a marker.\<close>

fun after_last :: "string \<Rightarrow> string \<Rightarrow> string option" where
  "after_last m [] = (if m = [] then Some [] else None)"
| "after_last m (c # s) =
     (case after_last m s of
        Some r \<Rightarrow> Some r
      | None \<Rightarrow> if prefix m (c # s) then Some (drop (length m) (c # s)) else None)"

definition timezone_from_localtime_link :: "host_zone \<Rightarrow> string option" where
  "timezone_from_localtime_link h =
     (case hz_link h of
        None \<Rightarrow> None
      | Some target \<Rightarrow>
          (case after_last ''/zoneinfo/'' target of
             None \<Rightarrow> None
           | Some rest \<Rightarrow>
               (let name = trim_space rest in
                if name = [] \<or> name = ''Local'' then None
                else if \<not> hz_known h name then None
                else Some name)))"

definition host_timezone_name :: "host_zone \<Rightarrow> string" where
  "host_timezone_name h =
     (let tz = trim_space (hz_env h) in
      if tz \<noteq> [] \<and> tz \<noteq> ''Local'' \<and> hz_known h tz then tz
      else (case timezone_from_localtime_link h of
              Some name \<Rightarrow> name
            | None \<Rightarrow>
                if hz_local h \<noteq> [] \<and> hz_local h \<noteq> ''Local'' \<and> hz_known h (hz_local h)
                then hz_local h else ''UTC''))"

definition validate_iana_timezone :: "host_zone \<Rightarrow> string \<Rightarrow> provider_error + unit" where
  "validate_iana_timezone h tz0 =
     (let tz = trim_space tz0 in
      if tz = [] then Inl (ErrOther ''timezone required'')
      else if hz_known h tz then Inr () else Inl (ErrOther ''invalid timezone''))"

record display_timezone =
  dz_timezone :: string
  dz_source :: string

definition get_display_timezone :: "host_zone \<Rightarrow> settings_db \<Rightarrow> display_timezone" where
  "get_display_timezone h db =
     (let val = get_setting_string db setting_display_timezone [] in
      if trim_space val = [] then \<lparr>dz_timezone = host_timezone_name h, dz_source = ''host''\<rparr>
      else (case validate_iana_timezone h val of
              Inl _ \<Rightarrow> \<lparr>dz_timezone = host_timezone_name h, dz_source = ''host''\<rparr>
            | Inr _ \<Rightarrow> \<lparr>dz_timezone = trim_space val, dz_source = ''stored''\<rparr>))"

definition set_display_timezone ::
  "host_zone \<Rightarrow> instant \<Rightarrow> string \<Rightarrow> settings_db \<Rightarrow> provider_error + settings_db" where
  "set_display_timezone h now tz0 db =
     (let tz = trim_space tz0 in
      if tz = [] then Inr (db\<lparr>sd_settings := (sd_settings db)(setting_display_timezone := None)\<rparr>)
      else and_then (validate_iana_timezone h tz) (\<lambda>_.
        Inr (set_cooldown_setting now setting_display_timezone tz db)))"

section \<open>Grok quota settings\<close>

definition get_grok_quota_mode :: "settings_db \<Rightarrow> string" where
  "get_grok_quota_mode db = get_setting_string db ''grok_quota_mode'' ''unsupported''"

definition set_grok_quota_mode ::
  "instant \<Rightarrow> string \<Rightarrow> settings_db \<Rightarrow> provider_error + settings_db" where
  "set_grok_quota_mode now mode db =
     (if mode \<noteq> ''unsupported'' \<and> mode \<noteq> ''grok2api_admin''
      then Inl (ErrOther ''invalid grok quota mode'')
      else Inr (set_cooldown_setting now ''grok_quota_mode'' mode db))"

definition get_grok2api_admin_base_url :: "settings_db \<Rightarrow> string" where
  "get_grok2api_admin_base_url db = get_setting_string db ''grok2api_admin_base_url'' []"

definition set_grok2api_admin_base_url :: "instant \<Rightarrow> string \<Rightarrow> settings_db \<Rightarrow> settings_db" where
  "set_grok2api_admin_base_url now url db = set_cooldown_setting now ''grok2api_admin_base_url'' url db"

definition get_grok2api_admin_key ::
  "crypto \<Rightarrow> bytes \<Rightarrow> settings_db \<Rightarrow> provider_error + string" where
  "get_grok2api_admin_key cr master db =
     (let val = get_setting_string db ''grok2api_admin_key_encrypted'' [] in
      if val = [] then Inr []
      else (case hex_decode val of
              None \<Rightarrow> Inl (ErrOther ''decode admin key'')
            | Some enc \<Rightarrow>
                (case decrypt cr master enc of
                   Inl _ \<Rightarrow> Inl (ErrOther ''decrypt admin key'')
                 | Inr plain \<Rightarrow> Inr plain)))"

definition set_grok2api_admin_key ::
  "crypto \<Rightarrow> bytes \<Rightarrow> bytes \<Rightarrow> instant \<Rightarrow> string \<Rightarrow> settings_db \<Rightarrow> provider_error + settings_db" where
  "set_grok2api_admin_key cr master nonce now key db =
     (if key = [] then Inr (set_cooldown_setting now ''grok2api_admin_key_encrypted'' [] db)
      else (case encrypt cr master nonce key of
              Inl _ \<Rightarrow> Inl (ErrOther ''encrypt admin key'')
            | Inr enc \<Rightarrow>
                Inr (set_cooldown_setting now ''grok2api_admin_key_encrypted'' (hex_encode enc) db)))"

section \<open>Attempt logging\<close>

definition get_proxy_debug_attempts :: "settings_db \<Rightarrow> bool" where
  "get_proxy_debug_attempts db =
     (case parse_bool (get_setting_string db setting_proxy_debug_attempts ''false'') of
        None \<Rightarrow> False | Some b \<Rightarrow> b)"

definition set_proxy_debug_attempts :: "instant \<Rightarrow> bool \<Rightarrow> settings_db \<Rightarrow> settings_db" where
  "set_proxy_debug_attempts now enabled db =
     set_cooldown_setting now setting_proxy_debug_attempts (format_bool enabled) db"

section \<open>Reading back what was written\<close>

lemma get_set_setting [simp]:
  "get_setting_string (set_cooldown_setting now k v db) k' d =
   (if k = k' then v else get_setting_string db k' d)"
  by (simp add: get_setting_string_def set_cooldown_setting_def)

lemma providers_set_setting [simp]: "sd_providers (set_cooldown_setting now k v db) = sd_providers db"
  by (simp add: set_cooldown_setting_def)

lemma get_set_base_url:
  assumes "set_base_url now p u db = Inr db'"
  shows "normalize_base_url u = (case get_base_url db' p of Inr v \<Rightarrow> Inr v | Inl e \<Rightarrow> Inl e)
         \<and> (q \<noteq> p \<longrightarrow> get_base_url db' q = get_base_url db q)"
  using assms by (auto simp: set_base_url_def get_base_url_def and_then_Inr split: if_splits sum.splits)

lemma get_set_proxy_debug [simp]:
  "get_proxy_debug_attempts (set_proxy_debug_attempts now b db) = b"
  by (simp add: get_proxy_debug_attempts_def set_proxy_debug_attempts_def)

lemma get_set_admin_key:
  assumes "aead_ok cr" "set_grok2api_admin_key cr master nonce now key db = Inr db'"
  shows "get_grok2api_admin_key cr master db' = Inr key"
proof (cases "key = []")
  case True
  with assms show ?thesis by (auto simp: set_grok2api_admin_key_def get_grok2api_admin_key_def Let_def)
next
  case False
  with assms obtain enc where enc: "encrypt cr master nonce key = Inr enc"
    "db' = set_cooldown_setting now ''grok2api_admin_key_encrypted'' (hex_encode enc) db"
    by (auto simp: set_grok2api_admin_key_def split: sum.splits)
  from encrypt_length [OF enc(1)] have "length (hex_encode enc) \<noteq> 0"
    by (auto simp: gcm_nonce_size_def)
  then have "hex_encode enc \<noteq> []" by (simp only: length_0_conv not_False_eq_True)
  with enc decrypt_encrypt [OF assms(1) enc(1)] show ?thesis
    by (simp add: get_grok2api_admin_key_def Let_def)
qed

lemma get_setting_int_ge: "1 \<le> d \<Longrightarrow> 1 \<le> get_setting_int db k d"
  by (auto simp: get_setting_int_def Let_def split: option.splits)

lemma max_retries_positive: "1 \<le> max_retries (get_cooldown_settings db)"
  by (simp add: get_cooldown_settings_def default_settings_def cooldown_consts get_setting_int_ge Let_def)

lemma get_set_duration:
  assumes "0 \<le> secs" "secs \<le> 9223372036"
  shows "get_setting_duration (set_cooldown_setting now k (itoa secs) db) k d = secs * second"
proof -
  have "itoa secs \<noteq> []" by (simp add: itoa_def)
  with assms show ?thesis
    by (simp add: get_setting_duration_def parse_int64_itoa seconds_duration_exact)
qed

lemma display_timezone_known:
  assumes "hz_known h ''UTC''"
  shows "hz_known h (dz_timezone (get_display_timezone h db))"
proof -
  have "hz_known h (host_timezone_name h)"
    using assms by (auto simp: host_timezone_name_def timezone_from_localtime_link_def Let_def
        split: option.splits if_splits)
  then show ?thesis
    by (auto simp: get_display_timezone_def validate_iana_timezone_def Let_def
        split: sum.splits if_splits)
qed

lemma host_timezone_not_local: "host_timezone_name h \<noteq> ''Local'' \<and> host_timezone_name h \<noteq> []"
  by (auto simp: host_timezone_name_def timezone_from_localtime_link_def Let_def
      split: option.splits if_splits)

lemma get_set_display_timezone:
  assumes "set_display_timezone h now tz db = Inr db'" "trim_space tz \<noteq> []"
  shows "get_display_timezone h db' = \<lparr>dz_timezone = trim_space tz, dz_source = ''stored''\<rparr>"
  using assms by (auto simp: set_display_timezone_def get_display_timezone_def Let_def and_then_Inr
      validate_iana_timezone_def split: if_splits)

end
