(* ===== verification/ProviderKeys.thy ===== *)
theory ProviderKeys
  imports ProviderSettings Redact
begin

text \<open>
  internal/providers/keys.go: the table provider_keys and the operations of KeyRepo. Each row is
  an atomic endpoint: a base URL with an encrypted key, its quota sidecar and its health columns.
  Each operation takes the time it reads (\<open>now\<close>) and the nonces it draws as arguments and gives
  the new table or the error it returns; an operation that fails leaves the table as it was.
\<close>

section \<open>Rows\<close>

text \<open>
  \<open>key_columns\<close> are the columns that DisplayProviderKey shows; \<open>provider_key\<close> adds the two
  ciphertexts a row stores and \<open>display_key\<close> the flag that the query computes from them.
\<close>

record key_columns =
  pk_id :: rowid
  pk_provider :: string
  pk_name :: string
  pk_base_url :: string
  pk_key_prefix :: string
  pk_fingerprint :: string
  pk_enabled :: bool
  pk_cooldown_until :: "timestamp option"
  pk_cooldown_reason :: "string option"
  pk_last_failed_at :: "timestamp option"
  pk_last_used_at :: "timestamp option"
  pk_last_success_at :: "timestamp option"
  pk_last_error_at :: "timestamp option"
  pk_last_error_status :: "int option"
  pk_last_error_message :: "string option"
  pk_archived_at :: "timestamp option"
  pk_last_event_at :: "timestamp option"
  pk_last_event_source :: "string option"
  pk_last_event_status_class :: "string option"
  pk_last_event_http_status :: "int option"
  pk_last_event_message :: "string option"
  pk_consecutive_failures :: int
  pk_total_failures :: int
  pk_created_at :: timestamp
  pk_updated_at :: timestamp
  pk_quota_mode :: quota_mode
  pk_quota_flow :: quota_flow
  pk_quota_base_url :: "string option"
  pk_quota_key_prefix :: "string option"
  pk_quota_key_fingerprint :: "string option"

record provider_key = key_columns +
  pk_encrypted_key :: bytes
  pk_encrypted_quota_key :: "bytes option"

record display_key = key_columns +
  dk_quota_key_configured :: bool

type_synonym key_table = "provider_key table"

record selected_endpoint =
  se_id :: rowid
  se_provider :: string
  se_name :: string
  se_base_url :: string
  se_api_key :: string

text \<open>The ciphers and the master key a repository holds.\<close>

record key_env =
  ke_crypto :: crypto
  ke_master :: bytes

section \<open>Identity of a key\<close>

definition key_prefix_len :: nat where "key_prefix_len = 6"

definition key_prefix :: "string \<Rightarrow> string" where
  "key_prefix raw = (if length raw \<le> key_prefix_len then raw else take key_prefix_len raw)"

definition fingerprint :: "crypto \<Rightarrow> string \<Rightarrow> string" where
  "fingerprint cr raw = take 6 (hex_encode (sha256 cr raw))"

definition quota_key_identity ::
  "crypto \<Rightarrow> quota_flow \<Rightarrow> string \<Rightarrow> string option \<times> string option" where
  "quota_key_identity cr flow raw =
     (if flow = flow_grok2api_v3_admin then (None, None)
      else (Some (key_prefix raw), Some (fingerprint cr raw)))"

section \<open>Statements\<close>

text \<open>\<open>UPDATE provider_keys SET .. WHERE id = ?\<close>, without and with the RowsAffected check.\<close>

definition set_row :: "rowid \<Rightarrow> (provider_key \<Rightarrow> provider_key) \<Rightarrow> key_table \<Rightarrow> key_table" where
  "set_row i f t = snd (update_where (\<lambda>r. pk_id r = i) f t)"

definition change_row ::
  "rowid \<Rightarrow> (provider_key \<Rightarrow> provider_key) \<Rightarrow> key_table \<Rightarrow> provider_error + key_table" where
  "change_row i f t =
     (case update_where (\<lambda>r. pk_id r = i) f t of
        (n, t') \<Rightarrow> if n = 0 then Inl ErrProviderKeyNotFound else Inr t')"

definition row_by_id :: "rowid \<Rightarrow> key_table \<Rightarrow> provider_key option" where
  "row_by_id i t = find_row (\<lambda>r. pk_id r = i) t"

definition seal_key :: "key_env \<Rightarrow> bytes \<Rightarrow> string \<Rightarrow> provider_error + bytes" where
  "seal_key env nonce raw =
     (case encrypt (ke_crypto env) (ke_master env) nonce raw of
        Inl _ \<Rightarrow> Inl (ErrOther ''encrypt'') | Inr c \<Rightarrow> Inr c)"

definition open_key :: "key_env \<Rightarrow> bytes \<Rightarrow> provider_error + string" where
  "open_key env c =
     (case decrypt (ke_crypto env) (ke_master env) c of
        Inl _ \<Rightarrow> Inl (ErrOther ''decrypt'') | Inr p \<Rightarrow> Inr p)"

section \<open>Adding an endpoint\<close>

record key_draft =
  kd_provider :: string
  kd_name :: string
  kd_base_url :: string
  kd_key_prefix :: string
  kd_fingerprint :: string
  kd_encrypted :: bytes
  kd_now :: timestamp
  kd_quota :: endpoint_quota_input
  kd_quota_base :: "string option"
  kd_encrypted_quota :: "bytes option"
  kd_quota_prefix :: "string option"
  kd_quota_fingerprint :: "string option"

definition build_key :: "key_draft \<Rightarrow> rowid \<Rightarrow> provider_key" where
  "build_key d i =
     \<lparr>pk_id = i, pk_provider = kd_provider d, pk_name = kd_name d, pk_base_url = kd_base_url d,
      pk_key_prefix = kd_key_prefix d, pk_fingerprint = kd_fingerprint d, pk_enabled = True,
      pk_cooldown_until = None, pk_cooldown_reason = None, pk_last_failed_at = None,
      pk_last_used_at = None, pk_last_success_at = None, pk_last_error_at = None,
      pk_last_error_status = None, pk_last_error_message = None, pk_archived_at = None,
      pk_last_event_at = None, pk_last_event_source = None, pk_last_event_status_class = None,
      pk_last_event_http_status = None, pk_last_event_message = None,
      pk_consecutive_failures = 0, pk_total_failures = 0,
      pk_created_at = kd_now d, pk_updated_at = kd_now d,
      pk_quota_mode = qi_mode (kd_quota d), pk_quota_flow = qi_flow (kd_quota d),
      pk_quota_base_url = kd_quota_base d, pk_quota_key_prefix = kd_quota_prefix d,
      pk_quota_key_fingerprint = kd_quota_fingerprint d,
      pk_encrypted_key = kd_encrypted d, pk_encrypted_quota_key = kd_encrypted_quota d\<rparr>"

text \<open>The display row of a stored row, as \<open>scanDisplayKey\<close> reads it from the query of List and Get.\<close>

definition scan_display_key :: "provider_key \<Rightarrow> display_key" where
  "scan_display_key r =
     key_columns.extend (key_columns.truncate r)
       \<lparr>dk_quota_key_configured =
          (case pk_encrypted_quota_key r of None \<Rightarrow> False | Some c \<Rightarrow> 0 < length c)\<rparr>"

definition quota_columns ::
  "key_env \<Rightarrow> bytes \<Rightarrow> endpoint_quota_input \<Rightarrow>
   provider_error + string option \<times> bytes option \<times> string option \<times> string option" where
  "quota_columns env nonce q =
     (if qi_mode q = quota_separate_credentials then
        and_then (seal_key env nonce (qi_raw_key q)) (\<lambda>enc.
          (case quota_key_identity (ke_crypto env) (qi_flow q) (qi_raw_key q) of
             (p, fp) \<Rightarrow> Inr (Some (qi_base_url q), Some enc, p, fp)))
      else Inr (None, None, None, None))"

definition add_endpoint_with_quota ::
  "key_env \<Rightarrow> bytes \<Rightarrow> bytes \<Rightarrow> instant \<Rightarrow> string \<Rightarrow> string \<Rightarrow> string \<Rightarrow> string \<Rightarrow> endpoint_quota_input \<Rightarrow>
   key_table \<Rightarrow> provider_error + display_key \<times> key_table" where
  "add_endpoint_with_quota env nonce nonce_q now provider name base_url raw_key quota t =
     and_then (validate_provider provider) (\<lambda>_.
     if name = [] \<or> raw_key = [] then Inl (ErrOther ''add provider key: name and raw key required'')
     else and_then (normalize_base_url base_url) (\<lambda>normalized.
     and_then (validate_quota_config provider quota True) (\<lambda>q.
     if filter (\<lambda>r. pk_provider r = provider \<and> pk_name r = name) (rows t) \<noteq> [] then Inl ErrDuplicateName
     else and_then (seal_key env nonce raw_key) (\<lambda>enc.
     and_then (quota_columns env nonce_q q) (\<lambda>(q_base, enc_q, q_prefix, q_fp).
       (let d = \<lparr>kd_provider = provider, kd_name = name, kd_base_url = normalized,
                 kd_key_prefix = key_prefix raw_key, kd_fingerprint = fingerprint (ke_crypto env) raw_key,
                 kd_encrypted = enc, kd_now = stamp now, kd_quota = q, kd_quota_base = q_base,
                 kd_encrypted_quota = enc_q, kd_quota_prefix = q_prefix, kd_quota_fingerprint = q_fp\<rparr>
        in case insert_row (build_key d) t of
             (i, t') \<Rightarrow> Inr (scan_display_key (build_key d i), t')))))))"

definition add_endpoint ::
  "key_env \<Rightarrow> bytes \<Rightarrow> bytes \<Rightarrow> instant \<Rightarrow> string \<Rightarrow> string \<Rightarrow> string \<Rightarrow> string \<Rightarrow>
   key_table \<Rightarrow> provider_error + display_key \<times> key_table" where
  "add_endpoint env nonce nonce_q now provider name base_url raw_key t =
     and_then (default_quota_config provider) (\<lambda>(mode, flow).
       add_endpoint_with_quota env nonce nonce_q now provider name base_url raw_key
         \<lparr>qi_mode = mode, qi_flow = flow, qi_base_url = [], qi_raw_key = []\<rparr> t)"

definition add_key ::
  "settings_db \<Rightarrow> key_env \<Rightarrow> bytes \<Rightarrow> bytes \<Rightarrow> instant \<Rightarrow> string \<Rightarrow> string \<Rightarrow> string \<Rightarrow>
   key_table \<Rightarrow> provider_error + display_key \<times> key_table" where
  "add_key db env nonce nonce_q now provider name raw_key t =
     and_then (get_base_url db provider) (\<lambda>base_url.
       add_endpoint env nonce nonce_q now provider name base_url raw_key t)"

section \<open>The quota sidecar\<close>

definition update_endpoint_quota ::
  "instant \<Rightarrow> rowid \<Rightarrow> endpoint_quota_input \<Rightarrow> key_table \<Rightarrow> provider_error + key_table" where
  "update_endpoint_quota now i input0 t =
     (let input = input0\<lparr>qi_raw_key := []\<rparr> in
      case row_by_id i t of
        None \<Rightarrow> Inl ErrProviderKeyNotFound
      | Some cur \<Rightarrow>
          and_then (validate_quota_config (pk_provider cur) input False) (\<lambda>q.
            if qi_mode q = quota_disabled \<or> qi_mode q = quota_endpoint_credentials then
              change_row i (\<lambda>r. r\<lparr>pk_quota_mode := qi_mode q, pk_quota_flow := qi_flow q,
                  pk_quota_base_url := None, pk_encrypted_quota_key := None,
                  pk_quota_key_prefix := None, pk_quota_key_fingerprint := None,
                  pk_updated_at := stamp now\<rparr>) t
            else if qi_mode q = quota_separate_credentials then
              (let clear_credential = (pk_quota_flow cur \<noteq> qi_flow q);
                   clear_identity = (clear_credential \<or> qi_flow q = flow_grok2api_v3_admin)
               in change_row i (\<lambda>r. r\<lparr>pk_quota_mode := qi_mode q, pk_quota_flow := qi_flow q,
                    pk_quota_base_url := Some (qi_base_url q),
                    pk_encrypted_quota_key := (if clear_credential then None else pk_encrypted_quota_key r),
                    pk_quota_key_prefix := (if clear_identity then None else pk_quota_key_prefix r),
                    pk_quota_key_fingerprint :=
                      (if clear_identity then None else pk_quota_key_fingerprint r),
                    pk_updated_at := stamp now\<rparr>) t)
            else Inl (ErrInvalidQuotaConfig ''unknown quota mode'')))"

definition rotate_endpoint_quota_key ::
  "key_env \<Rightarrow> bytes \<Rightarrow> instant \<Rightarrow> rowid \<Rightarrow> string \<Rightarrow> key_table \<Rightarrow> provider_error + key_table" where
  "rotate_endpoint_quota_key env nonce now i raw0 t =
     (let raw_key = trim_space raw0 in
      if raw_key = [] then Inl (ErrOther ''rotate quota key: raw key required'')
      else (case row_by_id i t of
        None \<Rightarrow> Inl ErrProviderKeyNotFound
      | Some cur \<Rightarrow>
          if pk_quota_mode cur \<noteq> quota_separate_credentials
          then Inl (ErrInvalidQuotaConfig ''rotate quota key requires separate_credentials mode'')
          else (case quota_key_identity (ke_crypto env) (pk_quota_flow cur) raw_key of
            (p, fp) \<Rightarrow>
              and_then (seal_key env nonce raw_key) (\<lambda>enc.
                change_row i (\<lambda>r. r\<lparr>pk_encrypted_quota_key := Some enc, pk_quota_key_prefix := p,
                    pk_quota_key_fingerprint := fp, pk_updated_at := stamp now\<rparr>) t))))"

definition resolve_endpoint_quota ::
  "key_env \<Rightarrow> rowid \<Rightarrow> key_table \<Rightarrow> provider_error + resolved_quota" where
  "resolve_endpoint_quota env i t =
     (case row_by_id i t of
        None \<Rightarrow> Inl ErrProviderKeyNotFound
      | Some r \<Rightarrow>
          if pk_quota_mode r = quota_disabled then Inl ErrQuotaDisabled
          else if pk_quota_mode r = quota_endpoint_credentials then
            and_then (open_key env (pk_encrypted_key r)) (\<lambda>plain.
              Inr \<lparr>rq_endpoint_id = i, rq_provider = pk_provider r, rq_mode = pk_quota_mode r,
                   rq_flow = pk_quota_flow r, rq_base_url = pk_base_url r, rq_api_key = plain\<rparr>)
          else if pk_quota_mode r = quota_separate_credentials then
            (case pk_encrypted_quota_key r of
               None \<Rightarrow> Inl ErrQuotaNotConfigured
             | Some enc \<Rightarrow>
                 if enc = [] then Inl ErrQuotaNotConfigured
                 else (case pk_quota_base_url r of
                   None \<Rightarrow> Inl ErrQuotaNotConfigured
                 | Some url \<Rightarrow>
                     if url = [] then Inl ErrQuotaNotConfigured
                     else and_then (open_key env enc) (\<lambda>plain.
                       Inr \<lparr>rq_endpoint_id = i, rq_provider = pk_provider r, rq_mode = pk_quota_mode r,
                            rq_flow = pk_quota_flow r, rq_base_url = url, rq_api_key = plain\<rparr>)))
          else Inl (ErrInvalidQuotaConfig ''unknown quota mode''))"

section \<open>Reading display rows\<close>

text \<open>The rows stand in id order, so ORDER BY id is the order of the table.\<close>

definition list_keys :: "string \<Rightarrow> key_table \<Rightarrow> provider_error + display_key list" where
  "list_keys provider t =
     and_then (validate_provider provider) (\<lambda>_.
       Inr (map scan_display_key (sort_key pk_id (filter (\<lambda>r. pk_provider r = provider) (rows t)))))"

definition get_key :: "rowid \<Rightarrow> key_table \<Rightarrow> provider_error + display_key" where
  "get_key i t = (case row_by_id i t of None \<Rightarrow> Inl ErrProviderKeyNotFound
                  | Some r \<Rightarrow> Inr (scan_display_key r))"

fun list_providers :: "string list \<Rightarrow> key_table \<Rightarrow> provider_error + display_key list" where
  "list_providers [] t = Inr []"
| "list_providers (p # ps) t =
     and_then (list_keys p t) (\<lambda>rs. and_then (list_providers ps t) (\<lambda>out. Inr (rs @ out)))"

definition list_all_keys :: "key_table \<Rightarrow> provider_error + display_key list" where
  "list_all_keys t = list_providers [provider_grok, provider_tavily, provider_firecrawl] t"

section \<open>Switching, resetting and removing\<close>

definition set_enabled :: "instant \<Rightarrow> rowid \<Rightarrow> bool \<Rightarrow> key_table \<Rightarrow> key_table" where
  "set_enabled now i on t = set_row i (\<lambda>r. r\<lparr>pk_enabled := on, pk_updated_at := stamp now\<rparr>) t"

definition disable_key :: "instant \<Rightarrow> rowid \<Rightarrow> key_table \<Rightarrow> key_table" where
  "disable_key now i t = set_enabled now i False t"

definition enable_key :: "instant \<Rightarrow> rowid \<Rightarrow> key_table \<Rightarrow> key_table" where
  "enable_key now i t = set_enabled now i True t"

definition reset_cooldown :: "instant \<Rightarrow> rowid \<Rightarrow> key_table \<Rightarrow> provider_error + key_table" where
  "reset_cooldown now i t =
     change_row i (\<lambda>r. r\<lparr>pk_cooldown_until := None, pk_cooldown_reason := None,
       pk_last_failed_at := None, pk_updated_at := stamp now\<rparr>) t"

definition reset_selection :: "instant \<Rightarrow> rowid \<Rightarrow> key_table \<Rightarrow> provider_error + key_table" where
  "reset_selection now i t =
     change_row i (\<lambda>r. r\<lparr>pk_last_failed_at := None, pk_updated_at := stamp now\<rparr>) t"

definition demote_to_end :: "instant \<Rightarrow> rowid \<Rightarrow> key_table \<Rightarrow> provider_error + key_table" where
  "demote_to_end now i t =
     change_row i (\<lambda>r. r\<lparr>pk_last_failed_at := Some (stamp now), pk_updated_at := stamp now\<rparr>) t"

definition archive_key :: "instant \<Rightarrow> rowid \<Rightarrow> key_table \<Rightarrow> provider_error + key_table" where
  "archive_key now i t =
     change_row i (\<lambda>r. r\<lparr>pk_enabled := False, pk_archived_at := Some (stamp now),
       pk_updated_at := stamp now\<rparr>) t"

definition restore_archived :: "instant \<Rightarrow> rowid \<Rightarrow> key_table \<Rightarrow> provider_error + key_table" where
  "restore_archived now i t =
     change_row i (\<lambda>r. r\<lparr>pk_enabled := False, pk_archived_at := None, pk_updated_at := stamp now\<rparr>) t"

definition delete_key :: "rowid \<Rightarrow> key_table \<Rightarrow> key_table" where
  "delete_key i t = delete_where (\<lambda>r. pk_id r = i) t"

section \<open>Selection\<close>

text \<open>
  The sort key of \<open>ORDER BY last_failed_at IS NOT NULL, last_failed_at ASC, id ASC\<close>: a key that
  has not failed comes before every key that has.
\<close>

datatype rank = Fresh rowid | Demoted timestamp rowid

instantiation rank :: linorder
begin

fun less_rank :: "rank \<Rightarrow> rank \<Rightarrow> bool" where
  "Fresh i < Fresh j = (i < j)"
| "Fresh i < Demoted u j = True"
| "Demoted t i < Fresh j = False"
| "Demoted t i < Demoted u j = (t < u \<or> t = u \<and> i < j)"

definition less_eq_rank :: "rank \<Rightarrow> rank \<Rightarrow> bool" where
  "less_eq_rank a b \<longleftrightarrow> a < b \<or> a = b"

instance
proof
  fix a b c :: rank
  show "a < b \<longleftrightarrow> a \<le> b \<and> \<not> b \<le> a"
    by (cases a; cases b) (auto simp: less_eq_rank_def)
  show "a \<le> a" by (simp add: less_eq_rank_def)
  show "a \<le> b \<Longrightarrow> b \<le> c \<Longrightarrow> a \<le> c"
    by (cases a; cases b; cases c) (auto simp: less_eq_rank_def)
  show "a \<le> b \<Longrightarrow> b \<le> a \<Longrightarrow> a = b"
    by (cases a; cases b) (auto simp: less_eq_rank_def)
  show "a \<le> b \<or> b \<le> a"
    by (cases a; cases b) (auto simp: less_eq_rank_def)
qed

end

definition key_rank :: "provider_key \<Rightarrow> rank" where
  "key_rank r = (case pk_last_failed_at r of None \<Rightarrow> Fresh (pk_id r) | Some ts \<Rightarrow> Demoted ts (pk_id r))"

text \<open>The WHERE clause of the selection; the comparison is SQLite's, on texts.\<close>

definition selectable :: "string \<Rightarrow> timestamp \<Rightarrow> provider_key \<Rightarrow> bool" where
  "selectable provider now r \<longleftrightarrow>
     pk_provider r = provider \<and> pk_enabled r
     \<and> (case pk_cooldown_until r of None \<Rightarrow> True | Some u \<Rightarrow> u < now)
     \<and> pk_archived_at r = None"

definition pick_row :: "string \<Rightarrow> timestamp \<Rightarrow> key_table \<Rightarrow> provider_key option" where
  "pick_row provider now t =
     (case sort_key key_rank (filter (selectable provider now) (rows t)) of
        [] \<Rightarrow> None | r # _ \<Rightarrow> Some r)"

definition endpoint_of :: "provider_key \<Rightarrow> string \<Rightarrow> selected_endpoint" where
  "endpoint_of r plain =
     \<lparr>se_id = pk_id r, se_provider = pk_provider r, se_name = pk_name r,
      se_base_url = pk_base_url r, se_api_key = plain\<rparr>"

definition select_endpoint ::
  "key_env \<Rightarrow> instant \<Rightarrow> string \<Rightarrow> key_table \<Rightarrow> provider_error + selected_endpoint \<times> key_table" where
  "select_endpoint env now provider t =
     and_then (validate_provider provider) (\<lambda>_.
       case pick_row provider (stamp now) t of
         None \<Rightarrow> Inl ErrNoEnabledKey
       | Some r \<Rightarrow>
           and_then (open_key env (pk_encrypted_key r)) (\<lambda>plain.
             Inr (endpoint_of r plain,
                  set_row (pk_id r) (\<lambda>r. r\<lparr>pk_last_used_at := Some (stamp now),
                    pk_updated_at := stamp now\<rparr>) t)))"

definition select_key ::
  "key_env \<Rightarrow> instant \<Rightarrow> string \<Rightarrow> key_table \<Rightarrow> provider_error + (rowid \<times> string) \<times> key_table" where
  "select_key env now provider t =
     and_then (select_endpoint env now provider t) (\<lambda>(e, t'). Inr ((se_id e, se_api_key e), t'))"

definition raw_endpoint :: "key_env \<Rightarrow> rowid \<Rightarrow> key_table \<Rightarrow> provider_error + selected_endpoint" where
  "raw_endpoint env i t =
     (case row_by_id i t of
        None \<Rightarrow> Inl ErrProviderKeyNotFound
      | Some r \<Rightarrow> and_then (open_key env (pk_encrypted_key r)) (\<lambda>plain. Inr (endpoint_of r plain)))"

definition raw_key :: "key_env \<Rightarrow> rowid \<Rightarrow> key_table \<Rightarrow> provider_error + string" where
  "raw_key env i t = and_then (raw_endpoint env i t) (\<lambda>e. Inr (se_api_key e))"

section \<open>Changing the endpoint\<close>

definition update_base_url :: "instant \<Rightarrow> rowid \<Rightarrow> string \<Rightarrow> key_table \<Rightarrow> provider_error + key_table" where
  "update_base_url now i base_url t =
     and_then (normalize_base_url base_url) (\<lambda>normalized.
       change_row i (\<lambda>r. r\<lparr>pk_base_url := normalized, pk_cooldown_until := None,
         pk_cooldown_reason := None, pk_last_failed_at := None, pk_updated_at := stamp now\<rparr>) t)"

definition rotate_key ::
  "key_env \<Rightarrow> bytes \<Rightarrow> instant \<Rightarrow> rowid \<Rightarrow> string \<Rightarrow> key_table \<Rightarrow> provider_error + key_table" where
  "rotate_key env nonce now i raw t =
     (if raw = [] then Inl (ErrOther ''rotate key: raw key required'')
      else and_then (seal_key env nonce raw) (\<lambda>enc.
        change_row i (\<lambda>r. r\<lparr>pk_encrypted_key := enc, pk_key_prefix := key_prefix raw,
          pk_fingerprint := fingerprint (ke_crypto env) raw, pk_cooldown_until := None,
          pk_cooldown_reason := None, pk_last_failed_at := None, pk_updated_at := stamp now\<rparr>) t))"

section \<open>Recording outcomes\<close>

record last_event =
  le_source :: string
  le_status_class :: string
  le_http_status :: "int option"
  le_message :: string

definition mark_last_event :: "instant \<Rightarrow> rowid \<Rightarrow> last_event \<Rightarrow> key_table \<Rightarrow> key_table" where
  "mark_last_event now i ev t =
     set_row i (\<lambda>r. r\<lparr>pk_last_event_at := Some (stamp now), pk_last_event_source := Some (le_source ev),
       pk_last_event_status_class := Some (le_status_class ev),
       pk_last_event_http_status := le_http_status ev,
       pk_last_event_message := Some (redact (le_message ev)), pk_updated_at := stamp now\<rparr>) t"

definition mark_success :: "instant \<Rightarrow> rowid \<Rightarrow> key_table \<Rightarrow> key_table" where
  "mark_success now i t =
     set_row i (\<lambda>r. r\<lparr>pk_last_success_at := Some (stamp now), pk_consecutive_failures := 0,
       pk_last_failed_at := None, pk_updated_at := stamp now\<rparr>) t"

definition mark_failure_with_cooldown ::
  "instant \<Rightarrow> rowid \<Rightarrow> int \<Rightarrow> string \<Rightarrow> instant option \<Rightarrow> string option \<Rightarrow> key_table \<Rightarrow> key_table" where
  "mark_failure_with_cooldown now i status msg until reason t =
     set_row i (\<lambda>r. r\<lparr>pk_last_error_at := Some (stamp now), pk_last_error_status := Some status,
       pk_last_error_message := Some (redact msg),
       pk_consecutive_failures := pk_consecutive_failures r + 1,
       pk_total_failures := pk_total_failures r + 1,
       pk_cooldown_until := map_option stamp until, pk_cooldown_reason := reason,
       pk_last_failed_at := (if until \<noteq> None then Some (stamp now) else pk_last_failed_at r),
       pk_updated_at := stamp now\<rparr>) t"

definition mark_failure :: "instant \<Rightarrow> rowid \<Rightarrow> int \<Rightarrow> string \<Rightarrow> key_table \<Rightarrow> key_table" where
  "mark_failure now i status msg t = mark_failure_with_cooldown now i status msg None None t"

end
