(* ===== verification/KeyLaws.thy ===== *)
theory KeyLaws
  imports ProviderKeys
begin

text \<open>
  What the operations of internal/providers/keys.go keep: the row invariant, the uniqueness of
  names, and what an update leaves alone. The history of a table is an inductive set with one
  rule per operation; the invariant holds of every table in it.
\<close>

section \<open>Updates of one row\<close>

interpretation key_rows: rowid_table pk_id build_key
  by unfold_locales (simp add: build_key_def)

lemma change_row_Inr:
  "change_row i f t = Inr t' \<longleftrightarrow> row_by_id i t \<noteq> None \<and> t' = set_row i f t"
proof -
  have "fst (update_where (\<lambda>r. pk_id r = i) f t) = 0 \<longleftrightarrow> row_by_id i t = None"
    by (simp add: row_by_id_def find_row_None fst_update_where_0)
  then show ?thesis
    by (auto simp: change_row_def set_row_def split: prod.splits if_splits)
qed

lemma change_row_Inl: "change_row i f t = Inl e \<longleftrightarrow> row_by_id i t = None \<and> e = ErrProviderKeyNotFound"
proof -
  have "fst (update_where (\<lambda>r. pk_id r = i) f t) = 0 \<longleftrightarrow> row_by_id i t = None"
    by (simp add: row_by_id_def find_row_None fst_update_where_0)
  then show ?thesis by (auto simp: change_row_def split: prod.splits if_splits)
qed

lemma rows_set_row: "rows (set_row i f t) = map (\<lambda>r. if pk_id r = i then f r else r) (rows t)"
  by (simp add: set_row_def table_simps)

lemma row_by_id_set_row:
  assumes "\<And>r. pk_id (f r) = pk_id r"
  shows "row_by_id j (set_row i f t) = (if j = i then map_option f (row_by_id j t) else row_by_id j t)"
  using find_update_id [where rid = pk_id and f = f] assms unfolding row_by_id_def set_row_def by simp

lemma row_by_id_delete: "row_by_id j (delete_key i t) = (if j = i then None else row_by_id j t)"
  unfolding row_by_id_def delete_key_def by (rule find_delete_id)

lemma row_by_id_Some: "row_by_id i t = Some r \<Longrightarrow> r \<in> set (rows t) \<and> pk_id r = i"
  unfolding row_by_id_def by (rule find_row_Some)

lemma row_by_id_unique:
  "wf_table pk_id t \<Longrightarrow> r \<in> set (rows t) \<Longrightarrow> row_by_id (pk_id r) t = Some r"
  unfolding row_by_id_def by (rule wf_table_find)

section \<open>The invariant of a row\<close>

definition sealed :: "key_env \<Rightarrow> bytes \<Rightarrow> bool" where
  "sealed env c \<longleftrightarrow> c \<noteq> [] \<and> (\<exists>p. open_key env c = Inr p)"

definition quota_sidecar_ok :: "key_env \<Rightarrow> provider_key \<Rightarrow> bool" where
  "quota_sidecar_ok env r \<longleftrightarrow>
     quota_valid (pk_provider r) (pk_quota_mode r) (pk_quota_flow r)
     \<and> (if pk_quota_mode r = quota_separate_credentials
        then (\<exists>u. pk_quota_base_url r = Some u \<and> endpoint_shape u)
        else pk_quota_base_url r = None \<and> pk_encrypted_quota_key r = None \<and> pk_quota_key_prefix r = None)
     \<and> (case pk_encrypted_quota_key r of None \<Rightarrow> pk_quota_key_prefix r = None | Some c \<Rightarrow> sealed env c)
     \<and> (pk_quota_flow r = flow_grok2api_v3_admin \<longrightarrow> pk_quota_key_prefix r = None)
     \<and> (pk_quota_key_prefix r = None \<longleftrightarrow> pk_quota_key_fingerprint r = None)"

text \<open>Columns outside the sidecar do not matter to it.\<close>

lemma quota_sidecar_frame [simp]:
  "quota_sidecar_ok env (r\<lparr>pk_encrypted_key := v0\<rparr>) = quota_sidecar_ok env r"
  "quota_sidecar_ok env (r\<lparr>pk_key_prefix := v1\<rparr>) = quota_sidecar_ok env r"
  "quota_sidecar_ok env (r\<lparr>pk_fingerprint := v2\<rparr>) = quota_sidecar_ok env r"
  "quota_sidecar_ok env (r\<lparr>pk_base_url := v3\<rparr>) = quota_sidecar_ok env r"
  "quota_sidecar_ok env (r\<lparr>pk_enabled := v4\<rparr>) = quota_sidecar_ok env r"
  "quota_sidecar_ok env (r\<lparr>pk_cooldown_until := v5\<rparr>) = quota_sidecar_ok env r"
  "quota_sidecar_ok env (r\<lparr>pk_cooldown_reason := v6\<rparr>) = quota_sidecar_ok env r"
  "quota_sidecar_ok env (r\<lparr>pk_last_failed_at := v7\<rparr>) = quota_sidecar_ok env r"
  "quota_sidecar_ok env (r\<lparr>pk_last_used_at := v8\<rparr>) = quota_sidecar_ok env r"
  "quota_sidecar_ok env (r\<lparr>pk_last_success_at := v9\<rparr>) = quota_sidecar_ok env r"
  "quota_sidecar_ok env (r\<lparr>pk_last_error_at := v10\<rparr>) = quota_sidecar_ok env r"
  "quota_sidecar_ok env (r\<lparr>pk_last_error_status := v11\<rparr>) = quota_sidecar_ok env r"
  "quota_sidecar_ok env (r\<lparr>pk_last_error_message := v12\<rparr>) = quota_sidecar_ok env r"
  "quota_sidecar_ok env (r\<lparr>pk_archived_at := v13\<rparr>) = quota_sidecar_ok env r"
  "quota_sidecar_ok env (r\<lparr>pk_last_event_at := v14\<rparr>) = quota_sidecar_ok env r"
  "quota_sidecar_ok env (r\<lparr>pk_last_event_source := v15\<rparr>) = quota_sidecar_ok env r"
  "quota_sidecar_ok env (r\<lparr>pk_last_event_status_class := v16\<rparr>) = quota_sidecar_ok env r"
  "quota_sidecar_ok env (r\<lparr>pk_last_event_http_status := v17\<rparr>) = quota_sidecar_ok env r"
  "quota_sidecar_ok env (r\<lparr>pk_last_event_message := v18\<rparr>) = quota_sidecar_ok env r"
  "quota_sidecar_ok env (r\<lparr>pk_consecutive_failures := v19\<rparr>) = quota_sidecar_ok env r"
  "quota_sidecar_ok env (r\<lparr>pk_total_failures := v20\<rparr>) = quota_sidecar_ok env r"
  "quota_sidecar_ok env (r\<lparr>pk_updated_at := v21\<rparr>) = quota_sidecar_ok env r"
  by (simp_all add: quota_sidecar_ok_def split: option.split)

definition key_ok :: "key_env \<Rightarrow> provider_key \<Rightarrow> bool" where
  "key_ok env r \<longleftrightarrow>
     pk_name r \<noteq> [] \<and> endpoint_shape (pk_base_url r) \<and> sealed env (pk_encrypted_key r)
     \<and> 0 \<le> pk_consecutive_failures r \<and> pk_consecutive_failures r \<le> pk_total_failures r
     \<and> quota_sidecar_ok env r"

definition wf_keys :: "key_env \<Rightarrow> key_table \<Rightarrow> bool" where
  "wf_keys env t \<longleftrightarrow>
     wf_table pk_id t \<and> distinct (map (\<lambda>r. (pk_provider r, pk_name r)) (rows t))
     \<and> (\<forall>r \<in> set (rows t). key_ok env r)"

lemma wf_keys_empty [simp]: "wf_keys env empty_table"
  by (simp add: wf_keys_def) (simp add: empty_table_def)

lemma seal_key_sealed: "aead_ok (ke_crypto env) \<Longrightarrow> seal_key env n p = Inr c \<Longrightarrow> sealed env c \<and> open_key env c = Inr p"
  using encrypt_length
  by (fastforce simp: seal_key_def sealed_def open_key_def gcm_nonce_size_def decrypt_encrypt split: sum.splits)

lemma wf_keys_set_row:
  assumes "wf_keys env t"
    and same: "\<And>r. pk_id (f r) = pk_id r \<and> pk_provider (f r) = pk_provider r \<and> pk_name (f r) = pk_name r"
    and ok: "\<And>r. row_by_id i t = Some r \<Longrightarrow> key_ok env r \<Longrightarrow> key_ok env (f r)"
  shows "wf_keys env (set_row i f t)"
proof -
  have wf: "wf_table pk_id t" using assms(1) by (simp add: wf_keys_def)
  have "wf_table pk_id (set_row i f t)"
    unfolding set_row_def using wf same by (intro wf_table_update_where) simp_all
  moreover have "map (\<lambda>r. (pk_provider r, pk_name r)) (rows (set_row i f t)) =
    map (\<lambda>r. (pk_provider r, pk_name r)) (rows t)"
    using same by (simp add: rows_set_row)
  moreover have "key_ok env r" if "r \<in> set (rows (set_row i f t))" for r
    using that assms(1) ok row_by_id_unique [OF wf] by (auto simp: rows_set_row wf_keys_def)
  ultimately show ?thesis using assms(1) by (simp add: wf_keys_def)
qed

lemma wf_keys_change_row:
  assumes "change_row i f t = Inr t'" "wf_keys env t"
    and "\<And>r. pk_id (f r) = pk_id r \<and> pk_provider (f r) = pk_provider r \<and> pk_name (f r) = pk_name r"
    and "\<And>r. row_by_id i t = Some r \<Longrightarrow> key_ok env r \<Longrightarrow> key_ok env (f r)"
  shows "wf_keys env t'"
  using assms wf_keys_set_row by (auto simp: change_row_Inr)

section \<open>Every operation keeps it\<close>

lemma quota_columns_ok:
  assumes "aead_ok (ke_crypto env)" "validate_quota_config p inp True = Inr q"
    "quota_columns env n q = Inr (base, enc, pre, fp)"
  shows "quota_valid p (qi_mode q) (qi_flow q)"
    and "if qi_mode q = quota_separate_credentials then (\<exists>u. base = Some u \<and> endpoint_shape u)
         else base = None \<and> enc = None \<and> pre = None"
    and "case enc of None \<Rightarrow> pre = None | Some c \<Rightarrow> sealed env c"
    and "qi_flow q = flow_grok2api_v3_admin \<longrightarrow> pre = None" "pre = None \<longleftrightarrow> fp = None"
  using assms(3) validate_quota_config_valid [OF assms(2)] seal_key_sealed [OF assms(1)]
  by (auto simp: quota_columns_def and_then_Inr quota_key_identity_def split: if_splits)

lemma add_endpoint_with_quota_Inr:
  assumes "add_endpoint_with_quota env n nq now p name url raw quota t = Inr (d, t')"
  obtains dr where "kd_provider dr = p" "kd_name dr = name" "name \<noteq> []"
    "normalize_base_url url = Inr (kd_base_url dr)" "seal_key env n raw = Inr (kd_encrypted dr)"
    "validate_quota_config p quota True = Inr (kd_quota dr)"
    "quota_columns env nq (kd_quota dr) =
       Inr (kd_quota_base dr, kd_encrypted_quota dr, kd_quota_prefix dr, kd_quota_fingerprint dr)"
    "filter (\<lambda>r. pk_provider r = p \<and> pk_name r = name) (rows t) = []"
    "d = scan_display_key (build_key dr (fst (insert_row (build_key dr) t)))"
    "t' = snd (insert_row (build_key dr) t)"
proof -
  from assms obtain u q c base enc pre fp dr where
    dr: "dr = \<lparr>kd_provider = p, kd_name = name, kd_base_url = u,
                 kd_key_prefix = key_prefix raw, kd_fingerprint = fingerprint (ke_crypto env) raw,
                 kd_encrypted = c, kd_now = stamp now, kd_quota = q, kd_quota_base = base,
                 kd_encrypted_quota = enc, kd_quota_prefix = pre, kd_quota_fingerprint = fp\<rparr>"
    and *: "name \<noteq> []" "normalize_base_url url = Inr u" "seal_key env n raw = Inr c"
      "validate_quota_config p quota True = Inr q" "quota_columns env nq q = Inr (base, enc, pre, fp)"
      "filter (\<lambda>r. pk_provider r = p \<and> pk_name r = name) (rows t) = []"
      "d = scan_display_key (build_key dr (fst (insert_row (build_key dr) t)))"
      "t' = snd (insert_row (build_key dr) t)"
    by (auto simp: add_endpoint_with_quota_def and_then_Inr Let_def case_prod_beta split: if_splits)
  then show thesis by (intro that [of dr]) (simp_all add: dr)
qed

lemma add_endpoint_with_quota_wf:
  assumes "aead_ok (ke_crypto env)" "wf_keys env t"
    and "add_endpoint_with_quota env n nq now p name url raw quota t = Inr (d, t')"
  shows "wf_keys env t'"
  using assms(3)
proof (rule add_endpoint_with_quota_Inr)
  fix dr
  assume dr: "kd_provider dr = p" "kd_name dr = name" "name \<noteq> []"
    "normalize_base_url url = Inr (kd_base_url dr)" "seal_key env n raw = Inr (kd_encrypted dr)"
    "validate_quota_config p quota True = Inr (kd_quota dr)"
    "quota_columns env nq (kd_quota dr) =
       Inr (kd_quota_base dr, kd_encrypted_quota dr, kd_quota_prefix dr, kd_quota_fingerprint dr)"
    and fresh: "filter (\<lambda>r. pk_provider r = p \<and> pk_name r = name) (rows t) = []"
    and t': "t' = snd (insert_row (build_key dr) t)"
  have "key_ok env (build_key dr i)" for i
    unfolding key_ok_def quota_sidecar_ok_def build_key_def
    using dr(1-3) normalize_base_url_shape [OF dr(4)] seal_key_sealed [OF assms(1) dr(5)]
      quota_columns_ok [OF assms(1) dr(6,7)]
    by (cases "kd_encrypted_quota dr") (simp_all split: if_splits)
  moreover have "(p, name) \<notin> set (map (\<lambda>r. (pk_provider r, pk_name r)) (rows t))"
    using fresh by (auto simp: filter_empty_conv)
  ultimately show ?thesis
    using assms(2) key_rows.insert_wf dr(1,2) unfolding wf_keys_def t' rows_insert_row
    by (auto simp: build_key_def)
qed

lemma add_endpoint_wf:
  "aead_ok (ke_crypto env) \<Longrightarrow> wf_keys env t \<Longrightarrow>
   add_endpoint env n nq now p name url raw t = Inr (d, t') \<Longrightarrow> wf_keys env t'"
  unfolding add_endpoint_def by (auto simp: and_then_Inr intro: add_endpoint_with_quota_wf)

lemma update_endpoint_quota_wf:
  assumes "wf_keys env t" "update_endpoint_quota now i inp t = Inr t'"
  shows "wf_keys env t'"
proof -
  from assms(2) obtain cur q where cur: "row_by_id i t = Some cur"
    and q: "validate_quota_config (pk_provider cur) (inp\<lparr>qi_raw_key := []\<rparr>) False = Inr q"
    by (auto simp: update_endpoint_quota_def and_then_Inr Let_def split: option.splits)
  note v = validate_quota_config_valid [OF q]
  have ch: "\<exists>f. change_row i f t = Inr t'
      \<and> (\<forall>r. pk_id (f r) = pk_id r \<and> pk_provider (f r) = pk_provider r \<and> pk_name (f r) = pk_name r)
      \<and> (key_ok env cur \<longrightarrow> key_ok env (f cur))"
  proof (cases "qi_mode q = quota_separate_credentials")
    case False
    then have "qi_mode q = quota_disabled \<or> qi_mode q = quota_endpoint_credentials"
      using v(1) by (auto simp: quota_valid_def)
    with False assms(2) cur q v(1) show ?thesis
      by (intro exI [of _ "\<lambda>r. r\<lparr>pk_quota_mode := qi_mode q, pk_quota_flow := qi_flow q,
                  pk_quota_base_url := None, pk_encrypted_quota_key := None,
                  pk_quota_key_prefix := None, pk_quota_key_fingerprint := None,
                  pk_updated_at := stamp now\<rparr>"])
        (simp add: update_endpoint_quota_def key_ok_def quota_sidecar_ok_def)
  next
    case True
    let ?clear = "pk_quota_flow cur \<noteq> qi_flow q"
    let ?id = "?clear \<or> qi_flow q = flow_grok2api_v3_admin"
    let ?f = "\<lambda>r. r\<lparr>pk_quota_mode := qi_mode q, pk_quota_flow := qi_flow q,
                    pk_quota_base_url := Some (qi_base_url q),
                    pk_encrypted_quota_key := (if ?clear then None else pk_encrypted_quota_key r),
                    pk_quota_key_prefix := (if ?id then None else pk_quota_key_prefix r),
                    pk_quota_key_fingerprint := (if ?id then None else pk_quota_key_fingerprint r),
                    pk_updated_at := stamp now\<rparr>"
    have "change_row i ?f t = Inr t'"
      using True assms(2) cur q by (simp add: update_endpoint_quota_def Let_def)
    moreover have "key_ok env cur \<Longrightarrow> key_ok env (?f cur)"
      using True v(1,3) by (auto simp: key_ok_def quota_sidecar_ok_def split: if_splits option.splits)
    ultimately show ?thesis by (intro exI [of _ ?f]) simp
  qed
  then obtain f where f: "change_row i f t = Inr t'"
    "\<And>r. pk_id (f r) = pk_id r \<and> pk_provider (f r) = pk_provider r \<and> pk_name (f r) = pk_name r"
    "key_ok env cur \<longrightarrow> key_ok env (f cur)" by blast
  show ?thesis using wf_keys_change_row [OF f(1) assms(1) f(2)] f(3) cur by simp
qed

lemma rotate_endpoint_quota_key_wf:
  assumes "aead_ok (ke_crypto env)" "wf_keys env t" "rotate_endpoint_quota_key env n now i raw t = Inr t'"
  shows "wf_keys env t'"
proof -
  from assms(3) obtain cur c pre fp where cur: "row_by_id i t = Some cur"
    "pk_quota_mode cur = quota_separate_credentials" "seal_key env n (trim_space raw) = Inr c"
    "quota_key_identity (ke_crypto env) (pk_quota_flow cur) (trim_space raw) = (pre, fp)"
    "change_row i (\<lambda>r. r\<lparr>pk_encrypted_quota_key := Some c, pk_quota_key_prefix := pre,
                    pk_quota_key_fingerprint := fp, pk_updated_at := stamp now\<rparr>) t = Inr t'"
    by (auto simp: rotate_endpoint_quota_key_def and_then_Inr Let_def split: option.splits if_splits prod.splits)
  show ?thesis
  proof (rule wf_keys_change_row [OF cur(5) assms(2)])
    fix r assume "row_by_id i t = Some r" "key_ok env r"
    with cur(1,2,4) seal_key_sealed [OF assms(1) cur(3)]
    show "key_ok env (r\<lparr>pk_encrypted_quota_key := Some c, pk_quota_key_prefix := pre,
                    pk_quota_key_fingerprint := fp, pk_updated_at := stamp now\<rparr>)"
      by (auto simp: key_ok_def quota_sidecar_ok_def quota_key_identity_def split: if_splits)
  qed simp
qed

lemma update_base_url_wf:
  assumes "wf_keys env t" "update_base_url now i url t = Inr t'"
  shows "wf_keys env t'"
  using assms wf_keys_change_row normalize_base_url_shape
  by (fastforce simp: update_base_url_def and_then_Inr key_ok_def)

lemma rotate_key_wf:
  assumes "aead_ok (ke_crypto env)" "wf_keys env t" "rotate_key env n now i raw t = Inr t'"
  shows "wf_keys env t'"
proof -
  from assms(3) obtain c where c: "seal_key env n raw = Inr c"
    and ch: "change_row i (\<lambda>r. r\<lparr>pk_encrypted_key := c, pk_key_prefix := key_prefix raw,
          pk_fingerprint := fingerprint (ke_crypto env) raw, pk_cooldown_until := None,
          pk_cooldown_reason := None, pk_last_failed_at := None, pk_updated_at := stamp now\<rparr>) t = Inr t'"
    by (auto simp: rotate_key_def and_then_Inr split: if_splits)
  show ?thesis
    using wf_keys_change_row [OF ch assms(2)] seal_key_sealed [OF assms(1) c]
    by (simp add: key_ok_def)
qed

text \<open>The operations that write health columns only.\<close>

lemma health_update_wf:
  assumes "wf_keys env t"
  shows "reset_cooldown now i t = Inr t' \<Longrightarrow> wf_keys env t'"
    "reset_selection now i t = Inr t' \<Longrightarrow> wf_keys env t'"
    "demote_to_end now i t = Inr t' \<Longrightarrow> wf_keys env t'"
    "archive_key now i t = Inr t' \<Longrightarrow> wf_keys env t'"
    "restore_archived now i t = Inr t' \<Longrightarrow> wf_keys env t'"
  unfolding reset_cooldown_def reset_selection_def demote_to_end_def archive_key_def restore_archived_def
  by (erule wf_keys_change_row [OF _ assms]; simp add: key_ok_def)+

lemma mark_wf:
  assumes "wf_keys env t"
  shows "wf_keys env (set_enabled now i on t)" "wf_keys env (mark_last_event now i ev t)"
    "wf_keys env (mark_success now i t)"
    "wf_keys env (mark_failure_with_cooldown now i st msg until reason t)"
  unfolding set_enabled_def mark_last_event_def mark_success_def mark_failure_with_cooldown_def
  by (rule wf_keys_set_row [OF assms]; simp add: key_ok_def)+

lemma delete_key_wf: "wf_keys env t \<Longrightarrow> wf_keys env (delete_key i t)"
  unfolding wf_keys_def delete_key_def
  by (simp add: wf_table_delete_where rows_delete_where distinct_map_filter)

lemma select_endpoint_Inr:
  assumes "select_endpoint env now p t = Inr (e, t')"
  obtains r plain where "pick_row p (stamp now) t = Some r" "open_key env (pk_encrypted_key r) = Inr plain"
    "e = endpoint_of r plain"
    "t' = set_row (pk_id r) (\<lambda>r. r\<lparr>pk_last_used_at := Some (stamp now), pk_updated_at := stamp now\<rparr>) t"
  using assms by (auto simp: select_endpoint_def and_then_Inr split: option.splits)

lemma select_endpoint_wf:
  assumes "wf_keys env t" "select_endpoint env now p t = Inr (e, t')"
  shows "wf_keys env t'"
proof -
  from assms(2) obtain r :: provider_key where
    "t' = set_row (pk_id r) (\<lambda>r. r\<lparr>pk_last_used_at := Some (stamp now), pk_updated_at := stamp now\<rparr>) t"
    by (rule select_endpoint_Inr)
  then show ?thesis by (simp only:) (rule wf_keys_set_row [OF assms(1)]; simp add: key_ok_def)
qed

section \<open>Histories of a key table\<close>

text \<open>
  The tables that sequences of operations lead to from the empty one, whatever the arguments,
  the nonces and the clock. An operation that fails leaves the table alone and needs no rule.
\<close>

inductive key_history :: "key_env \<Rightarrow> key_table \<Rightarrow> bool" for env where
  start: "key_history env empty_table"
| add: "key_history env t \<Longrightarrow>
    add_endpoint_with_quota env n nq now p name url raw quota t = Inr (d, t') \<Longrightarrow> key_history env t'"
| quota: "key_history env t \<Longrightarrow> update_endpoint_quota now i inp t = Inr t' \<Longrightarrow> key_history env t'"
| quota_key: "key_history env t \<Longrightarrow> rotate_endpoint_quota_key env n now i raw t = Inr t' \<Longrightarrow> key_history env t'"
| base_url: "key_history env t \<Longrightarrow> update_base_url now i url t = Inr t' \<Longrightarrow> key_history env t'"
| rotate: "key_history env t \<Longrightarrow> rotate_key env n now i raw t = Inr t' \<Longrightarrow> key_history env t'"
| reset: "key_history env t \<Longrightarrow> reset_cooldown now i t = Inr t' \<Longrightarrow> key_history env t'"
| reset_sel: "key_history env t \<Longrightarrow> reset_selection now i t = Inr t' \<Longrightarrow> key_history env t'"
| demote: "key_history env t \<Longrightarrow> demote_to_end now i t = Inr t' \<Longrightarrow> key_history env t'"
| archive: "key_history env t \<Longrightarrow> archive_key now i t = Inr t' \<Longrightarrow> key_history env t'"
| restore: "key_history env t \<Longrightarrow> restore_archived now i t = Inr t' \<Longrightarrow> key_history env t'"
| enable: "key_history env t \<Longrightarrow> key_history env (set_enabled now i on t)"
| event: "key_history env t \<Longrightarrow> key_history env (mark_last_event now i ev t)"
| success: "key_history env t \<Longrightarrow> key_history env (mark_success now i t)"
| failure: "key_history env t \<Longrightarrow> key_history env (mark_failure_with_cooldown now i st msg until reason t)"
| remove: "key_history env t \<Longrightarrow> key_history env (delete_key i t)"
| select: "key_history env t \<Longrightarrow> select_endpoint env now p t = Inr (e, t') \<Longrightarrow> key_history env t'"

lemma history_wf:
  assumes "aead_ok (ke_crypto env)"
  shows "key_history env t \<Longrightarrow> wf_keys env t"
proof (induction rule: key_history.induct)
  case (add t n nq now p name url raw quota d t')
  then show ?case using add_endpoint_with_quota_wf [OF assms] by blast
next
  case (quota t now i inp t')
  then show ?case using update_endpoint_quota_wf by blast
next
  case (quota_key t n now i raw t')
  then show ?case using rotate_endpoint_quota_key_wf [OF assms] by blast
next
  case (base_url t now i url t')
  then show ?case using update_base_url_wf by blast
next
  case (rotate t n now i raw t')
  then show ?case using rotate_key_wf [OF assms] by blast
next
  case (select t now p e t')
  then show ?case using select_endpoint_wf by blast
next
  case (reset t now i t')
  then show ?case using health_update_wf(1) by blast
next
  case (reset_sel t now i t')
  then show ?case using health_update_wf(2) by blast
next
  case (demote t now i t')
  then show ?case using health_update_wf(3) by blast
next
  case (archive t now i t')
  then show ?case using health_update_wf(4) by blast
next
  case (restore t now i t')
  then show ?case using health_update_wf(5) by blast
qed (simp_all only: wf_keys_empty mark_wf delete_key_wf)

end
