(* ===== verification/KeySelection.thy ===== *)
theory KeySelection
  imports KeyLaws
begin

text \<open>
  The selection policy of internal/providers/keys.go: which row SelectEndpoint takes, and how
  MarkSuccess, MarkFailureWithCooldown and DemoteToEnd move a key in the order.
\<close>

section \<open>The row that is picked\<close>

lemma pick_row_None:
  "pick_row p now t = None \<longleftrightarrow> (\<forall>r \<in> set (rows t). \<not> selectable p now r)"
proof -
  have "pick_row p now t = None \<longleftrightarrow> filter (selectable p now) (rows t) = []"
    by (auto simp: pick_row_def split: list.splits) (metis list.distinct(1) set_empty set_sort)
  then show ?thesis by (simp add: filter_empty_conv)
qed

lemma pick_row_Some:
  assumes "pick_row p now t = Some r"
  shows "r \<in> set (rows t)" "selectable p now r"
    and "\<And>r'. r' \<in> set (rows t) \<Longrightarrow> selectable p now r' \<Longrightarrow> key_rank r \<le> key_rank r'"
proof -
  from assms obtain rs where rs: "sort_key key_rank (filter (selectable p now) (rows t)) = r # rs"
    by (auto simp: pick_row_def split: list.splits)
  have set: "set (r # rs) = {x \<in> set (rows t). selectable p now x}"
    unfolding rs [symmetric] by simp
  then show "r \<in> set (rows t)" "selectable p now r" by auto
  have "sorted (map key_rank (r # rs))" unfolding rs [symmetric] by (rule sorted_sort_key)
  then have "\<forall>x \<in> set rs. key_rank r \<le> key_rank x" by simp
  then show "key_rank r \<le> key_rank r'" if "r' \<in> set (rows t)" "selectable p now r'" for r'
    using that set by (auto simp: set_eq_iff)
qed

text \<open>Columns that selection does not read.\<close>

lemma rank_frame [simp]:
  "key_rank (r\<lparr>pk_last_used_at := a\<rparr>) = key_rank r" "key_rank (r\<lparr>pk_updated_at := b\<rparr>) = key_rank r"
  "key_rank (r\<lparr>pk_last_success_at := c\<rparr>) = key_rank r" "key_rank (r\<lparr>pk_consecutive_failures := d\<rparr>) = key_rank r"
  by (simp_all add: key_rank_def split: option.split)

lemma selectable_frame [simp]:
  "selectable p n (r\<lparr>pk_last_used_at := a\<rparr>) = selectable p n r"
  "selectable p n (r\<lparr>pk_updated_at := b\<rparr>) = selectable p n r"
  "selectable p n (r\<lparr>pk_last_success_at := c\<rparr>) = selectable p n r"
  "selectable p n (r\<lparr>pk_consecutive_failures := d\<rparr>) = selectable p n r"
  "selectable p n (r\<lparr>pk_last_failed_at := e\<rparr>) = selectable p n r"
  by (simp_all add: selectable_def)

lemma key_rank_inj: "key_rank r = key_rank r' \<Longrightarrow> pk_id r = pk_id r'"
  by (auto simp: key_rank_def split: option.splits)

lemma pick_row_eqI:
  assumes "wf_table pk_id t" "r \<in> set (rows t)" "selectable p now r"
    and "\<And>r'. r' \<in> set (rows t) \<Longrightarrow> selectable p now r' \<Longrightarrow> key_rank r \<le> key_rank r'"
  shows "pick_row p now t = Some r"
proof (cases "pick_row p now t")
  case None
  with assms(2,3) show ?thesis by (auto simp: pick_row_None)
next
  case (Some r')
  note r' = pick_row_Some [OF Some]
  have "key_rank r = key_rank r'" using assms(4) [OF r'(1,2)] r'(3) [OF assms(2,3)] by simp
  then have "pk_id r = pk_id r'" by (rule key_rank_inj)
  with wf_table_inj [OF assms(1,2) r'(1)] Some show ?thesis by simp
qed

section \<open>Failure and demotion\<close>

lemma row_set_row:
  "r' \<in> set (rows (set_row i f t)) \<Longrightarrow> \<exists>r \<in> set (rows t). r' = (if pk_id r = i then f r else r)"
  by (auto simp: rows_set_row)

lemma row_set_row_hit:
  assumes "r \<in> set (rows (set_row i f t))" "\<And>x. pk_id (f x) = pk_id x" "pk_id r = i"
  obtains x where "x \<in> set (rows t)" "pk_id x = i" "r = f x"
proof -
  from row_set_row [OF assms(1)] obtain x where "x \<in> set (rows t)" "r = (if pk_id x = i then f x else x)"
    by blast
  with assms(2,3) that show ?thesis by (cases "pk_id x = i") auto
qed

lemma cooling_not_selectable:
  "pk_cooldown_until r = Some u \<Longrightarrow> now \<le> u \<Longrightarrow> \<not> selectable p now r"
  by (auto simp: selectable_def)

lemma demoted_last:
  assumes "demote_to_end now i t = Inr t'"
    and "pick_row p n t' = Some r" "pk_id r = i" "r' \<in> set (rows t)" "selectable p n r'" "pk_id r' \<noteq> i"
  shows "\<exists>ts. pk_last_failed_at r' = Some ts \<and> stamp now \<le> ts"
proof -
  have t': "t' = set_row i (\<lambda>r. r\<lparr>pk_last_failed_at := Some (stamp now), pk_updated_at := stamp now\<rparr>) t"
    using assms(1) by (simp add: demote_to_end_def change_row_Inr)
  have "r' \<in> set (rows t')" using assms(4,6) by (force simp: t' rows_set_row)
  with pick_row_Some(3) [OF assms(2)] assms(5) have "key_rank r \<le> key_rank r'" by blast
  moreover have "pk_last_failed_at r = Some (stamp now)"
    using pick_row_Some(1) [OF assms(2)] unfolding t'
    by (elim row_set_row_hit [OF _ _ assms(3)]) simp_all
  ultimately show ?thesis
    by (auto simp: key_rank_def less_eq_rank_def split: option.splits)
qed

section \<open>The sticky winner\<close>

lemma key_rank_cleared:
  "pk_last_failed_at r' = None \<Longrightarrow> pk_id r' = pk_id r \<Longrightarrow> key_rank r' \<le> key_rank r"
  by (auto simp: key_rank_def less_eq_rank_def split: option.splits)

lemma success_keeps_winner:
  assumes wf: "wf_table pk_id t" and pick: "pick_row p n t = Some r"
    and same: "\<And>r'. r' \<in> set (rows t) \<Longrightarrow> selectable p n' r' = selectable p n r'"
  shows "\<exists>r'. pick_row p n' (mark_success now (pk_id r) t) = Some r' \<and> pk_id r' = pk_id r"
proof -
  let ?f = "\<lambda>r. r\<lparr>pk_last_success_at := Some (stamp now), pk_consecutive_failures := 0,
       pk_last_failed_at := None, pk_updated_at := stamp now\<rparr>"
  let ?t = "set_row (pk_id r) ?f t"
  note r = pick_row_Some [OF pick]
  have sel: "selectable p m (?f x) = selectable p m x" for m x by (simp add: selectable_def)
  have "pick_row p n' ?t = Some (?f r)"
  proof (rule pick_row_eqI)
    show "wf_table pk_id ?t" unfolding set_row_def by (rule wf_table_update_where [OF wf]) simp
    show "?f r \<in> set (rows ?t)" using r(1) by (force simp: rows_set_row)
    show "selectable p n' (?f r)" unfolding sel using r(1,2) same by simp
  next
    fix x assume x: "x \<in> set (rows ?t)" "selectable p n' x"
    then obtain y where y: "y \<in> set (rows t)" "x = (if pk_id y = pk_id r then ?f y else y)"
      using row_set_row by blast
    show "key_rank (?f r) \<le> key_rank x"
    proof (cases "pk_id y = pk_id r")
      case True
      then show ?thesis using y by (simp add: key_rank_cleared)
    next
      case False
      then have "selectable p n y" using x y same by simp
      from r(3) [OF y(1) this] have "key_rank r \<le> key_rank x" using y False by simp
      moreover have "key_rank (?f r) \<le> key_rank r" by (rule key_rank_cleared) simp_all
      ultimately show ?thesis by (rule order.trans [rotated])
    qed
  qed
  then show ?thesis unfolding mark_success_def by (intro exI [of _ "?f r"]) simp
qed

section \<open>What selecting leaves alone\<close>

lemma select_endpoint_frame:
  assumes "select_endpoint env now p t = Inr (e, t')"
  shows "tseq t' = tseq t" "length (rows t') = length (rows t)"
    and "se_id e \<noteq> i \<Longrightarrow> row_by_id i t' = row_by_id i t"
  using assms by (auto elim!: select_endpoint_Inr
      simp: set_row_def table_simps endpoint_of_def row_by_id_set_row [unfolded set_row_def])

end
