(* ===== verification/Instances.thy ===== *)
theory Instances
  imports KeySelection
begin

text \<open>
  A concrete cipher, environment and rows at which the properties are evaluated. The cipher marks
  the plaintext instead of encrypting it; that is all the laws of \<open>aead_ok\<close> ask for.
\<close>

definition demo_crypto :: crypto where
  "demo_crypto =
     \<lparr>seal = (\<lambda>k n p. CHR ''S'' # p),
      gcm_open = (\<lambda>k n c. case c of [] \<Rightarrow> None | x # p \<Rightarrow> if x = CHR ''S'' then Some p else None),
      sha256 = (\<lambda>s. take 32 (s @ replicate 32 (CHR ''0'')))\<rparr>"

definition demo_env :: key_env where
  "demo_env = \<lparr>ke_crypto = demo_crypto, ke_master = replicate 32 (CHR ''m'')\<rparr>"

definition demo_nonce :: bytes where "demo_nonce = replicate 12 (CHR ''n'')"

lemma demo_aead [simp]: "aead_ok demo_crypto"
  by (simp add: aead_ok_def demo_crypto_def)

lemma demo_digest [simp]: "digest_ok demo_crypto"
  by (auto simp: digest_ok_def demo_crypto_def min_def)

lemma demo_env_crypto [simp]: "ke_crypto demo_env = demo_crypto"
  by (simp add: demo_env_def)

lemma demo_open [simp]: "open_key demo_env (demo_nonce @ CHR ''S'' # p) = Inr p"
  by (simp add: open_key_def decrypt_def demo_env_def demo_crypto_def demo_nonce_def gcm_nonce_size_def)

definition demo_draft :: "string \<Rightarrow> string \<Rightarrow> key_draft" where
  "demo_draft p name =
     \<lparr>kd_provider = p, kd_name = name, kd_base_url = ''https://api.x.ai'', kd_key_prefix = ''xai-ab'',
      kd_fingerprint = ''0a1b2c'', kd_encrypted = demo_nonce @ ''Sxai-abc'', kd_now = ''2026-01-01T00:00:00Z'',
      kd_quota = \<lparr>qi_mode = quota_disabled, qi_flow = flow_grok2api_admin, qi_base_url = [], qi_raw_key = []\<rparr>,
      kd_quota_base = None, kd_encrypted_quota = None, kd_quota_prefix = None, kd_quota_fingerprint = None\<rparr>"

text \<open>Two Grok keys, the first of which has failed before.\<close>

definition demo_key1 :: provider_key where
  "demo_key1 = (build_key (demo_draft ''grok'' ''one'') 1)\<lparr>pk_last_failed_at := Some ''2026-01-02T00:00:00Z''\<rparr>"

definition demo_key2 :: provider_key where
  "demo_key2 = build_key (demo_draft ''grok'' ''two'') 2"

definition demo_keys :: key_table where
  "demo_keys = \<lparr>tseq = 2, rows = [demo_key1, demo_key2]\<rparr>"

lemma demo_key_ids [simp]: "pk_id demo_key1 = 1" "pk_id demo_key2 = 2"
  by (simp_all add: demo_key1_def demo_key2_def build_key_def)

lemma demo_rows [simp]: "rows demo_keys = [demo_key1, demo_key2]"
  by (simp add: demo_keys_def)

lemma demo_ranks [simp]:
  "key_rank demo_key1 = Demoted ''2026-01-02T00:00:00Z'' 1" "key_rank demo_key2 = Fresh 2"
  by (simp_all add: key_rank_def demo_key1_def demo_key2_def build_key_def)

lemma demo_selectable [simp]:
  "selectable ''grok'' now demo_key1" "selectable ''grok'' now demo_key2"
  by (simp_all add: selectable_def demo_key1_def demo_key2_def build_key_def demo_draft_def)

lemma demo_sealed [simp]:
  "open_key demo_env (pk_encrypted_key demo_key1) = Inr ''xai-abc''"
  "open_key demo_env (pk_encrypted_key demo_key2) = Inr ''xai-abc''"
  by (simp_all add: demo_key1_def demo_key2_def build_key_def demo_draft_def)

lemma demo_pick [simp]: "pick_row ''grok'' now demo_keys = Some demo_key2"
  by (simp add: pick_row_def less_eq_rank_def)

lemma demo_select:
  "select_endpoint demo_env now ''grok'' demo_keys =
   Inr (endpoint_of demo_key2 ''xai-abc'',
        set_row 2 (\<lambda>r. r\<lparr>pk_last_used_at := Some (stamp now), pk_updated_at := stamp now\<rparr>) demo_keys)"
  by (simp add: select_endpoint_def validate_provider_def)

lemma demo_shape: "endpoint_shape ''https://api.x.ai''"
  unfolding endpoint_shape_def
  by (intro exI [of _ "''https''"] exI [of _ "''api.x.ai''"] exI [of _ "[]"]) simp

lemma demo_wf [simp]: "wf_keys demo_env demo_keys"
proof -
  have flows: "allowed_flows ''grok'' = [flow_grok2api_admin, flow_grok2api_v3_admin]"
    by (simp add: allowed_flows_def quota_flow_policy_def validate_provider_def)
  have v: "quota_valid ''grok'' quota_disabled flow_grok2api_admin"
    by (simp add: quota_valid_def flows all_providers_def)
  have "key_ok demo_env demo_key1" "key_ok demo_env demo_key2"
    using v demo_shape by (simp_all add: key_ok_def quota_sidecar_ok_def sealed_def demo_key1_def demo_key2_def
        build_key_def demo_draft_def)
  then show ?thesis
    by (simp add: wf_keys_def wf_table_def)
       (simp add: demo_keys_def demo_key1_def demo_key2_def build_key_def demo_draft_def)
qed

end
