(* ===== verification/KeyCooldown.thy ===== *)
theory KeyCooldown
  imports KeySelection
begin

text \<open>
  How long a cooldown lasts: the operations of internal/providers/keys.go that leave the cooldown of a
  key alone, as a step relation, and what holds of the key along every run of them. The operations
  left out for the key itself are the four that end or shorten its cooldown.
\<close>

section \<open>Operations that leave a cooldown alone\<close>

text \<open>
  Every operation on any key, but for key \<open>i\<close> none of ResetCooldown, UpdateBaseURL and RotateKey, and no
  failure whose cooldown is missing or ends before \<open>u\<close>.
\<close>

inductive undisturbed :: "key_env \<Rightarrow> rowid \<Rightarrow> timestamp \<Rightarrow> key_table \<Rightarrow> key_table \<Rightarrow> bool" for env i u where
  add: "add_endpoint_with_quota env n nq now p name url raw quota t = Inr (d, t') \<Longrightarrow> undisturbed env i u t t'"
| quota: "update_endpoint_quota now j inp t = Inr t' \<Longrightarrow> undisturbed env i u t t'"
| quota_key: "rotate_endpoint_quota_key env n now j raw t = Inr t' \<Longrightarrow> undisturbed env i u t t'"
| base_url: "j \<noteq> i \<Longrightarrow> update_base_url now j url t = Inr t' \<Longrightarrow> undisturbed env i u t t'"
| rotate: "j \<noteq> i \<Longrightarrow> rotate_key env n now j raw t = Inr t' \<Longrightarrow> undisturbed env i u t t'"
| reset: "j \<noteq> i \<Longrightarrow> reset_cooldown now j t = Inr t' \<Longrightarrow> undisturbed env i u t t'"
| reset_sel: "reset_selection now j t = Inr t' \<Longrightarrow> undisturbed env i u t t'"
| demote: "demote_to_end now j t = Inr t' \<Longrightarrow> undisturbed env i u t t'"
| archive: "archive_key now j t = Inr t' \<Longrightarrow> undisturbed env i u t t'"
| restore: "restore_archived now j t = Inr t' \<Longrightarrow> undisturbed env i u t t'"
| enable: "undisturbed env i u t (set_enabled now j on t)"
| event: "undisturbed env i u t (mark_last_event now j ev t)"
| success: "undisturbed env i u t (mark_success now j t)"
| failure: "j \<noteq> i \<or> (\<exists>v. until = Some v \<and> u \<le> stamp v) \<Longrightarrow>
    undisturbed env i u t (mark_failure_with_cooldown now j st msg until reason t)"
| remove: "undisturbed env i u t (delete_key j t)"
| select: "select_endpoint env now p t = Inr (e, t') \<Longrightarrow> undisturbed env i u t t'"

section \<open>The cooldown along a run\<close>

definition cools_from :: "key_table \<Rightarrow> rowid \<Rightarrow> timestamp \<Rightarrow> bool" where
  "cools_from t i u \<longleftrightarrow>
     i \<le> tseq t \<and> (\<forall>r \<in> set (rows t). pk_id r = i \<longrightarrow> (\<exists>v. pk_cooldown_until r = Some v \<and> u \<le> v))"

lemma cools_from_set_row:
  assumes "cools_from t i u" "\<And>r. pk_id (f r) = pk_id r"
    and "\<And>r. j = i \<Longrightarrow> pk_cooldown_until (f r) = pk_cooldown_until r \<or> (\<exists>v. pk_cooldown_until (f r) = Some v \<and> u \<le> v)"
  shows "cools_from (set_row j f t) i u"
  unfolding cools_from_def
proof (intro conjI ballI impI)
  show "i \<le> tseq (set_row j f t)" using assms(1) by (simp add: cools_from_def set_row_def table_simps)
  fix x assume x: "x \<in> set (rows (set_row j f t))" "pk_id x = i"
  then obtain r where r: "r \<in> set (rows t)" "x = (if pk_id r = j then f r else r)" using row_set_row by blast
  with x(2) assms(2) have id: "pk_id r = i" by (simp split: if_splits)
  with assms(1) r(1) obtain v where v: "pk_cooldown_until r = Some v" "u \<le> v" by (auto simp: cools_from_def)
  show "\<exists>v. pk_cooldown_until x = Some v \<and> u \<le> v"
  proof (cases "j = i")
    case True
    with r(2) id have "x = f r" by simp
    with assms(3) [OF True, of r] v show ?thesis by auto
  qed (use r(2) id v in simp)
qed

lemma cools_from_change_row:
  assumes "change_row j f t = Inr t'" "cools_from t i u" "\<And>r. pk_id (f r) = pk_id r"
    and "\<And>r. j = i \<Longrightarrow> pk_cooldown_until (f r) = pk_cooldown_until r \<or> (\<exists>v. pk_cooldown_until (f r) = Some v \<and> u \<le> v)"
  shows "cools_from t' i u"
  using assms cools_from_set_row by (simp add: change_row_Inr)

text \<open>A new row has a new id.\<close>

lemma cools_from_add:
  assumes "add_endpoint_with_quota env n nq now p name url raw quota t = Inr (d, t')" "cools_from t i u"
  shows "cools_from t' i u"
proof -
  from assms(1) obtain dr where "t' = snd (insert_row (build_key dr) t)"
    by (auto simp: add_endpoint_with_quota_def and_then_Inr Let_def insert_row_def split: if_splits prod.splits)
  moreover have "pk_id (build_key dr (tseq t + 1)) \<noteq> i" using assms(2) by (simp add: build_key_def cools_from_def)
  ultimately show ?thesis using assms(2) by (simp add: cools_from_def table_simps)
qed

lemma undisturbed_cools: "undisturbed env i u t t' \<Longrightarrow> cools_from t i u \<Longrightarrow> cools_from t' i u"
proof (induction rule: undisturbed.induct)
  case (add n nq now p name url raw quota t d t')
  then show ?case by (rule cools_from_add)
next
  case (quota now j inp t t')
  then show ?case
    by (auto simp: update_endpoint_quota_def and_then_Inr Let_def split: if_splits option.splits elim!: cools_from_change_row)
next
  case (quota_key n now j raw t t')
  then show ?case
    by (auto simp: rotate_endpoint_quota_key_def and_then_Inr Let_def split: if_splits option.splits prod.splits
        elim!: cools_from_change_row)
next
  case (base_url j now url t t')
  then show ?case by (auto simp: update_base_url_def and_then_Inr elim!: cools_from_change_row)
next
  case (rotate j n now raw t t')
  then show ?case by (auto simp: rotate_key_def and_then_Inr split: if_splits elim!: cools_from_change_row)
next
  case (failure j until t now st msg reason)
  then show ?case unfolding mark_failure_with_cooldown_def by (intro cools_from_set_row) auto
next
  case (remove t j)
  then show ?case by (auto simp: cools_from_def delete_key_def table_simps)
next
  case (select now p t e t')
  then show ?case by (auto elim!: select_endpoint_Inr intro!: cools_from_set_row)
qed (auto simp: reset_cooldown_def reset_selection_def demote_to_end_def archive_key_def restore_archived_def
    set_enabled_def mark_last_event_def mark_success_def elim!: cools_from_change_row intro!: cools_from_set_row)

lemma run_cools:
  "(undisturbed env i u)\<^sup>*\<^sup>* t t' \<Longrightarrow> cools_from t i u \<Longrightarrow> cools_from t' i u"
  by (induction rule: rtranclp_induct) (auto intro: undisturbed_cools)

lemma failure_cools_from:
  assumes "i \<le> tseq t"
  shows "cools_from (mark_failure_with_cooldown now i st msg (Some until) reason t) i (stamp until)"
  unfolding cools_from_def
proof (intro conjI ballI impI)
  show "i \<le> tseq (mark_failure_with_cooldown now i st msg (Some until) reason t)"
    using assms by (simp add: mark_failure_with_cooldown_def set_row_def table_simps)
  fix x assume x: "x \<in> set (rows (mark_failure_with_cooldown now i st msg (Some until) reason t))" "pk_id x = i"
  show "\<exists>v. pk_cooldown_until x = Some v \<and> stamp until \<le> v"
    using x(1) unfolding mark_failure_with_cooldown_def by (elim row_set_row_hit [OF _ _ x(2)]) simp_all
qed

text \<open>While the cooldown lasts, the key is not selected.\<close>

lemma cools_from_not_selected:
  assumes "cools_from t i u" "select_endpoint env later p t = Inr (e, t')" "stamp later \<le> u"
  shows "se_id e \<noteq> i"
proof
  assume id: "se_id e = i"
  from assms(2) obtain r plain where r: "pick_row p (stamp later) t = Some r" "e = endpoint_of r plain"
    by (rule select_endpoint_Inr)
  with id have "pk_id r = i" by (simp add: endpoint_of_def)
  with assms(1) pick_row_Some(1) [OF r(1)] obtain v where "pk_cooldown_until r = Some v" "u \<le> v"
    by (auto simp: cools_from_def)
  with assms(3) pick_row_Some(2) [OF r(1)] show False using cooling_not_selectable order_trans by blast
qed

end
