(* ===== verification/KeyProperties.thy ===== *)
theory KeyProperties
  imports Instances KeyCooldown
begin

text \<open>
  The properties of the provider key store, each with an instance at the rows of Instances.
\<close>

lemma open_sealed: "sealed env c \<Longrightarrow> \<exists>p. open_key env c = Inr p"
  by (simp add: sealed_def)

lemma wf_keys_row: "wf_keys env t \<Longrightarrow> r \<in> set (rows t) \<Longrightarrow> key_ok env r"
  by (simp add: wf_keys_def)

lemma demo_history_wf: "wf_keys demo_env empty_table" by simp

text \<open>The order of the selection, as its ORDER BY states it.\<close>

lemma key_rank_order:
  "key_rank r \<le> key_rank x \<longleftrightarrow>
     (case (pk_last_failed_at r, pk_last_failed_at x) of
        (None, None) \<Rightarrow> pk_id r \<le> pk_id x
      | (None, Some _) \<Rightarrow> True
      | (Some _, None) \<Rightarrow> False
      | (Some f, Some g) \<Rightarrow> f < g \<or> f = g \<and> pk_id r \<le> pk_id x)"
  by (auto simp: key_rank_def less_eq_rank_def split: option.split)

text \<open>
  C5. SelectEndpoint takes, of the provider's rows that are enabled, not archived and not cooling down,
  the one that has not failed with the least id, or, when each of them has failed, the one whose failure
  is oldest and among equals the one with the least id. The name, the base URL and the key it returns are
  those of that one row, and it writes nothing but the row's last_used_at and updated_at.
\<close>

theorem selection_policy:
  assumes "select_endpoint env now p t = Inr (e, t')"
  shows "\<exists>r \<in> set (rows t).
     (let eligible = (\<lambda>x. pk_provider x = p \<and> pk_enabled x \<and> pk_archived_at x = None
            \<and> (case pk_cooldown_until x of None \<Rightarrow> True | Some u \<Rightarrow> u < stamp now))
      in eligible r
       \<and> (\<forall>x \<in> set (rows t). eligible x \<longrightarrow>
            (case (pk_last_failed_at r, pk_last_failed_at x) of
               (None, None) \<Rightarrow> pk_id r \<le> pk_id x
             | (None, Some _) \<Rightarrow> True
             | (Some _, None) \<Rightarrow> False
             | (Some f, Some g) \<Rightarrow> f < g \<or> f = g \<and> pk_id r \<le> pk_id x)))
     \<and> se_id e = pk_id r \<and> se_provider e = p \<and> se_name e = pk_name r \<and> se_base_url e = pk_base_url r
     \<and> open_key env (pk_encrypted_key r) = Inr (se_api_key e)
     \<and> tseq t' = tseq t
     \<and> rows t' = map (\<lambda>x. if pk_id x = pk_id r
         then x\<lparr>pk_last_used_at := Some (stamp now), pk_updated_at := stamp now\<rparr> else x) (rows t)"
  using assms
proof (rule select_endpoint_Inr)
  fix r plain
  assume r: "pick_row p (stamp now) t = Some r" "open_key env (pk_encrypted_key r) = Inr plain" "e = endpoint_of r plain"
    and t': "t' = set_row (pk_id r) (\<lambda>r. r\<lparr>pk_last_used_at := Some (stamp now), pk_updated_at := stamp now\<rparr>) t"
  have sel: "selectable p (stamp now) x \<longleftrightarrow> pk_provider x = p \<and> pk_enabled x \<and> pk_archived_at x = None
      \<and> (case pk_cooldown_until x of None \<Rightarrow> True | Some u \<Rightarrow> u < stamp now)" for x
    by (auto simp: selectable_def)
  note pick = pick_row_Some [OF r(1), unfolded sel key_rank_order]
  have t: "tseq t' = tseq t" using select_endpoint_frame(1) [OF assms] .
  show ?thesis
    unfolding Let_def
    by (rule bexI [OF _ pick(1)], intro conjI ballI impI)
      (use pick(2,3) r(2,3) t in \<open>simp_all add: endpoint_of_def t' rows_set_row\<close>)
qed

lemma selection_policy_witness:
  "\<exists>r \<in> {demo_key1, demo_key2}. pk_enabled r \<and> pk_archived_at r = None \<and> pk_last_failed_at r = None
     \<and> se_id (endpoint_of demo_key2 ''xai-abc'') = pk_id r"
  using selection_policy [OF demo_select [of 0]]
  by (auto simp: Let_def endpoint_of_def demo_key2_def build_key_def demo_draft_def)

text \<open>
  Selection is total: on every table that a history of operations leaves, it fails only for
  an unknown provider or when no row qualifies; a stored key is always one it can decrypt.
\<close>

theorem selection_total:
  assumes "aead_ok (ke_crypto env)" "key_history env t"
  shows "select_endpoint env now p t = Inl err \<longleftrightarrow>
     p \<notin> set all_providers \<and> err = ErrUnknownProvider
     \<or> p \<in> set all_providers \<and> (\<forall>r \<in> set (rows t). \<not> selectable p (stamp now) r) \<and> err = ErrNoEnabledKey"
proof -
  have wf: "wf_keys env t" using assms by (rule history_wf)
  show ?thesis
  proof (cases "pick_row p (stamp now) t")
    case None
    then have "\<forall>r \<in> set (rows t). \<not> selectable p (stamp now) r" by (simp only: pick_row_None)
    with None show ?thesis
      by (auto simp: select_endpoint_def and_then_Inl validate_provider_bad validate_provider_ok)
  next
    case (Some r)
    note r = pick_row_Some [OF Some]
    obtain plain where "open_key env (pk_encrypted_key r) = Inr plain"
      using wf_keys_row [OF wf r(1)] open_sealed by (auto simp: key_ok_def)
    with Some r show ?thesis
      by (auto simp: select_endpoint_def and_then_Inl validate_provider_bad)
  qed
qed

lemma selection_total_witness:
  "select_endpoint demo_env 0 ''grok'' empty_table = Inl ErrNoEnabledKey"
  using selection_total [OF _ key_history.start, of demo_env 0 "''grok''" ErrNoEnabledKey]
  by (simp add: all_providers_def) (simp add: empty_table_def)

text \<open>
  C10. Whatever operations ran, the table is sound: ids are unique and ascending, no provider has
  two keys of one name, every base URL is a normalized http(s) origin, every ciphertext can be
  opened, the failure counters are consistent and the quota sidecar fits the provider.
\<close>

theorem history_invariant:
  assumes "aead_ok (ke_crypto env)" "key_history env t"
  shows "wf_table pk_id t \<and> distinct (map (\<lambda>r. (pk_provider r, pk_name r)) (rows t))
     \<and> (\<forall>r \<in> set (rows t). key_ok env r)"
  using history_wf [OF assms] by (simp add: wf_keys_def)

lemma history_invariant_witness:
  "wf_table pk_id (mark_success 0 1 empty_table)"
  using history_invariant [OF _ key_history.success [OF key_history.start], of demo_env 0 1] by simp







text \<open>
  Sticky winner: after a success is recorded for the key that was selected, the next
  selection takes the same key again, as long as the set of keys that qualify is the same.
\<close>

theorem sticky_winner:
  assumes "wf_keys env t" "select_endpoint env now p t = Inr (e, t1)"
    and "\<And>r. r \<in> set (rows t1) \<Longrightarrow> selectable p (stamp later) r = selectable p (stamp now) r"
    and "select_endpoint env later p (mark_success finished (se_id e) t1) = Inr (e', t2)"
  shows "se_id e' = se_id e"
  using assms(2)
proof (rule select_endpoint_Inr)
  fix r plain
  let ?f = "\<lambda>r :: provider_key. r\<lparr>pk_last_used_at := Some (stamp now), pk_updated_at := stamp now\<rparr>"
  assume r: "pick_row p (stamp now) t = Some r" "e = endpoint_of r plain" "t1 = set_row (pk_id r) ?f t"
  have wf: "wf_table pk_id t" "wf_table pk_id t1"
    using assms(1) select_endpoint_wf [OF assms(1,2)] by (simp_all add: wf_keys_def)
  note pr = pick_row_Some [OF r(1)]
  have "pick_row p (stamp now) t1 = Some (?f r)"
  proof (rule pick_row_eqI [OF wf(2)])
    show "?f r \<in> set (rows t1)" using pr(1) by (force simp: r(3) rows_set_row)
    show "selectable p (stamp now) (?f r)" using pr(2) by (simp add: selectable_def)
  next
    fix x assume x: "x \<in> set (rows t1)" "selectable p (stamp now) x"
    then obtain y where y: "y \<in> set (rows t)" "x = (if pk_id y = pk_id r then ?f y else y)"
      unfolding r(3) using row_set_row by blast
    have "selectable p (stamp now) y" "key_rank x = key_rank y"
      using x(2) y(2) by (simp_all split: if_splits)
    with pr(3) [OF y(1)] show "key_rank (?f r) \<le> key_rank x" by simp
  qed
  then have "\<exists>r'. pick_row p (stamp later) (mark_success finished (pk_id r) t1) = Some r' \<and> pk_id r' = pk_id r"
    using success_keeps_winner [OF wf(2) _ assms(3), of "?f r" finished] by simp
  then obtain r' where "pick_row p (stamp later) (mark_success finished (pk_id r) t1) = Some r'" "pk_id r' = pk_id r"
    by blast
  then show ?thesis using assms(4)
    by (elim select_endpoint_Inr) (simp add: r(2) endpoint_of_def)
qed

lemma sticky_winner_witness:
  "\<exists>e' t2. select_endpoint demo_env 0 ''grok''
     (mark_success 0 2 (set_row 2 (\<lambda>r. r\<lparr>pk_last_used_at := Some (stamp 0), pk_updated_at := stamp 0\<rparr>) demo_keys))
     = Inr (e', t2) \<and> se_id e' = 2"
proof -
  let ?t1 = "set_row 2 (\<lambda>r. r\<lparr>pk_last_used_at := Some (stamp 0), pk_updated_at := stamp 0\<rparr>) demo_keys"
  let ?t2 = "mark_success 0 2 ?t1"
  obtain k where k: "rows ?t2 = [demo_key1, k]" "selectable ''grok'' (stamp 0) k"
    "open_key demo_env (pk_encrypted_key k) = Inr ''xai-abc''"
    by (simp add: mark_success_def rows_set_row)
  then have "\<exists>r. pick_row ''grok'' (stamp 0) ?t2 = Some r \<and> (r = demo_key1 \<or> r = k)"
    by (cases "Demoted ''2026-01-02T00:00:00Z'' 1 \<le> key_rank k") (simp_all add: pick_row_def)
  then obtain r where "pick_row ''grok'' (stamp 0) ?t2 = Some r" "r = demo_key1 \<or> r = k" by blast
  then obtain e' t2 where "select_endpoint demo_env 0 ''grok'' ?t2 = Inr (e', t2)"
    using k(3) by (auto simp: select_endpoint_def validate_provider_def)
  with sticky_winner [OF demo_wf demo_select [of 0] refl] show ?thesis
    by (fastforce simp: endpoint_of_def)
qed

text \<open>
  Demotion: after DemoteToEnd at an instant whose timestamp is later than every recorded
  failure, the key is selected only when no other key of the provider qualifies.
\<close>

theorem demoted_key_is_last:
  assumes "demote_to_end now i t = Inr t'" "select_endpoint env later p t' = Inr (e, t'')" "se_id e = i"
    and "\<And>r ts. r \<in> set (rows t) \<Longrightarrow> pk_last_failed_at r = Some ts \<Longrightarrow> ts < stamp now"
    and "r' \<in> set (rows t)" "pk_id r' \<noteq> i"
  shows "\<not> selectable p (stamp later) r'"
proof
  assume sel: "selectable p (stamp later) r'"
  from assms(2) obtain r where r: "pick_row p (stamp later) t' = Some r" "pk_id r = i"
    using assms(3) by (elim select_endpoint_Inr) (simp add: endpoint_of_def)
  from demoted_last [OF assms(1) r assms(5) sel assms(6)] assms(4) [OF assms(5)] show False by force
qed

lemma demoted_key_is_last_witness:
  "\<not> selectable ''grok'' (stamp 0) (demo_key1\<lparr>pk_enabled := False\<rparr>)"
proof -
  let ?d = "demo_key1\<lparr>pk_enabled := False\<rparr>\<lparr>pk_last_failed_at := None\<rparr>"
  let ?t = "\<lparr>tseq = 2, rows = [?d, demo_key2]\<rparr>"
  let ?k = "demo_key2\<lparr>pk_last_failed_at := Some (stamp 0), pk_updated_at := stamp 0\<rparr>"
  have d: "demote_to_end 0 2 ?t = Inr \<lparr>tseq = 2, rows = [?d, ?k]\<rparr>"
    by (simp add: demote_to_end_def change_row_def update_where_def)
  have off: "\<not> selectable ''grok'' (stamp 0) ?d" by (simp add: selectable_def)
  have "open_key demo_env (pk_encrypted_key ?k) = Inr ''xai-abc''" "pk_id ?k = 2" by simp_all
  then obtain e t'' where e: "select_endpoint demo_env 0 ''grok'' \<lparr>tseq = 2, rows = [?d, ?k]\<rparr> = Inr (e, t'')" "se_id e = 2"
    using off by (simp add: select_endpoint_def validate_provider_def pick_row_def endpoint_of_def)
  have "pk_last_failed_at demo_key2 = None" by (simp add: demo_key2_def build_key_def)
  then have "\<not> selectable ''grok'' (stamp 0) ?d"
    by (intro demoted_key_is_last [OF d e]) auto
  then show ?thesis by simp
qed

text \<open>
  C21. Adding an endpoint is a round trip: the row gets a new id, Get returns exactly the display
  row that was returned, decrypting gives back the raw key paired with the normalized URL, and
  every other row is as it was.
\<close>

theorem added_endpoint_readable:
  assumes "aead_ok (ke_crypto env)" "wf_keys env t"
    and "add_endpoint_with_quota env n nq now p name url raw quota t = Inr (d, t')"
  shows "\<exists>u. normalize_base_url url = Inr u
     \<and> row_by_id (pk_id d) t = None \<and> get_key (pk_id d) t' = Inr d
     \<and> raw_endpoint env (pk_id d) t' =
         Inr \<lparr>se_id = pk_id d, se_provider = p, se_name = name, se_base_url = u, se_api_key = raw\<rparr>
     \<and> (\<forall>i. i \<noteq> pk_id d \<longrightarrow> row_by_id i t' = row_by_id i t)"
  using assms(3)
proof (rule add_endpoint_with_quota_Inr)
  fix dr
  assume dr: "kd_provider dr = p" "kd_name dr = name"
    "normalize_base_url url = Inr (kd_base_url dr)" "seal_key env n raw = Inr (kd_encrypted dr)"
    "d = scan_display_key (build_key dr (fst (insert_row (build_key dr) t)))"
    "t' = snd (insert_row (build_key dr) t)"
  let ?i = "fst (insert_row (build_key dr) t)"
  have i: "pk_id d = ?i"
    by (simp add: dr(5) scan_display_key_def key_columns.defs build_key_def)
  have wf: "wf_table pk_id t" using assms(2) by (simp add: wf_keys_def)
  have new: "row_by_id ?i t' = Some (build_key dr ?i)"
    unfolding row_by_id_def dr(6) by (rule key_rows.insert_found [OF wf])
  have "r \<in> set (rows t) \<Longrightarrow> pk_id r \<noteq> ?i" for r
    using key_rows.insert_fresh [OF wf, of r dr] by auto
  then have "row_by_id ?i t = None" by (auto simp: row_by_id_def find_row_None)
  moreover have "j \<noteq> ?i \<Longrightarrow> row_by_id j t' = row_by_id j t" for j
    unfolding row_by_id_def dr(6) by (rule key_rows.insert_frame [OF wf])
  ultimately show ?thesis
    using seal_key_sealed [OF assms(1) dr(4)] new dr(1-3,5) unfolding i
    by (simp add: get_key_def raw_endpoint_def endpoint_of_def) (simp add: build_key_def)
qed

lemma demo_add:
  assumes "name \<noteq> []"
  shows "\<exists>d t'. add_endpoint demo_env demo_nonce [] 0 ''grok'' name ''https://api.x.ai/v1/'' ''xai-abc'' empty_table = Inr (d, t')
     \<and> pk_base_url d = ''https://api.x.ai/v1'' \<and> pk_key_prefix d = ''xai-ab''"
proof -
  have n: "normalize_base_url ''https://api.x.ai/v1/'' = Inr ''https://api.x.ai/v1''" by code_simp
  have v: "validate_quota_config ''grok''
      \<lparr>qi_mode = quota_disabled, qi_flow = flow_grok2api_admin, qi_base_url = [], qi_raw_key = []\<rparr> True
    = Inr \<lparr>qi_mode = quota_disabled, qi_flow = flow_grok2api_admin, qi_base_url = [], qi_raw_key = []\<rparr>"
    by code_simp
  have s: "seal_key demo_env demo_nonce ''xai-abc'' = Inr (demo_nonce @ ''Sxai-abc'')"
    by (simp add: seal_key_def encrypt_def demo_env_def demo_crypto_def demo_nonce_def gcm_nonce_size_def)
  have d: "default_quota_config ''grok'' = Inr (quota_disabled, flow_grok2api_admin)"
    by (simp add: default_quota_config_def default_flow_def quota_flow_policy_def validate_provider_def)
  show ?thesis using assms
    by (simp add: add_endpoint_def d add_endpoint_with_quota_def n v s validate_provider_def quota_columns_def
        Let_def case_prod_beta empty_table_def)
      (simp add: scan_display_key_def key_columns.defs build_key_def key_prefix_def key_prefix_len_def)
qed

lemma added_endpoint_readable_witness:
  "\<exists>d t'. raw_endpoint demo_env (pk_id d) t' = Inr \<lparr>se_id = pk_id d, se_provider = ''grok'', se_name = ''k'',
      se_base_url = ''https://api.x.ai/v1'', se_api_key = ''xai-abc''\<rparr> \<and> get_key (pk_id d) t' = Inr d"
proof -
  obtain d t' mode flow where "add_endpoint_with_quota demo_env demo_nonce [] 0 ''grok'' ''k'' ''https://api.x.ai/v1/''
     ''xai-abc'' \<lparr>qi_mode = mode, qi_flow = flow, qi_base_url = [], qi_raw_key = []\<rparr> empty_table = Inr (d, t')"
    using demo_add [of "''k''"] by (auto simp: add_endpoint_def and_then_Inr)
  moreover have "normalize_base_url ''https://api.x.ai/v1/'' = Inr ''https://api.x.ai/v1''" by code_simp
  ultimately show ?thesis using added_endpoint_readable [of demo_env empty_table] by fastforce
qed

text \<open>
  Quota credentials follow the endpoint's mode: disabled gives ErrQuotaDisabled,
  endpoint_credentials gives the pair that selection would use, separate_credentials gives the
  separate pair or ErrQuotaNotConfigured when no separate key is stored. A stored endpoint never
  fails in another way, and the inference key is never sent to the separate quota URL.
\<close>

theorem quota_credentials_by_mode:
  assumes "aead_ok (ke_crypto env)" "key_history env t" "row_by_id i t = Some r"
  shows "pk_quota_mode r = quota_disabled \<and> resolve_endpoint_quota env i t = Inl ErrQuotaDisabled
    \<or> pk_quota_mode r = quota_endpoint_credentials
      \<and> (\<exists>plain. raw_endpoint env i t = Inr (endpoint_of r plain) \<and> resolve_endpoint_quota env i t =
          Inr \<lparr>rq_endpoint_id = i, rq_provider = pk_provider r, rq_mode = pk_quota_mode r,
               rq_flow = pk_quota_flow r, rq_base_url = pk_base_url r, rq_api_key = plain\<rparr>)
    \<or> pk_quota_mode r = quota_separate_credentials
      \<and> (case pk_encrypted_quota_key r of
           None \<Rightarrow> resolve_endpoint_quota env i t = Inl ErrQuotaNotConfigured
         | Some c \<Rightarrow> (\<exists>url plain. pk_quota_base_url r = Some url \<and> endpoint_shape url
             \<and> open_key env c = Inr plain \<and> resolve_endpoint_quota env i t =
          Inr \<lparr>rq_endpoint_id = i, rq_provider = pk_provider r, rq_mode = pk_quota_mode r,
               rq_flow = pk_quota_flow r, rq_base_url = url, rq_api_key = plain\<rparr>))"
proof -
  have ok: "key_ok env r"
    using history_wf [OF assms(1,2)] row_by_id_Some [OF assms(3)] wf_keys_row by blast
  obtain plain where plain: "open_key env (pk_encrypted_key r) = Inr plain"
    using ok by (auto simp: key_ok_def sealed_def)
  have ne: "endpoint_shape u \<Longrightarrow> u \<noteq> []" for u by (auto simp: endpoint_shape_def)
  have q: "quota_sidecar_ok env r" using ok by (simp add: key_ok_def)
  then consider "pk_quota_mode r = quota_disabled" | "pk_quota_mode r = quota_endpoint_credentials"
    | "pk_quota_mode r = quota_separate_credentials"
    by (auto simp: quota_sidecar_ok_def quota_valid_def)
  then show ?thesis
  proof cases
    case 3
    then obtain url where url: "pk_quota_base_url r = Some url" "endpoint_shape url"
      using q by (auto simp: quota_sidecar_ok_def)
    then show ?thesis
    proof (cases "pk_encrypted_quota_key r")
      case (Some c)
      then have "sealed env c" using q by (simp add: quota_sidecar_ok_def)
      with 3 Some url ne [OF url(2)] assms(3) show ?thesis
        by (auto simp: resolve_endpoint_quota_def sealed_def)
    qed (use 3 assms(3) in \<open>simp add: resolve_endpoint_quota_def\<close>)
  qed (use assms(3) plain in \<open>simp_all add: resolve_endpoint_quota_def raw_endpoint_def\<close>)
qed

lemma quota_credentials_by_mode_witness:
  "\<exists>t r. row_by_id 1 t = Some r \<and> resolve_endpoint_quota demo_env 1 t = Inl ErrQuotaDisabled"
proof -
  obtain d t' mode flow where add: "add_endpoint_with_quota demo_env demo_nonce [] 0 ''grok'' ''k'' ''https://api.x.ai/v1/''
     ''xai-abc'' \<lparr>qi_mode = mode, qi_flow = flow, qi_base_url = [], qi_raw_key = []\<rparr> empty_table = Inr (d, t')"
    "default_quota_config ''grok'' = Inr (mode, flow)"
    using demo_add [of "''k''"] by (auto simp: add_endpoint_def and_then_Inr)
  have m: "mode = quota_disabled" "flow = flow_grok2api_admin"
    using add(2) by (auto simp: default_quota_config_def default_flow_def quota_flow_policy_def validate_provider_def)
  have v: "validate_quota_config ''grok''
      \<lparr>qi_mode = quota_disabled, qi_flow = flow_grok2api_admin, qi_base_url = [], qi_raw_key = []\<rparr> True
    = Inr \<lparr>qi_mode = quota_disabled, qi_flow = flow_grok2api_admin, qi_base_url = [], qi_raw_key = []\<rparr>"
    by code_simp
  from add(1) obtain r where r: "row_by_id 1 t' = Some r" "pk_quota_mode r = quota_disabled"
    unfolding m by (auto simp: add_endpoint_with_quota_def and_then_Inr v Let_def insert_row_def empty_table_def
        row_by_id_def find_row_def build_key_def split: if_splits)
  have h: "key_history demo_env t'" by (rule key_history.add [OF key_history.start add(1)])
  from quota_credentials_by_mode [OF _ h r(1)] r show ?thesis by auto
qed

text \<open>
  The display row of an endpoint whose quota flow logs in with a user name and a password
  carries no prefix and no fingerprint of that secret, after any history.
\<close>

theorem login_secret_not_displayed:
  assumes "aead_ok (ke_crypto env)" "key_history env t"
    and "get_key i t = Inr d" "pk_quota_flow d = flow_grok2api_v3_admin"
  shows "pk_quota_key_prefix d = None \<and> pk_quota_key_fingerprint d = None"
proof -
  from assms(3) obtain r where r: "row_by_id i t = Some r" "d = scan_display_key r"
    by (auto simp: get_key_def split: option.splits)
  have "quota_sidecar_ok env r"
    using history_wf [OF assms(1,2)] row_by_id_Some [OF r(1)] wf_keys_row by (force simp: key_ok_def)
  moreover have "pk_quota_flow r = flow_grok2api_v3_admin"
    using assms(4) by (simp add: r(2) scan_display_key_def key_columns.defs)
  ultimately have "pk_quota_key_prefix r = None" "pk_quota_key_fingerprint r = None"
    unfolding quota_sidecar_ok_def by blast+
  then show ?thesis by (simp add: r(2) scan_display_key_def key_columns.defs)
qed

lemma login_secret_not_displayed_witness:
  "\<exists>t d. get_key 1 t = Inr d \<and> pk_quota_flow d = flow_grok2api_v3_admin
     \<and> pk_quota_key_prefix d = None \<and> pk_quota_key_fingerprint d = None"
proof -
  let ?q = "\<lparr>qi_mode = quota_disabled, qi_flow = flow_grok2api_v3_admin, qi_base_url = [], qi_raw_key = []\<rparr>"
  have v: "validate_quota_config ''grok'' ?q True = Inr ?q" by code_simp
  have n: "normalize_base_url ''https://api.x.ai/v1/'' = Inr ''https://api.x.ai/v1''" by code_simp
  have s: "seal_key demo_env demo_nonce ''xai-abc'' = Inr (demo_nonce @ ''Sxai-abc'')"
    by (simp add: seal_key_def encrypt_def demo_env_def demo_crypto_def demo_nonce_def gcm_nonce_size_def)
  obtain d t' where add: "add_endpoint_with_quota demo_env demo_nonce [] 0 ''grok'' ''k'' ''https://api.x.ai/v1/''
     ''xai-abc'' ?q empty_table = Inr (d, t')" and g: "get_key 1 t' = Inr d" "pk_quota_flow d = flow_grok2api_v3_admin"
    by (simp add: add_endpoint_with_quota_def n v s validate_provider_def quota_columns_def Let_def
        insert_row_def empty_table_def get_key_def row_by_id_def find_row_def)
       (simp add: scan_display_key_def key_columns.defs build_key_def)
  from login_secret_not_displayed [OF _ key_history.add [OF key_history.start add] g] g show ?thesis by auto
qed

end
