(* ===== verification/AttemptLog.thy ===== *)
theory AttemptLog
  imports ProviderSettings Redact
begin

text \<open>
  internal/proxy/attemptlog.go: the debug log of upstream attempts. The table keeps the newest
  rows up to a retention; a message is redacted before it is stored. Proved: what a Record keeps
  and drops, and that the pages of List run through the log newest first.
\<close>

record attempt_log =
  al_id :: rowid
  al_occurred_at :: timestamp
  al_request_id :: string
  al_provider :: string
  al_route_family :: string
  al_path :: string
  al_attempt_index :: int
  al_key_id :: "rowid option"
  al_key_name :: "string option"
  al_key_fingerprint :: "string option"
  al_upstream_status :: "int option"
  al_status_class :: string
  al_reason :: "string option"
  al_cooldown_until :: "timestamp option"
  al_terminal :: bool
  al_message :: "string option"

record attempt_repo =
  ar_table :: "attempt_log table"
  ar_retention :: int

definition default_attempt_log_retention :: int where "default_attempt_log_retention = 1000"

definition new_attempt_log_repo :: "attempt_log table \<Rightarrow> int \<Rightarrow> attempt_repo" where
  "new_attempt_log_repo t retention =
     \<lparr>ar_table = t,
      ar_retention = (if retention < 1 then default_attempt_log_retention else retention)\<rparr>"

section \<open>Recording\<close>

definition build_attempt :: "attempt_log \<Rightarrow> rowid \<Rightarrow> attempt_log" where
  "build_attempt row i = row\<lparr>al_id := i, al_message := map_option redact (al_message row)\<rparr>"

text \<open>\<open>SELECT id .. ORDER BY id DESC LIMIT n\<close> and the deletion of every other row.\<close>

definition newest_ids :: "int \<Rightarrow> attempt_log table \<Rightarrow> rowid list" where
  "newest_ids n t = take (nat n) (rev (sort (map al_id (rows t))))"

definition prune_attempts :: "int \<Rightarrow> attempt_log table \<Rightarrow> attempt_log table" where
  "prune_attempts n t = delete_where (\<lambda>r. al_id r \<notin> set (newest_ids n t)) t"

definition record_attempt_row ::
  "instant \<Rightarrow> attempt_log \<Rightarrow> attempt_repo option \<Rightarrow> string + attempt_repo" where
  "record_attempt_row now row0 repo =
     (case repo of
        None \<Rightarrow> Inl ''attempt log repo: not configured''
      | Some r \<Rightarrow>
          if trim_space (al_request_id row0) = [] then Inl ''attempt log: request_id required''
          else if trim_space (al_provider row0) = [] then Inl ''attempt log: provider required''
          else if trim_space (al_route_family row0) = [] then Inl ''attempt log: route_family required''
          else if trim_space (al_path row0) = [] then Inl ''attempt log: path required''
          else if trim_space (al_status_class row0) = [] then Inl ''attempt log: status_class required''
          else
            (let row = (if trim_space (al_occurred_at row0) = []
                        then row0\<lparr>al_occurred_at := stamp now\<rparr> else row0)
             in Inr (r\<lparr>ar_table := prune_attempts (ar_retention r)
                         (snd (insert_row (build_attempt row) (ar_table r)))\<rparr>)))"

section \<open>Listing\<close>

record attempt_filter =
  af_request_id :: string
  af_limit :: int
  af_offset :: int

record attempt_page =
  ap_items :: "attempt_log list"
  ap_limit :: int
  ap_offset :: int
  ap_total :: int

definition list_attempts :: "attempt_filter \<Rightarrow> attempt_repo option \<Rightarrow> string + attempt_page" where
  "list_attempts f repo =
     (case repo of
        None \<Rightarrow> Inl ''attempt log repo: not configured''
      | Some r \<Rightarrow>
          (case clamp_limit_offset (af_limit f) (af_offset f) 50 200 of
             (limit, offset) \<Rightarrow>
               (let sel = (if trim_space (af_request_id f) \<noteq> []
                           then filter (\<lambda>a. al_request_id a = af_request_id f) (rows (ar_table r))
                           else rows (ar_table r))
                in Inr \<lparr>ap_items = take (nat limit) (drop (nat offset) (rev (sort_key al_id sel))),
                        ap_limit = limit, ap_offset = offset, ap_total = int (length sel)\<rparr>)))"

section \<open>The recorder that the settings switch\<close>

record settings_recorder =
  sr_settings :: "settings_db option"
  sr_logs :: "attempt_repo option"

definition recorder_enabled :: "settings_recorder option \<Rightarrow> bool" where
  "recorder_enabled r =
     (case r of None \<Rightarrow> False
      | Some x \<Rightarrow> (case sr_settings x of None \<Rightarrow> False | Some db \<Rightarrow> get_proxy_debug_attempts db))"

definition recorder_record ::
  "instant \<Rightarrow> attempt_log \<Rightarrow> settings_recorder option \<Rightarrow> string + settings_recorder" where
  "recorder_record now row r =
     (case r of
        None \<Rightarrow> Inl ''attempt recorder: not configured''
      | Some x \<Rightarrow>
          if sr_logs x = None then Inl ''attempt recorder: not configured''
          else and_then (record_attempt_row now row (sr_logs x)) (\<lambda>repo. Inr (x\<lparr>sr_logs := Some repo\<rparr>)))"

section \<open>What is kept\<close>

interpretation attempt_rows: rowid_table al_id build_attempt
  by unfold_locales (simp add: build_attempt_def)

lemma prune_rows:
  assumes "wf_table al_id t"
  shows "rows (prune_attempts n t) = drop (length (rows t) - nat n) (rows t)"
proof -
  let ?k = "length (rows t) - nat n"
  have ids: "set (newest_ids n t) = al_id ` set (drop ?k (rows t))"
    by (simp add: newest_ids_def wf_sorted_ids [OF assms] take_rev drop_map)
  have "distinct (map al_id (take ?k (rows t) @ drop ?k (rows t)))"
    using wf_table_distinct [OF assms] by simp
  then have disj: "al_id ` set (take ?k (rows t)) \<inter> al_id ` set (drop ?k (rows t)) = {}"
    unfolding map_append distinct_append by simp
  have "rows (prune_attempts n t) =
      filter (\<lambda>r. al_id r \<in> set (newest_ids n t)) (take ?k (rows t) @ drop ?k (rows t))"
    by (simp add: prune_attempts_def rows_delete_where)
  also have "\<dots> = drop ?k (rows t)"
    unfolding filter_append ids using disj by (auto simp: filter_empty_conv)
  finally show ?thesis .
qed

lemma prune_wf: "wf_table al_id t \<Longrightarrow> wf_table al_id (prune_attempts n t)"
  unfolding prune_attempts_def by (rule wf_table_delete_where)

lemma record_attempt_row_Inr:
  assumes "record_attempt_row now row (Some r) = Inr r'"
  obtains row' where "row' = row \<or> row' = row\<lparr>al_occurred_at := stamp now\<rparr>"
    "r' = r\<lparr>ar_table := prune_attempts (ar_retention r) (snd (insert_row (build_attempt row') (ar_table r)))\<rparr>"
  using assms by (auto simp: record_attempt_row_def Let_def split: if_splits)

lemma record_attempt_row_rows:
  assumes "wf_table al_id (ar_table r)" "0 < ar_retention r" "record_attempt_row now row (Some r) = Inr r'"
  shows "\<exists>new. rows (ar_table r') =
      drop (Suc (length (rows (ar_table r))) - nat (ar_retention r)) (rows (ar_table r)) @ [new]
     \<and> al_id new = tseq (ar_table r) + 1 \<and> al_message new = map_option redact (al_message row)
     \<and> al_request_id new = al_request_id row \<and> wf_table al_id (ar_table r') \<and> ar_retention r' = ar_retention r"
proof -
  obtain row' where row': "row' = row \<or> row' = row\<lparr>al_occurred_at := stamp now\<rparr>"
    "r' = r\<lparr>ar_table := prune_attempts (ar_retention r) (snd (insert_row (build_attempt row') (ar_table r)))\<rparr>"
    using assms(3) by (rule record_attempt_row_Inr)
  let ?t = "snd (insert_row (build_attempt row') (ar_table r))"
  have wf: "wf_table al_id ?t" by (rule attempt_rows.insert_wf [OF assms(1)])
  have "rows (ar_table r') = drop (Suc (length (rows (ar_table r))) - nat (ar_retention r))
      (rows (ar_table r) @ [build_attempt row' (tseq (ar_table r) + 1)])"
    by (simp add: row'(2) prune_rows [OF wf] rows_insert_row)
  moreover have "Suc (length (rows (ar_table r))) - nat (ar_retention r) \<le> length (rows (ar_table r))"
    using assms(2) by simp
  ultimately have "rows (ar_table r') = drop (Suc (length (rows (ar_table r))) - nat (ar_retention r))
      (rows (ar_table r)) @ [build_attempt row' (tseq (ar_table r) + 1)]" by simp
  then show ?thesis using row' prune_wf [OF wf]
    by (intro exI [of _ "build_attempt row' (tseq (ar_table r) + 1)"]) (auto simp: build_attempt_def)
qed

lemma list_attempts_rows:
  assumes "wf_table al_id (ar_table r)" "list_attempts f (Some r) = Inr page"
  shows "ap_items page = take (nat (ap_limit page)) (drop (nat (ap_offset page)) (rev (filter
      (\<lambda>a. trim_space (af_request_id f) = [] \<or> al_request_id a = af_request_id f) (rows (ar_table r)))))"
  using assms(2) wf_sorted_rows [OF assms(1)] wf_sorted_rows [OF assms(1), of "\<lambda>_. True"]
  by (auto simp: list_attempts_def Let_def split: prod.splits if_splits)

end
