(* ===== verification/UsageDaily.thy ===== *)
theory UsageDaily
  imports GoTime "HOL-Library.Product_Lexorder" "HOL-Library.Option_ord"
begin

text \<open>
  internal/usage/usage.go: the daily request counters and the classification of paths and
  statuses. A row of usage_daily is one bucket; SQLite's primary key treats every NULL
  gateway_key_id as distinct, so a bucket without a key never conflicts. Proved: an increment
  adds one to the total, one row holds the count of each keyed bucket.
\<close>

record usage_bucket =
  ub_day :: string
  ub_key :: "rowid option"
  ub_provider :: string
  ub_family :: string
  ub_class :: string

record usage_row = usage_bucket +
  ur_count :: int

type_synonym usage_table = "usage_row list"

definition day_utc :: "instant \<Rightarrow> string" where
  "day_utc t = date_text (t div second div 86400)"

definition route_family_from_path :: "string \<Rightarrow> string" where
  "route_family_from_path path =
     (if prefix ''/grok/'' path then ''grok''
      else if prefix ''/tavily/'' path then ''tavily''
      else if prefix ''/firecrawl/'' path then ''firecrawl''
      else ''unknown'')"

definition status_class_from_http :: "int \<Rightarrow> string" where
  "status_class_from_http status =
     (if status = 429 then ''429''
      else if status \<ge> 200 \<and> status < 300 then ''2xx''
      else if status \<ge> 300 \<and> status < 400 then ''4xx''
      else if status \<ge> 400 \<and> status < 500 then ''4xx''
      else if status \<ge> 500 then ''5xx''
      else ''other'')"

definition status_class_from_network_error :: string where
  "status_class_from_network_error = ''network_error''"

section \<open>Counting\<close>

text \<open>The conflict target of the upsert: equal columns, where NULL equals nothing.\<close>

definition same_bucket :: "usage_bucket \<Rightarrow> usage_row \<Rightarrow> bool" where
  "same_bucket b r \<longleftrightarrow> ub_key b \<noteq> None \<and> usage_bucket.truncate r = b"

definition usage_increment :: "instant \<Rightarrow> usage_bucket \<Rightarrow> usage_table \<Rightarrow> string + usage_table" where
  "usage_increment now req0 t =
     (let req = (if ub_day req0 = [] then req0\<lparr>ub_day := day_utc now\<rparr> else req0) in
      if ub_provider req = [] \<or> ub_family req = [] \<or> ub_class req = []
      then Inl ''usage: provider, route_family, and status_class required''
      else if list_ex (same_bucket req) t
      then Inr (map (\<lambda>r. if same_bucket req r then r\<lparr>ur_count := ur_count r + 1\<rparr> else r) t)
      else Inr (t @ [usage_bucket.extend req \<lparr>ur_count = 1\<rparr>]))"

record usage_filter =
  uf_day :: string
  uf_from :: string
  uf_to :: string
  uf_provider :: string
  uf_family :: string
  uf_class :: string

definition usage_matches :: "usage_filter \<Rightarrow> usage_row \<Rightarrow> bool" where
  "usage_matches f r \<longleftrightarrow>
     (uf_day f \<noteq> [] \<longrightarrow> ub_day r = uf_day f)
     \<and> (uf_from f \<noteq> [] \<longrightarrow> uf_from f \<le> ub_day r)
     \<and> (uf_to f \<noteq> [] \<longrightarrow> ub_day r \<le> uf_to f)
     \<and> (uf_provider f \<noteq> [] \<longrightarrow> ub_provider r = uf_provider f)
     \<and> (uf_family f \<noteq> [] \<longrightarrow> ub_family r = uf_family f)
     \<and> (uf_class f \<noteq> [] \<longrightarrow> ub_class r = uf_class f)"

definition usage_list_daily :: "usage_filter \<Rightarrow> usage_table \<Rightarrow> usage_row list" where
  "usage_list_daily f t =
     sort_key (\<lambda>r. (ub_day r, ub_key r, ub_provider r, ub_family r, ub_class r))
       (filter (usage_matches f) t)"

section \<open>What an increment does\<close>

definition usage_total :: "usage_table \<Rightarrow> int" where
  "usage_total t = sum_list (map ur_count t)"

definition bucket_count :: "usage_bucket \<Rightarrow> usage_table \<Rightarrow> int" where
  "bucket_count b t = sum_list (map ur_count (filter (\<lambda>r. usage_bucket.truncate r = b) t))"

definition wf_usage :: "usage_table \<Rightarrow> bool" where
  "wf_usage t \<longleftrightarrow> distinct (map usage_bucket.truncate (filter (\<lambda>r. ub_key r \<noteq> None) t))
     \<and> (\<forall>r \<in> set t. 0 < ur_count r \<and> ub_provider r \<noteq> [] \<and> ub_family r \<noteq> [] \<and> ub_class r \<noteq> [])"

lemma truncate_count [simp]: "usage_bucket.truncate (r\<lparr>ur_count := n\<rparr>) = usage_bucket.truncate r"
  by (simp add: usage_bucket.defs)

lemma truncate_extend [simp]: "usage_bucket.truncate (usage_bucket.extend b m) = b"
  by (simp add: usage_bucket.defs)

lemma extend_row [simp]:
  "ub_key (usage_bucket.extend b \<lparr>ur_count = n\<rparr>) = ub_key b"
  "ub_provider (usage_bucket.extend b \<lparr>ur_count = n\<rparr>) = ub_provider b"
  "ub_family (usage_bucket.extend b \<lparr>ur_count = n\<rparr>) = ub_family b"
  "ub_class (usage_bucket.extend b \<lparr>ur_count = n\<rparr>) = ub_class b"
  "ur_count (usage_bucket.extend b \<lparr>ur_count = n\<rparr>) = n"
  by (simp_all add: usage_bucket.defs)

lemma truncate_key: "usage_bucket.truncate r = b \<Longrightarrow> ub_key r = ub_key b \<and> ub_provider r = ub_provider b
    \<and> ub_family r = ub_family b \<and> ub_class r = ub_class b"
  by (auto simp: usage_bucket.defs)

text \<open>In a table with one row per keyed bucket, adding one to the row of a bucket is local.\<close>

lemma bump_none:
  "\<not> list_ex (same_bucket b) t \<Longrightarrow> map (\<lambda>r. if same_bucket b r then f r else r) t = t"
  by (induction t) auto

lemma bump_sum:
  assumes "\<And>r. P (r\<lparr>ur_count := ur_count r + 1\<rparr>) = P r"
    and "distinct (map usage_bucket.truncate (filter (\<lambda>r. ub_key r \<noteq> None) t))" "list_ex (same_bucket b) t"
  shows "sum_list (map ur_count (filter P (map (\<lambda>r. if same_bucket b r then r\<lparr>ur_count := ur_count r + 1\<rparr> else r) t)))
     = sum_list (map ur_count (filter P t)) + (if \<exists>r \<in> set t. same_bucket b r \<and> P r then 1 else 0)"
  using assms(2,3)
proof (induction t)
  case (Cons r t)
  show ?case
  proof (cases "same_bucket b r")
    case True
    have none: "\<not> same_bucket b x" if "x \<in> set t" for x
    proof
      assume x: "same_bucket b x"
      then have "usage_bucket.truncate x = usage_bucket.truncate r" "ub_key x \<noteq> None" "ub_key r \<noteq> None"
        using True truncate_key [of r b] truncate_key [of x b] by (auto simp: same_bucket_def)
      with Cons.prems(1) that show False by (auto simp: image_iff)
    qed
    then have "\<not> list_ex (same_bucket b) t" by (auto simp: list_ex_iff)
    from bump_none [OF this] True none assms(1) show ?thesis by auto
  next
    case False
    with Cons.prems have "distinct (map usage_bucket.truncate (filter (\<lambda>r. ub_key r \<noteq> None) t))"
      "list_ex (same_bucket b) t" by (auto split: if_splits)
    from Cons.IH [OF this] False show ?thesis by auto
  qed
qed simp

lemma usage_increment_cases:
  assumes "usage_increment now req t = Inr t'"
  obtains b where "b = (if ub_day req = [] then req\<lparr>ub_day := day_utc now\<rparr> else req)"
    "ub_provider b \<noteq> []" "ub_family b \<noteq> []" "ub_class b \<noteq> []" "list_ex (same_bucket b) t"
    "t' = map (\<lambda>r. if same_bucket b r then r\<lparr>ur_count := ur_count r + 1\<rparr> else r) t"
  | b where "b = (if ub_day req = [] then req\<lparr>ub_day := day_utc now\<rparr> else req)"
    "ub_provider b \<noteq> []" "ub_family b \<noteq> []" "ub_class b \<noteq> []" "\<not> list_ex (same_bucket b) t"
    "t' = t @ [usage_bucket.extend b \<lparr>ur_count = 1\<rparr>]"
  using assms by (auto simp: usage_increment_def Let_def split: if_splits)

lemma usage_increment_wf:
  assumes "wf_usage t" "usage_increment now req t = Inr t'"
  shows "wf_usage t'"
  using assms(2)
proof (cases rule: usage_increment_cases)
  case (1 b)
  let ?f = "\<lambda>r. if same_bucket b r then r\<lparr>ur_count := ur_count r + 1\<rparr> else r"
  have "map usage_bucket.truncate (filter (\<lambda>r. ub_key r \<noteq> None) (map ?f t)) =
        map usage_bucket.truncate (filter (\<lambda>r. ub_key r \<noteq> None) t)"
    by (induction t) auto
  with assms(1) 1 show ?thesis by (auto simp: wf_usage_def)
next
  case (2 b)
  have "b \<notin> usage_bucket.truncate ` {r \<in> set t. ub_key r \<noteq> None}" if "ub_key b \<noteq> None"
    using 2(5) that by (auto simp: list_ex_iff same_bucket_def)
  with assms(1) 2(2-4) show ?thesis
    by (cases "ub_key b = None") (simp_all add: wf_usage_def 2(6) image_iff)
qed

lemma usage_increment_counts:
  assumes "wf_usage t" "usage_increment now req t = Inr t'"
    and "b = (if ub_day req = [] then req\<lparr>ub_day := day_utc now\<rparr> else req)"
  shows "bucket_count c t' = bucket_count c t + (if c = b then 1 else 0)"
    and "usage_total t' = usage_total t + 1"
proof -
  have d: "distinct (map usage_bucket.truncate (filter (\<lambda>r. ub_key r \<noteq> None) t))"
    using assms(1) by (simp add: wf_usage_def)
  show "bucket_count c t' = bucket_count c t + (if c = b then 1 else 0)"
    using assms(2)
  proof (cases rule: usage_increment_cases)
    case (1 b')
    have "(\<exists>r \<in> set t. same_bucket b' r \<and> usage_bucket.truncate r = c) \<longleftrightarrow> c = b'"
      using 1(5) by (auto simp: list_ex_iff same_bucket_def)
    with bump_sum [OF _ d 1(5), of "\<lambda>r. usage_bucket.truncate r = c"] 1(1) assms(3) show ?thesis
      by (simp add: bucket_count_def 1(6))
  next
    case (2 b')
    with assms(3) show ?thesis by (auto simp: bucket_count_def usage_bucket.defs)
  qed
  show "usage_total t' = usage_total t + 1"
    using assms(2)
  proof (cases rule: usage_increment_cases)
    case (1 b')
    then have "\<exists>r \<in> set t. same_bucket b' r" by (auto simp: list_ex_iff)
    with bump_sum [OF _ d 1(5), of "\<lambda>_. True"] show ?thesis by (simp add: usage_total_def 1(6))
  next
    case (2 b')
    then show ?thesis by (simp add: usage_total_def usage_bucket.defs)
  qed
qed

end
