(* ===== verification/GoJson.thy ===== *)
theory GoJson
  imports GoUrl
begin

text \<open>
  Go's \<open>encoding/json\<close> as the gateway uses it: \<open>Unmarshal\<close> of a body into a struct with string
  fields or into generic values. A parse keeps the members of an object in order, with their
  duplicates, and the text of a number.
\<close>

datatype json =
    JNull
  | JBool bool
  | JNum string
  | JStr string
  | JArr "json list"
  | JObj "(string \<times> json) list"

section \<open>Runes\<close>

definition is_cont :: "char \<Rightarrow> bool" where
  "is_cont c \<longleftrightarrow> (let n = of_char c :: nat in 0x80 \<le> n \<and> n \<le> 0xBF)"

text \<open>Length of the valid UTF-8 sequence at the head of a text, 0 when there is none.\<close>

definition within :: "nat \<Rightarrow> nat \<Rightarrow> char \<Rightarrow> bool" where
  "within lo hi c \<longleftrightarrow> lo \<le> of_char c \<and> of_char c \<le> hi"

fun rune_len :: "string \<Rightarrow> nat" where
  "rune_len [] = 0"
| "rune_len (c # s) =
     (if within 0 0x7F c then 1
      else if within 0xC2 0xDF c then
        (case s of b # _ \<Rightarrow> if is_cont b then 2 else 0 | _ \<Rightarrow> 0)
      else if within 0xE0 0xEF c then
        (case s of b # x # _ \<Rightarrow>
           if within (if c = CHR 0xE0 then 0xA0 else 0x80) (if c = CHR 0xED then 0x9F else 0xBF) b
              \<and> is_cont x then 3 else 0
         | _ \<Rightarrow> 0)
      else if within 0xF0 0xF4 c then
        (case s of b # x # y # _ \<Rightarrow>
           if within (if c = CHR 0xF0 then 0x90 else 0x80) (if c = CHR 0xF4 then 0x8F else 0xBF) b
              \<and> is_cont x \<and> is_cont y then 4 else 0
         | _ \<Rightarrow> 0)
      else 0)"

definition utf8_encode :: "nat \<Rightarrow> string" where
  "utf8_encode n =
     (if n < 0x80 then [char_of n]
      else if n < 0x800 then [char_of (0xC0 + n div 64), char_of (0x80 + n mod 64)]
      else if n < 0x10000 then
        [char_of (0xE0 + n div 4096), char_of (0x80 + n div 64 mod 64), char_of (0x80 + n mod 64)]
      else [char_of (0xF0 + n div 262144), char_of (0x80 + n div 4096 mod 64),
            char_of (0x80 + n div 64 mod 64), char_of (0x80 + n mod 64)])"

definition replacement_char :: string where
  "replacement_char = [CHR 0xEF, CHR 0xBF, CHR 0xBD]"

section \<open>String literals\<close>

definition hex4 :: "string \<Rightarrow> (nat \<times> string) option" where
  "hex4 s = (case s of a # b # c # d # r \<Rightarrow>
       (case (hex_val a, hex_val b, hex_val c, hex_val d) of
          (Some w, Some x, Some y, Some z) \<Rightarrow> Some (4096 * w + 256 * x + 16 * y + z, r)
        | _ \<Rightarrow> None)
     | _ \<Rightarrow> None)"

text \<open>The rune of a \<open>\u\<close> escape; a surrogate pair takes both escapes, a lone surrogate is replaced.\<close>

definition unicode_escape :: "string \<Rightarrow> (string \<times> string) option" where
  "unicode_escape s =
     (case hex4 s of
        None \<Rightarrow> None
      | Some (n, r) \<Rightarrow>
          if 0xD800 \<le> n \<and> n \<le> 0xDFFF then
            (case r of
               x # u # r2 \<Rightarrow>
                 if x = CHR 0x5C \<and> u = CHR ''u'' \<and> n \<le> 0xDBFF then
                   (case hex4 r2 of
                      Some (m, r3) \<Rightarrow>
                        if 0xDC00 \<le> m \<and> m \<le> 0xDFFF
                        then Some (utf8_encode (0x10000 + (n - 0xD800) * 1024 + (m - 0xDC00)), r3)
                        else Some (replacement_char, r)
                    | None \<Rightarrow> Some (replacement_char, r))
                 else Some (replacement_char, r)
             | _ \<Rightarrow> Some (replacement_char, r))
          else Some (utf8_encode n, r))"

definition simple_escape :: "char \<Rightarrow> char option" where
  "simple_escape c =
     (if c = CHR 0x22 \<or> c = CHR 0x5C \<or> c = CHR ''/'' then Some c
      else if c = CHR ''b'' then Some (CHR 0x08)
      else if c = CHR ''f'' then Some (CHR 0x0C)
      else if c = CHR ''n'' then Some (CHR 0x0A)
      else if c = CHR ''r'' then Some (CHR 0x0D)
      else if c = CHR ''t'' then Some (CHR 0x09)
      else None)"

text \<open>What follows the opening quote: the decoded text and the rest after the closing quote.\<close>

fun string_rest :: "nat \<Rightarrow> string \<Rightarrow> (string \<times> string) option" where
  "string_rest 0 s = None"
| "string_rest (Suc k) [] = None"
| "string_rest (Suc k) (c # s) =
     (if c = CHR 0x22 then Some ([], s)
      else if c = CHR 0x5C then
        (case s of
           [] \<Rightarrow> None
         | e # r \<Rightarrow>
             if e = CHR ''u'' then
               (case unicode_escape r of
                  None \<Rightarrow> None
                | Some (t, r') \<Rightarrow> map_option (\<lambda>(a, b). (t @ a, b)) (string_rest k r'))
             else (case simple_escape e of
                     None \<Rightarrow> None
                   | Some x \<Rightarrow> map_option (\<lambda>(a, b). (x # a, b)) (string_rest k r)))
      else if of_char c < (0x20 :: nat) then None
      else if rune_len (c # s) = 0 then
        map_option (\<lambda>(a, b). (replacement_char @ a, b)) (string_rest k s)
      else map_option (\<lambda>(a, b). (take (rune_len (c # s)) (c # s) @ a, b))
             (string_rest k (drop (rune_len (c # s)) (c # s))))"

section \<open>Numbers\<close>

definition digits_prefix :: "string \<Rightarrow> string" where
  "digits_prefix s = takeWhile is_digit s"

text \<open>The text of the number at the head, and the rest.\<close>

definition number_head :: "string \<Rightarrow> (string \<times> string) option" where
  "number_head s =
     (let sgn = (case s of c # _ \<Rightarrow> if c = CHR ''-'' then [c] else [] | [] \<Rightarrow> []);
          s1 = drop (length sgn) s;
          whole = (case s1 of c # _ \<Rightarrow> if c = CHR ''0'' then [c] else digits_prefix s1 | [] \<Rightarrow> []);
          s2 = drop (length whole) s1
      in if whole = [] then None
         else (case (case s2 of
                       c # r \<Rightarrow> if c = CHR ''.'' then
                                  (if digits_prefix r = [] then None else Some (c # digits_prefix r))
                                else Some []
                     | [] \<Rightarrow> Some []) of
           None \<Rightarrow> None
         | Some frac \<Rightarrow>
             (let s3 = drop (length frac) s2 in
              case (case s3 of
                      c # r \<Rightarrow>
                        if c \<in> set ''eE'' then
                          (let sg = (case r of d # _ \<Rightarrow> if d \<in> set ''+-'' then [d] else [] | [] \<Rightarrow> []);
                               ds = digits_prefix (drop (length sg) r)
                           in if ds = [] then None else Some (c # sg @ ds))
                        else Some []
                    | [] \<Rightarrow> Some []) of
                None \<Rightarrow> None
              | Some ex \<Rightarrow> Some (sgn @ whole @ frac @ ex, drop (length ex) s3))))"

section \<open>Values\<close>

definition json_ws :: "char \<Rightarrow> bool" where
  "json_ws c \<longleftrightarrow> c \<in> set [CHR '' '', CHR 0x09, CHR 0x0A, CHR 0x0D]"

definition skip_ws :: "string \<Rightarrow> string" where
  "skip_ws s = dropWhile json_ws s"

definition max_nesting :: nat where "max_nesting = 10000"

text \<open>
  Recursive descent. The first argument bounds the steps, one more than the length of the text is
  enough since every call consumes a byte; the second is the nesting depth.
\<close>

fun parse_value :: "nat \<Rightarrow> nat \<Rightarrow> string \<Rightarrow> (json \<times> string) option"
  and parse_elems :: "nat \<Rightarrow> nat \<Rightarrow> string \<Rightarrow> (json list \<times> string) option"
  and parse_members :: "nat \<Rightarrow> nat \<Rightarrow> string \<Rightarrow> ((string \<times> json) list \<times> string) option" where
  "parse_value 0 d s = None"
| "parse_value (Suc k) d s =
     (case skip_ws s of
        [] \<Rightarrow> None
      | c # r \<Rightarrow>
          if c = CHR 0x22 then map_option (\<lambda>(t, r'). (JStr t, r')) (string_rest (Suc (length r)) r)
          else if c = CHR ''{'' then
            (if max_nesting < Suc d then None
             else (case skip_ws r of
                     x # r' \<Rightarrow> if x = CHR ''}'' then Some (JObj [], r')
                               else map_option (\<lambda>(ms, t). (JObj ms, t)) (parse_members k (Suc d) r)
                   | [] \<Rightarrow> None))
          else if c = CHR ''['' then
            (if max_nesting < Suc d then None
             else (case skip_ws r of
                     x # r' \<Rightarrow> if x = CHR '']'' then Some (JArr [], r')
                               else map_option (\<lambda>(es, t). (JArr es, t)) (parse_elems k (Suc d) r)
                   | [] \<Rightarrow> None))
          else if prefix ''null'' (c # r) then Some (JNull, drop 4 (c # r))
          else if prefix ''true'' (c # r) then Some (JBool True, drop 4 (c # r))
          else if prefix ''false'' (c # r) then Some (JBool False, drop 5 (c # r))
          else map_option (\<lambda>(t, r'). (JNum t, r')) (number_head (c # r)))"
| "parse_elems 0 d s = None"
| "parse_elems (Suc k) d s =
     (case parse_value k d s of
        None \<Rightarrow> None
      | Some (v, r) \<Rightarrow>
          (case skip_ws r of
             [] \<Rightarrow> None
           | c # r' \<Rightarrow>
               if c = CHR '']'' then Some ([v], r')
               else if c = CHR '','' then map_option (\<lambda>(vs, t). (v # vs, t)) (parse_elems k d r')
               else None))"
| "parse_members 0 d s = None"
| "parse_members (Suc k) d s =
     (case skip_ws s of
        [] \<Rightarrow> None
      | q # r \<Rightarrow>
          if q \<noteq> CHR 0x22 then None
          else (case string_rest (Suc (length r)) r of
            None \<Rightarrow> None
          | Some (name, r1) \<Rightarrow>
              (case skip_ws r1 of
                 [] \<Rightarrow> None
               | c # r2 \<Rightarrow>
                   if c \<noteq> CHR '':'' then None
                   else (case parse_value k d r2 of
                     None \<Rightarrow> None
                   | Some (v, r3) \<Rightarrow>
                       (case skip_ws r3 of
                          [] \<Rightarrow> None
                        | e # r4 \<Rightarrow>
                            if e = CHR ''}'' then Some ([(name, v)], r4)
                            else if e = CHR '','' then
                              map_option (\<lambda>(ms, t). ((name, v) # ms, t)) (parse_members k d r4)
                            else None)))))"

definition parse_json :: "string \<Rightarrow> json option" where
  "parse_json s =
     (case parse_value (Suc (2 * length s)) 0 s of
        None \<Rightarrow> None
      | Some (v, r) \<Rightarrow> if skip_ws r = [] then Some v else None)"

section \<open>Decoding into a struct\<close>

text \<open>
  Member names match field names up to ASCII case, the last match wins, and null leaves a field
  alone. The fold of two letters outside ASCII (the long s and the Kelvin sign) is included.
\<close>

fun fold_name :: "string \<Rightarrow> string" where
  "fold_name [] = []"
| "fold_name (a # s) =
     (if prefix [CHR 0xC5, CHR 0xBF] (a # s) then CHR ''s'' # fold_name (drop 1 s)
      else if prefix [CHR 0xE2, CHR 0x84, CHR 0xAA] (a # s) then CHR ''k'' # fold_name (drop 2 s)
      else lower_byte a # fold_name s)"

text \<open>The values that reach a field of a struct with the given field names, in order.\<close>

definition field_values :: "string list \<Rightarrow> string \<Rightarrow> (string \<times> json) list \<Rightarrow> json list" where
  "field_values names f ms =
     map snd (filter (\<lambda>(n, _). n = f \<or> n \<notin> set names \<and> fold_name n = fold_name f) ms)"

text \<open>A string field: None when some value has another type.\<close>

fun last_string :: "string \<Rightarrow> json list \<Rightarrow> string option" where
  "last_string acc [] = Some acc"
| "last_string acc (JNull # vs) = last_string acc vs"
| "last_string acc (JStr t # vs) = last_string t vs"
| "last_string acc (_ # vs) = None"

definition string_field :: "string list \<Rightarrow> string \<Rightarrow> (string \<times> json) list \<Rightarrow> string option" where
  "string_field names f ms = last_string [] (field_values names f ms)"

end
