(* ===== verification/GoHttp.thy ===== *)
theory GoHttp
  imports GoStrings
begin

text \<open>
  What the handlers use of Go's \<open>net/http\<close>: headers under canonical names, and the answer a
  handler writes, either a status with headers and a body or the plain-text \<open>http.Error\<close>.
\<close>

section \<open>Headers\<close>

text \<open>An \<open>http.Header\<close> with canonical names.\<close>

type_synonym header = "string \<rightharpoonup> string list"

definition header_get :: "header \<Rightarrow> string \<Rightarrow> string" where
  "header_get h k = (case h k of Some (v # _) \<Rightarrow> v | _ \<Rightarrow> [])"

definition header_set :: "string \<Rightarrow> string \<Rightarrow> header \<Rightarrow> header" where
  "header_set k v h = h(k \<mapsto> [v])"

definition header_del :: "string \<Rightarrow> header \<Rightarrow> header" where
  "header_del k h = h(k := None)"

section \<open>Answers\<close>

datatype written = Written int header bytes | WrittenError int string

definition status_of :: "written \<Rightarrow> int" where
  "status_of w = (case w of Written s _ _ \<Rightarrow> s | WrittenError s _ \<Rightarrow> s)"

definition not_found :: written where
  "not_found = WrittenError 404 ''404 page not found''"

end
