(* ===== verification/Proxy.thy ===== *)
theory Proxy
  imports KeySelection AttemptLog UsageDaily GoJson GoHttp
begin

text \<open>
  internal/proxy/proxy.go and tavily_diagnostic.go: forwarding a request to an upstream with
  retries across keys. The network is the function \<open>px_transport\<close> of the environment, the clock
  its times, and the key store the record \<open>key_selector\<close> of the three operations that the Go
  interface KeySelector names.
\<close>

section \<open>The interfaces\<close>

record 's key_selector =
  ks_select :: "instant \<Rightarrow> string \<Rightarrow> 's \<Rightarrow> provider_error + selected_endpoint \<times> 's"
  ks_success :: "instant \<Rightarrow> rowid \<Rightarrow> 's \<Rightarrow> 's"
  ks_failure :: "instant \<Rightarrow> rowid \<Rightarrow> int \<Rightarrow> string \<Rightarrow> instant option \<Rightarrow> string option \<Rightarrow> 's \<Rightarrow> 's"

record 's target =
  tg_path :: string
  tg_provider :: string
  tg_keys :: "'s key_selector option"

text \<open>The incoming request; the body is None when reading it fails.\<close>

record client_request =
  cr_method :: string
  cr_path :: string
  cr_raw_query :: string
  cr_header :: header
  cr_body :: "bytes option"

record upstream_call =
  uc_method :: string
  uc_url :: string
  uc_header :: header
  uc_body :: bytes

record upstream_response =
  up_status :: int
  up_header :: header
  up_body :: "bytes option"

text \<open>
  The environment of one Forward: the settings, the transport (None is a network error), the
  \<open>now\<close> read before the loop, the times that the key store reads in each attempt, the time that
  makes up a request id, \<open>http.ParseTime\<close>, and whether a recorder is attached and enabled.
\<close>

record proxy_env =
  px_settings :: settings
  px_transport :: "nat \<Rightarrow> upstream_call \<Rightarrow> upstream_response option"
  px_now :: instant
  px_select_time :: "nat \<Rightarrow> instant"
  px_mark_time :: "nat \<Rightarrow> instant"
  px_id_time :: instant
  px_parse_http_date :: "string \<Rightarrow> instant option"
  px_logging :: bool

section \<open>Policies of the proxy\<close>

definition tavily_plan_limit_status :: int where "tavily_plan_limit_status = 432"

definition is_tavily_plan_limit :: "string \<Rightarrow> int \<Rightarrow> bool" where
  "is_tavily_plan_limit provider status \<longleftrightarrow>
     provider = provider_tavily \<and> status = tavily_plan_limit_status"

definition firecrawl_signals :: "(string \<times> json) list \<Rightarrow> string list option" where
  "firecrawl_signals ms =
     (let names = [''error'', ''message'', ''code''] in
      case (string_field names ''message'' ms, string_field names ''code'' ms) of
        (Some message, Some code) \<Rightarrow>
          (case field_values names ''error'' ms of
             [] \<Rightarrow> Some [message, code]
           | v # vs \<Rightarrow>
               (case last (v # vs) of
                  JStr t \<Rightarrow> Some [message, code, t]
                | JNull \<Rightarrow> Some [message, code, []]
                | JObj es \<Rightarrow>
                    (let en = [''message'', ''code'', ''error''] in
                     case (string_field en ''message'' es, string_field en ''code'' es, string_field en ''error'' es) of
                       (Some a, Some b, Some c) \<Rightarrow> Some [message, code, a, b, c]
                     | _ \<Rightarrow> Some [message, code])
                | _ \<Rightarrow> Some [message, code]))
      | _ \<Rightarrow> None)"

definition is_firecrawl_credit_exhausted :: "bytes \<Rightarrow> bool" where
  "is_firecrawl_credit_exhausted body =
     (case parse_json body of
        Some (JObj ms) \<Rightarrow>
          (case firecrawl_signals ms of
             None \<Rightarrow> False
           | Some signals \<Rightarrow>
               list_ex (\<lambda>s. let n = to_lower (trim_space s) in
                 contains ''insufficient credit'' n \<or> contains ''credit_exhausted'' n) signals)
      | _ \<Rightarrow> False)"

definition policy_for_response :: "string \<Rightarrow> int \<Rightarrow> bytes \<Rightarrow> settings \<Rightarrow> policy" where
  "policy_for_response provider status body s =
     (if provider = provider_firecrawl \<and> status = 402 \<and> is_firecrawl_credit_exhausted body then
        \<lparr>pol_cooldown = (if rate_limit s \<le> 0 then default_rate_limit_cooldown else rate_limit s),
         pol_reason = ''credit_exhausted'', pol_apply = True, pol_retry = True\<rparr>
      else policy_for_status status s)"

definition tavily_plan_limit_body :: bytes where
  "tavily_plan_limit_body =
     map (\<lambda>c. if c = CHR ''~'' then CHR 0x22 else c)
       ''{~error~:{~code~:~tavily_plan_limit_exceeded~,~message~:~Tavily plan usage limit exceeded~}}''"

definition tavily_plan_limit_client_response :: "header \<Rightarrow> int \<times> header \<times> bytes" where
  "tavily_plan_limit_client_response h =
     (429, header_set ''Content-Type'' ''application/json'' (header_del ''Content-Length'' h),
      tavily_plan_limit_body)"

section \<open>The Tavily diagnostic\<close>

definition max_tavily_diagnostic_body_bytes :: nat where "max_tavily_diagnostic_body_bytes = 4096"
definition tavily_query_too_long_reason :: string where
  "tavily_query_too_long_reason = ''query_too_long''"
definition tavily_query_too_long_message :: string where
  "tavily_query_too_long_message = ''Query is too long. Max query length is 400 characters.''"

text \<open>The error text of the detail object: several detail members decode into one struct.\<close>

fun detail_error :: "string \<Rightarrow> json list \<Rightarrow> string option" where
  "detail_error acc [] = Some acc"
| "detail_error acc (JNull # vs) = detail_error acc vs"
| "detail_error acc (JObj ms # vs) =
     (case last_string acc (field_values [''error''] ''error'' ms) of
        None \<Rightarrow> None | Some a \<Rightarrow> detail_error a vs)"
| "detail_error acc (_ # vs) = None"

definition tavily_attempt_diagnostic :: "string \<Rightarrow> int \<Rightarrow> bytes \<Rightarrow> (string \<times> string) option" where
  "tavily_attempt_diagnostic provider status body =
     (if provider \<noteq> provider_tavily \<or> status \<noteq> 400 \<or> length body = 0
         \<or> length body > max_tavily_diagnostic_body_bytes then None
      else (case parse_json body of
        Some (JObj ms) \<Rightarrow>
          (case detail_error [] (field_values [''detail''] ''detail'' ms) of
             None \<Rightarrow> None
           | Some err \<Rightarrow>
               (let n = to_lower (join_with '' '' (GoStrings.fields err)) in
                if n \<noteq> to_lower tavily_query_too_long_message \<and> n \<noteq> ''query exceeds the max query length''
                then None
                else Some (tavily_query_too_long_reason, tavily_query_too_long_message)))
      | _ \<Rightarrow> None))"

section \<open>One upstream call\<close>

text \<open>None is an error before or on the wire, which Forward treats as a network error.\<close>

definition proxy_do ::
  "proxy_env \<Rightarrow> nat \<Rightarrow> client_request \<Rightarrow> 's target \<Rightarrow> selected_endpoint \<Rightarrow> bytes \<Rightarrow> upstream_response option" where
  "proxy_do env attempt r tgt ep body =
     (case join_endpoint_url (se_base_url ep) (tg_path tgt) (cr_raw_query r) of
        Inl _ \<Rightarrow> None
      | Inr url \<Rightarrow>
          if parse_url url = None then None
          else px_transport env attempt
                 \<lparr>uc_method = cr_method r, uc_url = url,
                  uc_header = header_set ''Authorization'' (''Bearer '' @ se_api_key ep) (cr_header r),
                  uc_body = body\<rparr>)"

section \<open>Forward\<close>

record result =
  rs_err :: "string option"
  rs_status_code :: int
  rs_network_error :: bool

text \<open>The last answer kept for the client: status 0 when there is none.\<close>

record last_answer =
  la_status :: int
  la_header :: header
  la_body :: bytes

text \<open>What an attempt ends with: the request is answered, or the loop goes on.\<close>

datatype 's attempt_end =
    Finished written result 's "attempt_log list"
  | Continue last_answer 's "attempt_log list"

definition failed :: "int \<Rightarrow> string \<Rightarrow> result" where
  "failed code err = \<lparr>rs_err = Some err, rs_status_code = code, rs_network_error = False\<rparr>"

definition answered :: "int \<Rightarrow> result" where
  "answered code = \<lparr>rs_err = None, rs_status_code = code, rs_network_error = False\<rparr>"

definition write_last :: "last_answer \<Rightarrow> written" where
  "write_last la = Written (la_status la) (la_header la) (la_body la)"

fun base36 :: "nat \<Rightarrow> string" where
  "base36 n = (if n < 36 then [if n < 10 then char_of (48 + n) else char_of (87 + n)]
     else base36 (n div 36) @ [if n mod 36 < 10 then char_of (48 + n mod 36) else char_of (87 + n mod 36)])"

declare base36.simps [simp del]

definition request_id_of :: "proxy_env \<Rightarrow> client_request \<Rightarrow> string" where
  "request_id_of env r =
     (let h = header_get (cr_header r) ''X-Request-Id'' in
      if h = [] then (if px_id_time env < 0 then ''-'' @ base36 (nat (- px_id_time env))
                      else base36 (nat (px_id_time env)))
      else h)"

definition attempt_row :: "proxy_env \<Rightarrow> client_request \<Rightarrow> 's target \<Rightarrow> nat \<Rightarrow> rowid \<Rightarrow> attempt_log" where
  "attempt_row env r tgt attempt key_id =
     \<lparr>al_id = 0, al_occurred_at = [], al_request_id = request_id_of env r,
      al_provider = tg_provider tgt, al_route_family = route_family_from_path (cr_path r),
      al_path = cr_path r, al_attempt_index = int attempt + 1, al_key_id = Some key_id,
      al_key_name = None, al_key_fingerprint = None, al_upstream_status = None,
      al_status_class = [], al_reason = None, al_cooldown_until = None, al_terminal = False,
      al_message = None\<rparr>"

text \<open>\<open>recordAttempt\<close>: rows reach the recorder only when logging is on.\<close>

definition log_if :: "bool \<Rightarrow> attempt_log \<Rightarrow> attempt_log list" where
  "log_if enabled row = (if enabled then [row] else [])"

definition failure_policy :: "proxy_env \<Rightarrow> string \<Rightarrow> upstream_response \<Rightarrow> bytes \<Rightarrow> policy" where
  "failure_policy env provider resp body =
     (let pol = policy_for_response provider (up_status resp) body (px_settings env) in
      if is_tavily_plan_limit provider (up_status resp) then
        \<lparr>pol_cooldown = (if rate_limit (px_settings env) \<le> 0 then default_rate_limit_cooldown
                         else rate_limit (px_settings env)),
         pol_reason = ''plan_limit_exceeded'', pol_apply = True, pol_retry = True\<rparr>
      else pol)"

text \<open>The end of the cooldown of a failed answer; a Retry-After header of a 429 overrides.\<close>

definition failure_until :: "proxy_env \<Rightarrow> upstream_response \<Rightarrow> policy \<Rightarrow> instant option" where
  "failure_until env resp pol =
     (if pol_apply pol then
        Some (px_now env +
          (if up_status resp = 429 then
             (case parse_retry_after (px_parse_http_date env) (header_get (up_header resp) ''Retry-After'') (px_now env) of
                Some ra \<Rightarrow> ra | None \<Rightarrow> pol_cooldown pol)
           else pol_cooldown pol))
      else None)"

definition kept_answer :: "string \<Rightarrow> upstream_response \<Rightarrow> bytes \<Rightarrow> last_answer" where
  "kept_answer provider resp body =
     (if is_tavily_plan_limit provider (up_status resp) then
        (case tavily_plan_limit_client_response (up_header resp) of
           (st, h, b) \<Rightarrow> \<lparr>la_status = st, la_header = h, la_body = b\<rparr>)
      else \<lparr>la_status = up_status resp, la_header = up_header resp, la_body = body\<rparr>)"

text \<open>The answer arrived: a success ends the loop, a failure marks the key and may retry.\<close>

definition handle_answer ::
  "proxy_env \<Rightarrow> 's key_selector \<Rightarrow> client_request \<Rightarrow> 's target \<Rightarrow> nat \<Rightarrow> bool \<Rightarrow> rowid \<Rightarrow>
   upstream_response \<Rightarrow> bytes \<Rightarrow> 's \<Rightarrow> 's attempt_end" where
  "handle_answer env ks r tgt attempt final key_id resp body s =
     (let kept = kept_answer (tg_provider tgt) resp body;
          row = (attempt_row env r tgt attempt key_id)
                  \<lparr>al_upstream_status := Some (up_status resp),
                   al_status_class := status_class_from_http (up_status resp)\<rparr>
      in if should_mark_success (up_status resp) then
           Finished (Written (up_status resp) (la_header kept) (la_body kept)) (answered (up_status resp))
             (ks_success ks (px_mark_time env attempt) key_id s)
             (log_if (px_logging env) (row\<lparr>al_terminal := True\<rparr>))
         else
           (let pol = failure_policy env (tg_provider tgt) resp body;
                until = failure_until env resp pol;
                reason = (if pol_apply pol then Some (pol_reason pol) else None);
                s' = ks_failure ks (px_mark_time env attempt) key_id (up_status resp) body until reason s;
                terminal = (\<not> pol_retry pol \<or> final);
                row1 = row\<lparr>al_terminal := terminal, al_reason := reason,
                           al_cooldown_until := map_option stamp until\<rparr>;
                row2 = (case tavily_attempt_diagnostic (tg_provider tgt) (up_status resp) body of
                          None \<Rightarrow> row1
                        | Some (why, msg) \<Rightarrow> row1\<lparr>al_reason := Some why, al_message := Some msg\<rparr>);
                logs = log_if (px_logging env) row2
            in if terminal then Finished (write_last kept) (answered (la_status kept)) s' logs
               else Continue kept s' logs))"

definition handle_network_error ::
  "proxy_env \<Rightarrow> 's key_selector \<Rightarrow> client_request \<Rightarrow> 's target \<Rightarrow> nat \<Rightarrow> bool \<Rightarrow> rowid \<Rightarrow>
   last_answer \<Rightarrow> 's \<Rightarrow> 's attempt_end" where
  "handle_network_error env ks r tgt attempt final key_id la s =
     (let cool = (if transient (px_settings env) \<le> 0 then default_transient_cooldown
                  else transient (px_settings env));
          until = px_now env + cool;
          s' = ks_failure ks (px_mark_time env attempt) key_id 0 ''network_error'' (Some until)
                 (Some ''network_error'') s;
          logs = log_if (px_logging env) ((attempt_row env r tgt attempt key_id)
                   \<lparr>al_status_class := ''network_error'', al_reason := Some ''network_error'',
                    al_cooldown_until := Some (stamp until), al_terminal := final\<rparr>)
      in if final then
           Finished (WrittenError 502 ''upstream request failed'')
             \<lparr>rs_err = Some ''network'', rs_status_code = 502, rs_network_error = True\<rparr> s' logs
         else Continue la s' logs)"

definition forward_attempt ::
  "proxy_env \<Rightarrow> 's key_selector \<Rightarrow> client_request \<Rightarrow> 's target \<Rightarrow> bytes \<Rightarrow> nat \<Rightarrow> bool \<Rightarrow>
   last_answer \<Rightarrow> 's \<Rightarrow> 's attempt_end" where
  "forward_attempt env ks r tgt body attempt final la s =
     (case ks_select ks (px_select_time env attempt) (tg_provider tgt) s of
        Inl e \<Rightarrow>
          (if e = ErrNoEnabledKey then
             (if la_status la \<noteq> 0 then Finished (write_last la) (answered (la_status la)) s []
              else Finished (WrittenError 502 ''upstream API keys are not configured'')
                     (failed 502 ''no enabled key'') s [])
           else Finished (WrittenError 500 ''internal error'') (failed 500 ''select'') s [])
      | Inr (ep, s1) \<Rightarrow>
          if trim_space (se_base_url ep) = [] then
            Finished (WrittenError 502 ''upstream base URL is not configured'')
              (failed 502 ''upstream base URL is not configured'') s1 []
          else (case proxy_do env attempt r tgt ep body of
            None \<Rightarrow> handle_network_error env ks r tgt attempt final (se_id ep) la s1
          | Some resp \<Rightarrow>
              (case up_body resp of
                 None \<Rightarrow> Finished (WrittenError 502 ''failed to read upstream response'')
                           (failed 502 ''read upstream response'') s1 []
               | Some resp_body \<Rightarrow>
                   handle_answer env ks r tgt attempt final (se_id ep) resp resp_body s1)))"

record 's forward_out =
  fo_written :: written
  fo_result :: result
  fo_state :: 's
  fo_logs :: "attempt_log list"

text \<open>The loop: \<open>left\<close> attempts remain; the last one is terminal.\<close>

fun forward_loop ::
  "proxy_env \<Rightarrow> 's key_selector \<Rightarrow> client_request \<Rightarrow> 's target \<Rightarrow> bytes \<Rightarrow> nat \<Rightarrow> nat \<Rightarrow>
   last_answer \<Rightarrow> 's \<Rightarrow> 's forward_out" where
  "forward_loop env ks r tgt body 0 attempt la s =
     (if la_status la \<noteq> 0
      then \<lparr>fo_written = write_last la, fo_result = answered (la_status la), fo_state = s, fo_logs = []\<rparr>
      else \<lparr>fo_written = WrittenError 502 ''upstream request failed'',
            fo_result = failed 502 ''upstream request failed'', fo_state = s, fo_logs = []\<rparr>)"
| "forward_loop env ks r tgt body (Suc left) attempt la s =
     (case forward_attempt env ks r tgt body attempt (left = 0) la s of
        Finished w res s' logs \<Rightarrow> \<lparr>fo_written = w, fo_result = res, fo_state = s', fo_logs = logs\<rparr>
      | Continue la' s' logs \<Rightarrow>
          (let out = forward_loop env ks r tgt body left (Suc attempt) la' s'
           in out\<lparr>fo_logs := logs @ fo_logs out\<rparr>))"

definition no_answer :: last_answer where
  "no_answer = \<lparr>la_status = 0, la_header = Map.empty, la_body = []\<rparr>"

definition max_attempts :: "settings \<Rightarrow> nat" where
  "max_attempts s = nat (if max_retries s < 1 then default_max_retries else max_retries s)"

definition forward :: "proxy_env \<Rightarrow> client_request \<Rightarrow> 's target \<Rightarrow> 's \<Rightarrow> 's forward_out" where
  "forward env r tgt s =
     (case tg_keys tgt of
        None \<Rightarrow> \<lparr>fo_written = WrittenError 502 ''upstream API keys are not configured'',
                 fo_result = failed 502 ''upstream API keys are not configured'', fo_state = s, fo_logs = []\<rparr>
      | Some ks \<Rightarrow>
          if trim_space (tg_provider tgt) = [] then
            \<lparr>fo_written = WrittenError 502 ''upstream API keys are not configured'',
             fo_result = failed 502 ''upstream API keys are not configured'', fo_state = s, fo_logs = []\<rparr>
          else (case cr_body r of
            None \<Rightarrow> \<lparr>fo_written = WrittenError 400 ''failed to read request body'',
                     fo_result = failed 400 ''read body'', fo_state = s, fo_logs = []\<rparr>
          | Some body \<Rightarrow> forward_loop env ks r tgt body (max_attempts (px_settings env)) 0 no_answer s))"

text \<open>The key store of the gateway as a selector.\<close>

definition repo_selector :: "key_env \<Rightarrow> key_table key_selector" where
  "repo_selector env =
     \<lparr>ks_select = select_endpoint env, ks_success = mark_success,
      ks_failure = mark_failure_with_cooldown\<rparr>"

end
