(* ===== verification/ProxyLaws.thy ===== *)
theory ProxyLaws
  imports Proxy
begin

text \<open>
  What Forward guarantees over any key store that keeps the contract of the Go interface
  KeySelector, stated as a locale and interpreted on the operations of KeyRepo.
\<close>

section \<open>The shape of one attempt\<close>

text \<open>The three ways an attempt can end that touched a key, and the ways that did not.\<close>

lemma handle_answer_cases:
  assumes "handle_answer env ks r tgt attempt final i resp body s = e"
  obtains st h b row where "e = Finished (Written st h b) (answered st) (ks_success ks (px_mark_time env attempt) i s)
        (log_if (px_logging env) row)" "should_mark_success (up_status resp)" "st = up_status resp"
      "al_attempt_index row = int attempt + 1" "al_key_id row = Some i" "al_terminal row"
  | st until reason row where "e = Finished (write_last (kept_answer (tg_provider tgt) resp body))
          (answered (la_status (kept_answer (tg_provider tgt) resp body)))
          (ks_failure ks (px_mark_time env attempt) i st body until reason s) (log_if (px_logging env) row)"
      "al_attempt_index row = int attempt + 1" "al_key_id row = Some i" "al_terminal row"
      "al_cooldown_until row = map_option stamp until"
  | st until reason row where "e = Continue (kept_answer (tg_provider tgt) resp body)
          (ks_failure ks (px_mark_time env attempt) i st body until reason s) (log_if (px_logging env) row)"
      "\<not> final" "al_attempt_index row = int attempt + 1" "al_key_id row = Some i" "\<not> al_terminal row"
      "al_cooldown_until row = map_option stamp until"
proof -
  let ?k = "kept_answer (tg_provider tgt) resp body"
  show thesis
  proof (cases "should_mark_success (up_status resp)")
    case True
    with assms that(1) show ?thesis
      by (auto simp: handle_answer_def Let_def attempt_row_def)
  next
    case False
    define pol where "pol = failure_policy env (tg_provider tgt) resp body"
    define until where "until = failure_until env resp pol"
    define reason where "reason = (if pol_apply pol then Some (pol_reason pol) else None)"
    define row1 where "row1 = (attempt_row env r tgt attempt i)
                  \<lparr>al_upstream_status := Some (up_status resp),
                   al_status_class := status_class_from_http (up_status resp),
                   al_terminal := \<not> pol_retry pol \<or> final, al_reason := reason,
                   al_cooldown_until := map_option stamp until\<rparr>"
    define row2 where "row2 = (case tavily_attempt_diagnostic (tg_provider tgt) (up_status resp) body of
                          None \<Rightarrow> row1
                        | Some (why, msg) \<Rightarrow> row1\<lparr>al_reason := Some why, al_message := Some msg\<rparr>)"
    have row2: "al_attempt_index row2 = int attempt + 1" "al_key_id row2 = Some i"
      "al_terminal row2 = (\<not> pol_retry pol \<or> final)" "al_cooldown_until row2 = map_option stamp until"
      by (simp_all add: row2_def row1_def attempt_row_def split: option.splits)
    let ?s = "ks_failure ks (px_mark_time env attempt) i (up_status resp) body until reason s"
    have e: "e = (if \<not> pol_retry pol \<or> final
        then Finished (write_last ?k) (answered (la_status ?k)) ?s (log_if (px_logging env) row2)
        else Continue ?k ?s (log_if (px_logging env) row2))"
      using assms False unfolding handle_answer_def Let_def row2_def row1_def until_def reason_def pol_def
      by simp
    show ?thesis
    proof (cases "\<not> pol_retry pol \<or> final")
      case True
      then show ?thesis using e row2 by (intro that(2) [of "up_status resp" until reason row2]) simp_all
    next
      case False
      then show ?thesis using e row2 by (intro that(3) [of "up_status resp" until reason row2]) simp_all
    qed
  qed
qed

lemma handle_network_error_cases:
  assumes "handle_network_error env ks r tgt attempt final i la s = e"
  obtains res until row where "final" "e = Finished (WrittenError 502 ''upstream request failed'') res
          (ks_failure ks (px_mark_time env attempt) i 0 ''network_error'' (Some until) (Some ''network_error'') s)
          (log_if (px_logging env) row)" "rs_status_code res = 502"
      "al_attempt_index row = int attempt + 1" "al_key_id row = Some i" "al_terminal row"
  | until row where "\<not> final" "e = Continue la
          (ks_failure ks (px_mark_time env attempt) i 0 ''network_error'' (Some until) (Some ''network_error'') s)
          (log_if (px_logging env) row)"
      "al_attempt_index row = int attempt + 1" "al_key_id row = Some i" "\<not> al_terminal row"
      "al_cooldown_until row = Some (stamp until)"
  using assms unfolding handle_network_error_def Let_def attempt_row_def by (cases final) auto

lemma forward_attempt_Continue:
  assumes "forward_attempt env ks r tgt body attempt final la s = Continue la' s' logs"
  obtains ep s1 st msg until reason row where
    "ks_select ks (px_select_time env attempt) (tg_provider tgt) s = Inr (ep, s1)"
    "s' = ks_failure ks (px_mark_time env attempt) (se_id ep) st msg until reason s1"
    "logs = log_if (px_logging env) row" "al_attempt_index row = int attempt + 1"
    "al_key_id row = Some (se_id ep)" "al_cooldown_until row = map_option stamp until"
    "\<not> al_terminal row" "\<not> final" "la' = la \<or> (\<exists>resp b. la' = kept_answer (tg_provider tgt) resp b)"
proof -
  from assms obtain ep s1 where sel: "ks_select ks (px_select_time env attempt) (tg_provider tgt) s = Inr (ep, s1)"
    by (auto simp: forward_attempt_def split: sum.splits if_splits)
  with assms consider
      "handle_network_error env ks r tgt attempt final (se_id ep) la s1 = Continue la' s' logs"
    | resp b where "handle_answer env ks r tgt attempt final (se_id ep) resp b s1 = Continue la' s' logs"
    by (auto simp: forward_attempt_def split: if_splits option.splits)
  then show thesis
  proof cases
    case 1
    then show ?thesis
    proof (cases rule: handle_network_error_cases)
      case (2 until row)
      then show ?thesis using sel that [of ep s1 0 _ "Some until" _ row] by simp
    qed simp
  next
    case (2 resp b)
    then show ?thesis
    proof (cases rule: handle_answer_cases)
      case (3 st until reason row)
      then show ?thesis using sel by (intro that [of ep s1 st b until reason row]) auto
    qed simp_all
  qed
qed

lemma forward_attempt_Finished:
  assumes "forward_attempt env ks r tgt body attempt final la s = Finished w res s' logs"
  shows "(logs = [] \<or> (\<exists>row. logs = log_if (px_logging env) row \<and> al_attempt_index row = int attempt + 1
       \<and> (\<exists>ep s1. ks_select ks (px_select_time env attempt) (tg_provider tgt) s = Inr (ep, s1)
            \<and> al_key_id row = Some (se_id ep)) \<and> al_terminal row))
     \<and> (s' = s \<or> (\<exists>ep s1. ks_select ks (px_select_time env attempt) (tg_provider tgt) s = Inr (ep, s1)
          \<and> (s' = s1 \<or> s' = ks_success ks (px_mark_time env attempt) (se_id ep) s1
             \<or> (\<exists>st msg until reason. s' = ks_failure ks (px_mark_time env attempt) (se_id ep) st msg until reason s1))))
     \<and> (w = write_last la \<or> (\<exists>st why. w = WrittenError st why \<and> st \<in> {500, 502})
        \<or> (\<exists>resp b. w = write_last (kept_answer (tg_provider tgt) resp b))
        \<or> (\<exists>st h b. w = Written st h b \<and> should_mark_success st))
     \<and> (case w of Written st _ _ \<Rightarrow> rs_status_code res = st | WrittenError st _ \<Rightarrow> rs_status_code res = st)"
proof (cases "ks_select ks (px_select_time env attempt) (tg_provider tgt) s")
  case (Inl e)
  with assms show ?thesis
    by (auto simp: forward_attempt_def write_last_def answered_def failed_def split: if_splits)
next
  case (Inr a)
  obtain ep s1 where a: "a = (ep, s1)" by fastforce
  show ?thesis
  proof (cases "trim_space (se_base_url ep) = []")
    case True
    with assms Inr a show ?thesis by (auto simp: forward_attempt_def failed_def)
  next
    case False
    show ?thesis
    proof (cases "proxy_do env attempt r tgt ep body")
      case None
      with assms Inr a False have "handle_network_error env ks r tgt attempt final (se_id ep) la s1
          = Finished w res s' logs" by (simp add: forward_attempt_def)
      then show ?thesis
      proof (cases rule: handle_network_error_cases)
        case (1 res until row)
        with Inr a show ?thesis by auto
      qed simp
    next
      case (Some resp)
      show ?thesis
      proof (cases "up_body resp")
        case None
        with assms Inr a False Some show ?thesis by (auto simp: forward_attempt_def failed_def)
      next
        case (Some b)
        with assms Inr a False \<open>proxy_do env attempt r tgt ep body = Some resp\<close>
        have "handle_answer env ks r tgt attempt final (se_id ep) resp b s1 = Finished w res s' logs"
          by (simp add: forward_attempt_def)
        then show ?thesis
        proof (cases rule: handle_answer_cases)
          case (1 st h b' row)
          with Inr a show ?thesis by (auto simp: answered_def)
        next
          case (2 st until reason row)
          with Inr a show ?thesis by (auto simp: answered_def write_last_def)
        qed simp
      qed
    qed
  qed
qed

section \<open>The rows of the attempt log\<close>

lemma loop_log_indices:
  assumes "px_logging env"
  shows "\<exists>n \<le> left. map al_attempt_index (fo_logs (forward_loop env ks r tgt body left attempt la s))
     = map (\<lambda>k. int k + 1) [attempt..<attempt + n]"
proof (induction left arbitrary: attempt la s)
  case (Suc left)
  show ?case
  proof (cases "forward_attempt env ks r tgt body attempt (left = 0) la s")
    case (Finished w res s' logs)
    from forward_attempt_Finished [OF this] assms
    consider "logs = []" | row where "logs = [row]" "al_attempt_index row = int attempt + 1"
      by (auto simp: log_if_def)
    then show ?thesis
    proof cases
      case 1
      with Finished show ?thesis by (intro exI [of _ 0]) simp
    next
      case 2
      with Finished show ?thesis by (intro exI [of _ 1]) simp
    qed
  next
    case (Continue la' s' logs)
    from this obtain row where row: "logs = [row]" "al_attempt_index row = int attempt + 1"
      using assms by (elim forward_attempt_Continue) (simp add: log_if_def)
    from Suc [of "Suc attempt" la' s'] obtain n where n: "n \<le> left"
      "map al_attempt_index (fo_logs (forward_loop env ks r tgt body left (Suc attempt) la' s'))
       = map (\<lambda>k. int k + 1) [Suc attempt..<Suc attempt + n]" by blast
    have "[attempt..<attempt + Suc n] = attempt # [Suc attempt..<Suc attempt + n]"
      by (simp add: upt_rec)
    with n Continue row show ?thesis by (intro exI [of _ "Suc n"]) (simp add: Let_def)
  qed
qed simp

lemma loop_log_terminal:
  assumes "px_logging env" "fo_logs (forward_loop env ks r tgt body left attempt la s) = xs @ row # ys" "ys \<noteq> []"
  shows "\<not> al_terminal row"
  using assms(2)
proof (induction left arbitrary: attempt la s xs)
  case (Suc left)
  show ?case
  proof (cases "forward_attempt env ks r tgt body attempt (left = 0) la s")
    case (Finished w res s' logs)
    from forward_attempt_Finished [OF this] assms(1) have "length logs \<le> 1" by (auto simp: log_if_def)
    moreover have "logs = xs @ row # ys" using Suc.prems Finished by simp
    ultimately show ?thesis using assms(3) by (cases ys) auto
  next
    case (Continue la' s' logs)
    from this obtain row0 where row0: "logs = [row0]" "\<not> al_terminal row0"
      using assms(1) by (elim forward_attempt_Continue) (simp add: log_if_def)
    with Continue Suc.prems have split: "row0 # fo_logs (forward_loop env ks r tgt body left (Suc attempt) la' s')
        = xs @ row # ys" by (simp add: Let_def)
    show ?thesis
    proof (cases xs)
      case Nil
      with split row0 show ?thesis by simp
    next
      case (Cons x xs')
      with split Suc.IH [of "Suc attempt" la' s' xs'] show ?thesis by simp
    qed
  qed
qed (simp split: if_splits)

section \<open>Logging does not change the outcome\<close>

definition quiet :: "proxy_env \<Rightarrow> proxy_env" where
  "quiet env = env\<lparr>px_logging := False\<rparr>"

fun drop_logs :: "'s attempt_end \<Rightarrow> 's attempt_end" where
  "drop_logs (Finished w res s logs) = Finished w res s []"
| "drop_logs (Continue la s logs) = Continue la s []"

lemma quiet_sel [simp]:
  "px_settings (quiet env) = px_settings env" "px_transport (quiet env) = px_transport env"
  "px_now (quiet env) = px_now env" "px_select_time (quiet env) = px_select_time env"
  "px_mark_time (quiet env) = px_mark_time env" "px_id_time (quiet env) = px_id_time env"
  "px_parse_http_date (quiet env) = px_parse_http_date env" "px_logging (quiet env) = False"
  by (simp_all add: quiet_def)

lemma quiet_parts [simp]:
  "proxy_do (quiet env) attempt r tgt ep body = proxy_do env attempt r tgt ep body"
  "failure_policy (quiet env) p resp b = failure_policy env p resp b"
  "failure_until (quiet env) resp pol = failure_until env resp pol"
  by (simp_all add: proxy_do_def failure_policy_def failure_until_def split: sum.split)

lemma quiet_attempt:
  "forward_attempt (quiet env) ks r tgt body attempt final la s =
   drop_logs (forward_attempt env ks r tgt body attempt final la s)"
proof -
  have "handle_answer (quiet env) ks r tgt attempt final i resp b s1 =
      drop_logs (handle_answer env ks r tgt attempt final i resp b s1)" for i resp b s1
    by (simp add: handle_answer_def Let_def log_if_def)
  moreover have "handle_network_error (quiet env) ks r tgt attempt final i la s1 =
      drop_logs (handle_network_error env ks r tgt attempt final i la s1)" for i s1
    by (simp add: handle_network_error_def Let_def log_if_def)
  ultimately show ?thesis
    by (simp add: forward_attempt_def split: sum.split option.split)
qed

lemma quiet_loop:
  "forward_loop (quiet env) ks r tgt body left attempt la s =
   (forward_loop env ks r tgt body left attempt la s)\<lparr>fo_logs := []\<rparr>"
proof (induction left arbitrary: attempt la s)
  case (Suc left)
  show ?case
    by (cases "forward_attempt env ks r tgt body attempt (left = 0) la s")
       (simp_all add: quiet_attempt Suc Let_def)
qed simp

lemma quiet_forward: "forward (quiet env) r tgt s = (forward env r tgt s)\<lparr>fo_logs := []\<rparr>"
  by (simp add: forward_def quiet_loop split: option.split)

section \<open>Counting the attempts\<close>

text \<open>A key store that also counts the keys it has given out: one for each upstream call.\<close>

definition counting :: "'s key_selector \<Rightarrow> ('s \<times> nat) key_selector" where
  "counting ks =
     \<lparr>ks_select = (\<lambda>t p (s, n). case ks_select ks t p s of Inl e \<Rightarrow> Inl e | Inr (e, s') \<Rightarrow> Inr (e, (s', Suc n))),
      ks_success = (\<lambda>t i (s, n). (ks_success ks t i s, n)),
      ks_failure = (\<lambda>t i st m u r (s, n). (ks_failure ks t i st m u r s, n))\<rparr>"

definition counting_target :: "'s target \<Rightarrow> ('s \<times> nat) target" where
  "counting_target tgt =
     \<lparr>tg_path = tg_path tgt, tg_provider = tg_provider tgt, tg_keys = map_option counting (tg_keys tgt)\<rparr>"

lemma counting_parts [simp]:
  "tg_path (counting_target tgt) = tg_path tgt" "tg_provider (counting_target tgt) = tg_provider tgt"
  "proxy_do env a r (counting_target tgt) ep body = proxy_do env a r tgt ep body"
  "attempt_row env r (counting_target tgt) a i = attempt_row env r tgt a i"
  by (simp_all add: counting_target_def proxy_do_def attempt_row_def)

lemma counting_answer:
  "handle_answer env (counting ks) r (counting_target tgt) attempt final i resp b (s, n) =
     map_attempt_end (\<lambda>s. (s, n)) (handle_answer env ks r tgt attempt final i resp b s)"
  by (simp add: handle_answer_def counting_def Let_def)

lemma counting_network_error:
  "handle_network_error env (counting ks) r (counting_target tgt) attempt final i la (s, n) =
     map_attempt_end (\<lambda>s. (s, n)) (handle_network_error env ks r tgt attempt final i la s)"
  by (simp add: handle_network_error_def counting_def Let_def)

fun end_logs :: "'s attempt_end \<Rightarrow> attempt_log list" where
  "end_logs (Finished w res s logs) = logs"
| "end_logs (Continue la s logs) = logs"

lemma handled_logs:
  "length (end_logs (handle_answer env ks r tgt attempt final i resp b s)) \<le> 1"
  "length (end_logs (handle_network_error env ks r tgt attempt final i la s)) \<le> 1"
  by (simp_all add: handle_answer_def handle_network_error_def log_if_def Let_def)

lemma counting_attempt:
  "\<exists>m. forward_attempt env (counting ks) r (counting_target tgt) body attempt final la (s, n) =
       map_attempt_end (\<lambda>s. (s, m)) (forward_attempt env ks r tgt body attempt final la s)
     \<and> m \<le> Suc n \<and> n + length (end_logs (forward_attempt env ks r tgt body attempt final la s)) \<le> m"
proof (cases "ks_select ks (px_select_time env attempt) (tg_provider tgt) s")
  case (Inl e)
  then show ?thesis
    by (intro exI [of _ n]) (simp add: forward_attempt_def counting_def)
next
  case (Inr x)
  obtain ep s1 where x: "x = (ep, s1)" by (cases x)
  have c: "ks_select (counting ks) (px_select_time env attempt) (tg_provider tgt) (s, n) = Inr (ep, (s1, Suc n))"
    by (simp add: counting_def Inr x)
  show ?thesis
    by (intro exI [of _ "Suc n"])
      (simp add: forward_attempt_def c Inr x counting_answer counting_network_error handled_logs [simplified]
        split: option.split)
qed

lemma counting_loop:
  "\<exists>m. fo_state (forward_loop env (counting ks) r (counting_target tgt) body left attempt la (s, n)) =
       (fo_state (forward_loop env ks r tgt body left attempt la s), m)
     \<and> m \<le> n + left \<and> n + length (fo_logs (forward_loop env ks r tgt body left attempt la s)) \<le> m"
proof (induction left arbitrary: attempt la s n)
  case (Suc left)
  obtain m where m: "forward_attempt env (counting ks) r (counting_target tgt) body attempt (left = 0) la (s, n) =
      map_attempt_end (\<lambda>s. (s, m)) (forward_attempt env ks r tgt body attempt (left = 0) la s)"
    "m \<le> Suc n" "n + length (end_logs (forward_attempt env ks r tgt body attempt (left = 0) la s)) \<le> m"
    using counting_attempt [of env ks r tgt body attempt "left = 0" la s n] by blast
  show ?case
  proof (cases "forward_attempt env ks r tgt body attempt (left = 0) la s")
    case (Finished w res s' logs)
    with m show ?thesis by simp
  next
    case (Continue la' s' logs)
    obtain k where "fo_state (forward_loop env (counting ks) r (counting_target tgt) body left (Suc attempt) la' (s', m)) =
        (fo_state (forward_loop env ks r tgt body left (Suc attempt) la' s'), k)" "k \<le> m + left"
      "m + length (fo_logs (forward_loop env ks r tgt body left (Suc attempt) la' s')) \<le> k"
      using Suc.IH [of "Suc attempt" la' s' m] by blast
    with Continue m show ?thesis by (simp add: Let_def)
  qed
qed simp

lemma counting_forward:
  "\<exists>m. fo_state (forward env r (counting_target tgt) (s, 0)) = (fo_state (forward env r tgt s), m)
     \<and> m \<le> max_attempts (px_settings env) \<and> length (fo_logs (forward env r tgt s)) \<le> m"
proof (cases "tg_keys tgt")
  case None
  then show ?thesis by (simp add: forward_def counting_target_def)
next
  case (Some ks)
  then have c: "tg_keys (counting_target tgt) = Some (counting ks)" by (simp add: counting_target_def)
  show ?thesis
    using counting_loop [of env ks r tgt _ "max_attempts (px_settings env)" 0 no_answer s 0]
    by (simp add: forward_def Some c split: option.split)
qed

section \<open>The contract of a key store\<close>

locale key_selection =
  fixes ks :: "'s key_selector"
    and inv :: "'s \<Rightarrow> bool"
    and blocked :: "'s \<Rightarrow> rowid \<Rightarrow> timestamp \<Rightarrow> bool"
  assumes select_inv: "inv s \<Longrightarrow> ks_select ks t p s = Inr (e, s') \<Longrightarrow> inv s'"
    and success_inv: "inv s \<Longrightarrow> inv (ks_success ks t i s)"
    and failure_inv: "inv s \<Longrightarrow> inv (ks_failure ks t i st m v r s)"
    and select_skips: "blocked s i u \<Longrightarrow> ks_select ks t p s = Inr (e, s') \<Longrightarrow> se_id e = i \<Longrightarrow> u < stamp t"
    and select_blocked: "blocked s i u \<Longrightarrow> ks_select ks t p s = Inr (e, s') \<Longrightarrow> blocked s' i u"
    and failure_blocks: "blocked (ks_failure ks t i st m (Some until) r s) i (stamp until)"
    and failure_others: "blocked s i u \<Longrightarrow> j \<noteq> i \<Longrightarrow> blocked (ks_failure ks t j st m v r s) i u"
begin

lemma loop_inv: "inv s \<Longrightarrow> inv (fo_state (forward_loop env ks r tgt body left attempt la s))"
proof (induction left arbitrary: attempt la s)
  case (Suc left)
  show ?case
  proof (cases "forward_attempt env ks r tgt body attempt (left = 0) la s")
    case (Finished w res s' logs)
    from forward_attempt_Finished [OF this]
    consider "s' = s"
      | ep s1 where "ks_select ks (px_select_time env attempt) (tg_provider tgt) s = Inr (ep, s1)"
          "s' = s1 \<or> s' = ks_success ks (px_mark_time env attempt) (se_id ep) s1
           \<or> (\<exists>st msg until reason. s' = ks_failure ks (px_mark_time env attempt) (se_id ep) st msg until reason s1)"
      by blast
    then have "inv s'"
    proof cases
      case 1
      with Suc.prems show ?thesis by simp
    next
      case 2
      with select_inv [OF Suc.prems 2(1)] success_inv failure_inv show ?thesis by blast
    qed
    with Finished show ?thesis by simp
  next
    case (Continue la' s' logs)
    then obtain ep s1 st msg until reason where
      "ks_select ks (px_select_time env attempt) (tg_provider tgt) s = Inr (ep, s1)"
      "s' = ks_failure ks (px_mark_time env attempt) (se_id ep) st msg until reason s1"
      by (rule forward_attempt_Continue)
    then have "inv s'" using select_inv [OF Suc.prems] failure_inv by blast
    from Suc.IH [OF this] Continue show ?thesis by (simp add: Let_def)
  qed
qed simp

lemma forward_inv: "tg_keys tgt = Some ks \<Longrightarrow> inv s \<Longrightarrow> inv (fo_state (forward env r tgt s))"
  by (simp add: forward_def loop_inv split: option.split)

text \<open>A key that is blocked until \<open>u\<close> is tried for the first time only after \<open>u\<close>.\<close>

lemma loop_first_try:
  assumes "px_logging env" "blocked s i u"
    and "j < length (fo_logs (forward_loop env ks r tgt body left attempt la s))"
    and "al_key_id (fo_logs (forward_loop env ks r tgt body left attempt la s) ! j) = Some i"
    and "\<forall>k < j. al_key_id (fo_logs (forward_loop env ks r tgt body left attempt la s) ! k) \<noteq> Some i"
  shows "u < stamp (px_select_time env (attempt + j))"
  using assms(2-)
proof (induction left arbitrary: attempt la s j)
  case (Suc left)
  show ?case
  proof (cases "forward_attempt env ks r tgt body attempt (left = 0) la s")
    case (Finished w res s' logs)
    from forward_attempt_Finished [OF this] Suc.prems(2) Finished assms(1)
    obtain row ep s1 where "logs = [row]" "al_key_id row = Some (se_id ep)"
      "ks_select ks (px_select_time env attempt) (tg_provider tgt) s = Inr (ep, s1)"
      by (auto simp: log_if_def)
    with Suc.prems Finished select_skips show ?thesis by (cases j) auto
  next
    case (Continue la' s' logs)
    let ?rest = "fo_logs (forward_loop env ks r tgt body left (Suc attempt) la' s')"
    obtain ep s1 st msg until reason row where c:
      "ks_select ks (px_select_time env attempt) (tg_provider tgt) s = Inr (ep, s1)"
      "s' = ks_failure ks (px_mark_time env attempt) (se_id ep) st msg until reason s1"
      "logs = [row]" "al_key_id row = Some (se_id ep)"
      using Continue assms(1) by (elim forward_attempt_Continue) (simp add: log_if_def)
    have logs: "fo_logs (forward_loop env ks r tgt body (Suc left) attempt la s) = row # ?rest"
      using Continue c by (simp add: Let_def)
    note prems = Suc.prems(2-4) [unfolded logs]
    show ?thesis
    proof (cases j)
      case 0
      then have "se_id ep = i" using prems(2) c by simp
      with 0 select_skips [OF Suc.prems(1) c(1)] show ?thesis by simp
    next
      case (Suc j')
      then have "se_id ep \<noteq> i" using prems(3) c by auto
      then have b: "blocked s' i u"
        unfolding c(2) by (intro failure_others select_blocked [OF Suc.prems(1) c(1)])
      have "j' < length ?rest" "al_key_id (?rest ! j') = Some i"
        using prems(1,2) Suc by simp_all
      moreover have "\<forall>k < j'. al_key_id (?rest ! k) \<noteq> Some i"
        using prems(3) Suc by (metis Suc_less_eq nth_Cons_Suc)
      ultimately have "u < stamp (px_select_time env (Suc attempt + j'))" by (rule Suc.IH [OF b])
      with Suc show ?thesis by simp
    qed
  qed
qed (simp split: if_splits)

text \<open>Between two tries of one key in a request, the first try's cooldown has run out.\<close>

lemma loop_retry:
  assumes "px_logging env" "a < j"
    and "j < length (fo_logs (forward_loop env ks r tgt body left attempt la s))"
    and "al_key_id (fo_logs (forward_loop env ks r tgt body left attempt la s) ! a) = Some i"
    and "al_key_id (fo_logs (forward_loop env ks r tgt body left attempt la s) ! j) = Some i"
    and "\<forall>k. a < k \<and> k < j \<longrightarrow> al_key_id (fo_logs (forward_loop env ks r tgt body left attempt la s) ! k) \<noteq> Some i"
    and "al_cooldown_until (fo_logs (forward_loop env ks r tgt body left attempt la s) ! a) = Some u"
  shows "u < stamp (px_select_time env (attempt + j))"
  using assms(2-)
proof (induction left arbitrary: attempt la s a j)
  case (Suc left)
  show ?case
  proof (cases "forward_attempt env ks r tgt body attempt (left = 0) la s")
    case (Finished w res s' logs)
    from forward_attempt_Finished [OF this] assms(1) have "length logs \<le> 1" by (auto simp: log_if_def)
    with Suc.prems(1,2) Finished show ?thesis by auto
  next
    case (Continue la' s' logs)
    let ?rest = "fo_logs (forward_loop env ks r tgt body left (Suc attempt) la' s')"
    obtain ep :: selected_endpoint and s1 st msg until reason row where c:
      "s' = ks_failure ks (px_mark_time env attempt) (se_id ep) st msg until reason s1"
      "logs = log_if (px_logging env) row" "al_key_id row = Some (se_id ep)"
      "al_cooldown_until row = map_option stamp until"
      using Continue by (elim forward_attempt_Continue) blast
    have logs1: "logs = [row]" using c(2) assms(1) by (simp add: log_if_def)
    have logs: "fo_logs (forward_loop env ks r tgt body (Suc left) attempt la s) = row # ?rest"
      using Continue logs1 by (simp add: Let_def)
    note prems = Suc.prems(2-6) [unfolded logs]
    obtain j' where j: "j = Suc j'" using Suc.prems(1) by (cases j) auto
    have rest: "j' < length ?rest" "al_key_id (?rest ! j') = Some i"
      using prems(1,3) by (simp_all add: j)
    show ?thesis
    proof (cases a)
      case 0
      have i: "se_id ep = i" using prems(2) c(3) by (simp add: 0)
      obtain v where "until = Some v" "stamp v = u" using prems(5) c(4) by (auto simp: 0)
      then have b: "blocked s' i u" using failure_blocks unfolding c(1) i by blast
      have "\<forall>k < j'. al_key_id (?rest ! k) \<noteq> Some i"
        using prems(4) unfolding 0 j by (metis Suc_less_eq nth_Cons_Suc zero_less_Suc)
      from loop_first_try [OF assms(1) b rest this] show ?thesis by (simp add: j)
    next
      case (Suc a')
      have "\<forall>k. a' < k \<and> k < j' \<longrightarrow> al_key_id (?rest ! k) \<noteq> Some i"
        using prems(4) unfolding Suc j by (metis Suc_less_eq nth_Cons_Suc)
      with Suc.IH [of a' j' "Suc attempt" la' s'] Suc.prems(1) prems(2,5) rest show ?thesis
        by (simp add: Suc j)
    qed
  qed
qed (simp split: if_splits)

end

section \<open>KeyRepo keeps the contract\<close>

definition cools_until :: "key_table \<Rightarrow> rowid \<Rightarrow> timestamp \<Rightarrow> bool" where
  "cools_until t i u \<longleftrightarrow> (\<forall>r \<in> set (rows t). pk_id r = i \<longrightarrow> pk_cooldown_until r = Some u)"

lemma cools_until_set_row:
  assumes "cools_until t i u" "\<And>r. pk_id (f r) = pk_id r"
    and "\<And>r. j = i \<Longrightarrow> pk_cooldown_until (f r) = pk_cooldown_until r"
  shows "cools_until (set_row j f t) i u"
  using assms by (auto simp: cools_until_def rows_set_row)

lemma failure_cools:
  "cools_until (mark_failure_with_cooldown t i st m (Some v) r s) i (stamp v)"
  unfolding cools_until_def
proof (intro ballI impI)
  fix x assume x: "x \<in> set (rows (mark_failure_with_cooldown t i st m (Some v) r s))" "pk_id x = i"
  show "pk_cooldown_until x = Some (stamp v)"
    using x(1) unfolding mark_failure_with_cooldown_def
    by (elim row_set_row_hit [OF _ _ x(2)]) simp_all
qed

interpretation repo_selection: key_selection "repo_selector env" "wf_keys env" cools_until for env
proof
  fix s :: key_table and t p e s' i st m u r until j v
  show "wf_keys env s \<Longrightarrow> ks_select (repo_selector env) t p s = Inr (e, s') \<Longrightarrow> wf_keys env s'"
    by (simp add: repo_selector_def select_endpoint_wf)
  show "wf_keys env s \<Longrightarrow> wf_keys env (ks_success (repo_selector env) t i s)"
    by (simp add: repo_selector_def mark_wf)
  show "wf_keys env s \<Longrightarrow> wf_keys env (ks_failure (repo_selector env) t i st m v r s)"
    by (simp add: repo_selector_def mark_wf)
  show "cools_until s i u \<Longrightarrow> ks_select (repo_selector env) t p s = Inr (e, s') \<Longrightarrow> se_id e = i \<Longrightarrow> u < stamp t"
  proof -
    assume c: "cools_until s i u" and sel: "ks_select (repo_selector env) t p s = Inr (e, s')" and i: "se_id e = i"
    from sel have "select_endpoint env t p s = Inr (e, s')" by (simp add: repo_selector_def)
    then obtain r :: provider_key and plain where r: "pick_row p (stamp t) s = Some r" "e = endpoint_of r plain"
      by (rule select_endpoint_Inr)
    from pick_row_Some(1,2) [OF r(1)] c i r(2) show ?thesis
      by (auto simp: cools_until_def endpoint_of_def selectable_def)
  qed
  show "cools_until s i u \<Longrightarrow> ks_select (repo_selector env) t p s = Inr (e, s') \<Longrightarrow> cools_until s' i u"
    by (auto simp: repo_selector_def elim!: select_endpoint_Inr intro!: cools_until_set_row)
  show "cools_until (ks_failure (repo_selector env) t i st m (Some until) r s) i (stamp until)"
    by (simp add: repo_selector_def failure_cools)
  show "cools_until s i u \<Longrightarrow> j \<noteq> i \<Longrightarrow> cools_until (ks_failure (repo_selector env) t j st m v r s) i u"
    by (auto simp: repo_selector_def mark_failure_with_cooldown_def intro!: cools_until_set_row)
qed

end
