(* ===== verification/ProxyProperties.thy ===== *)
theory ProxyProperties
  imports ProxyLaws Instances
begin

text \<open>The properties of the proxy, over the key store of the gateway.\<close>

section \<open>Histories through the proxy\<close>

interpretation repo_history: key_selection "repo_selector env" "key_history env" cools_until for env
proof
  fix s :: key_table and t p e s' i st m u r until j v
  show "key_history env s \<Longrightarrow> ks_select (repo_selector env) t p s = Inr (e, s') \<Longrightarrow> key_history env s'"
    by (simp add: repo_selector_def) (rule key_history.select)
  show "key_history env s \<Longrightarrow> key_history env (ks_success (repo_selector env) t i s)"
    by (simp add: repo_selector_def key_history.success)
  show "key_history env s \<Longrightarrow> key_history env (ks_failure (repo_selector env) t i st m v r s)"
    by (simp add: repo_selector_def key_history.failure)
qed (rule repo_selection.select_skips repo_selection.select_blocked repo_selection.failure_blocks
    repo_selection.failure_others; assumption)+

section \<open>A concrete request\<close>

text \<open>Every upstream answers 500, once per attempt.\<close>

definition demo_response :: upstream_response where
  "demo_response = \<lparr>up_status = 500, up_header = Map.empty, up_body = Some ''no''\<rparr>"

definition demo_proxy :: proxy_env where
  "demo_proxy =
     \<lparr>px_settings = default_settings\<lparr>max_retries := 1\<rparr>, px_transport = (\<lambda>_ _. Some demo_response),
      px_now = 0, px_select_time = (\<lambda>_. 0), px_mark_time = (\<lambda>_. 0), px_id_time = 0,
      px_parse_http_date = (\<lambda>_. None), px_logging = True\<rparr>"

definition demo_request :: client_request where
  "demo_request = \<lparr>cr_method = ''POST'', cr_path = ''/grok/v1/chat'', cr_raw_query = [],
     cr_header = Map.empty, cr_body = Some []\<rparr>"

definition demo_target :: "key_table target" where
  "demo_target = \<lparr>tg_path = ''/chat'', tg_provider = ''grok'', tg_keys = Some (repo_selector demo_env)\<rparr>"

section \<open>Properties\<close>

text \<open>The rows of the attempt log are numbered, and only the last is terminal.\<close>

lemma forward_log_rows:
  assumes "px_logging env"
  shows "(\<exists>m. map al_attempt_index (fo_logs (forward env r tgt s)) = map (\<lambda>k. int k + 1) [0..<m])
    \<and> (\<forall>row \<in> set (butlast (fo_logs (forward env r tgt s))). \<not> al_terminal row)"
proof (cases "\<exists>ks body. tg_keys tgt = Some ks \<and> trim_space (tg_provider tgt) \<noteq> [] \<and> cr_body r = Some body")
  case True
  then obtain ks body where f: "forward env r tgt s =
      forward_loop env ks r tgt body (max_attempts (px_settings env)) 0 no_answer s"
    by (auto simp: forward_def)
  have "\<not> al_terminal row" if "row \<in> set (butlast (fo_logs (forward env r tgt s)))" for row
  proof -
    let ?l = "fo_logs (forward env r tgt s)"
    from that have ne: "?l \<noteq> []" by (cases ?l) auto
    from that obtain xs ys where "butlast ?l = xs @ row # ys" by (meson split_list)
    then have "?l = xs @ row # (ys @ [last ?l])"
      using append_butlast_last_id [OF ne] by (metis append.assoc append_Cons)
    from loop_log_terminal [OF assms this [unfolded f]] show ?thesis by simp
  qed
  then show ?thesis
    using loop_log_indices [OF assms, of "max_attempts (px_settings env)" ks r tgt body 0 no_answer s] unfolding f by auto
next
  case False
  then have "fo_logs (forward env r tgt s) = []" by (auto simp: forward_def split: option.splits)
  then show ?thesis by simp
qed

text \<open>
  C22. Forward makes at most MaxRetries attempts, or three when the setting is below one: on any key
  store, counting the keys that are given out, one for each upstream call, it asks for no more. The
  attempts it logs are among them, they are numbered from 1 without gaps, and only the last row is terminal.
\<close>

theorem forward_attempts_bounded:
  assumes "px_logging env"
  shows "\<exists>n m. fo_state (forward env r (counting_target tgt) (s, 0)) = (fo_state (forward env r tgt s), n)
     \<and> n \<le> nat (if max_retries (px_settings env) < 1 then 3 else max_retries (px_settings env))
     \<and> m \<le> n \<and> map al_attempt_index (fo_logs (forward env r tgt s)) = map (\<lambda>k. int k + 1) [0..<m]
     \<and> (\<forall>row \<in> set (butlast (fo_logs (forward env r tgt s))). \<not> al_terminal row)"
proof -
  obtain n where n: "fo_state (forward env r (counting_target tgt) (s, 0)) = (fo_state (forward env r tgt s), n)"
    "n \<le> max_attempts (px_settings env)" "length (fo_logs (forward env r tgt s)) \<le> n"
    using counting_forward [of env r tgt s] by blast
  obtain m where m: "map al_attempt_index (fo_logs (forward env r tgt s)) = map (\<lambda>k. int k + 1) [0..<m]"
    using forward_log_rows [OF assms, of r tgt s] by blast
  from arg_cong [OF m, of length] n(3) have "m \<le> n" by simp
  moreover have "n \<le> nat (if max_retries (px_settings env) < 1 then 3 else max_retries (px_settings env))"
    using n(2) by (simp only: max_attempts_def default_max_retries_def)
  ultimately show ?thesis using n(1) m forward_log_rows [OF assms, of r tgt s] by blast
qed

lemma forward_attempts_bounded_witness:
  "\<exists>n m. fo_state (forward demo_proxy demo_request (counting_target demo_target) (demo_keys, 0))
       = (fo_state (forward demo_proxy demo_request demo_target demo_keys), n)
     \<and> n \<le> 1 \<and> m \<le> n"
  using forward_attempts_bounded [of demo_proxy demo_request demo_target demo_keys]
  by (auto simp: demo_proxy_def default_settings_def)

text \<open>
  C18. Logging is neutral: with the recorder off, Forward writes the same answer, returns the same
  result and leaves the key store in the same state.
\<close>

theorem forward_logging_neutral:
  "forward (env\<lparr>px_logging := False\<rparr>) r tgt s = (forward env r tgt s)\<lparr>fo_logs := []\<rparr>"
  using quiet_forward by (simp add: quiet_def)

text \<open>
  C16. Within one request a key is tried again only after the cooldown that its failed attempt
  recorded has passed, comparing the timestamps as the selection does.
\<close>

theorem retry_respects_cooldown:
  assumes "px_logging env" "tg_keys tgt = Some (repo_selector kenv)"
    and "logs = fo_logs (forward env r tgt t)" "a < j" "j < length logs"
    and "al_key_id (logs ! a) = Some i" "al_key_id (logs ! j) = Some i"
    and "\<forall>k. a < k \<and> k < j \<longrightarrow> al_key_id (logs ! k) \<noteq> Some i"
    and "al_cooldown_until (logs ! a) = Some u"
  shows "u < stamp (px_select_time env j)"
proof -
  from assms(3,5) obtain body where "logs = fo_logs (forward_loop env (repo_selector kenv) r tgt body
      (max_attempts (px_settings env)) 0 no_answer t)"
    by (auto simp: forward_def assms(2) split: option.splits if_splits)
  note e = this
  from repo_selection.loop_retry [OF assms(1,4), where attempt = 0, OF assms(5-9) [unfolded e]]
  show ?thesis by simp
qed

text \<open>Two attempts with one key: the second comes an hour after the first failed.\<close>

definition demo_proxy2 :: proxy_env where
  "demo_proxy2 = demo_proxy\<lparr>px_settings := default_settings\<lparr>max_retries := 2\<rparr>,
     px_select_time := (\<lambda>k. int k * hour)\<rparr>"

definition demo_one_key :: key_table where
  "demo_one_key = \<lparr>tseq = 2, rows = [demo_key2]\<rparr>"

lemma demo_call: "proxy_do demo_proxy2 a demo_request demo_target (endpoint_of k p) [] = Some demo_response"
  if "pk_base_url k = ''https://api.x.ai''"
proof -
  have "join_endpoint_url ''https://api.x.ai'' ''/chat'' [] = Inr ''https://api.x.ai/chat''"
    "parse_url ''https://api.x.ai/chat'' \<noteq> None" by code_simp+
  then show ?thesis using that
    by (simp add: proxy_do_def demo_target_def demo_request_def endpoint_of_def demo_proxy2_def demo_proxy_def)
qed

lemma demo_in_range: "in_range 0" "in_range (30 * second)" "in_range hour"
proof -
  have "civil 0 = (1970, 1, 1)" by code_simp
  then show "in_range 0" "in_range (30 * second)" "in_range hour" by (simp_all add: in_range_def)
qed

lemma demo_single_attempt:
  assumes "rows t = [k]" "selectable ''grok'' (stamp (int a * hour)) k" "pk_base_url k = ''https://api.x.ai''"
    and "open_key demo_env (pk_encrypted_key k) = Inr p" "pk_id k = 2"
  shows "\<exists>row. forward_attempt demo_proxy2 (repo_selector demo_env) demo_request demo_target [] a final la t =
     (let s' = mark_failure_with_cooldown 0 2 500 ''no'' (Some (30 * second)) (Some ''transient'')
         (set_row 2 (\<lambda>r. r\<lparr>pk_last_used_at := Some (stamp (int a * hour)), pk_updated_at := stamp (int a * hour)\<rparr>) t);
        ka = \<lparr>la_status = 500, la_header = Map.empty, la_body = ''no''\<rparr>
      in if final then Finished (write_last ka) (answered 500) s' [row] else Continue ka s' [row])
     \<and> al_key_id row = Some 2 \<and> al_cooldown_until row = Some (stamp (30 * second))"
proof -
  have sel: "select_endpoint demo_env (int a * hour) ''grok'' t = Inr (endpoint_of k p,
      set_row 2 (\<lambda>r. r\<lparr>pk_last_used_at := Some (stamp (int a * hour)), pk_updated_at := stamp (int a * hour)\<rparr>) t)"
    using assms by (simp add: select_endpoint_def validate_provider_def pick_row_def)
  have url: "trim_space ''https://api.x.ai'' \<noteq> []" by code_simp
  have pol: "failure_policy demo_proxy2 ''grok'' demo_response ''no'' =
      \<lparr>pol_cooldown = 30000000000, pol_reason = ''transient'', pol_apply = True, pol_retry = True\<rparr>"
    by (simp add: failure_policy_def policy_for_response_def policy_for_status_def is_tavily_plan_limit_def
        demo_response_def demo_proxy2_def demo_proxy_def default_settings_def cooldown_consts)
  have until: "failure_until demo_proxy2 demo_response
      \<lparr>pol_cooldown = 30000000000, pol_reason = ''transient'', pol_apply = True, pol_retry = True\<rparr>
      = Some 30000000000"
    by (simp add: failure_until_def demo_response_def demo_proxy2_def demo_proxy_def)
  have diag: "tavily_attempt_diagnostic ''grok'' st b = None" for st b
    by (simp add: tavily_attempt_diagnostic_def)
  have kept: "kept_answer ''grok'' demo_response ''no'' = \<lparr>la_status = 500, la_header = Map.empty, la_body = ''no''\<rparr>"
    by (simp add: kept_answer_def is_tavily_plan_limit_def demo_response_def)
  have st: "up_status demo_response = 500" "up_body demo_response = Some ''no''"
    "\<not> should_mark_success 500"
    by (simp_all add: demo_response_def should_mark_success_def)
  have env: "px_logging demo_proxy2" "px_select_time demo_proxy2 a = int a * hour" "px_mark_time demo_proxy2 a = 0"
    by (simp_all add: demo_proxy2_def demo_proxy_def)
  have tgt: "tg_provider demo_target = ''grok''" by (simp add: demo_target_def)
  have ep: "se_base_url (endpoint_of k p) = ''https://api.x.ai''" "se_id (endpoint_of k p) = 2"
    using assms(3,5) by (simp_all add: endpoint_of_def)
  show ?thesis
    unfolding forward_attempt_def repo_selector_def tgt env key_selector.simps sel
    by (simp add: url ep demo_call [OF assms(3)] st handle_answer_def Let_def tgt pol until diag kept
        log_if_def env attempt_row_def)
qed

lemma retry_respects_cooldown_witness:
  "stamp (30 * second) < stamp hour"
proof -
  let ?out = "forward demo_proxy2 demo_request demo_target demo_one_key"
  let ?la = "\<lparr>la_status = 500, la_header = Map.empty, la_body = ''no''\<rparr>"
  have k2: "selectable ''grok'' n demo_key2" "pk_base_url demo_key2 = ''https://api.x.ai''" for n
    by (simp_all, simp add: demo_key2_def build_key_def demo_draft_def)
  obtain row0 where a0: "forward_attempt demo_proxy2 (repo_selector demo_env) demo_request demo_target [] 0 False
       no_answer demo_one_key = Continue ?la (mark_failure_with_cooldown 0 2 500 ''no'' (Some (30 * second)) (Some ''transient'')
         (set_row 2 (\<lambda>r. r\<lparr>pk_last_used_at := Some (stamp 0), pk_updated_at := stamp 0\<rparr>) demo_one_key)) [row0]"
      "al_key_id row0 = Some 2" "al_cooldown_until row0 = Some (stamp (30 * second))"
    using demo_single_attempt [of demo_one_key demo_key2 0 "''xai-abc''" False no_answer] k2
    by (auto simp: demo_one_key_def)
  let ?t = "mark_failure_with_cooldown 0 2 500 ''no'' (Some (30 * second)) (Some ''transient'')
         (set_row 2 (\<lambda>r. r\<lparr>pk_last_used_at := Some (stamp 0), pk_updated_at := stamp 0\<rparr>) demo_one_key)"
  have lt: "stamp (30 * second) < stamp hour"
    by (rule stamp_apart [OF demo_in_range(2,3)]) simp
  obtain k where k: "rows ?t = [k]" "pk_base_url k = ''https://api.x.ai''" "selectable ''grok'' (stamp hour) k"
    "open_key demo_env (pk_encrypted_key k) = Inr ''xai-abc''" "pk_id k = 2"
    using k2(1) [of "stamp hour"] k2(2) lt
    by (simp add: demo_one_key_def mark_failure_with_cooldown_def rows_set_row selectable_def)
  obtain row1 where a1: "\<exists>res s'. forward_attempt demo_proxy2 (repo_selector demo_env) demo_request demo_target [] 1 True
       ?la ?t = Finished (write_last ?la) res s' [row1]" "al_key_id row1 = Some 2"
    using demo_single_attempt [of ?t k 1 "''xai-abc''" True ?la] k by (auto simp: Let_def)
  have "fo_logs ?out = [row0, row1]"
  proof -
    have "max_attempts (px_settings demo_proxy2) = Suc (Suc 0)"
      by (simp add: max_attempts_def demo_proxy2_def)
    moreover have "trim_space ''grok'' \<noteq> []" by code_simp
    ultimately show ?thesis using a0(1) a1(1)
      by (auto simp: forward_def demo_target_def [THEN arg_cong, of tg_keys] demo_target_def [THEN arg_cong, of tg_provider]
          demo_request_def [THEN arg_cong, of cr_body] Let_def)
  qed
  note logs = this
  have log: "px_logging demo_proxy2" and keys: "tg_keys demo_target = Some (repo_selector demo_env)"
    and time: "px_select_time demo_proxy2 1 = hour"
    by (simp_all add: demo_proxy2_def demo_proxy_def demo_target_def)
  have "stamp (30 * second) < stamp (px_select_time demo_proxy2 1)"
    by (rule retry_respects_cooldown [OF log keys logs [symmetric], where a = 0 and i = 2])
       (use a0(2,3) a1(2) in auto)
  then show ?thesis by (simp only: time)
qed

lemma authorization_replaced:
  "proxy_do env a (r\<lparr>cr_header := (cr_header r)(''Authorization'' := x)\<rparr>) tgt ep body = proxy_do env a r tgt ep body"
  by (simp add: proxy_do_def header_set_def split: sum.split)

lemma authorization_row:
  "attempt_row env (r\<lparr>cr_header := (cr_header r)(''Authorization'' := x)\<rparr>) tgt a i = attempt_row env r tgt a i"
  by (simp add: attempt_row_def request_id_of_def header_get_def)

lemma authorization_attempt:
  "forward_attempt env ks (r\<lparr>cr_header := (cr_header r)(''Authorization'' := x)\<rparr>) tgt body a final la s =
   forward_attempt env ks r tgt body a final la s"
  unfolding forward_attempt_def authorization_replaced handle_answer_def handle_network_error_def
    authorization_row ..

lemma authorization_loop:
  "forward_loop env ks (r\<lparr>cr_header := (cr_header r)(''Authorization'' := x)\<rparr>) tgt body left a la s =
   forward_loop env ks r tgt body left a la s"
  by (induction left arbitrary: a la s) (simp_all add: authorization_attempt split: attempt_end.split)

text \<open>
  C23. The client's own Authorization header has no influence on a forwarded request: whatever it
  holds, the upstream calls, the answer, the logs and the key store are the same.
\<close>

theorem client_credential_not_forwarded:
  "forward env (r\<lparr>cr_header := (cr_header r)(''Authorization'' := x)\<rparr>) tgt s = forward env r tgt s"
  by (simp add: forward_def authorization_loop split: option.split)

definition hides_plan_limit :: "written \<Rightarrow> bool" where
  "hides_plan_limit w = (case w of Written st _ _ \<Rightarrow> st \<noteq> tavily_plan_limit_status | WrittenError st _ \<Rightarrow> st \<noteq> tavily_plan_limit_status)"

lemma kept_answer_tavily: "la_status (kept_answer provider_tavily resp b) \<noteq> tavily_plan_limit_status"
  by (simp add: kept_answer_def is_tavily_plan_limit_def tavily_plan_limit_client_response_def
      tavily_plan_limit_status_def)

lemma loop_hides_plan_limit:
  assumes "tg_provider tgt = provider_tavily"
  shows "la_status la \<noteq> tavily_plan_limit_status \<Longrightarrow>
    hides_plan_limit (fo_written (forward_loop env ks r tgt body left a la s))"
proof (induction left arbitrary: a la s)
  case 0
  then show ?case by (simp add: hides_plan_limit_def write_last_def tavily_plan_limit_status_def)
next
  case (Suc left)
  show ?case
  proof (cases "forward_attempt env ks r tgt body a (left = 0) la s")
    case (Finished w res s' logs)
    from forward_attempt_Finished [OF this]
    have "w = write_last la \<or> (\<exists>st why. w = WrittenError st why \<and> st \<in> {500, 502})
        \<or> (\<exists>resp b. w = write_last (kept_answer provider_tavily resp b))
        \<or> (\<exists>st h b. w = Written st h b \<and> should_mark_success st)" by (simp only: assms)
    then have "hides_plan_limit w"
      using Suc.prems kept_answer_tavily
      by (auto simp: hides_plan_limit_def write_last_def should_mark_success_def tavily_plan_limit_status_def)
    with Finished show ?thesis by simp
  next
    case (Continue la' s' logs)
    from this have "la' = la \<or> (\<exists>resp b. la' = kept_answer provider_tavily resp b)"
      by (elim forward_attempt_Continue) (simp only: assms)
    then have "la_status la' \<noteq> tavily_plan_limit_status" using Suc.prems kept_answer_tavily by auto
    from Suc.IH [OF this] Continue show ?thesis by (simp add: Let_def)
  qed
qed

text \<open>
  Tavily's private plan-limit status 432 never reaches a client, whatever the upstream answers
  and however many keys are tried.
\<close>

theorem plan_limit_hidden:
  assumes "tg_provider tgt = provider_tavily"
  shows "(case fo_written (forward env r tgt s) of
     Written st _ _ \<Rightarrow> st \<noteq> tavily_plan_limit_status | WrittenError st _ \<Rightarrow> st \<noteq> tavily_plan_limit_status)"
proof -
  have "hides_plan_limit (fo_written (forward env r tgt s))"
    using loop_hides_plan_limit [OF assms, of no_answer]
    by (auto simp: forward_def no_answer_def tavily_plan_limit_status_def hides_plan_limit_def
        split: option.split)
  then show ?thesis by (simp add: hides_plan_limit_def)
qed

lemma plan_limit_hidden_witness:
  "\<forall>h b. fo_written (forward (demo_proxy\<lparr>px_transport := (\<lambda>_ _. Some (demo_response\<lparr>up_status := 432\<rparr>))\<rparr>)
     demo_request (demo_target\<lparr>tg_provider := provider_tavily\<rparr>) demo_keys) \<noteq> Written 432 h b"
  using plan_limit_hidden [of "demo_target\<lparr>tg_provider := provider_tavily\<rparr>"
      "demo_proxy\<lparr>px_transport := (\<lambda>_ _. Some (demo_response\<lparr>up_status := 432\<rparr>))\<rparr>" demo_request demo_keys]
  by (auto simp: tavily_plan_limit_status_def)

text \<open>
  The debug log is bounded: after a Record the table holds the newest rows only, at most the
  retention, the new row among them with its message redacted, in insertion order.
\<close>

theorem attempt_log_retention:
  assumes "wf_table al_id (ar_table repo)" "0 < ar_retention repo"
    and "record_attempt_row now row (Some repo) = Inr repo'"
  shows "\<exists>new. rows (ar_table repo') =
      drop (Suc (length (rows (ar_table repo))) - nat (ar_retention repo)) (rows (ar_table repo)) @ [new]
     \<and> length (rows (ar_table repo')) \<le> nat (ar_retention repo)
     \<and> al_id new = tseq (ar_table repo) + 1 \<and> al_message new = map_option redact (al_message row)
     \<and> wf_table al_id (ar_table repo')"
  using record_attempt_row_rows [OF assms] assms(2) by auto

lemma attempt_log_retention_witness:
  "\<exists>repo'. record_attempt_row 0 \<lparr>al_id = 0, al_occurred_at = ''2026-01-01T00:00:00Z'', al_request_id = ''q'',
       al_provider = ''grok'', al_route_family = ''grok'', al_path = ''/grok/v1'', al_attempt_index = 1,
       al_key_id = Some 1, al_key_name = None, al_key_fingerprint = None, al_upstream_status = Some 200,
       al_status_class = ''2xx'', al_reason = None, al_cooldown_until = None, al_terminal = True,
       al_message = None\<rparr> (Some (new_attempt_log_repo empty_table 1)) = Inr repo'
     \<and> length (rows (ar_table repo')) \<le> 1"
proof -
  let ?row = "\<lparr>al_id = 0, al_occurred_at = ''2026-01-01T00:00:00Z'', al_request_id = ''q'',
       al_provider = ''grok'', al_route_family = ''grok'', al_path = ''/grok/v1'', al_attempt_index = 1,
       al_key_id = Some 1, al_key_name = None, al_key_fingerprint = None, al_upstream_status = Some (200::int),
       al_status_class = ''2xx'', al_reason = None, al_cooldown_until = None, al_terminal = True,
       al_message = None\<rparr>"
  have t: "trim_space ''q'' \<noteq> []" "trim_space ''grok'' \<noteq> []" "trim_space ''/grok/v1'' \<noteq> []"
    "trim_space ''2xx'' \<noteq> []" "trim_space ''2026-01-01T00:00:00Z'' \<noteq> []" by code_simp+
  then obtain repo' where r: "record_attempt_row 0 ?row (Some (new_attempt_log_repo empty_table 1)) = Inr repo'"
    by (simp add: record_attempt_row_def)
  from attempt_log_retention [OF _ _ this] r show ?thesis by (auto simp: new_attempt_log_repo_def)
qed

end
