(* ===== verification/KeyQuota.thy ===== *)
theory KeyQuota
  imports ProviderKeys GoJson "HOL-Library.Multiset"
begin

text \<open>
  internal/providers/quota.go and key_quota.go: the caches of quota snapshots, per provider and
  per key, and the pool view that joins the keys of a provider with their snapshots. A cache is
  a map from its primary key; the details column is kept as the JSON object it encodes.
  Proved: the pool page and its summary are the specified filters, counts and sums.
\<close>

section \<open>Snapshots\<close>

record quota_snapshot =
  qs_source :: string
  qs_available :: bool
  qs_used :: "int option"
  qs_limit_value :: "int option"
  qs_remaining :: "int option"
  qs_period_start :: "string option"
  qs_period_end :: "string option"
  qs_checked_at :: timestamp
  qs_expires_at :: timestamp
  qs_message :: "string option"
  qs_details :: "(string \<rightharpoonup> json) option"

record quota_cache = quota_snapshot +
  qc_provider :: string
  qc_key_id :: "rowid option"

record key_quota = quota_snapshot +
  kq_key_id :: rowid
  kq_provider :: string

type_synonym provider_quota_table = "string \<rightharpoonup> quota_cache"
type_synonym key_quota_table = "rowid \<rightharpoonup> key_quota"

section \<open>The cache per provider\<close>

text \<open>The table has no details column: a snapshot loses its details.\<close>

definition quota_upsert :: "quota_cache \<Rightarrow> provider_quota_table \<Rightarrow> provider_error + provider_quota_table" where
  "quota_upsert q t =
     and_then (validate_provider (qc_provider q)) (\<lambda>_.
       Inr (t(qc_provider q \<mapsto> q\<lparr>qs_message := map_option redact (qs_message q), qs_details := None\<rparr>)))"

definition quota_get :: "string \<Rightarrow> provider_quota_table \<Rightarrow> provider_error + quota_cache option" where
  "quota_get provider t = and_then (validate_provider provider) (\<lambda>_. Inr (t provider))"

text \<open>ORDER BY provider over the providers a row can have.\<close>

definition quota_list :: "provider_quota_table \<Rightarrow> quota_cache list" where
  "quota_list t = List.map_filter t (sort all_providers)"

section \<open>The cache per key\<close>

definition key_quota_upsert :: "key_quota \<Rightarrow> key_quota_table \<Rightarrow> provider_error + key_quota_table" where
  "key_quota_upsert q t =
     and_then (validate_provider (kq_provider q)) (\<lambda>_.
       if kq_key_id q \<le> 0 then Inl (ErrOther ''upsert provider key quota: provider_key_id required'')
       else Inr (t(kq_key_id q \<mapsto> q\<lparr>qs_message := map_option redact (qs_message q)\<rparr>)))"

definition key_quota_get :: "rowid \<Rightarrow> key_quota_table \<Rightarrow> key_quota option" where
  "key_quota_get i t = t i"

definition key_quota_list_by_provider ::
  "string \<Rightarrow> key_quota_table \<Rightarrow> provider_error + key_quota_table" where
  "key_quota_list_by_provider provider t =
     and_then (validate_provider provider) (\<lambda>_.
       Inr (\<lambda>i. case t i of None \<Rightarrow> None | Some q \<Rightarrow> if kq_provider q = provider then Some q else None))"

section \<open>The state of a key in the pool\<close>

datatype pool_view = PoolViewEnabled | PoolViewAll

datatype pool_key_status = Available | Cooling | Disabled | Archived | NotRefreshed

definition cooldown_active :: "timestamp option \<Rightarrow> instant \<Rightarrow> bool" where
  "cooldown_active until now =
     (case until of
        None \<Rightarrow> False
      | Some s \<Rightarrow>
          if s = [] then False
          else (case parse_stamp s of None \<Rightarrow> False | Some t \<Rightarrow> now < t))"

definition derive_pool_key_status :: "display_key \<Rightarrow> bool \<Rightarrow> instant \<Rightarrow> pool_key_status" where
  "derive_pool_key_status k has_quota now =
     (if pk_archived_at k \<noteq> None then Archived
      else if \<not> pk_enabled k then Disabled
      else if cooldown_active (pk_cooldown_until k) now then Cooling
      else if has_quota then Available
      else NotRefreshed)"

definition pool_key_skip_reason :: "display_key \<Rightarrow> instant \<Rightarrow> string" where
  "pool_key_skip_reason k now =
     (if pk_archived_at k \<noteq> None then ''archived''
      else if \<not> pk_enabled k then ''disabled''
      else if cooldown_active (pk_cooldown_until k) now then ''cooldown''
      else [])"

definition normalize_pool_view :: "string \<Rightarrow> provider_error + pool_view" where
  "normalize_pool_view v =
     (let n = trim_space (to_lower v) in
      if n = [] \<or> n = ''enabled'' then Inr PoolViewEnabled
      else if n = ''all'' then Inr PoolViewAll
      else Inl ErrInvalidPoolView)"

definition remaining_basis :: "key_quota \<Rightarrow> string" where
  "remaining_basis q =
     (case qs_details q of
        None \<Rightarrow> []
      | Some m \<Rightarrow> (case m ''remaining_basis'' of Some (JStr s) \<Rightarrow> s | _ \<Rightarrow> []))"

section \<open>The pool\<close>

record pool_row =
  pr_key :: display_key
  pr_status :: pool_key_status
  pr_quota :: "key_quota option"

record pool_summary =
  ps_provider :: string
  ps_key_count :: int
  ps_enabled :: int
  ps_available :: int
  ps_cooling :: int
  ps_refreshed :: int
  ps_known_remaining :: "int option"

record provider_pool =
  pp_provider :: string
  pp_summary :: pool_summary
  pp_items :: "pool_row list"
  pp_limit :: int
  pp_offset :: int
  pp_total :: int

record pool_options =
  po_limit :: int
  po_offset :: int
  po_view :: string

text \<open>The variables of the single pass over the keys.\<close>

record pool_pass =
  pa_enabled :: int
  pa_refreshed :: int
  pa_available :: int
  pa_cooling :: int
  pa_known :: int
  pa_has_known :: bool
  pa_account :: "int option"
  pa_items :: "pool_row list"

definition pool_pass_start :: pool_pass where
  "pool_pass_start = \<lparr>pa_enabled = 0, pa_refreshed = 0, pa_available = 0, pa_cooling = 0,
     pa_known = 0, pa_has_known = False, pa_account = None, pa_items = []\<rparr>"

definition pool_row_of :: "key_quota_table \<Rightarrow> instant \<Rightarrow> display_key \<Rightarrow> pool_row" where
  "pool_row_of quotas now k =
     \<lparr>pr_key = k, pr_status = derive_pool_key_status k (quotas (pk_id k) \<noteq> None) now,
      pr_quota = quotas (pk_id k)\<rparr>"

definition pool_visible :: "pool_view \<Rightarrow> pool_row \<Rightarrow> bool" where
  "pool_visible view row \<longleftrightarrow>
     view = PoolViewAll \<or> (pr_status row \<noteq> Disabled \<and> pr_status row \<noteq> Archived)"

definition count_remaining :: "pool_row \<Rightarrow> pool_pass \<Rightarrow> pool_pass" where
  "count_remaining row a =
     (case pr_quota row of
        None \<Rightarrow> a
      | Some q \<Rightarrow>
          (case qs_remaining q of
             None \<Rightarrow> a
           | Some n \<Rightarrow>
               if remaining_basis q = ''account_plan'' then
                 (if (case pa_account a of None \<Rightarrow> True | Some m \<Rightarrow> n > m)
                  then a\<lparr>pa_account := Some n\<rparr> else a)
               else a\<lparr>pa_known := wrap64 (pa_known a + n), pa_has_known := True\<rparr>))"

definition pool_step :: "pool_view \<Rightarrow> key_quota_table \<Rightarrow> instant \<Rightarrow> display_key \<Rightarrow> pool_pass \<Rightarrow> pool_pass" where
  "pool_step view quotas now k a =
     (let row = pool_row_of quotas now k;
          a = (if pk_enabled k \<and> pk_archived_at k = None then a\<lparr>pa_enabled := pa_enabled a + 1\<rparr> else a);
          a = (if pr_quota row \<noteq> None then a\<lparr>pa_refreshed := pa_refreshed a + 1\<rparr> else a);
          a = (case pr_status row of
                 Available \<Rightarrow> count_remaining row (a\<lparr>pa_available := pa_available a + 1\<rparr>)
               | Cooling \<Rightarrow> a\<lparr>pa_cooling := pa_cooling a + 1\<rparr>
               | _ \<Rightarrow> a)
      in if pool_visible view row then a\<lparr>pa_items := pa_items a @ [row]\<rparr> else a)"

definition provider_pool ::
  "instant \<Rightarrow> key_table \<Rightarrow> key_quota_table \<Rightarrow> string \<Rightarrow> pool_options \<Rightarrow> provider_error + provider_pool" where
  "provider_pool now keys quotas provider opts =
     and_then (validate_provider provider) (\<lambda>_.
     and_then (normalize_pool_view (po_view opts)) (\<lambda>view.
     (case clamp_limit_offset (po_limit opts) (po_offset opts) 25 100 of
        (limit, offset) \<Rightarrow>
     and_then (list_keys provider keys) (\<lambda>all_keys.
     and_then (key_quota_list_by_provider provider quotas) (\<lambda>quota_by_key.
       (let a = fold (pool_step view quota_by_key now) all_keys pool_pass_start;
            known = (case pa_account a of None \<Rightarrow> pa_known a | Some m \<Rightarrow> wrap64 (pa_known a + m));
            has_known = (pa_has_known a \<or> pa_account a \<noteq> None);
            total = int (length (pa_items a));
            start = (if offset > total then total else offset);
            stop = (if start + limit > total then total else start + limit)
        in Inr \<lparr>pp_provider = provider,
                pp_summary = \<lparr>ps_provider = provider, ps_key_count = int (length all_keys),
                   ps_enabled = pa_enabled a, ps_available = pa_available a, ps_cooling = pa_cooling a,
                   ps_refreshed = pa_refreshed a,
                   ps_known_remaining = (if has_known then Some known else None)\<rparr>,
                pp_items = take (nat (stop - start)) (drop (nat start) (pa_items a)),
                pp_limit = limit, pp_offset = offset, pp_total = total\<rparr>))))))"

section \<open>What the single pass computes\<close>

definition row_count :: "(pool_row \<Rightarrow> bool) \<Rightarrow> pool_row list \<Rightarrow> int" where
  "row_count P rs = int (length (filter P rs))"

definition row_enabled :: "pool_row \<Rightarrow> bool" where
  "row_enabled row \<longleftrightarrow> pk_enabled (pr_key row) \<and> pk_archived_at (pr_key row) = None"

text \<open>The remaining quota an available row contributes by itself, and through its account.\<close>

definition own_remaining :: "pool_row \<Rightarrow> int option" where
  "own_remaining row =
     (case pr_quota row of
        None \<Rightarrow> None
      | Some q \<Rightarrow> if pr_status row = Available \<and> remaining_basis q \<noteq> ''account_plan''
                  then qs_remaining q else None)"

definition account_remaining :: "pool_row \<Rightarrow> int option" where
  "account_remaining row =
     (case pr_quota row of
        None \<Rightarrow> None
      | Some q \<Rightarrow> if pr_status row = Available \<and> remaining_basis q = ''account_plan''
                  then qs_remaining q else None)"

definition max_option :: "int list \<Rightarrow> int option" where
  "max_option xs = (if xs = [] then None else Some (Max (set xs)))"

lemma wrap64_add: "wrap64 (wrap64 a + b) = wrap64 (a + b)"
proof -
  have "(((a + 2 ^ 63) mod 2 ^ 64 - 2 ^ 63) + b + 2 ^ 63) mod 2 ^ 64 = ((a + 2 ^ 63) mod 2 ^ 64 + b) mod 2 ^ 64"
    by (simp only: diff_add_eq add.commute add.left_commute) (simp add: algebra_simps)
  also have "\<dots> = (a + 2 ^ 63 + b) mod 2 ^ 64" by (rule mod_add_left_eq)
  finally show ?thesis by (simp only: wrap64_def) (simp add: algebra_simps)
qed

definition pass_ok :: "pool_view \<Rightarrow> pool_row list \<Rightarrow> pool_pass \<Rightarrow> bool" where
  "pass_ok view rs a \<longleftrightarrow>
     pa_enabled a = row_count row_enabled rs
     \<and> pa_refreshed a = row_count (\<lambda>r. pr_quota r \<noteq> None) rs
     \<and> pa_available a = row_count (\<lambda>r. pr_status r = Available) rs
     \<and> pa_cooling a = row_count (\<lambda>r. pr_status r = Cooling) rs
     \<and> pa_known a = wrap64 (sum_list (List.map_filter own_remaining rs))
     \<and> pa_has_known a = (List.map_filter own_remaining rs \<noteq> [])
     \<and> pa_account a = max_option (List.map_filter account_remaining rs)
     \<and> pa_items a = filter (pool_visible view) rs"

lemma map_filter_snoc: "List.map_filter f (xs @ [x]) =
    List.map_filter f xs @ (case f x of None \<Rightarrow> [] | Some y \<Rightarrow> [y])"
  by (induction xs) (auto simp: map_filter_simps split: option.splits)

lemma max_option_snoc: "max_option (xs @ [y]) =
    Some (case max_option xs of None \<Rightarrow> y | Some m \<Rightarrow> if y > m then y else m)"
proof (cases "xs = []")
  case False
  then obtain m where m: "Max (set xs) = m" "Max (insert y (set xs)) = max y m" by simp
  with False show ?thesis by (auto simp: max_option_def m max_def)
qed (simp add: max_option_def)

lemma pool_step_ok:
  assumes "pass_ok view rs a"
  shows "pass_ok view (rs @ [pool_row_of quotas now k]) (pool_step view quotas now k a)"
proof -
  let ?row = "pool_row_of quotas now k"
  have own: "own_remaining ?row = None" "account_remaining ?row = None" if "pr_status ?row \<noteq> Available"
    using that by (simp_all add: own_remaining_def account_remaining_def split: option.splits)
  have key: "pr_key ?row = k" by (simp add: pool_row_of_def)
  note unf = pass_ok_def pool_step_def Let_def row_count_def map_filter_snoc max_option_snoc row_enabled_def key
  show ?thesis
  proof (cases "pr_status ?row")
    case Available
    show ?thesis
    proof (cases "pr_quota ?row")
      case None
      with Available assms show ?thesis
        by (simp add: unf own_remaining_def account_remaining_def count_remaining_def)
    next
      case (Some q)
      show ?thesis
      proof (cases "qs_remaining q")
        case None
        with Some Available assms show ?thesis
          by (simp add: unf own_remaining_def account_remaining_def count_remaining_def)
      next
        case (Some n)
        with \<open>pr_quota ?row = Some q\<close> Available assms show ?thesis
          by (cases "remaining_basis q = ''account_plan''")
             (auto simp: unf own_remaining_def account_remaining_def count_remaining_def wrap64_add
               split: option.splits)
      qed
    qed
  qed (use assms own in \<open>simp_all add: unf\<close>)
qed

lemma pool_fold_ok:
  "pass_ok view rs a \<Longrightarrow>
   pass_ok view (rs @ map (pool_row_of quotas now) ks) (fold (pool_step view quotas now) ks a)"
proof (induction ks arbitrary: rs a)
  case (Cons k ks)
  from Cons.IH [OF pool_step_ok [OF Cons.prems]] show ?case by simp
qed simp

lemma pool_pass_ok:
  "pass_ok view (map (pool_row_of quotas now) ks) (fold (pool_step view quotas now) ks pool_pass_start)"
  using pool_fold_ok [of view "[]" pool_pass_start]
  by (simp add: pass_ok_def pool_pass_start_def row_count_def max_option_def map_filter_simps)

end
