(* ===== verification/PoolProperties.thy ===== *)
theory PoolProperties
  imports ProviderHealth UsageDaily Instances
begin

text \<open>Properties of the reports over the key store: the pool view, the health report, the counters.\<close>


lemma scanned [simp]:
  "pk_id (scan_display_key r) = pk_id r" "pk_enabled (scan_display_key r) = pk_enabled r"
  "pk_archived_at (scan_display_key r) = pk_archived_at r" "pk_cooldown_until (scan_display_key r) = pk_cooldown_until r"
  by (simp_all add: scan_display_key_def key_columns.defs)



text \<open>
  The health report has one item for each provider, in the fixed order, and its counts are
  those of the provider's keys that are not archived: all of them, the enabled ones, and those
  whose cooldown has not ended, whether they are enabled or not.
\<close>

theorem health_report_counts:
  assumes "build_health now db keys = Inr items"
  shows "map hi_provider items = all_providers
    \<and> list_all (\<lambda>i. hi_key_count i = int (length (live_keys (hi_provider i) keys))
        \<and> hi_enabled i = int (length (filter pk_enabled (live_keys (hi_provider i) keys)))
        \<and> hi_cooling i = int (length (filter (cooling_at now) (live_keys (hi_provider i) keys)))
        \<and> (hi_status i, hi_reasons i) = health_verdict i) items"
proof -
  from assms obtain a b c where i: "items = [a, b, c]"
    "provider_health now db keys ''grok'' = Inr a" "provider_health now db keys ''tavily'' = Inr b"
    "provider_health now db keys ''firecrawl'' = Inr c"
    by (auto simp: build_health_def and_then_Inr)
  show ?thesis
    using provider_health_counts [OF i(2)] provider_health_counts [OF i(3)] provider_health_counts [OF i(4)]
    by (simp add: i(1) all_providers_def)
qed

lemma health_report_counts_witness:
  "\<exists>items. build_health 0 \<lparr>sd_providers = Map.empty, sd_settings = Map.empty\<rparr> empty_table = Inr items
     \<and> map hi_provider items = [''grok'', ''tavily'', ''firecrawl'']"
proof -
  let ?db = "\<lparr>sd_providers = Map.empty, sd_settings = Map.empty\<rparr>"
  have all: "''grok'' \<in> set all_providers" "''tavily'' \<in> set all_providers" "''firecrawl'' \<in> set all_providers"
    by (simp_all add: all_providers_def)
  obtain a b c where "provider_health 0 ?db empty_table ''grok'' = Inr a"
    "provider_health 0 ?db empty_table ''tavily'' = Inr b" "provider_health 0 ?db empty_table ''firecrawl'' = Inr c"
    using provider_health_total [OF all(1)] provider_health_total [OF all(2)] provider_health_total [OF all(3)]
    by metis
  then obtain items where "build_health 0 ?db empty_table = Inr items" by (simp add: build_health_def)
  with health_report_counts [OF this] show ?thesis by (simp add: all_providers_def)
qed

definition demo_cooling_disabled :: provider_key where
  "demo_cooling_disabled = demo_key1\<lparr>pk_enabled := False, pk_cooldown_until := Some ''2026-01-02T00:00:00Z''\<rparr>"

lemma demo_cooling_parse: "parse_stamp ''2026-01-02T00:00:00Z'' = Some 1767312000000000000"
  by code_simp

text \<open>
  The cooldown verdict is wrong for a provider with one usable key and one disabled key that
  is cooling down: the counts coincide, so the report says that the enabled keys are cooling down.
\<close>

theorem health_misreports_cooldown:
  "\<exists>item. provider_health 0 \<lparr>sd_providers = Map.empty, sd_settings = Map.empty\<rparr>
       \<lparr>tseq = 2, rows = [demo_cooling_disabled, demo_key2]\<rparr> ''grok'' = Inr item
     \<and> hi_status item = HealthCooldown
     \<and> selectable ''grok'' (stamp 0) demo_key2"
proof -
  let ?keys = "\<lparr>tseq = 2, rows = [demo_cooling_disabled, demo_key2]\<rparr>"
  let ?db = "\<lparr>sd_providers = Map.empty, sd_settings = Map.empty\<rparr>"
  have p: "pk_provider demo_cooling_disabled = ''grok''" "pk_provider demo_key2 = ''grok''"
    "pk_id demo_cooling_disabled = 1" "pk_archived_at demo_cooling_disabled = None" "pk_archived_at demo_key2 = None"
    "pk_cooldown_until demo_cooling_disabled = Some ''2026-01-02T00:00:00Z''" "pk_cooldown_until demo_key2 = None"
    "\<not> pk_enabled demo_cooling_disabled" "pk_enabled demo_key2"
    by (simp_all add: demo_cooling_disabled_def demo_key1_def demo_key2_def build_key_def demo_draft_def)
  have live: "live_keys ''grok'' ?keys = [scan_display_key demo_cooling_disabled, scan_display_key demo_key2]"
    by (simp add: live_keys_def p)
  obtain item where item: "provider_health 0 ?db ?keys ''grok'' = Inr item"
    using provider_health_total [of "''grok''"] by (metis all_providers_def list.set_intros(1) provider_names(1))
  note c = provider_health_counts [OF item, unfolded live]
  have "hi_key_count item = 2" using c(2) by simp
  moreover have "hi_enabled item = 1" using c(3) by (simp add: scan_display_key_def key_columns.defs p)
  moreover have "hi_cooling item = 1"
    using c(4) by (simp add: cooling_at_def scan_display_key_def key_columns.defs p demo_cooling_parse)
  ultimately have "hi_status item = HealthCooldown" using c(5) by (simp add: health_verdict_def)
  with item show ?thesis by simp
qed

text \<open>
  An increment adds exactly one request: to the total and to its own bucket, to no other
  bucket, and each bucket of a gateway key keeps a single row.
\<close>

theorem usage_increment_exact:
  assumes "wf_usage t" "usage_increment now req t = Inr t'"
  shows "wf_usage t' \<and> usage_total t' = usage_total t + 1
    \<and> bucket_count c t' = bucket_count c t
       + (if c = (if ub_day req = [] then req\<lparr>ub_day := day_utc now\<rparr> else req) then 1 else 0)"
  using usage_increment_wf [OF assms] usage_increment_counts [OF assms refl] by simp

lemma usage_increment_exact_witness:
  "\<exists>t. usage_increment 0 \<lparr>ub_day = ''2026-01-01'', ub_key = Some 7, ub_provider = ''grok'', ub_family = ''grok'',
      ub_class = ''2xx''\<rparr> [] = Inr t \<and> usage_total t = 1"
proof -
  let ?b = "\<lparr>ub_day = ''2026-01-01'', ub_key = Some 7, ub_provider = ''grok'', ub_family = ''grok'', ub_class = ''2xx''\<rparr>"
  obtain t where t: "usage_increment 0 ?b [] = Inr t" by (simp add: usage_increment_def)
  have "wf_usage []" by (simp add: wf_usage_def)
  from usage_increment_exact [OF this t] t show ?thesis by (simp add: usage_total_def)
qed

end
