(* ===== verification/GatewayKeys.thy ===== *)
theory GatewayKeys
  imports Secrets GoTime
begin

text \<open>
  internal/gatewaykeys/keys.go: the keys that clients present. Only the hash of a key is stored;
  a key authorizes while its row is enabled and not revoked. The random bytes of a new key and
  the clock are arguments. The life of a key is a step relation, and the revocation law is proved
  of its reflexive transitive closure.
\<close>

section \<open>Rows\<close>

record gateway_key_display =
  gk_id :: rowid
  gk_name :: string
  gk_prefix :: string
  gk_fingerprint :: string
  gk_enabled :: bool
  gk_created_at :: timestamp
  gk_last_used_at :: "timestamp option"
  gk_revoked_at :: "timestamp option"
  gk_oauth_owned :: bool
  gk_agent_label :: string
  gk_issued_via :: string
  gk_ref_code_id :: "rowid option"

record gateway_key = gateway_key_display +
  gk_key_hash :: string

type_synonym gateway_table = "gateway_key table"

datatype gateway_error = ErrNotAuthorized | ErrRandom | ErrDays

definition display_of :: "gateway_key \<Rightarrow> gateway_key_display" where
  "display_of r = gateway_key_display.truncate r"

section \<open>Key material\<close>

definition key_prefix_label :: string where "key_prefix_label = ''gsk_''"
definition key_random_len :: nat where "key_random_len = 32"

definition is_base62 :: "char \<Rightarrow> bool" where
  "is_base62 c \<longleftrightarrow> is_alnum c"

text \<open>The regular expression \<open>^gsk_[A-Za-z0-9]{32}$\<close>.\<close>

definition raw_key_re :: "string \<Rightarrow> bool" where
  "raw_key_re s \<longleftrightarrow> length s = 36 \<and> take 4 s = ''gsk_'' \<and> list_all is_base62 (drop 4 s)"

definition hash_key :: "crypto \<Rightarrow> string \<Rightarrow> string" where
  "hash_key cr raw = hex_encode (sha256 cr raw)"

definition fingerprint_from_hash :: "string \<Rightarrow> string" where
  "fingerprint_from_hash h = (if length h \<ge> 6 then take 6 h else h)"

definition generate_key_material ::
  "crypto \<Rightarrow> bytes \<Rightarrow> gateway_error + string \<times> string \<times> string \<times> string" where
  "generate_key_material cr src =
     (case random_base62 key_random_len src of
        None \<Rightarrow> Inl ErrRandom
      | Some (sfx, _) \<Rightarrow>
          (let raw = key_prefix_label @ sfx; hash = hash_key cr raw
           in Inr (raw, hash, (if length raw > 8 then take 8 raw else raw), fingerprint_from_hash hash)))"

section \<open>Operations\<close>

record gateway_draft =
  gd_name :: string
  gd_prefix :: string
  gd_fingerprint :: string
  gd_hash :: string
  gd_now :: timestamp
  gd_oauth_owned :: bool
  gd_agent_label :: string
  gd_issued_via :: string
  gd_ref_code_id :: "rowid option"

definition build_gateway_key :: "gateway_draft \<Rightarrow> rowid \<Rightarrow> gateway_key" where
  "build_gateway_key d i =
     \<lparr>gk_id = i, gk_name = gd_name d, gk_prefix = gd_prefix d, gk_fingerprint = gd_fingerprint d,
      gk_enabled = True, gk_created_at = gd_now d, gk_last_used_at = None, gk_revoked_at = None,
      gk_oauth_owned = gd_oauth_owned d, gk_agent_label = gd_agent_label d,
      gk_issued_via = gd_issued_via d, gk_ref_code_id = gd_ref_code_id d, gk_key_hash = gd_hash d\<rparr>"

definition insert_key_details ::
  "crypto \<Rightarrow> bytes \<Rightarrow> instant \<Rightarrow> string \<Rightarrow> bool \<Rightarrow> string \<Rightarrow> string \<Rightarrow> rowid option \<Rightarrow>
   gateway_table \<Rightarrow> gateway_error + string \<times> gateway_key_display \<times> gateway_table" where
  "insert_key_details cr src now name oauth_owned issued_via agent_label ref_code_id t =
     and_then (generate_key_material cr src) (\<lambda>(raw, hash, pre, fp).
       (let d = \<lparr>gd_name = name, gd_prefix = pre, gd_fingerprint = fp, gd_hash = hash, gd_now = stamp now,
                 gd_oauth_owned = oauth_owned,
                 gd_agent_label = (if agent_label = [] then name else agent_label),
                 gd_issued_via = (if issued_via = [] then ''operator'' else issued_via),
                 gd_ref_code_id = ref_code_id\<rparr>;
            (i, t') = insert_row (build_gateway_key d) t
        in Inr (raw, display_of (build_gateway_key d i), t')))"

definition insert_key ::
  "crypto \<Rightarrow> bytes \<Rightarrow> instant \<Rightarrow> string \<Rightarrow> bool \<Rightarrow> gateway_table \<Rightarrow>
   gateway_error + string \<times> gateway_key_display \<times> gateway_table" where
  "insert_key cr src now name oauth_owned t =
     insert_key_details cr src now name oauth_owned ''operator'' name None t"

definition create_tx ::
  "crypto \<Rightarrow> bytes \<Rightarrow> instant \<Rightarrow> string \<Rightarrow> gateway_table \<Rightarrow>
   gateway_error + string \<times> gateway_key_display \<times> gateway_table" where
  "create_tx cr src now name t = insert_key cr src now name False t"

definition create_key ::
  "crypto \<Rightarrow> bytes \<Rightarrow> instant \<Rightarrow> string \<Rightarrow> gateway_table \<Rightarrow>
   gateway_error + string \<times> gateway_key_display \<times> gateway_table" where
  "create_key cr src now name t = create_tx cr src now name t"

definition create_oauth_tx ::
  "crypto \<Rightarrow> bytes \<Rightarrow> instant \<Rightarrow> string \<Rightarrow> gateway_table \<Rightarrow>
   gateway_error + string \<times> gateway_key_display \<times> gateway_table" where
  "create_oauth_tx cr src now name t =
     insert_key_details cr src now name True ''operator'' name None t"

definition create_oauth_tx_with_issuance ::
  "crypto \<Rightarrow> bytes \<Rightarrow> instant \<Rightarrow> string \<Rightarrow> string \<Rightarrow> string \<Rightarrow> rowid option \<Rightarrow> gateway_table \<Rightarrow>
   gateway_error + string \<times> gateway_key_display \<times> gateway_table" where
  "create_oauth_tx_with_issuance cr src now name issued_via agent_label ref_code_id t =
     insert_key_details cr src now name True issued_via agent_label ref_code_id t"

definition list_gateway_keys :: "gateway_table \<Rightarrow> gateway_key_display list" where
  "list_gateway_keys t = map display_of (sort_key gk_id (rows t))"

text \<open>\<open>Lookup\<close>: \<open>Inr None\<close> is Go's \<open>(nil, nil)\<close> for an unknown key.\<close>

definition lookup_key :: "crypto \<Rightarrow> string \<Rightarrow> gateway_table \<Rightarrow> gateway_error + gateway_key_display option" where
  "lookup_key cr raw t =
     (if raw = [] \<or> \<not> raw_key_re raw then Inr None
      else (case find_row (\<lambda>r. gk_key_hash r = hash_key cr raw) t of
        None \<Rightarrow> Inr None
      | Some r \<Rightarrow>
          if \<not> gk_enabled r \<or> gk_revoked_at r \<noteq> None then Inl ErrNotAuthorized
          else Inr (Some (display_of r))))"

definition set_gateway_row ::
  "rowid \<Rightarrow> (gateway_key \<Rightarrow> gateway_key) \<Rightarrow> gateway_table \<Rightarrow> gateway_table" where
  "set_gateway_row i f t = snd (update_where (\<lambda>r. gk_id r = i) f t)"

definition touch_key :: "instant \<Rightarrow> rowid \<Rightarrow> gateway_table \<Rightarrow> gateway_table" where
  "touch_key now i t = set_gateway_row i (\<lambda>r. r\<lparr>gk_last_used_at := Some (stamp now)\<rparr>) t"

text \<open>\<open>touched\<close> is the time Touch reads, \<open>now\<close> the one of the returned record.\<close>

definition verify_key ::
  "crypto \<Rightarrow> instant \<Rightarrow> instant \<Rightarrow> string \<Rightarrow> gateway_table \<Rightarrow>
   gateway_error + gateway_key_display option \<times> gateway_table" where
  "verify_key cr touched now raw t =
     and_then (lookup_key cr raw t) (\<lambda>d.
       case d of
         None \<Rightarrow> Inr (None, t)
       | Some k \<Rightarrow> Inr (Some (k\<lparr>gk_last_used_at := Some (stamp now)\<rparr>), touch_key touched (gk_id k) t))"

definition disable_gateway_key :: "rowid \<Rightarrow> gateway_table \<Rightarrow> gateway_table" where
  "disable_gateway_key i t = set_gateway_row i (\<lambda>r. r\<lparr>gk_enabled := False\<rparr>) t"

definition enable_gateway_key :: "rowid \<Rightarrow> gateway_table \<Rightarrow> gateway_table" where
  "enable_gateway_key i t = set_gateway_row i (\<lambda>r. r\<lparr>gk_enabled := True\<rparr>) t"

definition revoke_gateway_key :: "instant \<Rightarrow> rowid \<Rightarrow> gateway_table \<Rightarrow> gateway_table" where
  "revoke_gateway_key now i t =
     set_gateway_row i (\<lambda>r. r\<lparr>gk_enabled := False, gk_revoked_at := Some (stamp now)\<rparr>) t"

definition unused_since :: "timestamp \<Rightarrow> gateway_key \<Rightarrow> bool" where
  "unused_since cutoff r \<longleftrightarrow>
     gk_enabled r \<and> gk_revoked_at r = None \<and> gk_created_at r < cutoff
     \<and> (case gk_last_used_at r of None \<Rightarrow> True | Some u \<Rightarrow> u < cutoff)"

definition revoke_unused ::
  "instant \<Rightarrow> instant \<Rightarrow> int \<Rightarrow> gateway_table \<Rightarrow> gateway_error + int \<times> gateway_table" where
  "revoke_unused cutoff_now now days t =
     (if days \<le> 0 then Inl ErrDays
      else (case update_where (unused_since (stamp (cutoff_now - days * day)))
                   (\<lambda>r. r\<lparr>gk_enabled := False, gk_revoked_at := Some (stamp now)\<rparr>) t of
              (n, t') \<Rightarrow> Inr (int n, t')))"

definition delete_gateway_key :: "rowid \<Rightarrow> gateway_table \<Rightarrow> gateway_table" where
  "delete_gateway_key i t = delete_where (\<lambda>r. gk_id r = i) t"

section \<open>Rows under the operations\<close>

interpretation gateway_rows: rowid_table gk_id build_gateway_key
  by unfold_locales (simp add: build_gateway_key_def)

lemma display_of_sel [simp]:
  "gk_id (display_of r) = gk_id r" "gk_name (display_of r) = gk_name r"
  "gk_enabled (display_of r) = gk_enabled r" "gk_revoked_at (display_of r) = gk_revoked_at r"
  "gk_oauth_owned (display_of r) = gk_oauth_owned r" "gk_prefix (display_of r) = gk_prefix r"
  "gk_agent_label (display_of r) = gk_agent_label r" "gk_issued_via (display_of r) = gk_issued_via r"
  by (simp_all add: display_of_def gateway_key_display.defs)

lemma rows_set_gateway_row:
  "rows (set_gateway_row i f t) = map (\<lambda>r. if gk_id r = i then f r else r) (rows t)"
  by (simp add: set_gateway_row_def table_simps)

lemma tseq_set_gateway_row [simp]: "tseq (set_gateway_row i f t) = tseq t"
  by (simp add: set_gateway_row_def table_simps)

lemma insert_key_details_Inr:
  assumes "insert_key_details cr src now name owned via label ref t = Inr (raw, d, t')"
  obtains sfx dr where "random_base62 key_random_len src = Some sfx" "raw = ''gsk_'' @ fst sfx"
    "gd_hash dr = hash_key cr raw" "gd_oauth_owned dr = owned" "gd_name dr = name"
    "gd_agent_label dr = (if label = [] then name else label)"
    "gd_issued_via dr = (if via = [] then ''operator'' else via)" "gd_ref_code_id dr = ref"
    "d = display_of (build_gateway_key dr (tseq t + 1))" "t' = snd (insert_row (build_gateway_key dr) t)"
proof -
  from assms obtain s rest dr where "random_base62 key_random_len src = Some (s, rest)"
    "raw = ''gsk_'' @ s"
    "dr = \<lparr>gd_name = name, gd_prefix = (if length raw > 8 then take 8 raw else raw),
       gd_fingerprint = fingerprint_from_hash (hash_key cr raw), gd_hash = hash_key cr raw, gd_now = stamp now,
       gd_oauth_owned = owned, gd_agent_label = (if label = [] then name else label),
       gd_issued_via = (if via = [] then ''operator'' else via), gd_ref_code_id = ref\<rparr>"
    "d = display_of (build_gateway_key dr (tseq t + 1))" "t' = snd (insert_row (build_gateway_key dr) t)"
    by (auto simp: insert_key_details_def and_then_Inr generate_key_material_def key_prefix_label_def
        Let_def insert_row_def split: option.splits)
  then show thesis by (intro that [of "(s, rest)" dr]) simp_all
qed

text \<open>A generated key has the form that Lookup accepts.\<close>

lemma generated_key_accepted:
  assumes "random_base62 key_random_len src = Some (s, rest)"
  shows "raw_key_re (''gsk_'' @ s)"
  using random_base62_shape [OF assms] base62_alnum
  by (auto simp: raw_key_re_def key_random_len_def list_all_iff is_base62_def)

section \<open>The life of a key\<close>

inductive gateway_step :: "crypto \<Rightarrow> gateway_table \<Rightarrow> gateway_table \<Rightarrow> bool" for cr where
  issue: "insert_key_details cr src now name owned via label ref t = Inr (raw, d, t') \<Longrightarrow> gateway_step cr t t'"
| touch: "gateway_step cr t (touch_key now i t)"
| disable: "gateway_step cr t (disable_gateway_key i t)"
| enable: "gateway_step cr t (enable_gateway_key i t)"
| revoke: "gateway_step cr t (revoke_gateway_key now i t)"
| unused: "revoke_unused c now days t = Inr (n, t') \<Longrightarrow> gateway_step cr t t'"
| delete: "gateway_step cr t (delete_gateway_key i t)"

inductive_cases gateway_stepE: "gateway_step cr t t'"

definition wf_gateway :: "gateway_table \<Rightarrow> bool" where
  "wf_gateway t \<longleftrightarrow> wf_table gk_id t"

lemma revoke_unused_Inr:
  assumes "revoke_unused c now days t = Inr (n, t')"
  shows "t' = snd (update_where (unused_since (stamp (c - days * day)))
                     (\<lambda>r. r\<lparr>gk_enabled := False, gk_revoked_at := Some (stamp now)\<rparr>) t)"
  using assms by (simp add: revoke_unused_def update_where_def split: if_splits)

lemma gateway_step_wf: "gateway_step cr t t' \<Longrightarrow> wf_gateway t \<Longrightarrow> wf_gateway t'"
proof (induction rule: gateway_step.induct)
  case (issue src now name owned via label ref t raw d t')
  from issue(1) obtain dr where "t' = snd (insert_row (build_gateway_key dr) t)"
    by (rule insert_key_details_Inr)
  with issue(2) gateway_rows.insert_wf show ?case by (simp add: wf_gateway_def)
next
  case (unused c now days t n t')
  from unused(2) show ?case
    by (simp add: wf_gateway_def revoke_unused_Inr [OF unused(1)] wf_table_update_where)
qed (auto simp: wf_gateway_def touch_key_def disable_gateway_key_def enable_gateway_key_def
    revoke_gateway_key_def set_gateway_row_def delete_gateway_key_def
    intro: wf_table_update_where wf_table_delete_where)

text \<open>Row \<open>i\<close> is revoked or gone, and its id will not be given out again.\<close>

definition dead_key :: "rowid \<Rightarrow> gateway_table \<Rightarrow> bool" where
  "dead_key i t \<longleftrightarrow> i \<le> tseq t \<and> (\<forall>r \<in> set (rows t). gk_id r = i \<longrightarrow> gk_revoked_at r \<noteq> None)"

lemma dead_key_step:
  assumes "gateway_step cr t t'" "dead_key i t"
  shows "dead_key i t'"
  using assms
proof (induction rule: gateway_step.induct)
  case (issue src now name owned via label ref t raw d t')
  from issue(1) obtain dr where "t' = snd (insert_row (build_gateway_key dr) t)"
    by (rule insert_key_details_Inr)
  with issue(2) show ?case by (auto simp: dead_key_def table_simps build_gateway_key_def)
next
  case (unused c now days t n t')
  then show ?case
    by (auto simp: dead_key_def revoke_unused_def update_where_def split: if_splits)
qed (auto simp: dead_key_def touch_key_def disable_gateway_key_def enable_gateway_key_def
    revoke_gateway_key_def rows_set_gateway_row delete_gateway_key_def table_simps)

lemma dead_key_revoked: "i \<le> tseq t \<Longrightarrow> dead_key i (revoke_gateway_key now i t)"
  by (simp add: dead_key_def revoke_gateway_key_def rows_set_gateway_row ball_Un)

lemma dead_key_deleted: "i \<le> tseq t \<Longrightarrow> dead_key i (delete_gateway_key i t)"
  by (auto simp: dead_key_def delete_gateway_key_def table_simps)

lemma dead_key_forever:
  assumes "(gateway_step cr)\<^sup>*\<^sup>* t t'" "dead_key i t"
  shows "dead_key i t'"
  using assms by (induction rule: rtranclp_induct) (auto dest: dead_key_step)

lemma dead_key_lookup:
  assumes "dead_key i t" "lookup_key cr raw t = Inr (Some d)"
  shows "gk_id d \<noteq> i"
  using assms by (auto simp: dead_key_def lookup_key_def split: if_splits option.splits dest!: find_row_Some)

text \<open>The oauth_owned flag of a row never changes.\<close>

definition owned_as :: "rowid \<Rightarrow> bool \<Rightarrow> gateway_table \<Rightarrow> bool" where
  "owned_as i b t \<longleftrightarrow> i \<le> tseq t \<and> (\<forall>r \<in> set (rows t). gk_id r = i \<longrightarrow> gk_oauth_owned r = b)"

lemma owned_as_step:
  assumes "gateway_step cr t t'" "owned_as i b t"
  shows "owned_as i b t'"
  using assms
proof (induction rule: gateway_step.induct)
  case (issue src now name owned via label ref t raw d t')
  from issue(1) obtain dr where "t' = snd (insert_row (build_gateway_key dr) t)"
    by (rule insert_key_details_Inr)
  with issue(2) show ?case by (auto simp: owned_as_def table_simps build_gateway_key_def)
next
  case (unused c now days t n t')
  then show ?case
    by (auto simp: owned_as_def revoke_unused_def update_where_def split: if_splits)
qed (auto simp: owned_as_def touch_key_def disable_gateway_key_def enable_gateway_key_def
    revoke_gateway_key_def rows_set_gateway_row delete_gateway_key_def table_simps)

lemma owned_as_forever:
  assumes "(gateway_step cr)\<^sup>*\<^sup>* t t'" "owned_as i b t"
  shows "owned_as i b t'"
  using assms by (induction rule: rtranclp_induct) (auto dest: owned_as_step)

end
