(* ===== verification/Invites.thy ===== *)
theory Invites
  imports Secrets GoTime
begin

text \<open>
  internal/gatewaykeys/invite.go: invite codes that let an agent enrol without the operator. A
  redemption is checked twice, once on the row read before the update (with the parsed expiry)
  and once in the \<open>UPDATE\<close> itself (with the expiry compared as text); both are modelled. The
  history of the table carries the list of the ids that were redeemed, so that the redemption
  budget can be stated over whole runs.
\<close>

section \<open>Rows and errors\<close>

record invite_code =
  ic_id :: rowid
  ic_code :: string
  ic_bind :: string
  ic_max :: int
  ic_count :: int
  ic_expires_at :: timestamp
  ic_revoked_at :: "timestamp option"
  ic_created_at :: timestamp

type_synonym invite_table = "invite_code table"

datatype invite_error =
    ErrInviteNotFound
  | ErrInviteRevoked
  | ErrInviteExpired
  | ErrInviteExhausted
  | ErrInviteLabelBound
  | ErrMaxRedemptions
  | ErrInvalidExpiry
  | ErrGenerateCode
  | ErrDuplicateCode

section \<open>Operations\<close>

definition invite_code_len :: nat where "invite_code_len = 16"

record invite_draft =
  iv_code :: string
  iv_bind :: string
  iv_max :: int
  iv_expires_at :: timestamp
  iv_created_at :: timestamp

definition build_invite :: "invite_draft \<Rightarrow> rowid \<Rightarrow> invite_code" where
  "build_invite d i =
     \<lparr>ic_id = i, ic_code = iv_code d, ic_bind = iv_bind d, ic_max = iv_max d, ic_count = 0,
      ic_expires_at = iv_expires_at d, ic_revoked_at = None, ic_created_at = iv_created_at d\<rparr>"

definition create_invite ::
  "bytes \<Rightarrow> instant \<Rightarrow> string \<Rightarrow> int \<Rightarrow> timestamp \<Rightarrow> invite_table \<Rightarrow>
   invite_error + invite_code \<times> invite_table" where
  "create_invite src now agent_label_bind max_redemptions expires_at t =
     (if max_redemptions \<le> 0 then Inl ErrMaxRedemptions
      else case parse_stamp expires_at of
        None \<Rightarrow> Inl ErrInvalidExpiry
      | Some expiry \<Rightarrow>
          (case random_base62 invite_code_len src of
            None \<Rightarrow> Inl ErrGenerateCode
          | Some (sfx, _) \<Rightarrow>
              (let code = ''inv_'' @ sfx;
                   d = \<lparr>iv_code = code, iv_bind = trim_space agent_label_bind, iv_max = max_redemptions,
                        iv_expires_at = stamp expiry, iv_created_at = stamp now\<rparr>
               in if find_row (\<lambda>r. ic_code r = code) t \<noteq> None then Inl ErrDuplicateCode
                  else (case insert_row (build_invite d) t of (i, t') \<Rightarrow> Inr (build_invite d i, t')))))"

definition list_invites :: "invite_table \<Rightarrow> invite_code list" where
  "list_invites t = rev (sort_key ic_id (rows t))"

definition revoke_invite ::
  "instant \<Rightarrow> rowid \<Rightarrow> invite_table \<Rightarrow> invite_error option \<times> invite_table" where
  "revoke_invite now i t =
     (case update_where (\<lambda>r. ic_id r = i \<and> ic_revoked_at r = None)
             (\<lambda>r. r\<lparr>ic_revoked_at := Some (stamp now)\<rparr>) t of
        (affected, t') \<Rightarrow>
          (if affected = 0 \<and> find_row (\<lambda>r. ic_id r = i) t' = None then Some ErrInviteNotFound else None, t'))"

text \<open>The guard of the atomic \<open>UPDATE\<close>.\<close>

definition redeemable :: "string \<Rightarrow> timestamp \<Rightarrow> invite_code \<Rightarrow> bool" where
  "redeemable code now_str r \<longleftrightarrow>
     ic_code r = code \<and> ic_revoked_at r = None \<and> ic_count r < ic_max r \<and> now_str < ic_expires_at r"

definition bump_count :: "invite_code \<Rightarrow> invite_code" where
  "bump_count r = r\<lparr>ic_count := ic_count r + 1\<rparr>"

definition redeem_tx ::
  "instant \<Rightarrow> string \<Rightarrow> string \<Rightarrow> invite_table \<Rightarrow> invite_error + invite_code \<times> invite_table" where
  "redeem_tx now code agent_label t =
     (let trimmed = trim_space code in
      if trimmed = [] then Inl ErrInviteNotFound
      else case find_row (\<lambda>r. ic_code r = trimmed) t of
        None \<Rightarrow> Inl ErrInviteNotFound
      | Some item \<Rightarrow>
          if ic_revoked_at item \<noteq> None then Inl ErrInviteRevoked
          else if ic_bind item \<noteq> [] \<and> trim_space agent_label \<noteq> ic_bind item then Inl ErrInviteLabelBound
          else if (case parse_stamp (ic_expires_at item) of None \<Rightarrow> False | Some e \<Rightarrow> e \<le> now)
          then Inl ErrInviteExpired
          else if ic_count item \<ge> ic_max item then Inl ErrInviteExhausted
          else (case update_where (redeemable trimmed (stamp now)) bump_count t of
            (affected, t') \<Rightarrow>
              if affected = 0 then Inl ErrInviteExhausted else Inr (bump_count item, t')))"

section \<open>The table under the operations\<close>

interpretation invite_rows: rowid_table ic_id build_invite
  by unfold_locales (simp add: build_invite_def)

definition wf_invites :: "invite_table \<Rightarrow> bool" where
  "wf_invites t \<longleftrightarrow> wf_table ic_id t \<and> inj_on ic_code (set (rows t))"

lemma ic_id_bump [simp]: "ic_id (bump_count r) = ic_id r" "ic_code (bump_count r) = ic_code r"
  by (simp_all add: bump_count_def)

lemma inj_on_map_code:
  assumes "inj_on ic_code S" "\<And>r. ic_code (f r) = ic_code r"
  shows "inj_on ic_code (f ` S)"
  using assms by (auto simp: inj_on_def)

lemma wf_invites_update:
  assumes "wf_invites t" "\<And>r. ic_id (f r) = ic_id r" "\<And>r. ic_code (f r) = ic_code r"
  shows "wf_invites (snd (update_where P f t))"
  using assms wf_table_update_where [of ic_id t f P]
    inj_on_map_code [of "set (rows t)" "\<lambda>r. if P r then f r else r"]
  by (simp add: wf_invites_def table_simps)

lemma create_invite_Inr:
  assumes "create_invite src now bd mx ex t = Inr (r, t')"
  obtains d where "t' = snd (insert_row (build_invite d) t)" "r = build_invite d (tseq t + 1)"
    "iv_max d = mx" "0 < mx" "find_row (\<lambda>r. ic_code r = iv_code d) t = None"
    "iv_bind d = trim_space bd"
proof -
  from assms obtain s rest e where *: "0 < mx" "parse_stamp ex = Some e"
    "random_base62 invite_code_len src = Some (s, rest)"
    by (auto simp: create_invite_def split: if_splits option.splits)
  let ?d = "\<lparr>iv_code = ''inv_'' @ s, iv_bind = trim_space bd, iv_max = mx,
             iv_expires_at = stamp e, iv_created_at = stamp now\<rparr>"
  from assms * show thesis
    by (intro that [of ?d]) (auto simp: create_invite_def Let_def insert_row_def split: if_splits)
qed

lemma redeem_tx_Inr:
  assumes "redeem_tx now code lbl t = Inr (r, t')"
  obtains item where "find_row (\<lambda>r. ic_code r = trim_space code) t = Some item" "r = bump_count item"
    "t' = snd (update_where (redeemable (trim_space code) (stamp now)) bump_count t)"
    "ic_revoked_at item = None" "ic_count item < ic_max item"
    "ic_bind item = [] \<or> trim_space lbl = ic_bind item"
    "\<exists>x \<in> set (rows t). redeemable (trim_space code) (stamp now) x"
proof -
  from assms obtain item where *: "find_row (\<lambda>r. ic_code r = trim_space code) t = Some item"
    by (auto simp: redeem_tx_def Let_def split: if_splits option.splits)
  show thesis
  proof (rule that [OF *])
    show "\<exists>x \<in> set (rows t). redeemable (trim_space code) (stamp now) x"
      using assms * fst_update_where_0 [of "redeemable (trim_space code) (stamp now)" bump_count t]
      by (auto simp: redeem_tx_def Let_def split: if_splits prod.splits)
  qed (use assms * in \<open>auto simp: redeem_tx_def Let_def split: if_splits prod.splits\<close>)
qed

text \<open>Past the checks on the row that was read, the guard of the update decides.\<close>

lemma redeem_tx_guard:
  assumes "wf_invites t" "r \<in> set (rows t)" "ic_code r = trim_space code" "ic_code r \<noteq> []"
    "ic_revoked_at r = None" "ic_count r < ic_max r"
    "ic_bind r = [] \<or> ic_bind r = trim_space label"
    "parse_stamp (ic_expires_at r) = Some e" "now < e"
  shows "redeem_tx now code label t =
    (if stamp now < ic_expires_at r
     then Inr (bump_count r, snd (update_where (\<lambda>x. x = r) bump_count t)) else Inl ErrInviteExhausted)"
proof -
  let ?P = "redeemable (trim_space code) (stamp now)"
  have same: "x = r" if "x \<in> set (rows t)" "ic_code x = trim_space code" for x
    using assms(1,2,3) that by (auto simp: wf_invites_def inj_on_def)
  have "find_row (\<lambda>x. ic_code x = trim_space code) t \<noteq> None"
    unfolding find_row_None using assms(2,3) by blast
  then obtain x where x: "find_row (\<lambda>x. ic_code x = trim_space code) t = Some x" by blast
  from find_row_Some [OF x] same have "x = r" by blast
  with x have find: "find_row (\<lambda>x. ic_code x = trim_space code) t = Some r" by simp
  have P: "?P x \<longleftrightarrow> x = r \<and> stamp now < ic_expires_at r" if "x \<in> set (rows t)" for x
    using same [OF that] assms(3,5,6) by (auto simp: redeemable_def)
  have upd: "update_where ?P bump_count t = update_where (\<lambda>x. x = r \<and> stamp now < ic_expires_at r) bump_count t"
    using P by (simp add: update_where_def cong: filter_cong map_cong)
  have "redeem_tx now code label t =
    (case update_where ?P bump_count t of
       (affected, t') \<Rightarrow> if affected = 0 then Inl ErrInviteExhausted else Inr (bump_count r, t'))"
    using assms(4-9) find [folded assms(3)]
    by (auto simp: redeem_tx_def Let_def simp flip: assms(3) split del: if_split)
  also have "\<dots> = (if stamp now < ic_expires_at r
     then Inr (bump_count r, snd (update_where (\<lambda>x. x = r) bump_count t)) else Inl ErrInviteExhausted)"
    unfolding upd using assms(2) by (auto simp: update_where_def filter_empty_conv)
  finally show ?thesis .
qed

section \<open>The redemption budget\<close>

text \<open>A history of the table together with the ids that have been redeemed, newest first.\<close>

inductive invite_history :: "invite_table \<Rightarrow> rowid list \<Rightarrow> bool" where
  fresh: "invite_history empty_table []"
| create: "invite_history t l \<Longrightarrow> create_invite src now bd mx ex t = Inr (r, t') \<Longrightarrow> invite_history t' l"
| revoke: "invite_history t l \<Longrightarrow> revoke_invite now i t = (e, t') \<Longrightarrow> invite_history t' l"
| redeem: "invite_history t l \<Longrightarrow> redeem_tx now code lbl t = Inr (r, t') \<Longrightarrow>
           invite_history t' (ic_id r # l)"

definition accounted :: "invite_table \<Rightarrow> rowid list \<Rightarrow> bool" where
  "accounted t l \<longleftrightarrow>
     wf_invites t \<and> (\<forall>r \<in> set (rows t). int (count_list l (ic_id r)) = ic_count r \<and> ic_count r \<le> ic_max r)
     \<and> (\<forall>i \<in> set l. i \<le> tseq t)"

lemma accounted_create:
  assumes "accounted t l" "create_invite src now bd mx ex t = Inr (r, t')"
  shows "accounted t' l"
proof -
  from assms(2) obtain d where d: "t' = snd (insert_row (build_invite d) t)" "iv_max d = mx" "0 < mx"
    "find_row (\<lambda>r. ic_code r = iv_code d) t = None"
    by (rule create_invite_Inr)
  have "count_list l (tseq t + 1) = 0"
    using assms(1) by (fastforce simp: accounted_def count_list_0_iff)
  moreover have "wf_invites t'"
    using assms(1) d invite_rows.insert_wf [of t d]
    by (auto simp: wf_invites_def accounted_def table_simps find_row_None build_invite_def inj_on_def)
  ultimately show ?thesis
    using assms(1) d by (auto simp: accounted_def table_simps build_invite_def)
qed

lemma accounted_revoke:
  assumes "accounted t l" "revoke_invite now i t = (e, t')"
  shows "accounted t' l"
proof -
  from assms(2) have "t' = snd (update_where (\<lambda>r. ic_id r = i \<and> ic_revoked_at r = None)
      (\<lambda>r. r\<lparr>ic_revoked_at := Some (stamp now)\<rparr>) t)"
    by (auto simp: revoke_invite_def split: prod.splits)
  with assms(1) wf_invites_update [of t "\<lambda>r. r\<lparr>ic_revoked_at := Some (stamp now)\<rparr>"]
  show ?thesis by (auto simp: accounted_def table_simps)
qed

text \<open>Codes are unique, so that the row that was read is the row that the update counts up.\<close>

lemma redeem_tx_item:
  assumes "wf_invites t" "redeem_tx now code lbl t = Inr (r, t')"
  obtains item where "item \<in> set (rows t)" "r = bump_count item" "redeemable (trim_space code) (stamp now) item"
    "ic_bind item = [] \<or> ic_bind item = trim_space lbl"
    "\<And>x. x \<in> set (rows t) \<Longrightarrow> redeemable (trim_space code) (stamp now) x \<longleftrightarrow> x = item"
    "t' = snd (update_where (redeemable (trim_space code) (stamp now)) bump_count t)" "bump_count item \<in> set (rows t')"
proof -
  let ?P = "redeemable (trim_space code) (stamp now)"
  from assms(2) obtain item where item: "find_row (\<lambda>r. ic_code r = trim_space code) t = Some item"
    "r = bump_count item" "t' = snd (update_where ?P bump_count t)" "ic_bind item = [] \<or> trim_space lbl = ic_bind item"
    "\<exists>x \<in> set (rows t). ?P x"
    by (rule redeem_tx_Inr)
  have mem: "item \<in> set (rows t)" "ic_code item = trim_space code"
    using item(1) by (auto dest: find_row_Some)
  have same: "x = item" if "x \<in> set (rows t)" "?P x" for x
    using that mem assms(1) by (auto simp: wf_invites_def redeemable_def inj_on_def)
  with item(5) have P: "?P item" by blast
  with same have "?P x \<longleftrightarrow> x = item" if "x \<in> set (rows t)" for x using that by blast
  moreover have "bump_count item \<in> set (rows t')"
    unfolding item(3) rows_update_where using mem(1) P by force
  ultimately show thesis using that mem(1) P item(2-4) by metis
qed

lemma accounted_redeem:
  assumes "accounted t l" "redeem_tx now code lbl t = Inr (r, t')"
  shows "accounted t' (ic_id r # l)"
proof -
  let ?P = "redeemable (trim_space code) (stamp now)"
  from assms(1) have wf: "wf_invites t" by (simp add: accounted_def)
  from redeem_tx_item [OF wf assms(2)] obtain item where mem: "item \<in> set (rows t)"
    and item: "r = bump_count item" "?P item" "t' = snd (update_where ?P bump_count t)"
    and P: "\<And>x. x \<in> set (rows t) \<Longrightarrow> ?P x \<longleftrightarrow> x = item" by metis
  have id: "ic_id item = ic_id x \<longleftrightarrow> x = item" if "x \<in> set (rows t)" for x
    using wf that mem by (auto simp: wf_invites_def dest: wf_table_inj)
  have "ic_count item < ic_max item" using item(2) by (simp add: redeemable_def)
  moreover have "ic_id item \<le> tseq t" using wf mem by (auto simp: wf_invites_def wf_table_def)
  ultimately show ?thesis
    using assms(1) wf_invites_update [OF wf, of bump_count ?P] item(1,3) mem
    by (auto simp: accounted_def table_simps bump_count_def P id)
qed

lemma invite_history_accounted: "invite_history t l \<Longrightarrow> accounted t l"
proof (induction rule: invite_history.induct)
  case fresh
  show ?case by (simp add: accounted_def wf_invites_def) (simp add: empty_table_def)
qed (auto intro: accounted_create accounted_revoke accounted_redeem)

end
