(* ===== verification/IssuanceProperties.thy ===== *)
theory IssuanceProperties
  imports GatewayKeys Invites Instances
begin

text \<open>The properties of gateway keys and of the invite codes that agents redeem for them.\<close>

section \<open>Concrete tables\<close>

definition demo_key_source :: bytes where "demo_key_source = replicate 40 (CHR 0x00)"

definition demo_raw_key :: string where "demo_raw_key = ''gsk_'' @ replicate 32 (CHR ''A'')"

lemma demo_key_random: "random_base62 key_random_len demo_key_source = Some (replicate 32 (CHR ''A''), replicate 8 (CHR 0x00))"
  unfolding key_random_len_def demo_key_source_def by code_simp

lemma demo_issue:
  "\<exists>d t'. insert_key_details demo_crypto demo_key_source 0 ''agent'' False ''operator'' ''agent'' None
            empty_table = Inr (demo_raw_key, d, t')"
  by (simp add: insert_key_details_def generate_key_material_def demo_key_random key_prefix_label_def
      demo_raw_key_def Let_def split: prod.splits)

lemma demo_create:
  "\<exists>d t'. create_oauth_tx_with_issuance demo_crypto demo_key_source now n via label ref t = Inr (demo_raw_key, d, t')"
  by (simp add: create_oauth_tx_with_issuance_def insert_key_details_def generate_key_material_def demo_key_random
      key_prefix_label_def demo_raw_key_def Let_def split: prod.splits)

definition demo_invite :: "int \<Rightarrow> timestamp \<Rightarrow> invite_code" where
  "demo_invite n expires_at = \<lparr>ic_id = 1, ic_code = ''inv_demo'', ic_bind = ''agent'', ic_max = 2, ic_count = n,
     ic_expires_at = expires_at, ic_revoked_at = None, ic_created_at = stamp 0\<rparr>"

definition demo_invites :: "timestamp \<Rightarrow> invite_table" where
  "demo_invites expires_at = \<lparr>tseq = 1, rows = [demo_invite 0 expires_at]\<rparr>"

lemma demo_invite_code: "trim_space ''inv_demo'' = ''inv_demo''" "trim_space ''agent'' = ''agent''"
  by (simp_all add: trim_space_plain plain_char_def)

lemma demo_wf_invites: "wf_invites (demo_invites e)"
  by (simp add: wf_invites_def demo_invites_def wf_table_def demo_invite_def)

section \<open>Gateway keys\<close>



text \<open>
  Revocation is final: once a key has been revoked or deleted, no sequence of further
  operations (issuing, enabling, touching, revoking, deleting) makes any presented text
  authenticate as that key.
\<close>

theorem revocation_is_final:
  assumes "wf_gateway t" "r \<in> set (rows t)" "i = gk_id r"
    "t1 = revoke_gateway_key now i t \<or> t1 = delete_gateway_key i t"
    "(gateway_step cr)\<^sup>*\<^sup>* t1 t2"
  shows "lookup_key cr raw t2 = Inr (Some d) \<longrightarrow> gk_id d \<noteq> i"
proof -
  have "i \<le> tseq t" using assms(1,2,3) by (auto simp: wf_gateway_def wf_table_def)
  with assms(4) have "dead_key i t1" using dead_key_revoked dead_key_deleted by blast
  from dead_key_forever [OF assms(5) this] show ?thesis by (auto dest: dead_key_lookup)
qed

lemma revocation_is_final_witness:
  "\<exists>d t'. insert_key_details demo_crypto demo_key_source 0 ''agent'' False ''operator'' ''agent'' None
            empty_table = Inr (demo_raw_key, d, t')
     \<and> lookup_key demo_crypto demo_raw_key (enable_gateway_key 1 (revoke_gateway_key 5 1 t')) \<noteq> Inr (Some d)"
proof -
  obtain d t' where i: "insert_key_details demo_crypto demo_key_source 0 ''agent'' False ''operator'' ''agent'' None
      empty_table = Inr (demo_raw_key, d, t')"
    using demo_issue by blast
  then obtain dr where t': "t' = snd (insert_row (build_gateway_key dr) empty_table)"
    "d = display_of (build_gateway_key dr (tseq (empty_table :: gateway_table) + 1))"
    by (rule insert_key_details_Inr) blast
  have wf: "wf_gateway t'"
    using gateway_rows.insert_wf [of empty_table] by (simp add: t' wf_gateway_def)
  have row: "build_gateway_key dr 1 \<in> set (rows t')" by (simp add: t' table_simps) (simp add: empty_table_def)
  have id: "gk_id d = 1"
    by (simp add: t' empty_table_def display_of_def gateway_key_display.truncate_def build_gateway_key_def)
  have "(gateway_step demo_crypto)\<^sup>*\<^sup>* (revoke_gateway_key 5 1 t')
          (enable_gateway_key 1 (revoke_gateway_key 5 1 t'))"
    by (rule r_into_rtranclp) (rule gateway_step.enable)
  from revocation_is_final [OF wf row _ _ this, of 1 5 demo_raw_key d] i id
  show ?thesis by (auto simp: build_gateway_key_def)
qed

text \<open>
  Revoking the keys unused for a number of days spares every key that was created or used
  since the cutoff (up to the second within which stored texts do not order), and every row it
  does touch ends disabled and revoked; the count it reports is the number of rows touched.
\<close>

theorem revoke_unused_spares_recent:
  assumes "revoke_unused c now days t = Inr (n, t')" "r \<in> set (rows t)"
    "in_range (c - days * day)" "in_range u" "c - days * day + second \<le> u"
    "gk_created_at r = stamp u \<or> gk_last_used_at r = Some (stamp u)"
  shows "r \<in> set (rows t')
    \<and> (\<forall>x \<in> set (rows t'). x \<in> set (rows t) \<or> \<not> gk_enabled x \<and> gk_revoked_at x = Some (stamp now))
    \<and> n = int (length (filter (unused_since (stamp (c - days * day))) (rows t)))"
proof -
  let ?c = "stamp (c - days * day)"
  have "?c < stamp u" by (rule stamp_apart) (use assms(3-5) in auto)
  then have "\<not> unused_since ?c r" using assms(6) by (auto simp: unused_since_def)
  moreover have "n = int (length (filter (unused_since ?c) (rows t)))"
    using assms(1) by (simp add: revoke_unused_def update_where_def split: if_splits)
  ultimately show ?thesis
    using assms(2) by (force simp: revoke_unused_Inr [OF assms(1)] table_simps)
qed

definition demo_used_row :: gateway_key where
  "demo_used_row = \<lparr>gk_id = 1, gk_name = ''a'', gk_prefix = ''gsk_AAAA'', gk_fingerprint = ''abcdef'',
     gk_enabled = True, gk_created_at = stamp 0, gk_last_used_at = Some (stamp (40 * day)),
     gk_revoked_at = None, gk_oauth_owned = False, gk_agent_label = ''a'', gk_issued_via = ''operator'',
     gk_ref_code_id = None, gk_key_hash = ''h''\<rparr>"

lemma revoke_unused_spares_recent_witness:
  "\<exists>n t'. revoke_unused (60 * day) (60 * day) 30 \<lparr>tseq = 1, rows = [demo_used_row]\<rparr> = Inr (n, t')
     \<and> demo_used_row \<in> set (rows t')"
proof -
  obtain n t' where e: "revoke_unused (60 * day) (60 * day) 30 \<lparr>tseq = 1, rows = [demo_used_row]\<rparr> = Inr (n, t')"
    by (simp add: revoke_unused_def update_where_def)
  have "in_range (60 * day - 30 * day)" "in_range (40 * day)" "60 * day - 30 * day + second \<le> 40 * day"
    "gk_created_at demo_used_row = stamp (40 * day) \<or> gk_last_used_at demo_used_row = Some (stamp (40 * day))"
    by (simp_all add: in_range_def demo_used_row_def)
  from revoke_unused_spares_recent [OF e _ this] e show ?thesis by auto
qed

section \<open>Invite codes\<close>

text \<open>
  C17. The budget of an invite is never exceeded: after any history of creating, revoking and
  redeeming invites, the number of successful redemptions of an invite is its stored count, which
  is at most the maximum it was created with.
\<close>

theorem invite_budget:
  assumes "invite_history t l" "r \<in> set (rows t)"
  shows "int (count_list l (ic_id r)) = ic_count r \<and> ic_count r \<le> ic_max r"
  using invite_history_accounted [OF assms(1)] assms(2) by (simp add: accounted_def)

definition demo_created :: "invite_error + invite_code \<times> invite_table" where
  "demo_created = create_invite (replicate 20 (CHR 0x00)) 0 '''' 2 ''2030-01-01T00:00:00Z'' empty_table"

lemma demo_created_ok: "\<exists>r t. demo_created = Inr (r, t)"
proof -
  have "parse_stamp ''2030-01-01T00:00:00Z'' = Some (1893456000 * second)" by code_simp
  moreover have "random_base62 invite_code_len (replicate 20 (CHR 0x00)) = Some (replicate 16 (CHR ''A''), replicate 4 (CHR 0x00))"
    unfolding invite_code_len_def by code_simp
  ultimately show ?thesis
    by (simp add: demo_created_def create_invite_def Let_def find_row_def empty_table_def insert_row_def)
qed

lemma invite_budget_witness:
  "\<exists>r t. demo_created = Inr (r, t) \<and> r \<in> set (rows t) \<and> ic_count r = 0"
proof -
  obtain r t where c: "demo_created = Inr (r, t)" using demo_created_ok by blast
  then have h: "invite_history t []"
    unfolding demo_created_def by (rule invite_history.create [OF invite_history.fresh])
  from c obtain d where d: "t = snd (insert_row (build_invite d) empty_table)"
    "r = build_invite d (tseq (empty_table :: invite_table) + 1)"
    unfolding demo_created_def by (rule create_invite_Inr)
  then have "r \<in> set (rows t)" by (simp add: table_simps)
  with invite_budget [OF h this] c show ?thesis by auto
qed

text \<open>
  C24. A usable invite is honoured: a code that is not revoked, has redemptions left, is bound to
  no other label and expires at least a second later is redeemed, the answer carries the new
  count, and the row of the invite is the only one that changes.
\<close>

theorem usable_invite_redeems:
  assumes "wf_invites t" "r \<in> set (rows t)" "ic_code r = trim_space code" "ic_code r \<noteq> []"
    "ic_revoked_at r = None" "ic_count r < ic_max r"
    "ic_bind r = [] \<or> ic_bind r = trim_space label"
    "in_range now" "in_range e" "ic_expires_at r = stamp e" "now + second \<le> e"
  shows "\<exists>t'. redeem_tx now code label t = Inr (bump_count r, t')
    \<and> rows t' = map (\<lambda>x. if x = r then bump_count r else x) (rows t)"
proof -
  have "stamp now < stamp e" using assms by (intro stamp_apart) auto
  with redeem_tx_guard [OF assms(1-7), of e now] assms(9-11) show ?thesis
    by (simp add: parse_stamp_stamp update_where_def)
qed

lemma usable_invite_redeems_witness:
  "\<exists>t'. redeem_tx 0 ''inv_demo'' ''agent'' (demo_invites (stamp hour)) = Inr (demo_invite 1 (stamp hour), t')"
proof -
  have r: "demo_invite 0 (stamp hour) \<in> set (rows (demo_invites (stamp hour)))" by (simp add: demo_invites_def)
  have "in_range 0" "in_range hour" "0 + second \<le> hour" by (simp_all add: in_range_def)
  with usable_invite_redeems [OF demo_wf_invites r, of "''inv_demo''" "''agent''" 0 hour]
  show ?thesis by (auto simp: demo_invite_def demo_invite_code bump_count_def)
qed

text \<open>
  C25. Within one second the stored expiry and the current time are compared as texts: an invite
  that still has a fraction of a second to live, presented at the whole second, passes every check
  on the row that was read and is then refused as exhausted by the guard of the update.
\<close>

theorem unexpired_invite_refused:
  assumes "wf_invites t" "r \<in> set (rows t)" "ic_code r = trim_space code" "ic_code r \<noteq> []"
    "ic_revoked_at r = None" "ic_count r < ic_max r" "ic_bind r = []"
    "in_range e" "ic_expires_at r = stamp e" "e div second = now div second"
    "now mod second = 0" "e mod second \<noteq> 0"
  shows "now < e \<and> redeem_tx now code label t = Inl ErrInviteExhausted"
proof -
  have "stamp e < stamp now \<and> now < e" using assms by (intro stamp_order_inverted)
  with redeem_tx_guard [OF assms(1-6), of label e now] assms(7-9) show ?thesis
    by (auto simp: parse_stamp_stamp)
qed

lemma unexpired_invite_refused_witness:
  "redeem_tx 0 ''inv_demo'' [] ((demo_invites (stamp 500000000))
     \<lparr>rows := [(demo_invite 0 (stamp 500000000))\<lparr>ic_bind := []\<rparr>]\<rparr>) = Inl ErrInviteExhausted"
proof -
  let ?r = "(demo_invite 0 (stamp 500000000))\<lparr>ic_bind := []\<rparr>"
  let ?t = "(demo_invites (stamp 500000000))\<lparr>rows := [?r]\<rparr>"
  have "wf_invites ?t" by (simp add: wf_invites_def demo_invites_def wf_table_def demo_invite_def)
  moreover have "?r \<in> set (rows ?t)" by simp
  ultimately have "0 < (500000000::int) \<and> redeem_tx 0 ''inv_demo'' [] ?t = Inl ErrInviteExhausted"
    by (rule unexpired_invite_refused) (simp_all add: demo_invite_def demo_invite_code in_range_def)
  then show ?thesis by simp
qed

end
