(* ===== verification/AdminAuth.thy ===== *)
theory AdminAuth
  imports Secrets GoTime GoHttp
begin

text \<open>
  internal/adminauth: the single administrator secret, of which only the hash is stored, the
  browser sessions it opens, their CSRF tokens, and the middleware that guards the admin pages.
  The state is the table admin_tokens and the table admin_sessions, the latter a map from the
  session id (its primary key).
\<close>

section \<open>State\<close>

datatype auth_error =
    ErrNoAdminToken
  | ErrInvalidToken
  | ErrTokenAlreadySet
  | ErrSessionInvalid
  | ErrAuthRandom
  | ErrSessionInsert
  | ErrSessionParse

record admin_token =
  at_id :: rowid
  at_hash :: string
  at_prefix :: string
  at_created_at :: timestamp
  at_rotated_at :: "timestamp option"

record admin_session =
  as_token_hash :: string
  as_csrf_hash :: string
  as_created_at :: timestamp
  as_expires_at :: timestamp

record auth_db =
  ad_tokens :: "admin_token table"
  ad_sessions :: "string \<rightharpoonup> admin_session"

record auth_service =
  sv_ttl :: duration
  sv_cookie_secure :: bool

definition new_service_with_options :: "duration \<Rightarrow> bool \<Rightarrow> auth_service" where
  "new_service_with_options ttl secure =
     \<lparr>sv_ttl = (if ttl \<le> 0 then 24 * hour else ttl), sv_cookie_secure = secure\<rparr>"

definition new_auth_service :: "duration \<Rightarrow> auth_service" where
  "new_auth_service ttl = new_service_with_options ttl True"

section \<open>Secrets\<close>

definition token_prefix_label :: string where "token_prefix_label = ''gat_''"
definition token_random_len :: nat where "token_random_len = 32"
definition min_admin_secret_len :: nat where "min_admin_secret_len = 16"
definition max_admin_secret_len :: nat where "max_admin_secret_len = 128"

definition hash_token :: "crypto \<Rightarrow> string \<Rightarrow> string" where
  "hash_token cr raw = hex_encode (sha256 cr raw)"

definition display_prefix :: "string \<Rightarrow> string" where
  "display_prefix raw = (if length raw > 8 then take 8 raw else raw)"

text \<open>The regular expression \<open>^gat_[A-Za-z0-9]{32}$\<close>.\<close>

definition raw_token_re :: "string \<Rightarrow> bool" where
  "raw_token_re s \<longleftrightarrow> length s = 36 \<and> take 4 s = ''gat_'' \<and> list_all is_alnum (drop 4 s)"

text \<open>An ASCII character that is printable and no space; every other rune is refused.\<close>

definition secret_char :: "char \<Rightarrow> bool" where
  "secret_char c \<longleftrightarrow> 0x21 \<le> (of_char c :: nat) \<and> (of_char c :: nat) \<le> 0x7E"

definition valid_admin_secret :: "string \<Rightarrow> bool" where
  "valid_admin_secret raw \<longleftrightarrow>
     (if raw_token_re raw then True
      else if length raw < min_admin_secret_len \<or> length raw > max_admin_secret_len then False
      else list_all secret_char raw)"

definition generate_token_material :: "crypto \<Rightarrow> bytes \<Rightarrow> auth_error + string \<times> string \<times> string" where
  "generate_token_material cr src =
     (case random_base62 token_random_len src of
        None \<Rightarrow> Inl ErrAuthRandom
      | Some (sfx, _) \<Rightarrow>
          (let raw = token_prefix_label @ sfx in Inr (raw, hash_token cr raw, display_prefix raw)))"

section \<open>The admin token\<close>

definition build_token :: "string \<times> string \<times> timestamp \<Rightarrow> rowid \<Rightarrow> admin_token" where
  "build_token d i =
     (case d of (hash, pre, now) \<Rightarrow>
        \<lparr>at_id = i, at_hash = hash, at_prefix = pre, at_created_at = now, at_rotated_at = None\<rparr>)"

definition has_token :: "auth_db \<Rightarrow> bool" where
  "has_token db \<longleftrightarrow> rows (ad_tokens db) \<noteq> []"

text \<open>\<open>ORDER BY id DESC LIMIT 1\<close> and \<open>ORDER BY id LIMIT 1\<close>.\<close>

definition newest_token :: "auth_db \<Rightarrow> admin_token option" where
  "newest_token db =
     (case rev (sort_key at_id (rows (ad_tokens db))) of [] \<Rightarrow> None | r # _ \<Rightarrow> Some r)"

definition oldest_token_id :: "auth_db \<Rightarrow> rowid option" where
  "oldest_token_id db =
     (case sort_key at_id (rows (ad_tokens db)) of [] \<Rightarrow> None | r # _ \<Rightarrow> Some (at_id r))"

definition insert_admin_token :: "instant \<Rightarrow> string \<Rightarrow> string \<Rightarrow> auth_db \<Rightarrow> auth_error + auth_db" where
  "insert_admin_token now hash pre db =
     (if has_token db then Inl ErrTokenAlreadySet
      else Inr (db\<lparr>ad_tokens := snd (insert_row (build_token (hash, pre, stamp now)) (ad_tokens db))\<rparr>))"

definition replace_admin_token :: "instant \<Rightarrow> string \<Rightarrow> string \<Rightarrow> auth_db \<Rightarrow> auth_error + auth_db" where
  "replace_admin_token now hash pre db =
     (if \<not> has_token db then Inl ErrNoAdminToken
      else Inr (db\<lparr>ad_tokens := snd (update_where (\<lambda>r. Some (at_id r) = oldest_token_id db)
                      (\<lambda>r. r\<lparr>at_hash := hash, at_prefix := pre, at_rotated_at := Some (stamp now)\<rparr>)
                      (ad_tokens db)),
                   ad_sessions := Map.empty\<rparr>))"

definition init_token :: "crypto \<Rightarrow> bytes \<Rightarrow> instant \<Rightarrow> auth_db \<Rightarrow> auth_error + string \<times> auth_db" where
  "init_token cr src now db =
     and_then (generate_token_material cr src) (\<lambda>(raw, hash, pre).
     and_then (insert_admin_token now hash pre db) (\<lambda>db'. Inr (raw, db')))"

definition init_from_raw :: "crypto \<Rightarrow> instant \<Rightarrow> string \<Rightarrow> auth_db \<Rightarrow> auth_error + auth_db" where
  "init_from_raw cr now raw0 db =
     (let raw = trim_space raw0 in
      if \<not> valid_admin_secret raw then Inl ErrInvalidToken
      else insert_admin_token now (hash_token cr raw) (display_prefix raw) db)"

definition rotate_token :: "crypto \<Rightarrow> bytes \<Rightarrow> instant \<Rightarrow> auth_db \<Rightarrow> auth_error + string \<times> auth_db" where
  "rotate_token cr src now db =
     and_then (generate_token_material cr src) (\<lambda>(raw, hash, pre).
     and_then (replace_admin_token now hash pre db) (\<lambda>db'. Inr (raw, db')))"

definition verify_token :: "crypto \<Rightarrow> string \<Rightarrow> auth_db \<Rightarrow> bool" where
  "verify_token cr raw0 db =
     (let raw = trim_space raw0 in
      if raw = [] \<or> \<not> valid_admin_secret raw then False
      else (case newest_token db of None \<Rightarrow> False | Some r \<Rightarrow> at_hash r = hash_token cr raw))"

definition set_from_raw :: "crypto \<Rightarrow> instant \<Rightarrow> string \<Rightarrow> auth_db \<Rightarrow> auth_error + auth_db" where
  "set_from_raw cr now raw0 db =
     (let raw = trim_space raw0 in
      if \<not> valid_admin_secret raw then Inl ErrInvalidToken
      else if \<not> has_token db then insert_admin_token now (hash_token cr raw) (display_prefix raw) db
      else if verify_token cr raw db then Inr db
      else replace_admin_token now (hash_token cr raw) (display_prefix raw) db)"

definition current_prefix :: "auth_db \<Rightarrow> auth_error + string" where
  "current_prefix db =
     (case newest_token db of None \<Rightarrow> Inl ErrNoAdminToken | Some r \<Rightarrow> Inr (at_prefix r))"

section \<open>Sessions\<close>

definition session_cookie_name :: string where "session_cookie_name = ''guda_admin_session''"
definition session_cookie_path :: string where "session_cookie_path = ''/admin''"

text \<open>An \<open>http.Cookie\<close>; \<open>ck_max_age\<close> is in seconds.\<close>

record cookie =
  ck_name :: string
  ck_value :: string
  ck_path :: string
  ck_http_only :: bool
  ck_secure :: bool
  ck_same_site_lax :: bool
  ck_expires :: instant
  ck_max_age :: int

record login_result =
  lr_session_id :: string
  lr_csrf_token :: string
  lr_cookie :: cookie

text \<open>The 32 random bytes of a session id; None is a failing random source.\<close>

definition new_session_id :: "bytes option \<Rightarrow> auth_error + string" where
  "new_session_id rnd = (case rnd of None \<Rightarrow> Inl ErrAuthRandom | Some b \<Rightarrow> Inr (hex_encode b))"

definition csrf_token_for_session :: "crypto \<Rightarrow> string \<Rightarrow> string \<Rightarrow> string" where
  "csrf_token_for_session cr sid token_hash = hash_token cr (sid @ '':'' @ token_hash)"

definition login ::
  "crypto \<Rightarrow> auth_service \<Rightarrow> bytes option \<Rightarrow> instant \<Rightarrow> string \<Rightarrow> auth_db \<Rightarrow>
   auth_error + login_result \<times> auth_db" where
  "login cr sv rnd now raw db =
     (if \<not> verify_token cr raw db then Inl ErrInvalidToken
      else
        (let hash = hash_token cr raw in
         and_then (new_session_id rnd) (\<lambda>sid.
           (let csrf = csrf_token_for_session cr sid hash;
                expires = now + sv_ttl sv;
                row = \<lparr>as_token_hash = hash, as_csrf_hash = hash_token cr csrf,
                       as_created_at = stamp now, as_expires_at = stamp expires\<rparr>
            in if ad_sessions db sid \<noteq> None then Inl ErrSessionInsert
               else Inr (\<lparr>lr_session_id = sid, lr_csrf_token = csrf,
                          lr_cookie = \<lparr>ck_name = session_cookie_name, ck_value = sid,
                            ck_path = session_cookie_path, ck_http_only = True,
                            ck_secure = sv_cookie_secure sv, ck_same_site_lax = True,
                            ck_expires = expires, ck_max_age = sv_ttl sv div second\<rparr>\<rparr>,
                         db\<lparr>ad_sessions := (ad_sessions db)(sid \<mapsto> row)\<rparr>)))))"

text \<open>\<open>ValidateSession\<close> returns true or an error, never false with a nil error.\<close>

definition validate_session :: "instant \<Rightarrow> string \<Rightarrow> auth_db \<Rightarrow> auth_error + unit" where
  "validate_session now sid db =
     (if sid = [] then Inl ErrSessionInvalid
      else case ad_sessions db sid of
        None \<Rightarrow> Inl ErrSessionInvalid
      | Some s \<Rightarrow>
          (case parse_stamp (as_expires_at s) of
             None \<Rightarrow> Inl ErrSessionParse
           | Some expires \<Rightarrow> if expires < now then Inl ErrSessionInvalid else Inr ()))"

definition csrf_token :: "crypto \<Rightarrow> instant \<Rightarrow> string \<Rightarrow> auth_db \<Rightarrow> auth_error + string" where
  "csrf_token cr now sid db =
     and_then (validate_session now sid db) (\<lambda>_.
       case ad_sessions db sid of
         None \<Rightarrow> Inl ErrSessionInvalid
       | Some s \<Rightarrow> Inr (csrf_token_for_session cr sid (as_token_hash s)))"

definition validate_csrf :: "crypto \<Rightarrow> string \<Rightarrow> string \<Rightarrow> auth_db \<Rightarrow> auth_error + bool" where
  "validate_csrf cr sid token db =
     (if sid = [] \<or> token = [] then Inl ErrSessionInvalid
      else case ad_sessions db sid of
        None \<Rightarrow> Inl ErrSessionInvalid
      | Some s \<Rightarrow> if as_csrf_hash s = [] then Inl ErrSessionInvalid
                  else Inr (as_csrf_hash s = hash_token cr token))"

definition logout :: "auth_service \<Rightarrow> string \<Rightarrow> auth_db \<Rightarrow> cookie \<times> auth_db" where
  "logout sv sid db =
     (\<lparr>ck_name = session_cookie_name, ck_value = [], ck_path = session_cookie_path, ck_http_only = True,
       ck_secure = sv_cookie_secure sv, ck_same_site_lax = True, ck_expires = 0, ck_max_age = -1\<rparr>,
      if sid \<noteq> [] then db\<lparr>ad_sessions := (ad_sessions db)(sid := None)\<rparr> else db)"

text \<open>The value of the session cookie of a request, None when the request has none.\<close>

definition session_id_from_request :: "string option \<Rightarrow> string" where
  "session_id_from_request cookie = (case cookie of None \<Rightarrow> [] | Some v \<Rightarrow> trim_space v)"

text \<open>A refused request is answered by \<open>deny\<close>; otherwise the handler runs on the state.\<close>

definition auth_middleware ::
  "string set \<Rightarrow> instant \<Rightarrow> string \<Rightarrow> string option \<Rightarrow> auth_db \<Rightarrow> (written \<Rightarrow> 'a) \<Rightarrow> ('s \<Rightarrow> 'a \<times> 's) \<Rightarrow> 's \<Rightarrow> 'a \<times> 's" where
  "auth_middleware exclude now path cookie db deny next_handler s =
     (if path \<in> exclude then next_handler s
      else case validate_session now (session_id_from_request cookie) db of
        Inl ErrSessionInvalid \<Rightarrow> (deny (WrittenError 401 ''unauthorized''), s)
      | Inl _ \<Rightarrow> (deny (WrittenError 500 ''internal error''), s)
      | Inr _ \<Rightarrow> next_handler s)"

end
