(* ===== verification/AuthLaws.thy ===== *)
theory AuthLaws
  imports AdminAuth
begin

text \<open>
  The administrator's secret and sessions over time: the step relation of the operations, the
  invariant that there is at most one token and that every session carries the hash of its own
  CSRF token, and the laws of each operation on states that satisfy it.
\<close>

lemmas auth_defs = init_token_def init_from_raw_def rotate_token_def set_from_raw_def
  insert_admin_token_def replace_admin_token_def login_def logout_def

interpretation token_rows: rowid_table at_id build_token
  by unfold_locales (simp add: build_token_def split: prod.splits)

section \<open>The invariant\<close>

definition sessions_bound :: "crypto \<Rightarrow> auth_db \<Rightarrow> bool" where
  "sessions_bound cr db \<longleftrightarrow> (\<forall>sid s. ad_sessions db sid = Some s \<longrightarrow>
     as_csrf_hash s = hash_token cr (csrf_token_for_session cr sid (as_token_hash s)))"

definition wf_auth :: "crypto \<Rightarrow> auth_db \<Rightarrow> bool" where
  "wf_auth cr db \<longleftrightarrow> length (rows (ad_tokens db)) \<le> 1 \<and> sessions_bound cr db"

definition empty_auth :: auth_db where
  "empty_auth = \<lparr>ad_tokens = empty_table, ad_sessions = Map.empty\<rparr>"

lemma wf_empty_auth: "wf_auth cr empty_auth"
  by (simp add: wf_auth_def empty_auth_def sessions_bound_def empty_table_def)

lemma hash_token_nonempty: "digest_ok cr \<Longrightarrow> hash_token cr raw \<noteq> []"
  by (metis hash_token_def hex_encode_length digest_ok_def length_0_conv mult_is_0 zero_neq_numeral)

lemma single_token:
  assumes "wf_auth cr db" "has_token db"
  obtains r where "rows (ad_tokens db) = [r]"
  using assms by (cases "rows (ad_tokens db)") (auto simp: wf_auth_def has_token_def)

lemma newest_single: "rows (ad_tokens db) = [r] \<Longrightarrow> newest_token db = Some r"
  by (simp add: newest_token_def)

lemma insert_admin_token_Inr:
  assumes "insert_admin_token now hash pre db = Inr db'"
  obtains r where "rows (ad_tokens db) = []" "rows (ad_tokens db') = [r]" "at_hash r = hash"
    "at_prefix r = pre" "ad_sessions db' = ad_sessions db"
  using assms
  by (intro that [of "build_token (hash, pre, stamp now) (tseq (ad_tokens db) + 1)"])
     (auto simp: insert_admin_token_def has_token_def table_simps build_token_def split: if_splits)

lemma replace_admin_token_Inr:
  assumes "wf_auth cr db" "replace_admin_token now hash pre db = Inr db'"
  obtains r where "rows (ad_tokens db') = [r]" "at_hash r = hash" "at_prefix r = pre"
    "ad_sessions db' = Map.empty"
proof -
  from assms(2) have "has_token db" by (simp add: replace_admin_token_def split: if_splits)
  with assms(1) obtain r0 where r0: "rows (ad_tokens db) = [r0]" by (rule single_token)
  with assms(2) show thesis
    by (intro that [of "r0\<lparr>at_hash := hash, at_prefix := pre, at_rotated_at := Some (stamp now)\<rparr>"])
       (auto simp: replace_admin_token_def has_token_def oldest_token_id_def table_simps)
qed

lemma wf_insert: "insert_admin_token now hash pre db = Inr db' \<Longrightarrow> wf_auth cr db \<Longrightarrow> wf_auth cr db'"
  by (erule insert_admin_token_Inr) (simp add: wf_auth_def sessions_bound_def)

lemma wf_replace: "replace_admin_token now hash pre db = Inr db' \<Longrightarrow> wf_auth cr db \<Longrightarrow> wf_auth cr db'"
  by (rule replace_admin_token_Inr [of cr db now hash pre db']) (simp_all add: wf_auth_def sessions_bound_def)

lemma login_Inr:
  assumes "login cr sv rnd now raw db = Inr (res, db')"
  obtains b s where "rnd = Some b" "verify_token cr raw db" "lr_session_id res = hex_encode b"
    "ad_sessions db (hex_encode b) = None"
    "db' = db\<lparr>ad_sessions := (ad_sessions db)(hex_encode b \<mapsto> s)\<rparr>"
    "as_token_hash s = hash_token cr raw" "as_expires_at s = stamp (now + sv_ttl sv)"
    "lr_csrf_token res = csrf_token_for_session cr (hex_encode b) (hash_token cr raw)"
    "as_csrf_hash s = hash_token cr (lr_csrf_token res)"
proof -
  from assms obtain b where "rnd = Some b"
    by (auto simp: login_def Let_def and_then_Inr new_session_id_def split: if_splits option.splits)
  let ?csrf = "csrf_token_for_session cr (hex_encode b) (hash_token cr raw)"
  let ?s = "\<lparr>as_token_hash = hash_token cr raw, as_csrf_hash = hash_token cr ?csrf,
             as_created_at = stamp now, as_expires_at = stamp (now + sv_ttl sv)\<rparr>"
  from assms \<open>rnd = Some b\<close> show thesis
    by (intro that [of b ?s])
       (auto simp: login_def Let_def and_then_Inr new_session_id_def split: if_splits)
qed

section \<open>Histories\<close>

inductive auth_step :: "crypto \<Rightarrow> auth_service \<Rightarrow> auth_db \<Rightarrow> auth_db \<Rightarrow> bool" for cr sv where
  init: "init_token cr src now db = Inr (raw, db') \<Longrightarrow> auth_step cr sv db db'"
| init_raw: "init_from_raw cr now raw db = Inr db' \<Longrightarrow> auth_step cr sv db db'"
| rotate: "rotate_token cr src now db = Inr (raw, db') \<Longrightarrow> auth_step cr sv db db'"
| set_raw: "set_from_raw cr now raw db = Inr db' \<Longrightarrow> auth_step cr sv db db'"
| login: "login cr sv rnd now raw db = Inr (res, db') \<Longrightarrow> auth_step cr sv db db'"
| logout: "logout sv sid db = (ck, db') \<Longrightarrow> auth_step cr sv db db'"

lemma auth_step_wf: "auth_step cr sv db db' \<Longrightarrow> wf_auth cr db \<Longrightarrow> wf_auth cr db'"
proof (induction rule: auth_step.induct)
  case (init src now db raw db')
  then show ?case by (auto simp: init_token_def and_then_Inr intro: wf_insert)
next
  case (init_raw now raw db db')
  then show ?case by (auto simp: init_from_raw_def Let_def intro: wf_insert split: if_splits)
next
  case (rotate src now db raw db')
  then show ?case by (auto simp: rotate_token_def and_then_Inr intro: wf_replace)
next
  case (set_raw now raw db db')
  then show ?case
    by (auto simp: set_from_raw_def Let_def intro: wf_insert wf_replace split: if_splits)
next
  case (login rnd now raw db res db')
  from login(1) show ?case
    by (rule login_Inr) (use login(2) in \<open>auto simp: wf_auth_def sessions_bound_def\<close>)
next
  case (logout sid db ck db')
  then show ?case by (auto simp: logout_def wf_auth_def sessions_bound_def split: if_splits)
qed

lemma auth_history_wf:
  assumes "(auth_step cr sv)\<^sup>*\<^sup>* empty_auth db"
  shows "wf_auth cr db"
  using assms by (induction rule: rtranclp_induct) (auto intro: auth_step_wf wf_empty_auth)

section \<open>Laws\<close>

lemma generate_token_material_Inr:
  assumes "generate_token_material cr src = Inr (raw, hash, pre)"
  shows "raw_token_re raw \<and> trim_space raw = raw \<and> hash = hash_token cr raw \<and> pre = display_prefix raw"
proof -
  from assms obtain s rest where s: "random_base62 token_random_len src = Some (s, rest)" "raw = ''gat_'' @ s"
    "hash = hash_token cr raw" "pre = display_prefix raw"
    by (auto simp: generate_token_material_def Let_def token_prefix_label_def split: option.splits)
  have "trim_space raw = raw"
    unfolding s(2) by (rule trim_space_random [OF s(1)]) (simp add: plain_char_def)
  with random_base62_shape [OF s(1)] s(2-) show ?thesis
    by (auto simp: raw_token_re_def token_random_len_def list_all_iff base62_alnum)
qed

lemma verify_token_single:
  assumes "rows (ad_tokens db) = [r]"
  shows "verify_token cr raw db \<longleftrightarrow>
         trim_space raw \<noteq> [] \<and> valid_admin_secret (trim_space raw) \<and> at_hash r = hash_token cr (trim_space raw)"
  by (simp add: verify_token_def Let_def newest_single [OF assms])

lemma verify_trimmed [simp]: "verify_token cr (trim_space raw) db = verify_token cr raw db"
  by (simp add: verify_token_def)

lemma verify_sessions [simp]: "verify_token cr raw (db\<lparr>ad_sessions := x\<rparr>) = verify_token cr raw db"
  by (simp add: verify_token_def newest_token_def Let_def)

lemma valid_nonempty: "valid_admin_secret s \<Longrightarrow> s \<noteq> []"
  by (auto simp: valid_admin_secret_def raw_token_re_def min_admin_secret_len_def)

lemma set_from_raw_Inr:
  assumes "wf_auth cr db" "set_from_raw cr now raw db = Inr db'"
  shows "verify_token cr raw db' \<and> wf_auth cr db' \<and> (verify_token cr raw db \<longrightarrow> db' = db)"
proof -
  let ?s = "trim_space raw"
  have v: "valid_admin_secret ?s"
    using assms(2) by (simp add: set_from_raw_def Let_def split: if_splits)
  consider (new) "\<not> has_token db" "insert_admin_token now (hash_token cr ?s) (display_prefix ?s) db = Inr db'"
    | (same) "verify_token cr raw db" "db' = db"
    | (replace) "has_token db" "\<not> verify_token cr raw db"
        "replace_admin_token now (hash_token cr ?s) (display_prefix ?s) db = Inr db'"
    using assms(2) v by (auto simp: set_from_raw_def Let_def split: if_splits)
  then show ?thesis
  proof cases
    case new
    have "\<not> verify_token cr raw db"
      using new(1) by (simp add: verify_token_def newest_token_def has_token_def Let_def)
    moreover from new(2) have "verify_token cr raw db'"
      by (rule insert_admin_token_Inr) (simp add: verify_token_single v valid_nonempty)
    ultimately show ?thesis using wf_insert [OF new(2) assms(1)] by simp
  next
    case same
    with assms(1) show ?thesis by simp
  next
    case replace
    from assms(1) replace(3) have "verify_token cr raw db'"
      by (rule replace_admin_token_Inr) (simp add: verify_token_single v valid_nonempty)
    with replace(2) wf_replace [OF replace(3) assms(1)] show ?thesis by simp
  qed
qed

lemma validate_session_login:
  assumes "login cr sv rnd now raw db = Inr (res, db')" "rnd \<noteq> Some []" "in_range (now + sv_ttl sv)"
  shows "validate_session now' (lr_session_id res) db' =
         (if now' \<le> now + sv_ttl sv then Inr () else Inl ErrSessionInvalid)"
  using assms(1)
proof (rule login_Inr)
  fix b s
  assume l: "rnd = Some b" "lr_session_id res = hex_encode b"
    "db' = db\<lparr>ad_sessions := (ad_sessions db)(hex_encode b \<mapsto> s)\<rparr>" "as_expires_at s = stamp (now + sv_ttl sv)"
  from l(1) assms(2) have "hex_encode b \<noteq> []" by (cases b) (auto simp: hex_encode_def)
  then show ?thesis using l(2,3,4) by (auto simp: validate_session_def parse_stamp_stamp [OF assms(3)])
qed

lemma csrf_token_valid:
  assumes "digest_ok cr" "sessions_bound cr db" "csrf_token cr now sid db = Inr tok"
  shows "validate_csrf cr sid tok db = Inr True"
proof -
  from assms(3) obtain s where s: "ad_sessions db sid = Some s" "sid \<noteq> []"
    "tok = csrf_token_for_session cr sid (as_token_hash s)"
    by (auto simp: csrf_token_def and_then_Inr validate_session_def split: if_splits option.splits)
  with assms(2) have "as_csrf_hash s = hash_token cr tok" by (auto simp: sessions_bound_def)
  with s hash_token_nonempty [OF assms(1)] show ?thesis
    by (simp add: validate_csrf_def csrf_token_for_session_def)
qed

end
