(* ===== verification/AuthProperties.thy ===== *)
theory AuthProperties
  imports AuthLaws Instances
begin

text \<open>The properties of the administrator's secret, sessions and middleware.\<close>

section \<open>A concrete administrator\<close>

definition demo_secret :: string where "demo_secret = ''admin-secret-0001''"

definition demo_admin_row :: admin_token where
  "demo_admin_row = \<lparr>at_id = 1, at_hash = hash_token demo_crypto demo_secret, at_prefix = ''admin-se'',
     at_created_at = stamp 0, at_rotated_at = None\<rparr>"

definition demo_auth :: auth_db where
  "demo_auth = \<lparr>ad_tokens = \<lparr>tseq = 1, rows = [demo_admin_row]\<rparr>, ad_sessions = Map.empty\<rparr>"

definition demo_service :: auth_service where
  "demo_service = \<lparr>sv_ttl = hour, sv_cookie_secure = True\<rparr>"

lemma demo_secret_facts [simp]: "trim_space demo_secret = demo_secret" "valid_admin_secret demo_secret"
  "demo_secret \<noteq> []"
proof -
  show "trim_space demo_secret = demo_secret" unfolding demo_secret_def by code_simp
  show "valid_admin_secret demo_secret" unfolding demo_secret_def by code_simp
  show "demo_secret \<noteq> []" by (simp add: demo_secret_def)
qed

lemma demo_verify [simp]: "verify_token demo_crypto demo_secret demo_auth"
  by (simp add: verify_token_single [of _ demo_admin_row] demo_auth_def) (simp add: demo_admin_row_def)

lemma demo_wf_auth [simp]: "wf_auth demo_crypto demo_auth"
  by (simp add: wf_auth_def demo_auth_def sessions_bound_def)

text \<open>A rotation that draws 32 zero bytes.\<close>

lemma demo_rotation_ok: "\<exists>raw db'. rotate_token demo_crypto (replicate 32 (CHR 0x00)) 0 demo_auth = Inr (raw, db')"
proof -
  have "random_base62 32 (replicate 32 (CHR 0x00)) = Some (replicate 32 (CHR ''A''), [])"
    by code_simp
  then show ?thesis
    by (simp add: rotate_token_def generate_token_material_def token_random_len_def Let_def
        replace_admin_token_def has_token_def demo_auth_def)
qed

section \<open>Properties\<close>

text \<open>
  In every state the operations of the administrator's service can reach from an empty
  database there is at most one admin token, and the CSRF token that the service hands out for a
  session is the one it accepts for that session.
\<close>

theorem admin_history_invariant:
  assumes "digest_ok cr" "(auth_step cr sv)\<^sup>*\<^sup>* empty_auth db"
  shows "length (rows (ad_tokens db)) \<le> 1
    \<and> (\<forall>now sid tok. csrf_token cr now sid db = Inr tok \<longrightarrow> validate_csrf cr sid tok db = Inr True)"
  using auth_history_wf [OF assms(2)] csrf_token_valid [OF assms(1)] by (auto simp: wf_auth_def)

lemma admin_history_invariant_witness: "length (rows (ad_tokens empty_auth)) \<le> 1"
  using admin_history_invariant [of demo_crypto demo_service empty_auth] by simp

text \<open>
  C27. Rotating the admin token replaces the secret and ends every session: afterwards the secrets
  that log in are exactly those whose trimmed text is valid and hashes to the new token, the new
  token itself is one of them, and the middleware refuses every session cookie.
\<close>

theorem rotation_replaces_secret:
  assumes "wf_auth cr db" "rotate_token cr src now db = Inr (raw, db')"
  shows "(\<forall>s. verify_token cr s db' \<longleftrightarrow>
            valid_admin_secret (trim_space s) \<and> hash_token cr (trim_space s) = hash_token cr raw)
    \<and> verify_token cr raw db'
    \<and> (\<forall>ex t path ck (h :: auth_db \<Rightarrow> written \<times> auth_db). path \<notin> ex \<longrightarrow>
         auth_middleware ex t path ck db' id h db' = (WrittenError 401 ''unauthorized'', db'))"
proof -
  from assms(2) obtain hash pre where g: "generate_token_material cr src = Inr (raw, hash, pre)"
    and rep: "replace_admin_token now hash pre db = Inr db'"
    by (auto simp: rotate_token_def and_then_Inr)
  from generate_token_material_Inr [OF g] have raw: "raw_token_re raw" "trim_space raw = raw" "hash = hash_token cr raw"
    by auto
  from assms(1) rep obtain r where r: "rows (ad_tokens db') = [r]" "at_hash r = hash"
    "ad_sessions db' = Map.empty"
    by (rule replace_admin_token_Inr)
  have "verify_token cr s db' \<longleftrightarrow>
          valid_admin_secret (trim_space s) \<and> hash_token cr (trim_space s) = hash_token cr raw" for s
    using r raw valid_nonempty by (auto simp: verify_token_single [OF r(1)])
  moreover have "valid_admin_secret raw" using raw by (simp add: valid_admin_secret_def)
  ultimately show ?thesis
    using r(3) raw(2) by (simp add: auth_middleware_def validate_session_def)
qed

lemma rotation_replaces_secret_witness:
  "\<exists>raw db'. rotate_token demo_crypto (replicate 32 (CHR 0x00)) 0 demo_auth = Inr (raw, db')
     \<and> auth_middleware {} 0 ''/admin/api/usage'' None db' id (\<lambda>db. (not_found, db)) db'
       = (WrittenError 401 ''unauthorized'', db')"
proof -
  obtain raw db' where d: "rotate_token demo_crypto (replicate 32 (CHR 0x00)) 0 demo_auth = Inr (raw, db')"
    using demo_rotation_ok by blast
  from rotation_replaces_secret [OF demo_wf_auth d] d show ?thesis by simp
qed

text \<open>
  Setting the admin secret from the environment is idempotent: after a successful call the
  secret verifies, and repeating the call at any later time changes nothing, so that the sessions
  opened in between survive a restart with the same secret.
\<close>

theorem set_from_raw_idempotent:
  assumes "wf_auth cr db" "set_from_raw cr now raw db = Inr db'"
  shows "verify_token cr raw db' \<and> set_from_raw cr now' raw db' = Inr db'
    \<and> (\<forall>sv rnd t res db''. login cr sv rnd t raw db' = Inr (res, db'') \<longrightarrow>
         set_from_raw cr now' raw db'' = Inr db'')"
proof -
  have valid: "valid_admin_secret (trim_space raw)"
    using assms(2) by (simp add: set_from_raw_def Let_def split: if_splits)
  have stable: "set_from_raw cr now' raw d = Inr d" if "verify_token cr raw d" for d
  proof -
    have "has_token d"
      using that by (auto simp: verify_token_def newest_token_def has_token_def Let_def split: if_splits)
    with that valid show ?thesis by (simp add: set_from_raw_def Let_def)
  qed
  have v: "verify_token cr raw db'" using set_from_raw_Inr [OF assms] by simp
  have "verify_token cr raw db''" if "login cr sv rnd t raw db' = Inr (res, db'')" for sv rnd t res db''
    using that
  proof (rule login_Inr)
    fix b s
    assume "db'' = db'\<lparr>ad_sessions := (ad_sessions db')(hex_encode b \<mapsto> s)\<rparr>"
    with v show "verify_token cr raw db''" by simp
  qed
  with v stable show ?thesis by blast
qed

lemma set_from_raw_idempotent_witness:
  "verify_token demo_crypto demo_secret demo_auth
   \<and> set_from_raw demo_crypto 5 demo_secret demo_auth = Inr demo_auth"
proof -
  have "set_from_raw demo_crypto 0 demo_secret demo_auth = Inr demo_auth"
    by (simp add: set_from_raw_def Let_def) (simp add: has_token_def demo_auth_def)
  from set_from_raw_idempotent [OF demo_wf_auth this, of 5] show ?thesis by simp
qed

text \<open>
  C28. The life of a browser session: a successful login opens a session that is valid up to and
  including the instant of its expiry and refused after it; within that time its CSRF token can
  be read back and validates; and a logout of that session ends it at once.
\<close>

theorem session_lifetime:
  assumes "digest_ok cr" "sessions_bound cr db" "in_range (now + sv_ttl sv)"
    "login cr sv (Some (b # bs)) now raw db = Inr (res, db')"
  shows "validate_session t (lr_session_id res) db' =
           (if t \<le> now + sv_ttl sv then Inr () else Inl ErrSessionInvalid)
    \<and> (t \<le> now + sv_ttl sv \<longrightarrow> csrf_token cr t (lr_session_id res) db' = Inr (lr_csrf_token res))
    \<and> validate_csrf cr (lr_session_id res) (lr_csrf_token res) db' = Inr True
    \<and> validate_session t (lr_session_id res) (snd (logout sv (lr_session_id res) db'))
         = Inl ErrSessionInvalid"
proof -
  have life: "validate_session t (lr_session_id res) db' =
           (if t \<le> now + sv_ttl sv then Inr () else Inl ErrSessionInvalid)" for t
    using validate_session_login [OF assms(4) _ assms(3)] by simp
  from assms(4) obtain s where s: "lr_session_id res = hex_encode (b # bs)"
    "db' = db\<lparr>ad_sessions := (ad_sessions db)(hex_encode (b # bs) \<mapsto> s)\<rparr>"
    "lr_csrf_token res = csrf_token_for_session cr (hex_encode (b # bs)) (hash_token cr raw)"
    "as_token_hash s = hash_token cr raw" "as_csrf_hash s = hash_token cr (lr_csrf_token res)"
    by (rule login_Inr) auto
  have tok: "t \<le> now + sv_ttl sv \<Longrightarrow> csrf_token cr t (lr_session_id res) db' = Inr (lr_csrf_token res)" for t
    using s life [of t] by (simp add: csrf_token_def)
  have "sessions_bound cr db'" using assms(2) s by (auto simp: sessions_bound_def)
  from csrf_token_valid [OF assms(1) this tok [of "now + sv_ttl sv"]]
  have "validate_csrf cr (lr_session_id res) (lr_csrf_token res) db' = Inr True" by simp
  moreover have "validate_session t (lr_session_id res) (snd (logout sv (lr_session_id res) db'))
         = Inl ErrSessionInvalid"
    by (simp add: logout_def validate_session_def)
  ultimately show ?thesis using life tok by simp
qed

lemma demo_login_ok: "\<exists>res db'. login demo_crypto demo_service (Some ''0123456789abcdef0123456789abcdef'')
    0 demo_secret demo_auth = Inr (res, db')"
  by (simp add: login_def Let_def new_session_id_def) (simp add: demo_auth_def)

lemma session_lifetime_witness:
  "\<exists>res db'. login demo_crypto demo_service (Some ''0123456789abcdef0123456789abcdef'') 0 demo_secret demo_auth
     = Inr (res, db') \<and> validate_session hour (lr_session_id res) db' = Inr ()
     \<and> validate_session (hour + 1) (lr_session_id res) db' = Inl ErrSessionInvalid"
proof -
  obtain res db' where d: "login demo_crypto demo_service (Some ''0123456789abcdef0123456789abcdef'')
      0 demo_secret demo_auth = Inr (res, db')"
    using demo_login_ok by blast
  have "in_range (0 + sv_ttl demo_service)" by (simp add: in_range_def demo_service_def)
  moreover have "sessions_bound demo_crypto demo_auth" by (simp add: sessions_bound_def demo_auth_def)
  ultimately have "validate_session t (lr_session_id res) db' =
      (if t \<le> 0 + sv_ttl demo_service then Inr () else Inl ErrSessionInvalid)" for t
    using session_lifetime [OF demo_digest _ _ d] by blast
  with d show ?thesis by (simp add: demo_service_def)
qed

text \<open>
  The middleware runs the handler exactly when the path is excluded or the session cookie
  names a valid session; otherwise it answers 401 or 500 and leaves the database as it was.
\<close>

theorem middleware_guards:
  "auth_middleware ex now path ck db deny h s =
     (if path \<in> ex \<or> validate_session now (session_id_from_request ck) db = Inr () then h s
      else (deny (WrittenError (if validate_session now (session_id_from_request ck) db = Inl ErrSessionInvalid
                          then 401 else 500)
             (if validate_session now (session_id_from_request ck) db = Inl ErrSessionInvalid
              then ''unauthorized'' else ''internal error'')), s))"
  by (cases "validate_session now (session_id_from_request ck) db")
     (auto simp: auth_middleware_def split: auth_error.splits)

end
