(* ===== verification/GoForm.thy ===== *)
theory GoForm
  imports GoUrl
begin

text \<open>
  Go's \<open>url.Values\<close> with \<open>Encode\<close> and \<open>ParseQuery\<close>, and the unpadded base64 of
  \<open>encoding/base64\<close>. A value set is an association list with one entry per key. Proved: escaping
  is undone by unescaping, encoding a form is injective on its keys and values, and decoding
  undoes base64 encoding.
\<close>

section \<open>Query escaping\<close>

definition query_plain :: "char \<Rightarrow> bool" where
  "query_plain c \<longleftrightarrow> is_alnum c \<or> c \<in> set ''-_.~''"

definition query_escape :: "string \<Rightarrow> string" where
  "query_escape s = concat (map (\<lambda>c. if query_plain c then [c] else if c = CHR '' '' then ''+''
     else [CHR ''%'', hex_upper (of_char c div 16), hex_upper (of_char c mod 16)]) s)"

fun query_unescape :: "string \<Rightarrow> string option" where
  "query_unescape [] = Some []"
| "query_unescape (c # s) =
     (if c = CHR ''%'' then
        (case s of
           a # b # r \<Rightarrow>
             (case (hex_val a, hex_val b) of
                (Some x, Some y) \<Rightarrow> map_option ((#) (char_of (16 * x + y))) (query_unescape r)
              | _ \<Rightarrow> None)
         | _ \<Rightarrow> None)
      else map_option ((#) (if c = CHR ''+'' then CHR '' '' else c)) (query_unescape s))"

section \<open>Values\<close>

type_synonym url_values = "(string \<times> string list) list"

definition values_all :: "url_values \<Rightarrow> string \<Rightarrow> string list" where
  "values_all vs k = (case map_of vs k of None \<Rightarrow> [] | Some xs \<Rightarrow> xs)"

definition values_get :: "url_values \<Rightarrow> string \<Rightarrow> string" where
  "values_get vs k = (case values_all vs k of [] \<Rightarrow> [] | x # _ \<Rightarrow> x)"

fun values_set :: "string \<Rightarrow> string list \<Rightarrow> url_values \<Rightarrow> url_values" where
  "values_set k xs [] = [(k, xs)]"
| "values_set k xs ((k', ys) # vs) = (if k = k' then (k, xs) # vs else (k', ys) # values_set k xs vs)"

definition values_add :: "string \<Rightarrow> string \<Rightarrow> url_values \<Rightarrow> url_values" where
  "values_add k x vs = values_set k (values_all vs k @ [x]) vs"

definition encode_pair :: "string \<times> string \<Rightarrow> string" where
  "encode_pair kv = query_escape (fst kv) @ ''='' @ query_escape (snd kv)"

definition flat_values :: "url_values \<Rightarrow> (string \<times> string) list" where
  "flat_values vs = concat (map (\<lambda>(k, xs). map (Pair k) xs) (sort_key fst vs))"

definition encode_values :: "url_values \<Rightarrow> string" where
  "encode_values vs = join_with ''&'' (map encode_pair (flat_values vs))"

text \<open>
  \<open>ParseQuery\<close>: pieces that are empty, hold a semicolon or do not unescape are left out, and the
  Boolean says whether none but empty pieces was.
\<close>

definition parse_piece :: "string \<Rightarrow> url_values \<times> bool \<Rightarrow> url_values \<times> bool" where
  "parse_piece p acc =
     (case acc of (vs, ok) \<Rightarrow>
        if p = [] then (vs, ok)
        else if CHR '';'' \<in> set p then (vs, False)
        else (case (case cut_at (CHR ''='') p of None \<Rightarrow> (p, []) | Some kv \<Rightarrow> kv) of
          (k, x) \<Rightarrow>
            (case (query_unescape k, query_unescape x) of
               (Some k', Some x') \<Rightarrow> (values_add k' x' vs, ok)
             | _ \<Rightarrow> (vs, False))))"

definition parse_query :: "string \<Rightarrow> url_values \<times> bool" where
  "parse_query s = fold parse_piece (split_on (CHR ''&'') s) ([], True)"

section \<open>Base64 without padding\<close>

definition base64_std :: string where
  "base64_std = ''ABCDEFGHIJKLMNOPQRSTUVWXYZabcdefghijklmnopqrstuvwxyz0123456789+/''"

definition base64_url :: string where
  "base64_url = ''ABCDEFGHIJKLMNOPQRSTUVWXYZabcdefghijklmnopqrstuvwxyz0123456789-_''"

fun base64_digits :: "bytes \<Rightarrow> nat list" where
  "base64_digits [] = []"
| "base64_digits [a] = (let x = of_char a in [x div 4, x mod 4 * 16])"
| "base64_digits [a, b] = (let x = of_char a; y = of_char b
     in [x div 4, x mod 4 * 16 + y div 16, y mod 16 * 4])"
| "base64_digits (a # b # c # bs) = (let x = of_char a; y = of_char b; z = of_char c
     in [x div 4, x mod 4 * 16 + y div 16, y mod 16 * 4 + z div 64, z mod 64] @ base64_digits bs)"

definition base64_encode :: "string \<Rightarrow> bytes \<Rightarrow> string" where
  "base64_encode al bs = map (\<lambda>d. al ! d) (base64_digits bs)"

fun index_of :: "char \<Rightarrow> string \<Rightarrow> nat option" where
  "index_of c [] = None"
| "index_of c (x # xs) = (if c = x then Some 0 else map_option Suc (index_of c xs))"

fun base64_groups :: "nat list \<Rightarrow> bytes option" where
  "base64_groups [] = Some []"
| "base64_groups [_] = None"
| "base64_groups [p, q] = Some [char_of (p * 4 + q div 16)]"
| "base64_groups [p, q, r] = Some [char_of (p * 4 + q div 16), char_of (q mod 16 * 16 + r div 4)]"
| "base64_groups (p # q # r # s # ns) =
     map_option (\<lambda>bs. [char_of (p * 4 + q div 16), char_of (q mod 16 * 16 + r div 4), char_of (r mod 4 * 64 + s)] @ bs)
       (base64_groups ns)"

text \<open>\<open>DecodeString\<close> skips line breaks and ignores the unused low bits of the last digit.\<close>

definition base64_decode :: "string \<Rightarrow> string \<Rightarrow> bytes option" where
  "base64_decode al s =
     (let ds = map (\<lambda>c. index_of c al) (filter (\<lambda>c. c \<noteq> CHR 0x0A \<and> c \<noteq> CHR 0x0D) s)
      in if None \<in> set ds then None else base64_groups (map the ds))"

section \<open>Laws\<close>

lemma hex_val_upper [simp]: "n < 16 \<Longrightarrow> hex_val (hex_upper n) = Some n"
  by (simp add: hex_val_def hex_upper_def)

lemma query_plain_not: "query_plain c \<Longrightarrow> c \<noteq> CHR ''%'' \<and> c \<noteq> CHR ''+'' \<and> c \<noteq> CHR ''&'' \<and> c \<noteq> CHR ''=''"
  by (auto simp: query_plain_def is_alnum_def is_alpha_def is_digit_def Let_def)

lemma query_unescape_escape [simp]: "query_unescape (query_escape s) = Some s"
proof (induction s)
  case (Cons c s)
  have "of_char c div 16 < (16 :: nat)" by (simp add: less_mult_imp_div_less)
  moreover have "char_of (16 * (of_char c div 16) + of_char c mod 16 :: nat) = c" by simp
  ultimately show ?case
    using Cons query_plain_not [of c] by (auto simp: query_escape_def)
qed (simp add: query_escape_def)

lemma query_escape_inj: "query_escape s = query_escape t \<longleftrightarrow> s = t"
  by (metis query_unescape_escape option.inject)

lemma hex_upper_plain: "n < 16 \<Longrightarrow> query_plain (hex_upper n)"
  by (auto simp: hex_upper_def query_plain_def is_alnum_def is_alpha_def is_digit_def Let_def)

lemma query_escape_chars: "c \<in> set (query_escape s) \<Longrightarrow> query_plain c \<or> c = CHR ''%'' \<or> c = CHR ''+''"
proof (induction s)
  case (Cons x s)
  have "of_char x div 16 < (16 :: nat)" by (simp add: less_mult_imp_div_less)
  with Cons hex_upper_plain [of "of_char x div 16"] hex_upper_plain [of "of_char x mod 16"]
  show ?case by (auto simp: query_escape_def split: if_splits)
qed (simp add: query_escape_def)

lemma query_escape_clean: "CHR ''&'' \<notin> set (query_escape s)" "CHR ''='' \<notin> set (query_escape s)"
  using query_escape_chars [of "CHR ''&''" s] query_escape_chars [of "CHR ''=''" s] query_plain_not
  by auto

lemma cut_at_append: "c \<notin> set a \<Longrightarrow> cut_at c (a @ c # b) = Some (a, b)"
  by (induction a) auto

lemma encode_pair_inj: "encode_pair p = encode_pair q \<longleftrightarrow> p = q"
proof
  assume "encode_pair p = encode_pair q"
  then have "cut_at (CHR ''='') (encode_pair p) = cut_at (CHR ''='') (encode_pair q)" by simp
  then show "p = q"
    by (simp add: encode_pair_def cut_at_append query_escape_clean query_escape_inj prod_eq_iff)
qed simp

lemma split_on_clean: "c \<notin> set x \<Longrightarrow> split_on c x = [x]"
  by (induction x) auto

lemma split_on_append: "c \<notin> set x \<Longrightarrow> split_on c (x @ c # t) = x # split_on c t"
  by (induction x) auto

lemma split_join: "xs \<noteq> [] \<Longrightarrow> \<forall>x \<in> set xs. c \<notin> set x \<Longrightarrow> split_on c (join_with [c] xs) = xs"
proof (induction xs)
  case (Cons x xs)
  then show ?case by (cases xs) (simp_all add: split_on_clean split_on_append)
qed simp

lemma split_encode_values:
  assumes "flat_values v \<noteq> []"
  shows "split_on (CHR ''&'') (encode_values v) = map encode_pair (flat_values v)"
  unfolding encode_values_def
  by (rule split_join) (use assms in \<open>auto simp: encode_pair_def query_escape_clean\<close>)

lemma encode_values_inj:
  assumes "flat_values v \<noteq> []" "flat_values w \<noteq> []" "encode_values v = encode_values w"
  shows "flat_values v = flat_values w"
proof (rule map_injective)
  show "map encode_pair (flat_values v) = map encode_pair (flat_values w)"
    using split_encode_values [OF assms(1)] split_encode_values [OF assms(2)] assms(3) by simp
  show "inj encode_pair" by (simp add: inj_def encode_pair_inj)
qed

lemma index_of_nth: "distinct al \<Longrightarrow> i < length al \<Longrightarrow> index_of (al ! i) al = Some i"
proof (induction al arbitrary: i)
  case (Cons x al)
  then show ?case by (cases i) auto
qed simp

lemma base64_alphabets: "length base64_std = 64" "length base64_url = 64" "distinct base64_std"
  "distinct base64_url"
  by (simp_all add: base64_std_def base64_url_def)

lemma base64_digits_lt: "d \<in> set (base64_digits bs) \<Longrightarrow> d < 64"
proof (induction bs rule: base64_digits.induct)
  case (2 a)
  have "(of_char a :: nat) div 4 < 64" by (simp add: less_mult_imp_div_less)
  with 2 show ?case by (auto simp: Let_def)
next
  case (3 a b)
  have "(of_char a :: nat) < 256" "(of_char b :: nat) < 256" by simp_all
  then have "(of_char b :: nat) div 16 < 16" by (simp add: less_mult_imp_div_less)
  moreover have "(of_char a :: nat) mod 4 < 4" "(of_char b :: nat) mod 16 < 16" by simp_all
  moreover have "(of_char a :: nat) div 4 < 64" by (simp add: less_mult_imp_div_less)
  ultimately show ?case using 3 by (auto simp: Let_def)
next
  case (4 a b c bs)
  have "(of_char b :: nat) div 16 < 16" "(of_char c :: nat) div 64 < 4" "(of_char a :: nat) div 4 < 64"
    by (simp_all add: less_mult_imp_div_less)
  moreover have "(of_char a :: nat) mod 4 < 4" "(of_char b :: nat) mod 16 < 16" "(of_char c :: nat) mod 64 < 64"
    by simp_all
  ultimately have "d < 64" if "d \<in> set [of_char a div 4, of_char a mod 4 * 16 + of_char b div 16,
      of_char b mod 16 * 4 + of_char c div 64, of_char c mod 64 :: nat]"
    using that by auto
  with 4 show ?case by (auto simp: Let_def)
qed simp

lemma base64_groups_digits: "base64_groups (base64_digits bs) = Some bs"
proof (induction bs rule: base64_digits.induct)
  case (2 a)
  have "(of_char a :: nat) mod 4 * 16 div 16 = of_char a mod 4" by simp
  then show ?case by (simp add: Let_def)
next
  case (3 a b)
  have "((of_char a :: nat) mod 4 * 16 + of_char b div 16) div 16 = of_char a mod 4"
    "((of_char a :: nat) mod 4 * 16 + of_char b div 16) mod 16 = of_char b div 16"
    "(of_char b :: nat) mod 16 * 4 div 4 = of_char b mod 16"
    by (simp_all add: less_mult_imp_div_less)
  then show ?case by (simp add: Let_def)
next
  case (4 a b c bs)
  have "((of_char a :: nat) mod 4 * 16 + of_char b div 16) div 16 = of_char a mod 4"
    "((of_char a :: nat) mod 4 * 16 + of_char b div 16) mod 16 = of_char b div 16"
    "((of_char b :: nat) mod 16 * 4 + of_char c div 64) div 4 = of_char b mod 16"
    "((of_char b :: nat) mod 16 * 4 + of_char c div 64) mod 4 = of_char c div 64"
    by (simp_all add: less_mult_imp_div_less)
  then show ?case using 4 by (simp add: Let_def)
qed simp

lemma base64_decode_encode:
  assumes "distinct al" "length al = 64" "CHR 0x0A \<notin> set al" "CHR 0x0D \<notin> set al"
  shows "base64_decode al (base64_encode al bs) = Some bs"
proof -
  have nth: "al ! d \<in> set al" if "d \<in> set (base64_digits bs)" for d
    using base64_digits_lt [OF that] assms(2) by simp
  then have "filter (\<lambda>c. c \<noteq> CHR 0x0A \<and> c \<noteq> CHR 0x0D) (base64_encode al bs) = base64_encode al bs"
    using assms(3,4) by (fastforce simp: base64_encode_def filter_id_conv)
  moreover have "map (\<lambda>c. index_of c al) (base64_encode al bs) = map Some (base64_digits bs)"
    using base64_digits_lt assms(1,2) by (auto simp: base64_encode_def index_of_nth)
  ultimately have "map (\<lambda>c. index_of c al) (filter (\<lambda>c. c \<noteq> CHR 0x0A \<and> c \<noteq> CHR 0x0D) (base64_encode al bs))
      = map Some (base64_digits bs)" by simp
  moreover have "map the (map Some xs) = xs" for xs :: "nat list" by (simp add: o_def)
  ultimately show ?thesis by (auto simp: base64_decode_def Let_def base64_groups_digits simp del: map_map)
qed

end
