(* ===== verification/GoJsonText.thy ===== *)
theory GoJsonText
  imports GoJson GoForm Secrets
begin

text \<open>
  Writing JSON the way \<open>encoding/json\<close> does, and the typed struct fields the handlers decode
  beside strings: Booleans, integers, lists of strings and maps of lists of strings.
\<close>

section \<open>Writing\<close>

definition hex_byte :: "nat \<Rightarrow> string" where
  "hex_byte n = [hex_lower (n div 16), hex_lower (n mod 16)]"

definition json_escape_byte :: "char \<Rightarrow> string" where
  "json_escape_byte c =
     (if c = CHR 0x22 \<or> c = CHR 0x5C then [CHR 0x5C, c]
      else if c = CHR 0x08 then [CHR 0x5C, CHR ''b'']
      else if c = CHR 0x0C then [CHR 0x5C, CHR ''f'']
      else if c = CHR 0x0A then [CHR 0x5C, CHR ''n'']
      else if c = CHR 0x0D then [CHR 0x5C, CHR ''r'']
      else if c = CHR 0x09 then [CHR 0x5C, CHR ''t'']
      else if (of_char c :: nat) < 0x20 \<or> c \<in> set ''<>&'' then CHR 0x5C # ''u00'' @ hex_byte (of_char c)
      else [c])"

function json_body :: "string \<Rightarrow> string" where
  "json_body [] = []"
| "json_body (c # s) =
     (let n = rune_len (c # s); r = take n (c # s) in
      if n = 0 then CHR 0x5C # ''ufffd'' @ json_body s
      else (if n = 1 then json_escape_byte c
            else if r = [CHR 0xE2, CHR 0x80, CHR 0xA8] then CHR 0x5C # ''u2028''
            else if r = [CHR 0xE2, CHR 0x80, CHR 0xA9] then CHR 0x5C # ''u2029''
            else r) @ json_body (drop (n - 1) s))"
  by pat_completeness auto
termination by (relation "measure length") auto

definition json_quote :: "string \<Rightarrow> string" where
  "json_quote s = CHR 0x22 # json_body s @ [CHR 0x22]"

fun json_text :: "json \<Rightarrow> string" where
  "json_text JNull = ''null''"
| "json_text (JBool b) = format_bool b"
| "json_text (JNum n) = n"
| "json_text (JStr s) = json_quote s"
| "json_text (JArr vs) = ''['' @ join_with '','' (map json_text vs) @ '']''"
| "json_text (JObj ms) = ''{'' @ join_with '','' (map (\<lambda>(k, v). json_quote k @ '':'' @ json_text v) ms) @ ''}''"

definition json_values :: "url_values \<Rightarrow> json" where
  "json_values vs = JObj (map (\<lambda>(k, xs). (k, JArr (map JStr xs))) (sort_key fst vs))"

text \<open>A member left out when its text is empty.\<close>

definition omit_empty :: "string \<Rightarrow> string \<Rightarrow> (string \<times> json) list" where
  "omit_empty k s = (if s = [] then [] else [(k, JStr s)])"

section \<open>Typed fields\<close>

fun last_bool :: "bool \<Rightarrow> json list \<Rightarrow> bool option" where
  "last_bool acc [] = Some acc"
| "last_bool acc (JNull # vs) = last_bool acc vs"
| "last_bool acc (JBool b # vs) = last_bool b vs"
| "last_bool acc (_ # vs) = None"

definition bool_field :: "string list \<Rightarrow> string \<Rightarrow> (string \<times> json) list \<Rightarrow> bool option" where
  "bool_field names f ms = last_bool False (field_values names f ms)"

fun last_int :: "int \<Rightarrow> json list \<Rightarrow> int option" where
  "last_int acc [] = Some acc"
| "last_int acc (JNull # vs) = last_int acc vs"
| "last_int acc (JNum t # vs) = (case parse_int64 t of None \<Rightarrow> None | Some n \<Rightarrow> last_int n vs)"
| "last_int acc (_ # vs) = None"

definition int_field :: "string list \<Rightarrow> string \<Rightarrow> (string \<times> json) list \<Rightarrow> int option" where
  "int_field names f ms = last_int 0 (field_values names f ms)"

fun json_strings :: "json list \<Rightarrow> string list option" where
  "json_strings [] = Some []"
| "json_strings (JNull # vs) = map_option ((#) []) (json_strings vs)"
| "json_strings (JStr s # vs) = map_option ((#) s) (json_strings vs)"
| "json_strings (_ # vs) = None"

text \<open>A list of strings; null gives the nil slice, which is the empty list here.\<close>

fun last_strings :: "string list \<Rightarrow> json list \<Rightarrow> string list option" where
  "last_strings acc [] = Some acc"
| "last_strings acc (JNull # vs) = last_strings [] vs"
| "last_strings acc (JArr xs # vs) =
     (case json_strings xs of None \<Rightarrow> None | Some ss \<Rightarrow> last_strings ss vs)"
| "last_strings acc (_ # vs) = None"

definition strings_field :: "string list \<Rightarrow> string \<Rightarrow> (string \<times> json) list \<Rightarrow> string list option" where
  "strings_field names f ms = last_strings [] (field_values names f ms)"

text \<open>A \<open>map[string][]string\<close>: every object adds its members, null empties the map.\<close>

fun add_members :: "url_values \<Rightarrow> (string \<times> json) list \<Rightarrow> url_values option" where
  "add_members acc [] = Some acc"
| "add_members acc ((k, v) # ms) =
     (case last_strings [] [v] of None \<Rightarrow> None | Some xs \<Rightarrow> add_members (values_set k xs acc) ms)"

fun last_values :: "url_values \<Rightarrow> json list \<Rightarrow> url_values option" where
  "last_values acc [] = Some acc"
| "last_values acc (JNull # vs) = last_values [] vs"
| "last_values acc (JObj ms # vs) =
     (case add_members acc ms of None \<Rightarrow> None | Some m \<Rightarrow> last_values m vs)"
| "last_values acc (_ # vs) = None"

definition values_field :: "string list \<Rightarrow> string \<Rightarrow> (string \<times> json) list \<Rightarrow> url_values option" where
  "values_field names f ms = last_values [] (field_values names f ms)"

end
