(* ===== verification/OAuthUrls.thy ===== *)
theory OAuthUrls
  imports GoJsonText GoHttp
begin

text \<open>
  internal/mcpoauth/issuer.go and client_metadata.go: which issuers, redirect URIs and client
  metadata documents the OAuth server accepts. The fetch of a metadata document is the function
  \<open>fetch\<close>: None for a transport error, else the status, the media type that
  \<open>mime.ParseMediaType\<close> finds, and the body (None when reading it fails).
\<close>

section \<open>Issuers and redirect URIs\<close>

definition is_loopback_host :: "string \<Rightarrow> bool" where
  "is_loopback_host host =
     (to_lower (trim_space host) \<in> {''127.0.0.1'', ''localhost'', ''::1'', ''[::1]''})"

definition validate_issuer :: "string \<Rightarrow> string option" where
  "validate_issuer raw0 =
     (let raw = trim_space raw0 in
      if raw = [] then None
      else case parse_url raw of
        None \<Rightarrow> None
      | Some u \<Rightarrow>
          if u_raw_query u \<noteq> [] \<or> u_fragment u \<noteq> [] then None
          else if u_path u \<noteq> [] \<and> u_path u \<noteq> ''/'' then None
          else if u_host u = [] \<or> u_user u \<noteq> None \<or> u_fragment u \<noteq> [] \<or> contains ''*'' (u_host u) then None
          else if u_scheme u = ''https'' then Some (u_scheme u @ ''://'' @ u_host u)
          else if u_scheme u = ''http'' then
            (if is_loopback_host (host_name u) then Some (u_scheme u @ ''://'' @ u_host u) else None)
          else None)"

definition validate_redirect_uri :: "string \<Rightarrow> bool" where
  "validate_redirect_uri raw0 =
     (let raw = trim_space raw0 in
      if raw = [] then False
      else case parse_url raw of
        None \<Rightarrow> False
      | Some u \<Rightarrow>
          if u_host u = [] \<or> u_user u \<noteq> None \<or> u_fragment u \<noteq> [] \<or> contains ''*'' (u_host u) then False
          else if u_scheme u = ''https'' then True
          else if u_scheme u = ''http'' then is_loopback_host (host_name u)
          else False)"

definition redirect_matches :: "string \<Rightarrow> string \<Rightarrow> bool" where
  "redirect_matches registered actual =
     (if registered = actual then True
      else case (parse_url registered, parse_url actual) of
        (Some a, Some b) \<Rightarrow>
          validate_redirect_uri actual \<and> u_scheme a = ''http'' \<and> u_scheme b = ''http''
          \<and> (host_name a = ''127.0.0.1'' \<or> host_name a = ''::1'') \<and> host_name a = host_name b
          \<and> escaped_path a = escaped_path b \<and> u_raw_query a = u_raw_query b
      | _ \<Rightarrow> False)"

section \<open>Client metadata documents\<close>

text \<open>The address blocks that are not public, as octets or groups with a prefix length.\<close>

definition special_v4 :: "(nat list \<times> nat) list" where
  "special_v4 = [([0, 0, 0, 0], 8), ([100, 64, 0, 0], 10), ([192, 0, 0, 0], 24), ([192, 0, 2, 0], 24),
     ([198, 18, 0, 0], 15), ([198, 51, 100, 0], 24), ([203, 0, 113, 0], 24), ([240, 0, 0, 0], 4)]"

definition special_v6 :: "(nat list \<times> nat) list" where
  "special_v6 = [([0x2001, 0xDB8, 0, 0, 0, 0, 0, 0], 32), ([0x64, 0xFF9B, 0, 0, 0, 0, 0, 0], 96),
     ([0x2002, 0, 0, 0, 0, 0, 0, 0], 16)]"

definition public_metadata_ip :: "ip_addr \<Rightarrow> bool" where
  "public_metadata_ip ip0 =
     (let ip = unmap ip0 in
      if \<not> is_global_unicast ip \<or> is_private ip \<or> is_loopback ip \<or> is_link_local ip then False
      else \<not> list_ex (\<lambda>(os, n). in_v4_prefix os n ip) special_v4
           \<and> \<not> list_ex (\<lambda>(gs, n). in_v6_prefix gs n ip) special_v6)"

definition valid_metadata_url :: "string \<Rightarrow> bool" where
  "valid_metadata_url raw =
     (case parse_url raw of
        None \<Rightarrow> False
      | Some u \<Rightarrow>
          if u_scheme u \<noteq> ''https'' \<or> host_name u = [] \<or> u_path u = [] \<or> u_path u = ''/''
             \<or> u_user u \<noteq> None \<or> u_fragment u \<noteq> [] then False
          else (case parse_addr (host_name u) of
                  None \<Rightarrow> True
                | Some ip \<Rightarrow> public_metadata_ip ip))"

text \<open>
  The dialer's choice: every resolved address must be public and the first is dialed, so that a
  later answer of the resolver is never used.
\<close>

definition pick_metadata_ip :: "ip_addr list option \<Rightarrow> ip_addr option" where
  "pick_metadata_ip ips =
     (case ips of
        None \<Rightarrow> None
      | Some [] \<Rightarrow> None
      | Some (ip # rest) \<Rightarrow> if list_all public_metadata_ip (ip # rest) then Some ip else None)"

record oauth_client =
  oc_id :: string
  oc_name :: string
  oc_redirects :: "string list"

record fetched =
  ft_status :: int
  ft_media :: string
  ft_body :: "bytes option"

datatype client_error = ErrFetch | ErrClientRow

definition metadata_names :: "string list" where
  "metadata_names = [''client_id'', ''client_name'', ''redirect_uris'', ''token_endpoint_auth_method'',
     ''token_endpoint_auth_methods_supported'']"

definition metadata_auth_method_allowed :: "string \<Rightarrow> bool" where
  "metadata_auth_method_allowed m = (trim_space m \<in> {[], ''none'', ''private_key_jwt''})"

definition decode_metadata :: "bytes \<Rightarrow> (oauth_client \<times> string) option" where
  "decode_metadata body =
     (case parse_json body of
        Some (JObj ms) \<Rightarrow>
          (case (string_field metadata_names ''client_id'' ms, string_field metadata_names ''client_name'' ms,
                 strings_field metadata_names ''redirect_uris'' ms,
                 string_field metadata_names ''token_endpoint_auth_method'' ms,
                 strings_field metadata_names ''token_endpoint_auth_methods_supported'' ms) of
             (Some i, Some n, Some us, Some m, Some _) \<Rightarrow>
               Some (\<lparr>oc_id = i, oc_name = n, oc_redirects = us\<rparr>, m)
           | _ \<Rightarrow> None)
      | Some JNull \<Rightarrow> Some (\<lparr>oc_id = [], oc_name = [], oc_redirects = []\<rparr>, [])
      | _ \<Rightarrow> None)"

text \<open>\<open>Inr None\<close> is Go's \<open>(nil, nil)\<close>: there is no acceptable client.\<close>

definition fetch_metadata_client ::
  "(string \<Rightarrow> fetched option) \<Rightarrow> string \<Rightarrow> client_error + oauth_client option" where
  "fetch_metadata_client fetch client_id =
     (if \<not> valid_metadata_url client_id then Inr None
      else case fetch client_id of
        None \<Rightarrow> Inl ErrFetch
      | Some resp \<Rightarrow>
          if ft_status resp \<noteq> 200 \<or> (ft_media resp \<noteq> ''application/json'' \<and> \<not> suffix ''+json'' (ft_media resp))
          then Inr None
          else (case ft_body resp of
            None \<Rightarrow> Inr None
          | Some body \<Rightarrow>
              if length body > 65536 then Inr None
              else (case decode_metadata body of
                None \<Rightarrow> Inr None
              | Some (doc, m) \<Rightarrow>
                  if oc_id doc \<noteq> client_id \<or> trim_space (oc_name doc) = [] \<or> length (oc_name doc) > 256
                     \<or> length (oc_redirects doc) = 0 \<or> length (oc_redirects doc) > 16
                     \<or> \<not> metadata_auth_method_allowed m then Inr None
                  else if \<not> list_all validate_redirect_uri (oc_redirects doc) then Inr None
                  else Inr (Some doc))))"

section \<open>What is accepted\<close>

lemma fetch_metadata_client_Some:
  assumes "fetch_metadata_client fetch client_id = Inr (Some c)"
  shows "oc_id c = client_id \<and> valid_metadata_url client_id \<and> list_all validate_redirect_uri (oc_redirects c)"
  using assms
  by (auto simp: fetch_metadata_client_def split: if_splits option.splits)

lemma pick_metadata_ip_public: "pick_metadata_ip ips = Some ip \<Longrightarrow> public_metadata_ip ip"
  by (auto simp: pick_metadata_ip_def split: option.splits list.splits if_splits)

end
