(* ===== verification/OperatorLogin.thy ===== *)
theory OperatorLogin
  imports GoJsonText ProviderSettings
begin

text \<open>
  internal/operatorlogin/github.go: an allow-listed GitHub account approves one consent form. The
  configuration is a JSON text in the settings table; an outstanding sign-in is a row of
  operator_login_flows whose payload is the encrypted JSON of the flow. GitHub itself is the
  function \<open>gh_call\<close>, None for a network or read error; random tokens are arguments.
\<close>

section \<open>Configuration\<close>

definition login_setting_key :: string where "login_setting_key = ''oauth_github_operator''"
definition login_cookie_name :: string where "login_cookie_name = ''guda_operator_browser''"
definition callback_path :: string where "callback_path = ''/authorize/github/callback''"
definition login_ttl :: duration where "login_ttl = 10 * minute"

datatype login_error = ErrDenied | ErrConfig | ErrLoad | ErrSeal secrets_error

record login_config =
  lc_enabled :: bool
  lc_client_id :: string
  lc_secret :: string
  lc_allowed :: "string list"
  lc_revision :: string

record login_update =
  lu_enabled :: bool
  lu_client_id :: string
  lu_client_secret :: string
  lu_allowed :: "string list"

record login_status =
  lt_enabled :: bool
  lt_client_id :: string
  lt_secret_configured :: bool
  lt_allowed :: "string list"
  lt_callback_url :: string
  lt_available :: bool

record login_service =
  ls_crypto :: crypto
  ls_key :: bytes
  ls_issuer :: string

record flow_row =
  fr_token_hash :: string
  fr_browser_hash :: string
  fr_revision :: string
  fr_phase :: string
  fr_payload :: string
  fr_expires_at :: int

record login_db =
  ld_settings :: settings_db
  ld_flows :: "flow_row list"

definition config_names :: "string list" where
  "config_names = [''enabled'', ''client_id'', ''secret_ciphertext'', ''allowed_user_ids'', ''revision'']"

definition decode_config :: "string \<Rightarrow> login_config option" where
  "decode_config raw =
     (case parse_json raw of
        Some (JObj ms) \<Rightarrow>
          (case (bool_field config_names ''enabled'' ms, string_field config_names ''client_id'' ms,
                 string_field config_names ''secret_ciphertext'' ms,
                 strings_field config_names ''allowed_user_ids'' ms,
                 string_field config_names ''revision'' ms) of
             (Some e, Some c, Some s, Some ids, Some r) \<Rightarrow>
               Some \<lparr>lc_enabled = e, lc_client_id = c, lc_secret = s, lc_allowed = ids, lc_revision = r\<rparr>
           | _ \<Rightarrow> None)
      | Some JNull \<Rightarrow> Some \<lparr>lc_enabled = False, lc_client_id = [], lc_secret = [], lc_allowed = [], lc_revision = []\<rparr>
      | _ \<Rightarrow> None)"

definition encode_config :: "login_config \<Rightarrow> string" where
  "encode_config c = json_text (JObj
     ([(''enabled'', JBool (lc_enabled c)), (''client_id'', JStr (lc_client_id c))]
      @ omit_empty ''secret_ciphertext'' (lc_secret c)
      @ [(''allowed_user_ids'', JArr (map JStr (lc_allowed c))), (''revision'', JStr (lc_revision c))]))"

definition load_config :: "login_db \<Rightarrow> login_error + login_config" where
  "load_config db =
     (case sd_settings (ld_settings db) login_setting_key of
        None \<Rightarrow> Inr \<lparr>lc_enabled = False, lc_client_id = [], lc_secret = [], lc_allowed = [], lc_revision = []\<rparr>
      | Some (raw, _) \<Rightarrow> (case decode_config raw of None \<Rightarrow> Inl ErrLoad | Some c \<Rightarrow> Inr c))"

definition login_status_of :: "login_service \<Rightarrow> login_db \<Rightarrow> login_error + login_status" where
  "login_status_of sv db =
     and_then (load_config db) (\<lambda>c.
       (let available = ls_issuer sv \<noteq> [] \<and> length (ls_key sv) = 32
        in Inr \<lparr>lt_enabled = lc_enabled c, lt_client_id = lc_client_id c,
                lt_secret_configured = lc_secret c \<noteq> [], lt_allowed = lc_allowed c,
                lt_callback_url = (if available then ls_issuer sv @ callback_path else []),
                lt_available = available\<rparr>))"

text \<open>The numeric ids, trimmed and without repetitions; None when one is no positive decimal.\<close>

fun clean_ids :: "string list \<Rightarrow> string list \<Rightarrow> string list option" where
  "clean_ids acc [] = Some acc"
| "clean_ids acc (v # vs) =
     (case parse_int64 (trim_space v) of
        None \<Rightarrow> None
      | Some n \<Rightarrow>
          if n \<le> 0 \<or> itoa n \<noteq> trim_space v then None
          else clean_ids (if trim_space v \<in> set acc then acc else acc @ [trim_space v]) vs)"

text \<open>\<open>random\<close>: 32 random bytes as 43 characters.\<close>

definition random_token :: "bytes \<Rightarrow> string" where
  "random_token rnd = base64_encode base64_url rnd"

definition login_hash :: "login_service \<Rightarrow> string \<Rightarrow> string" where
  "login_hash sv v = hex_encode (sha256 (ls_crypto sv) v)"

text \<open>The secret to store: kept, dropped with a change of the client id, or newly sealed.\<close>

definition updated_secret :: "login_service \<Rightarrow> bytes \<Rightarrow> login_update \<Rightarrow> string \<Rightarrow> login_config \<Rightarrow> login_error + string" where
  "updated_secret sv nonce u client_id c =
     (if lu_client_secret u = [] then Inr (if client_id \<noteq> lc_client_id c then [] else lc_secret c)
      else if trim_space (lu_client_secret u) \<noteq> lu_client_secret u then Inl ErrConfig
      else (case encrypt (ls_crypto sv) (ls_key sv) nonce (lu_client_secret u) of
              Inl e \<Rightarrow> Inl (ErrSeal e)
            | Inr ct \<Rightarrow> Inr (base64_encode base64_std ct)))"

definition save_config ::
  "login_service \<Rightarrow> bytes \<Rightarrow> bytes \<Rightarrow> instant \<Rightarrow> login_update \<Rightarrow> login_db \<Rightarrow> login_error + login_db" where
  "save_config sv nonce rnd now u db =
     and_then (load_config db) (\<lambda>c.
       (let client_id = trim_space (lu_client_id u) in
        if length client_id > 256 \<or> list_ex (\<lambda>x. x \<in> {CHR 0x0D, CHR 0x0A, CHR 0x09, CHR 0x20}) client_id
        then Inl ErrConfig
        else if length (lu_client_secret u) > 4096 \<or> length (lu_allowed u) > 100 then Inl ErrConfig
        else (case clean_ids [] (lu_allowed u) of
          None \<Rightarrow> Inl ErrConfig
        | Some ids0 \<Rightarrow>
            (let ids = sort ids0 in
             and_then (updated_secret sv nonce u client_id c) (\<lambda>secret.
               if lu_enabled u \<and> (ls_issuer sv = [] \<or> length (ls_key sv) \<noteq> 32 \<or> client_id = []
                    \<or> secret = [] \<or> ids = []) then Inl ErrConfig
               else Inr (db\<lparr>ld_settings := (ld_settings db)\<lparr>sd_settings := (sd_settings (ld_settings db))
                   (login_setting_key \<mapsto> (encode_config \<lparr>lc_enabled = lu_enabled u, lc_client_id = client_id,
                      lc_secret = secret, lc_allowed = ids, lc_revision = random_token rnd\<rparr>, stamp now))\<rparr>\<rparr>))))))"

definition enabled_config :: "login_service \<Rightarrow> login_db \<Rightarrow> login_error + login_config" where
  "enabled_config sv db =
     (case load_config db of
        Inl _ \<Rightarrow> Inl ErrDenied
      | Inr c \<Rightarrow>
          if \<not> lc_enabled c \<or> lc_client_id c = [] \<or> lc_secret c = [] \<or> lc_allowed c = [] \<or> ls_issuer sv = []
          then Inl ErrDenied else Inr c)"

section \<open>Flows\<close>

record login_flow =
  lf_form :: url_values
  lf_verifier :: string
  lf_user_id :: string
  lf_login :: string

definition flow_names :: "string list" where
  "flow_names = [''form'', ''verifier'', ''user_id'', ''login'']"

definition encode_flow :: "login_flow \<Rightarrow> string" where
  "encode_flow f = json_text (JObj ((''form'', json_values (lf_form f)) # omit_empty ''verifier'' (lf_verifier f)
     @ omit_empty ''user_id'' (lf_user_id f) @ omit_empty ''login'' (lf_login f)))"

definition decode_flow :: "string \<Rightarrow> login_flow option" where
  "decode_flow raw =
     (case parse_json raw of
        Some (JObj ms) \<Rightarrow>
          (case (values_field flow_names ''form'' ms, string_field flow_names ''verifier'' ms,
                 string_field flow_names ''user_id'' ms, string_field flow_names ''login'' ms) of
             (Some form, Some v, Some u, Some l) \<Rightarrow>
               Some \<lparr>lf_form = form, lf_verifier = v, lf_user_id = u, lf_login = l\<rparr>
           | _ \<Rightarrow> None)
      | Some JNull \<Rightarrow> Some \<lparr>lf_form = [], lf_verifier = [], lf_user_id = [], lf_login = []\<rparr>
      | _ \<Rightarrow> None)"

text \<open>SQLite's \<open>json_extract\<close> on the stored configuration: is this revision the enabled one?\<close>

definition config_active :: "login_db \<Rightarrow> string \<Rightarrow> bool" where
  "config_active db revision =
     (case sd_settings (ld_settings db) login_setting_key of
        None \<Rightarrow> False
      | Some (raw, _) \<Rightarrow>
          (case parse_json raw of
             Some (JObj ms) \<Rightarrow> map_of ms ''revision'' = Some (JStr revision) \<and> map_of ms ''enabled'' = Some (JBool True)
           | _ \<Rightarrow> False))"

definition max_flows :: nat where "max_flows = 1000"

definition put_flow ::
  "login_service \<Rightarrow> bytes \<Rightarrow> bytes \<Rightarrow> instant \<Rightarrow> login_config \<Rightarrow> string \<Rightarrow> string \<Rightarrow> login_flow \<Rightarrow> login_db \<Rightarrow>
   login_error + string \<times> login_db" where
  "put_flow sv nonce rnd now c browser phase f db =
     (case encrypt (ls_crypto sv) (ls_key sv) nonce (encode_flow f) of
        Inl e \<Rightarrow> Inl (ErrSeal e)
      | Inr ct \<Rightarrow>
          (let token = random_token rnd;
               live = filter (\<lambda>r. \<not> fr_expires_at r \<le> now div second) (ld_flows db);
               row = \<lparr>fr_token_hash = login_hash sv token, fr_browser_hash = login_hash sv browser,
                      fr_revision = lc_revision c, fr_phase = phase, fr_payload = base64_encode base64_std ct,
                      fr_expires_at = (now + login_ttl) div second\<rparr>
           in if \<not> config_active db (lc_revision c) then Inl ErrDenied
              else if length live \<ge> max_flows then Inl ErrDenied
              else if fr_token_hash row \<in> fr_token_hash ` set live then Inl ErrLoad
              else Inr (token, db\<lparr>ld_flows := live @ [row]\<rparr>)))"

definition flow_matches ::
  "login_service \<Rightarrow> instant \<Rightarrow> login_config \<Rightarrow> string \<Rightarrow> string \<Rightarrow> string \<Rightarrow> login_db \<Rightarrow> flow_row \<Rightarrow> bool" where
  "flow_matches sv now c token browser phase db r \<longleftrightarrow>
     fr_token_hash r = login_hash sv token \<and> fr_browser_hash r = login_hash sv browser
     \<and> fr_revision r = lc_revision c \<and> fr_phase r = phase \<and> fr_expires_at r > now div second
     \<and> config_active db (lc_revision c)"

text \<open>The flow that a row's payload seals.\<close>

definition open_payload :: "login_service \<Rightarrow> flow_row \<Rightarrow> login_flow option" where
  "open_payload sv r =
     (case base64_decode base64_std (fr_payload r) of
        None \<Rightarrow> None
      | Some ct \<Rightarrow>
          (case decrypt (ls_crypto sv) (ls_key sv) ct of Inl _ \<Rightarrow> None | Inr raw \<Rightarrow> decode_flow raw))"

text \<open>\<open>take\<close>: the matching row is deleted and its payload opened.\<close>

definition take_flow ::
  "login_service \<Rightarrow> instant \<Rightarrow> login_config \<Rightarrow> string \<Rightarrow> string \<Rightarrow> string \<Rightarrow> login_db \<Rightarrow>
   (login_error + login_flow) \<times> login_db" where
  "take_flow sv now c token browser phase db =
     (if length token \<noteq> 43 \<or> length browser \<noteq> 43 then (Inl ErrDenied, db)
      else case List.find (flow_matches sv now c token browser phase db) (ld_flows db) of
        None \<Rightarrow> (Inl ErrDenied, db)
      | Some r \<Rightarrow>
          (case open_payload sv r of None \<Rightarrow> Inl ErrDenied | Some f \<Rightarrow> Inr f,
           db\<lparr>ld_flows := filter (\<lambda>x. \<not> flow_matches sv now c token browser phase db x) (ld_flows db)\<rparr>))"

section \<open>The three steps of a sign-in\<close>

record login_request =
  lq_origin :: string
  lq_fetch_site :: string
  lq_cookie :: "string option"
  lq_query :: url_values

record login_redirect =
  lo_browser :: string
  lo_secure :: bool
  lo_max_age :: int
  lo_location :: string

definition same_site :: "login_service \<Rightarrow> login_request \<Rightarrow> bool" where
  "same_site sv r \<longleftrightarrow> \<not> (lq_origin r \<noteq> [] \<and> lq_origin r \<noteq> ls_issuer sv) \<and> lq_fetch_site r \<noteq> ''cross-site''"

definition start_login ::
  "login_service \<Rightarrow> bytes \<Rightarrow> bytes \<Rightarrow> bytes \<Rightarrow> bytes \<Rightarrow> instant \<Rightarrow> login_request \<Rightarrow> url_values \<Rightarrow> login_db \<Rightarrow>
   login_error + login_redirect \<times> login_db" where
  "start_login sv nonce rnd_browser rnd_verifier rnd_state now r form db =
     and_then (enabled_config sv db) (\<lambda>c.
       if \<not> same_site sv r then Inl ErrDenied
       else
         (let browser = (case lq_cookie r of
                Some v \<Rightarrow> if length v = 43 then v else random_token rnd_browser
              | None \<Rightarrow> random_token rnd_browser);
              verifier = random_token rnd_verifier
          in and_then (put_flow sv nonce rnd_state now c browser ''github''
                 \<lparr>lf_form = form, lf_verifier = verifier, lf_user_id = [], lf_login = []\<rparr> db)
               (\<lambda>(state, db').
                 Inr (\<lparr>lo_browser = browser, lo_secure = prefix ''https://'' (ls_issuer sv), lo_max_age = 600,
                       lo_location = ''https://github.com/login/oauth/authorize?'' @ encode_values
                         [(''client_id'', [lc_client_id c]), (''redirect_uri'', [ls_issuer sv @ callback_path]),
                          (''state'', [state]), (''scope'', [[]]),
                          (''code_challenge'', [base64_encode base64_url (sha256 (ls_crypto sv) verifier)]),
                          (''code_challenge_method'', [''S256'']), (''allow_signup'', [''false'']),
                          (''prompt'', [''select_account''])]\<rparr>, db'))))"

record github_call =
  gc_method :: string
  gc_url :: string
  gc_body :: "string option"
  gc_token :: string

definition github_request ::
  "(github_call \<Rightarrow> (int \<times> bytes) option) \<Rightarrow> github_call \<Rightarrow> json option" where
  "github_request gh_call call =
     (case gh_call call of
        None \<Rightarrow> None
      | Some (status, raw) \<Rightarrow>
          if status \<noteq> 200 then None
          else if length raw > 65536 then None
          else parse_json raw)"

definition token_names :: "string list" where
  "token_names = [''access_token'', ''token_type'', ''error'']"

definition decode_token :: "json \<Rightarrow> (string \<times> string \<times> string) option" where
  "decode_token j =
     (case j of
        JObj ms \<Rightarrow>
          (case (string_field token_names ''access_token'' ms, string_field token_names ''token_type'' ms,
                 string_field token_names ''error'' ms) of
             (Some a, Some t, Some e) \<Rightarrow> Some (a, t, e) | _ \<Rightarrow> None)
      | JNull \<Rightarrow> Some ([], [], [])
      | _ \<Rightarrow> None)"

definition decode_user :: "json \<Rightarrow> (int \<times> string) option" where
  "decode_user j =
     (case j of
        JObj ms \<Rightarrow>
          (case (int_field [''id'', ''login''] ''id'' ms, string_field [''id'', ''login''] ''login'' ms) of
             (Some i, Some l) \<Rightarrow> Some (i, l) | _ \<Rightarrow> None)
      | JNull \<Rightarrow> Some (0, [])
      | _ \<Rightarrow> None)"

definition allowed_user :: "login_config \<Rightarrow> string \<Rightarrow> bool" where
  "allowed_user c i = list_ex (\<lambda>v. v = i) (lc_allowed c)"

text \<open>The exchange of the code and the identity lookup.\<close>

definition github_identity ::
  "login_service \<Rightarrow> (github_call \<Rightarrow> (int \<times> bytes) option) \<Rightarrow> login_config \<Rightarrow> string \<Rightarrow> string \<Rightarrow>
   login_error + string \<times> string" where
  "github_identity sv gh_call c code verifier =
     (case base64_decode base64_std (lc_secret c) of
        None \<Rightarrow> Inl ErrDenied
      | Some ct \<Rightarrow>
          (case decrypt (ls_crypto sv) (ls_key sv) ct of
             Inl _ \<Rightarrow> Inl ErrDenied
           | Inr secret \<Rightarrow>
               (case Option.bind (github_request gh_call
                       \<lparr>gc_method = ''POST'', gc_url = ''https://github.com/login/oauth/access_token'',
                        gc_body = Some (encode_values [(''client_id'', [lc_client_id c]), (''client_secret'', [secret]),
                          (''code'', [code]), (''redirect_uri'', [ls_issuer sv @ callback_path]),
                          (''code_verifier'', [verifier])]), gc_token = []\<rparr>) decode_token of
                  None \<Rightarrow> Inl ErrDenied
                | Some (access, token_type, err) \<Rightarrow>
                    if err \<noteq> [] \<or> access = [] \<or> map lower_byte token_type \<noteq> ''bearer'' then Inl ErrDenied
                    else (case Option.bind (github_request gh_call
                            \<lparr>gc_method = ''GET'', gc_url = ''https://api.github.com/user'', gc_body = None,
                             gc_token = access\<rparr>) decode_user of
                       None \<Rightarrow> Inl ErrDenied
                     | Some (i, l) \<Rightarrow>
                         if \<not> allowed_user c (itoa i) \<or> l = [] then Inl ErrDenied else Inr (itoa i, l)))))"

text \<open>
  \<open>Finish\<close>. The settings are read again after GitHub answered; \<open>during\<close> is the database as it
  is then, given the one the state was taken from.
\<close>

definition finish_login ::
  "login_service \<Rightarrow> (github_call \<Rightarrow> (int \<times> bytes) option) \<Rightarrow> (login_db \<Rightarrow> login_db) \<Rightarrow> bytes \<Rightarrow> bytes \<Rightarrow>
   instant \<Rightarrow> instant \<Rightarrow> login_request \<Rightarrow> login_db \<Rightarrow>
   (login_error + url_values \<times> string \<times> string) \<times> login_db" where
  "finish_login sv gh_call during nonce rnd now now' r db =
     (case enabled_config sv db of
        Inl e \<Rightarrow> (Inl e, db)
      | Inr c \<Rightarrow>
          (case lq_cookie r of
             None \<Rightarrow> (Inl ErrDenied, db)
           | Some browser \<Rightarrow>
               if length (values_all (lq_query r) ''state'') \<noteq> 1 then (Inl ErrDenied, db)
               else (case take_flow sv now c (values_get (lq_query r) ''state'') browser ''github'' db of
                  (Inl e, db1) \<Rightarrow> (Inl e, db1)
                | (Inr f, db1) \<Rightarrow>
                    (let code = values_get (lq_query r) ''code'' in
                     if values_get (lq_query r) ''error'' \<noteq> [] \<or> length (values_all (lq_query r) ''code'') \<noteq> 1
                        \<or> length code = 0 \<or> length code > 1024 then (Inl ErrDenied, db1)
                     else (case github_identity sv gh_call c code (lf_verifier f) of
                       Inl e \<Rightarrow> (Inl e, during db1)
                     | Inr (user_id, name) \<Rightarrow>
                         (let db2 = during db1 in
                          case enabled_config sv db2 of
                            Inl _ \<Rightarrow> (Inl ErrDenied, db2)
                          | Inr current \<Rightarrow>
                              if lc_revision current \<noteq> lc_revision c then (Inl ErrDenied, db2)
                              else (case put_flow sv nonce rnd now' c browser ''consent''
                                      (f\<lparr>lf_user_id := user_id, lf_login := name, lf_verifier := []\<rparr>) db2 of
                                Inl e \<Rightarrow> (Inl e, db2)
                              | Inr (proof_token, db3) \<Rightarrow> (Inr (lf_form f, proof_token, name), db3))))))))"

definition consume_proof ::
  "login_service \<Rightarrow> instant \<Rightarrow> login_request \<Rightarrow> string \<Rightarrow> url_values \<Rightarrow> login_db \<Rightarrow>
   login_error option \<times> login_db" where
  "consume_proof sv now r proof_token form db =
     (case enabled_config sv db of
        Inl e \<Rightarrow> (Some e, db)
      | Inr c \<Rightarrow>
          if \<not> same_site sv r then (Some ErrDenied, db)
          else (case lq_cookie r of
            None \<Rightarrow> (Some ErrDenied, db)
          | Some browser \<Rightarrow>
              (case take_flow sv now c proof_token browser ''consent'' db of
                 (Inl e, db1) \<Rightarrow> (Some e, db1)
               | (Inr f, db1) \<Rightarrow>
                   (if \<not> allowed_user c (lf_user_id f) \<or> encode_values (lf_form f) \<noteq> encode_values form
                    then Some ErrDenied else None, db1))))"

end
