(* ===== verification/OAuthStore.thy ===== *)
theory OAuthStore
  imports OAuthUrls OperatorLogin GatewayKeys Invites
begin

text \<open>
  internal/mcpoauth: the tables of the OAuth server, the operator's password hash (crypto.go),
  the decision on a grant (decision.go), the reconciliation of old rows at startup (grants.go),
  and the scope and resource rules shared by the handlers of server.go. \<open>scrypt\<close> is a parameter,
  None where the library refuses its cost parameters.
\<close>

section \<open>Tables\<close>

record client_row =
  cl_id :: string
  cl_name :: "string option"
  cl_uris :: string
  cl_created_at :: timestamp

record code_row =
  co_hash :: string
  co_client_id :: string
  co_redirect_uri :: string
  co_challenge :: string
  co_method :: string
  co_expires_at :: timestamp
  co_created_at :: timestamp
  co_issued_via :: string
  co_agent_label :: string
  co_ref_code_id :: "rowid option"
  co_resource :: string
  co_scope :: string

record grant_row =
  gr_refresh_hash :: string
  gr_key_id :: rowid
  gr_client_id :: string
  gr_access_expires_at :: timestamp
  gr_refresh_expires_at :: timestamp
  gr_created_at :: timestamp
  gr_resource :: string
  gr_scope :: string
  gr_family :: string

record history_row =
  rh_refresh_hash :: string
  rh_family :: string
  rh_key_id :: rowid
  rh_expires_at :: timestamp

record oauth_db =
  od_clients :: "client_row list"
  od_codes :: "code_row list"
  od_grants :: "grant_row list"
  od_history :: "history_row list"
  od_keys :: gateway_table
  od_invites :: invite_table
  od_login :: login_db

section \<open>Password hashes\<close>

type_synonym scrypt_fun = "bytes \<Rightarrow> bytes \<Rightarrow> int \<Rightarrow> int \<Rightarrow> int \<Rightarrow> nat \<Rightarrow> bytes option"

definition scrypt_n :: int where "scrypt_n = 16384"
definition scrypt_r :: int where "scrypt_r = 8"
definition scrypt_p :: int where "scrypt_p = 1"
definition scrypt_key_len :: nat where "scrypt_key_len = 32"

record scrypt_params =
  sp_n :: int
  sp_r :: int
  sp_p :: int
  sp_salt :: string
  sp_expected :: bytes

text \<open>\<open>salt_bytes\<close> are the 16 random bytes, None when reading them fails.\<close>

definition hash_password :: "scrypt_fun \<Rightarrow> bytes option \<Rightarrow> string \<Rightarrow> string option" where
  "hash_password scrypt salt_bytes password =
     (case salt_bytes of
        None \<Rightarrow> None
      | Some sb \<Rightarrow>
          (let salt = base64_encode base64_url sb in
           case scrypt password salt scrypt_n scrypt_r scrypt_p scrypt_key_len of
             None \<Rightarrow> None
           | Some hash \<Rightarrow> Some (join_with ''$'' [''scrypt'', itoa scrypt_n, itoa scrypt_r, itoa scrypt_p,
                            salt, ''urlsafe'', base64_encode base64_url hash])))"

definition positive_int :: "string \<Rightarrow> int option" where
  "positive_int s = (case parse_int64 s of None \<Rightarrow> None | Some n \<Rightarrow> if n \<le> 0 then None else Some n)"

definition parse_password_hash :: "string \<Rightarrow> scrypt_params option" where
  "parse_password_hash h =
     (case split_on (CHR ''$'') h of
        [al, n0, r0, p0, salt, marker, hash] \<Rightarrow>
          (if al \<noteq> ''scrypt'' then None
           else (case (positive_int n0, positive_int r0, positive_int p0) of
             (Some n, Some r, Some p) \<Rightarrow>
               (if salt = [] \<or> marker \<noteq> ''urlsafe'' then None
                else (case base64_decode base64_url hash of
                  None \<Rightarrow> None
                | Some expected \<Rightarrow>
                    if length expected \<noteq> scrypt_key_len then None
                    else Some \<lparr>sp_n = n, sp_r = r, sp_p = p, sp_salt = salt, sp_expected = expected\<rparr>))
           | _ \<Rightarrow> None))
      | _ \<Rightarrow> None)"

definition verify_password :: "scrypt_fun \<Rightarrow> string \<Rightarrow> string \<Rightarrow> bool" where
  "verify_password scrypt password h =
     (case parse_password_hash h of
        None \<Rightarrow> False
      | Some ps \<Rightarrow>
          (case scrypt password (sp_salt ps) (sp_n ps) (sp_r ps) (sp_p ps) (length (sp_expected ps)) of
             None \<Rightarrow> False
           | Some derived \<Rightarrow> derived = sp_expected ps))"

definition validate_password_hash :: "string \<Rightarrow> bool" where
  "validate_password_hash h \<longleftrightarrow> parse_password_hash h \<noteq> None"

text \<open>A hash made for a password parses back to the parameters it was made with.\<close>

lemma hash_password_parses:
  assumes "hash_password scrypt (Some (b # bs)) password = Some h"
    and "\<And>pw salt n r p k d. scrypt pw salt n r p k = Some d \<Longrightarrow> length d = k"
  obtains d where "scrypt password (base64_encode base64_url (b # bs)) 16384 8 1 32 = Some d" "length d = 32"
    "parse_password_hash h = Some \<lparr>sp_n = 16384, sp_r = 8, sp_p = 1, sp_salt = base64_encode base64_url (b # bs), sp_expected = d\<rparr>"
proof -
  let ?salt = "base64_encode base64_url (b # bs)"
  have it: "itoa scrypt_n = ''16384''" "itoa scrypt_r = ''8''" "itoa scrypt_p = ''1''"
    by (simp_all add: scrypt_n_def scrypt_r_def scrypt_p_def itoa_def nat_dec.simps digit_def) code_simp+
  from assms(1) obtain d where d: "scrypt password ?salt scrypt_n scrypt_r scrypt_p scrypt_key_len = Some d"
    and h: "h = join_with ''$'' [''scrypt'', ''16384'', ''8'', ''1'', ?salt, ''urlsafe'', base64_encode base64_url d]"
    by (auto simp: hash_password_def Let_def it split: option.splits)
  have al: "distinct base64_url" "length base64_url = 64" "CHR 0x0A \<notin> set base64_url" "CHR 0x0D \<notin> set base64_url"
    "CHR ''$'' \<notin> set base64_url"
    by (simp_all add: base64_alphabets) (simp_all add: base64_url_def)
  have clean: "CHR ''$'' \<notin> set (base64_encode base64_url x)" for x
    using al(5) nth_mem [of _ base64_url] base64_digits_lt [of _ x]
    by (auto simp: base64_encode_def base64_alphabets)
  have "split_on (CHR ''$'') h = [''scrypt'', ''16384'', ''8'', ''1'', ?salt, ''urlsafe'', base64_encode base64_url d]"
    unfolding h by (rule split_join) (simp_all add: clean)
  moreover have "?salt \<noteq> []" by (cases bs rule: base64_digits.cases) (auto simp: base64_encode_def Let_def)
  moreover have "positive_int ''16384'' = Some 16384" "positive_int ''8'' = Some 8" "positive_int ''1'' = Some 1"
    using parse_int64_itoa [of scrypt_n] parse_int64_itoa [of scrypt_r] parse_int64_itoa [of scrypt_p]
    unfolding it by (simp_all add: positive_int_def scrypt_n_def scrypt_r_def scrypt_p_def)
  ultimately have "parse_password_hash h =
      Some \<lparr>sp_n = 16384, sp_r = 8, sp_p = 1, sp_salt = ?salt, sp_expected = d\<rparr>"
    using base64_decode_encode [OF al(1-4), of d] assms(2) [OF d] by (simp add: parse_password_hash_def)
  with d assms(2) [OF d] show thesis
    by (intro that) (simp_all add: scrypt_n_def scrypt_r_def scrypt_p_def scrypt_key_len_def)
qed

lemma verify_hash_password:
  assumes "hash_password scrypt (Some (b # bs)) password = Some h"
    and "\<And>pw salt n r p k d. scrypt pw salt n r p k = Some d \<Longrightarrow> length d = k"
  shows "verify_password scrypt q h \<longleftrightarrow>
    scrypt q (base64_encode base64_url (b # bs)) 16384 8 1 32 = scrypt password (base64_encode base64_url (b # bs)) 16384 8 1 32"
  using assms by (rule hash_password_parses) (auto simp: verify_password_def split: option.split)

section \<open>Grants\<close>

datatype auth_decision = AuthDecisionManual | AuthDecisionOAuthValid | AuthDecisionOAuthExpired

definition grant_of_key :: "rowid \<Rightarrow> oauth_db \<Rightarrow> grant_row option" where
  "grant_of_key i db = List.find (\<lambda>g. gr_key_id g = i) (od_grants db)"

definition check_oauth_grant :: "instant \<Rightarrow> rowid \<Rightarrow> oauth_db \<Rightarrow> auth_decision" where
  "check_oauth_grant now i db =
     (case grant_of_key i db of
        None \<Rightarrow> AuthDecisionManual
      | Some g \<Rightarrow>
          (case parse_stamp (gr_access_expires_at g) of
             None \<Rightarrow> AuthDecisionOAuthExpired
           | Some expiry \<Rightarrow> if expiry < now then AuthDecisionOAuthExpired else AuthDecisionOAuthValid))"

text \<open>SQLite's \<open>julianday\<close> counts in milliseconds, rounding a fraction; NULL compares as false.\<close>

definition julian_ms :: "timestamp \<Rightarrow> int option" where
  "julian_ms ts = map_option (\<lambda>t. (t + 500000) div 1000000) (parse_stamp ts)"

definition bind_legacy_grants :: "instant \<Rightarrow> string \<Rightarrow> oauth_db \<Rightarrow> oauth_db" where
  "bind_legacy_grants now resource db =
     (let owned = map gk_id (filter gk_oauth_owned (rows (od_keys db)));
          grants = map (\<lambda>g. if gr_resource g = [] \<and> gr_key_id g \<in> set owned then g\<lparr>gr_resource := resource\<rparr> else g)
                     (od_grants db);
          codes = map (\<lambda>c. if co_resource c = [] then c\<lparr>co_resource := resource\<rparr> else c) (od_codes db);
          grants2 = map (\<lambda>g. if gr_family g = [] then g\<lparr>gr_family := ''legacy-'' @ itoa (gr_key_id g)\<rparr> else g) grants;
          missing = filter (\<lambda>g. gr_refresh_hash g \<notin> rh_refresh_hash ` set (od_history db)) grants2;
          history = od_history db @ map (\<lambda>g. \<lparr>rh_refresh_hash = gr_refresh_hash g, rh_family = gr_family g,
                      rh_key_id = gr_key_id g, rh_expires_at = gr_refresh_expires_at g\<rparr>) missing;
          kept = filter (\<lambda>h. case julian_ms (rh_expires_at h) of
                             None \<Rightarrow> True | Some ms \<Rightarrow> \<not> ms < now div 1000000) history
      in db\<lparr>od_grants := grants2, od_codes := codes, od_history := kept\<rparr>)"

section \<open>The server\<close>

record oauth_server =
  os_issuer :: string
  os_password_hash :: string
  os_github :: "login_service option"
  os_crypto :: crypto
  os_scrypt :: scrypt_fun

text \<open>The registration limiter of the process: the start of its window (None: the zero time).\<close>

record reg_limiter =
  rl_window :: "instant option"
  rl_count :: int

text \<open>\<open>NewServer\<close> gives nil unless issuer and password hash are well formed.\<close>

definition new_oauth_server ::
  "crypto \<Rightarrow> scrypt_fun \<Rightarrow> instant \<Rightarrow> string \<Rightarrow> string \<Rightarrow> oauth_db \<Rightarrow> (oauth_server \<times> oauth_db) option" where
  "new_oauth_server cr scrypt now issuer password_hash db =
     (case validate_issuer issuer of
        None \<Rightarrow> None
      | Some origin \<Rightarrow>
          if \<not> validate_password_hash password_hash then None
          else Some (\<lparr>os_issuer = origin, os_password_hash = password_hash, os_github = None,
                      os_crypto = cr, os_scrypt = scrypt\<rparr>,
                     bind_legacy_grants now (origin @ ''/mcp'') db))"

definition resource_url :: "oauth_server \<Rightarrow> string" where
  "resource_url sv = os_issuer sv @ ''/mcp''"

definition valid_resource :: "oauth_server \<Rightarrow> string list \<Rightarrow> bool" where
  "valid_resource sv vals \<longleftrightarrow> length vals = 0 \<or> (length vals = 1 \<and> hd vals = resource_url sv)"

definition has_scope :: "string \<Rightarrow> string \<Rightarrow> bool" where
  "has_scope scope want = list_ex (\<lambda>v. v = want) (GoStrings.fields scope)"

definition normalize_scope :: "string \<Rightarrow> string option" where
  "normalize_scope raw =
     (if raw = [] then Some ''mcp offline_access''
      else (let vs = GoStrings.fields raw in
        if \<not> list_all (\<lambda>v. v \<in> {''mcp'', ''offline_access'', ''config:write''}) vs then None
        else if ''mcp'' \<notin> set vs then None
        else Some (join_with '' '' (''mcp'' # filter (\<lambda>v. v \<in> set vs) [''offline_access'', ''config:write'']))))"

definition public_issuance_mode :: "oauth_db \<Rightarrow> string" where
  "public_issuance_mode db =
     (case sd_settings (ld_settings (od_login db)) ''public_issuance'' of
        None \<Rightarrow> ''off''
      | Some (m, _) \<Rightarrow>
          (let mode = trim_space m in if mode = ''open'' \<or> mode = ''ref_code'' then mode else ''off''))"

definition effective_password_hash :: "oauth_server \<Rightarrow> oauth_db \<Rightarrow> string" where
  "effective_password_hash sv db =
     (case sd_settings (ld_settings (od_login db)) setting_oauth_operator_password_hash of
        None \<Rightarrow> os_password_hash sv
      | Some (stored, _) \<Rightarrow> if validate_password_hash stored then stored else os_password_hash sv)"

definition allow_registration :: "instant \<Rightarrow> instant \<Rightarrow> reg_limiter \<Rightarrow> bool \<times> reg_limiter" where
  "allow_registration since now l =
     (let l1 = (case rl_window l of
                  None \<Rightarrow> l\<lparr>rl_window := Some now, rl_count := 0\<rparr>
                | Some w \<Rightarrow> if since - w \<ge> minute then l\<lparr>rl_window := Some now, rl_count := 0\<rparr> else l)
      in if rl_count l1 \<ge> 60 then (False, l1) else (True, l1\<lparr>rl_count := rl_count l1 + 1\<rparr>))"

definition lookup_client ::
  "(string \<Rightarrow> fetched option) \<Rightarrow> string \<Rightarrow> oauth_db \<Rightarrow> client_error + oauth_client option" where
  "lookup_client fetch client_id db =
     (if prefix ''https://'' client_id then fetch_metadata_client fetch client_id
      else case List.find (\<lambda>c. cl_id c = client_id) (od_clients db) of
        None \<Rightarrow> Inr None
      | Some c \<Rightarrow>
          (case parse_json (cl_uris c) of
             None \<Rightarrow> Inl ErrClientRow
           | Some j \<Rightarrow>
               (case last_strings [] [j] of
                  None \<Rightarrow> Inl ErrClientRow
                | Some uris \<Rightarrow> Inr (Some \<lparr>oc_id = cl_id c,
                    oc_name = (case cl_name c of None \<Rightarrow> [] | Some n \<Rightarrow> n), oc_redirects = uris\<rparr>))))"

end
