(* ===== verification/OAuthServer.thy ===== *)
theory OAuthServer
  imports OAuthStore
begin

text \<open>
  internal/mcpoauth/server.go: the OAuth endpoints. A handler maps the request and the database
  to a reply and the new database. \<open>clk n\<close> is the n-th reading of the clock inside a handler, the
  random bytes it draws are arguments, and a transaction that is rolled back leaves the database
  it started from. The consent page is the record of what it shows; its HTML is not modelled.
\<close>

section \<open>Requests and replies\<close>

text \<open>
  \<open>oq_body_form\<close> is the urlencoded body as \<open>ParseForm\<close> reads it (empty for another content
  type), None when reading it fails; \<open>oq_body\<close> the plain body.
\<close>

record oauth_request =
  oq_method :: string
  oq_path :: string
  oq_raw_query :: string
  oq_body_form :: "string option"
  oq_body :: bytes
  oq_login :: login_request

datatype form_error =
    NoError
  | InviteRequired
  | InviteInvalid
  | InviteRevoked
  | InviteExpired
  | InviteExhausted
  | InviteBound string
  | InviteFailed
  | WrongPassword

record consent_page =
  cp_display_name :: string
  cp_client_id :: string
  cp_redirect_uri :: string
  cp_state :: string
  cp_challenge :: string
  cp_method :: string
  cp_scope :: string
  cp_resource :: string
  cp_agent_label :: string
  cp_invite :: string
  cp_error :: form_error
  cp_mode :: string
  cp_github :: bool
  cp_signed :: "(string \<times> string) option"

datatype oauth_reply =
    OAuthJson int "(string \<times> string) list" json
  | OAuthPlain written
  | OAuthPage int consent_page
  | OAuthRedirect string
  | OAuthGithub login_redirect

definition no_store_json :: "(string \<times> string) list" where
  "no_store_json = [(''Content-Type'', ''application/json''), (''Cache-Control'', ''no-store'')]"

definition json_oauth_error :: "int \<Rightarrow> string \<Rightarrow> string \<Rightarrow> oauth_reply" where
  "json_oauth_error status code desc =
     OAuthJson status no_store_json (JObj [(''error'', JStr code), (''error_description'', JStr desc)])"

definition internal_error :: oauth_reply where
  "internal_error = OAuthPlain (WrittenError 500 ''internal error'')"

definition denied :: oauth_reply where
  "denied = OAuthPlain (WrittenError 403
     ''GitHub operator sign-in failed; retry sign-in or use the operator password'')"

definition bad_request :: "string \<Rightarrow> oauth_reply" where
  "bad_request msg = OAuthPlain (WrittenError 400 msg)"

text \<open>\<open>ParseForm\<close>: the body's values and, after them, the query's.\<close>

definition merge_values :: "url_values \<Rightarrow> url_values \<Rightarrow> url_values" where
  "merge_values post query = fold (\<lambda>(k, xs) vs. values_set k (values_all vs k @ xs) vs) query post"

definition parse_form :: "oauth_request \<Rightarrow> (url_values \<times> url_values) option" where
  "parse_form r =
     (case oq_body_form r of
        None \<Rightarrow> None
      | Some body \<Rightarrow>
          (case (parse_query body, parse_query (oq_raw_query r)) of
             ((post, ok1), (query, ok2)) \<Rightarrow>
               if ok1 \<and> ok2 then Some (post, merge_values post query) else None))"

section \<open>Metadata and routing\<close>

definition protected_resource_paths :: "string list" where
  "protected_resource_paths = [''/.well-known/oauth-protected-resource'', ''/.well-known/oauth-protected-resource/mcp'']"

definition get_or_head :: "oauth_request \<Rightarrow> bool" where
  "get_or_head r \<longleftrightarrow> oq_method r = ''GET'' \<or> oq_method r = ''HEAD''"

definition is_oauth_route :: "oauth_request \<Rightarrow> bool" where
  "is_oauth_route r =
     (if get_or_head r \<and> oq_path r \<in> set protected_resource_paths then True
      else if get_or_head r \<and> oq_path r = ''/.well-known/oauth-authorization-server'' then True
      else if oq_method r = ''GET'' \<and> oq_path r = callback_path then True
      else if oq_method r = ''POST'' \<and> oq_path r = ''/register'' then True
      else if (oq_method r = ''GET'' \<or> oq_method r = ''POST'') \<and> oq_path r = ''/authorize'' then True
      else if oq_method r = ''POST'' \<and> oq_path r = ''/token'' then True
      else False)"

definition json_list :: "string list \<Rightarrow> json" where
  "json_list xs = JArr (map JStr xs)"

definition handle_protected_resource :: "oauth_server \<Rightarrow> oauth_reply" where
  "handle_protected_resource sv = OAuthJson 200 [(''Content-Type'', ''application/json'')]
     (JObj [(''authorization_servers'', json_list [os_issuer sv]), (''bearer_methods_supported'', json_list [''header'']),
            (''resource'', JStr (os_issuer sv @ ''/mcp'')),
            (''scopes_supported'', json_list [''mcp'', ''offline_access'', ''config:write''])])"

definition handle_auth_server_meta :: "oauth_server \<Rightarrow> oauth_reply" where
  "handle_auth_server_meta sv = OAuthJson 200 [(''Content-Type'', ''application/json'')]
     (JObj [(''authorization_endpoint'', JStr (os_issuer sv @ ''/authorize'')),
            (''client_id_metadata_document_supported'', JBool True),
            (''code_challenge_methods_supported'', json_list [''S256'']),
            (''grant_types_supported'', json_list [''authorization_code'', ''refresh_token'']),
            (''issuer'', JStr (os_issuer sv)),
            (''registration_endpoint'', JStr (os_issuer sv @ ''/register'')),
            (''response_types_supported'', json_list [''code'']),
            (''scopes_supported'', json_list [''mcp'', ''offline_access'', ''config:write'']),
            (''token_endpoint'', JStr (os_issuer sv @ ''/token'')),
            (''token_endpoint_auth_methods_supported'', json_list [''none''])])"

section \<open>POST /register\<close>

text \<open>\<open>Decoder.Decode\<close> on a body cut at 16384 bytes: the first JSON value.\<close>

definition decode_first :: "bytes \<Rightarrow> json option" where
  "decode_first body =
     (let s = take 16384 body in map_option fst (parse_value (Suc (2 * length s)) 0 s))"

definition decode_register :: "json \<Rightarrow> (string \<times> string list) option" where
  "decode_register j =
     (case j of
        JObj ms \<Rightarrow>
          (case (string_field [''client_name'', ''redirect_uris''] ''client_name'' ms,
                 strings_field [''client_name'', ''redirect_uris''] ''redirect_uris'' ms) of
             (Some n, Some us) \<Rightarrow> Some (n, us) | _ \<Rightarrow> None)
      | JNull \<Rightarrow> Some ([], [])
      | _ \<Rightarrow> None)"

definition handle_register ::
  "(nat \<Rightarrow> instant) \<Rightarrow> bytes option \<Rightarrow> oauth_request \<Rightarrow> reg_limiter \<Rightarrow> oauth_db \<Rightarrow>
   oauth_reply \<times> reg_limiter \<times> oauth_db" where
  "handle_register clk rnd r l db =
     (case allow_registration (clk 0) (clk 1) l of
        (False, l') \<Rightarrow>
          (OAuthJson 429 ((''Retry-After'', ''60'') # no_store_json)
             (JObj [(''error'', JStr ''temporarily_unavailable''), (''error_description'', JStr ''registration rate limit'')]),
           l', db)
      | (True, l') \<Rightarrow>
          (case Option.bind (decode_first (oq_body r)) decode_register of
             None \<Rightarrow> (json_oauth_error 400 ''invalid_request'' ''invalid json body'', l', db)
           | Some (name, uris) \<Rightarrow>
               if length uris = 0 \<or> length uris > 16 \<or> length name > 256 then
                 (json_oauth_error 400 ''invalid_redirect_uri'' ''redirect_uris required'', l', db)
               else if \<not> list_all validate_redirect_uri uris then
                 (json_oauth_error 400 ''invalid_redirect_uri'' ''redirect uri must be https or loopback http'', l', db)
               else (case rnd of
                 None \<Rightarrow> (internal_error, l', db)
               | Some b \<Rightarrow>
                   (let i = hex_encode b;
                        row = \<lparr>cl_id = i, cl_name = Some name, cl_uris = json_text (json_list uris),
                               cl_created_at = stamp (clk 2)\<rparr>
                    in if i \<in> cl_id ` set (od_clients db) then (internal_error, l', db)
                       else (OAuthJson 201 [(''Content-Type'', ''application/json'')]
                               (JObj ((''client_id'', JStr i) # omit_empty ''client_name'' name
                                      @ [(''redirect_uris'', json_list uris)])),
                             l', db\<lparr>od_clients := od_clients db @ [row]\<rparr>)))))"

section \<open>The consent page\<close>

definition render_authorize_form ::
  "oauth_server \<Rightarrow> oauth_db \<Rightarrow> int \<Rightarrow> oauth_client \<Rightarrow> string \<Rightarrow> string \<Rightarrow> string \<Rightarrow> string \<Rightarrow> string \<Rightarrow> string \<Rightarrow>
   string \<Rightarrow> string \<Rightarrow> form_error \<Rightarrow> (string \<times> string) option \<Rightarrow> oauth_reply" where
  "render_authorize_form sv db status client redirect_uri state challenge meth scope resource label invite err signed =
     OAuthPage status
       \<lparr>cp_display_name = (if trim_space (oc_name client) \<noteq> [] then trim_space (oc_name client) else ''this client''),
        cp_client_id = oc_id client, cp_redirect_uri = redirect_uri, cp_state = state, cp_challenge = challenge,
        cp_method = meth, cp_scope = scope, cp_resource = resource, cp_agent_label = label, cp_invite = invite,
        cp_error = err, cp_mode = public_issuance_mode db,
        cp_github = (signed = None \<and> (case os_github sv of
           None \<Rightarrow> False
         | Some gh \<Rightarrow> (case login_status_of gh (od_login db) of
               Inl _ \<Rightarrow> False | Inr st \<Rightarrow> lt_enabled st \<and> lt_available st))),
        cp_signed = signed\<rparr>"

definition default_label :: "string \<Rightarrow> oauth_client \<Rightarrow> string" where
  "default_label label client =
     (if label = [] \<and> oc_name client \<noteq> [] then trim_space (oc_name client) else label)"

definition valid_redirect :: "oauth_client \<Rightarrow> string \<Rightarrow> bool" where
  "valid_redirect client uri = list_ex (\<lambda>u. redirect_matches u uri) (oc_redirects client)"

definition handle_authorize_get ::
  "oauth_server \<Rightarrow> (string \<Rightarrow> fetched option) \<Rightarrow> url_values \<Rightarrow> (string \<times> string) option \<Rightarrow> oauth_db \<Rightarrow> oauth_reply" where
  "handle_authorize_get sv fetch q signed db =
     (case normalize_scope (values_get q ''scope'') of
        None \<Rightarrow> json_oauth_error 400 ''invalid_scope'' ''unsupported scope''
      | Some scope \<Rightarrow>
          if \<not> valid_resource sv (values_all q ''resource'') then
            json_oauth_error 400 ''invalid_target'' ''invalid resource''
          else (case lookup_client fetch (values_get q ''client_id'') db of
            Inl _ \<Rightarrow> internal_error
          | Inr None \<Rightarrow> bad_request ''invalid client_id''
          | Inr (Some client) \<Rightarrow>
              if \<not> valid_redirect client (values_get q ''redirect_uri'') then bad_request ''invalid redirect_uri''
              else if values_get q ''response_type'' \<noteq> ''code'' then
                bad_request ''unsupported response_type: must be code''
              else if values_get q ''code_challenge_method'' \<noteq> ''S256'' \<or> values_get q ''code_challenge'' = [] then
                bad_request ''unsupported code_challenge_method: must be S256''
              else render_authorize_form sv db 200 client (values_get q ''redirect_uri'') (values_get q ''state'')
                     (values_get q ''code_challenge'') (values_get q ''code_challenge_method'') scope (resource_url sv)
                     (default_label (values_get q ''agent_label'') client) (values_get q ''invite'') NoError signed))"

section \<open>POST /authorize\<close>

definition consent_values ::
  "string \<Rightarrow> string \<Rightarrow> string \<Rightarrow> string \<Rightarrow> string \<Rightarrow> string \<Rightarrow> string \<Rightarrow> string \<Rightarrow> string \<Rightarrow> url_values" where
  "consent_values client_id redirect_uri state challenge meth scope resource label invite =
     [(''client_id'', [client_id]), (''redirect_uri'', [redirect_uri]), (''response_type'', [''code'']),
      (''state'', [state]), (''code_challenge'', [challenge]), (''code_challenge_method'', [meth]),
      (''scope'', [scope]), (''resource'', [resource]), (''agent_label'', [label]), (''invite'', [invite])]"

definition redeemed_bind_hint :: "oauth_db \<Rightarrow> string \<Rightarrow> string" where
  "redeemed_bind_hint db code =
     (case find_row (\<lambda>r. ic_code r = code) (od_invites db) of None \<Rightarrow> [] | Some r \<Rightarrow> ic_bind r)"

definition invite_message :: "oauth_db \<Rightarrow> string \<Rightarrow> invite_error \<Rightarrow> form_error" where
  "invite_message db code e =
     (case e of
        ErrInviteNotFound \<Rightarrow> InviteInvalid
      | ErrInviteRevoked \<Rightarrow> InviteRevoked
      | ErrInviteExpired \<Rightarrow> InviteExpired
      | ErrInviteExhausted \<Rightarrow> InviteExhausted
      | ErrInviteLabelBound \<Rightarrow> InviteBound (redeemed_bind_hint db code)
      | _ \<Rightarrow> InviteFailed)"

text \<open>Who issues: the operator, the open gateway, or a redeemed invite; else the page's error.\<close>

definition mint_decision ::
  "instant \<Rightarrow> bool \<Rightarrow> string \<Rightarrow> string \<Rightarrow> oauth_db \<Rightarrow> form_error + (string \<times> rowid option) \<times> oauth_db" where
  "mint_decision now operator_approved invite label db =
     (let mode = public_issuance_mode db in
      if operator_approved then Inr ((''operator'', None), db)
      else if mode = ''open'' then Inr ((''open_register'', None), db)
      else if mode = ''ref_code'' then
        (if invite = [] then Inl InviteRequired
         else case redeem_tx now invite label (od_invites db) of
           Inl e \<Rightarrow> Inl (invite_message db invite e)
         | Inr (item, invites) \<Rightarrow> Inr ((''ref_code'', Some (ic_id item)), db\<lparr>od_invites := invites\<rparr>))
      else Inl WrongPassword)"

definition code_ttl :: duration where "code_ttl = 5 * minute"

definition hex_escape_non_ascii :: "string \<Rightarrow> string" where
  "hex_escape_non_ascii s =
     concat (map (\<lambda>c. if (of_char c :: nat) \<ge> 0x80 then CHR ''%'' # hex_byte (of_char c) else [c]) s)"

definition redirect_location :: "go_url \<Rightarrow> string \<Rightarrow> string \<Rightarrow> string" where
  "redirect_location u raw_code state =
     (let vals = values_set ''code'' [raw_code] (fst (parse_query (u_raw_query u)));
          vals2 = (if state \<noteq> [] then values_set ''state'' [state] vals else vals)
      in hex_escape_non_ascii (url_string (u\<lparr>u_raw_query := encode_values vals2\<rparr>)))"

record code_draft =
  cd_client_id :: string
  cd_redirect_uri :: string
  cd_state :: string
  cd_challenge :: string
  cd_method :: string
  cd_scope :: string
  cd_label :: string

definition issue_code ::
  "oauth_server \<Rightarrow> instant \<Rightarrow> bytes option \<Rightarrow> code_draft \<Rightarrow> string \<times> rowid option \<Rightarrow> oauth_db \<Rightarrow> oauth_reply \<times> oauth_db" where
  "issue_code sv now rnd d via db =
     (case rnd of
        None \<Rightarrow> (internal_error, db)
      | Some b \<Rightarrow>
          (let raw_code = base64_encode base64_url b;
               row = \<lparr>co_hash = hash_key (os_crypto sv) raw_code, co_client_id = cd_client_id d,
                      co_redirect_uri = cd_redirect_uri d, co_challenge = cd_challenge d, co_method = cd_method d,
                      co_expires_at = stamp (now + code_ttl), co_created_at = stamp now, co_issued_via = fst via,
                      co_agent_label = cd_label d, co_ref_code_id = snd via, co_resource = resource_url sv,
                      co_scope = cd_scope d\<rparr>
           in if co_hash row \<in> co_hash ` set (od_codes db) then (internal_error, db)
              else (let db' = db\<lparr>od_codes := od_codes db @ [row]\<rparr> in
                case parse_url (cd_redirect_uri d) of
                  None \<Rightarrow> (bad_request ''invalid redirect_uri'', db')
                | Some u \<Rightarrow> (OAuthRedirect (redirect_location u raw_code (cd_state d)), db'))))"

record authorize_random =
  ar_nonce :: bytes
  ar_browser :: bytes
  ar_verifier :: bytes
  ar_state :: bytes
  ar_code :: "bytes option"

definition operator_approved ::
  "oauth_server \<Rightarrow> bool \<Rightarrow> string \<Rightarrow> oauth_db \<Rightarrow> bool" where
  "operator_approved sv github password db \<longleftrightarrow>
     github \<or> (password \<noteq> [] \<and> verify_password (os_scrypt sv) password (effective_password_hash sv db))"

text \<open>From the operator's approval on: the scope guard, the mint decision and the code.\<close>

definition approve_authorize ::
  "oauth_server \<Rightarrow> (nat \<Rightarrow> instant) \<Rightarrow> authorize_random \<Rightarrow> oauth_client \<Rightarrow> code_draft \<Rightarrow> string \<Rightarrow> bool \<Rightarrow> oauth_db \<Rightarrow>
   oauth_reply \<times> oauth_db" where
  "approve_authorize sv clk rnd client d invite approved db =
     (if has_scope (cd_scope d) ''config:write'' \<and> \<not> approved then
        (json_oauth_error 400 ''invalid_scope'' ''configuration permission requires operator consent'', db)
      else case mint_decision (clk 1) approved invite (cd_label d) db of
        Inl e \<Rightarrow> (render_authorize_form sv db 401 client (cd_redirect_uri d) (cd_state d) (cd_challenge d)
                   (cd_method d) (cd_scope d) (resource_url sv) (cd_label d) invite e None, db)
      | Inr (via, db') \<Rightarrow> issue_code sv (clk 2) (ar_code rnd) d via db')"

definition handle_authorize_post ::
  "oauth_server \<Rightarrow> (string \<Rightarrow> fetched option) \<Rightarrow> (nat \<Rightarrow> instant) \<Rightarrow> authorize_random \<Rightarrow> oauth_request \<Rightarrow>
   oauth_db \<Rightarrow> oauth_reply \<times> oauth_db" where
  "handle_authorize_post sv fetch clk rnd r db =
     (case parse_form r of
        None \<Rightarrow> (bad_request ''bad form data'', db)
      | Some (post, form) \<Rightarrow>
        (let client_id = values_get form ''client_id''; redirect_uri = values_get form ''redirect_uri'';
             state = values_get form ''state''; challenge = values_get form ''code_challenge'';
             meth = values_get form ''code_challenge_method'';
             invite = trim_space (values_get form ''invite'')
         in case normalize_scope (values_get form ''scope'') of
           None \<Rightarrow> (json_oauth_error 400 ''invalid_scope'' ''unsupported scope'', db)
         | Some scope \<Rightarrow>
           if \<not> valid_resource sv (values_all form ''resource'') then
             (json_oauth_error 400 ''invalid_target'' ''invalid resource'', db)
           else (case lookup_client fetch client_id db of
             Inl _ \<Rightarrow> (internal_error, db)
           | Inr None \<Rightarrow> (bad_request ''invalid client_id'', db)
           | Inr (Some client) \<Rightarrow>
             (let label = default_label (trim_space (values_get form ''agent_label'')) client;
                  bound = consent_values client_id redirect_uri state challenge meth scope (resource_url sv) label invite;
                  d = \<lparr>cd_client_id = client_id, cd_redirect_uri = redirect_uri, cd_state = state,
                       cd_challenge = challenge, cd_method = meth, cd_scope = scope, cd_label = label\<rparr>
              in if \<not> valid_redirect client redirect_uri then (bad_request ''invalid redirect_uri'', db)
                 else if meth \<noteq> ''S256'' \<or> challenge = [] then (bad_request ''unsupported code_challenge_method'', db)
                 else if values_get post ''operator_login'' = ''github'' then
                   (case os_github sv of
                      None \<Rightarrow> (denied, db)
                    | Some gh \<Rightarrow>
                        (case start_login gh (ar_nonce rnd) (ar_browser rnd) (ar_verifier rnd) (ar_state rnd) (clk 0)
                                (oq_login r) bound (od_login db) of
                           Inl _ \<Rightarrow> (denied, db)
                         | Inr (redirect, login_db) \<Rightarrow> (OAuthGithub redirect, db\<lparr>od_login := login_db\<rparr>)))
                 else if values_get post ''github_consent'' \<noteq> [] then
                   (case os_github sv of
                      None \<Rightarrow> (denied, db)
                    | Some gh \<Rightarrow>
                        (case consume_proof gh (clk 0) (oq_login r) (values_get post ''github_consent'') bound (od_login db) of
                           (Some _, login_db) \<Rightarrow> (denied, db\<lparr>od_login := login_db\<rparr>)
                         | (None, login_db) \<Rightarrow>
                             approve_authorize sv clk rnd client d invite True (db\<lparr>od_login := login_db\<rparr>)))
                 else approve_authorize sv clk rnd client d invite
                        (operator_approved sv False (values_get form ''password'') db) db))))"

end
