(* ===== verification/OAuthTokens.thy ===== *)
theory OAuthTokens
  imports OAuthServer
begin

text \<open>
  internal/mcpoauth/server.go, continued: the token endpoint, that is the exchange of an
  authorization code and the rotation of refresh tokens with the detection of replays, the GitHub
  callback, and the dispatch of all OAuth endpoints.
\<close>

section \<open>The token reply\<close>

definition token_reply :: "string \<Rightarrow> string \<Rightarrow> string \<Rightarrow> oauth_reply" where
  "token_reply raw_key raw_refresh scope =
     OAuthJson 200 no_store_json (JObj
       ([(''access_token'', JStr raw_key), (''expires_in'', JNum ''7200'')]
        @ (if has_scope scope ''offline_access'' then [(''refresh_token'', JStr raw_refresh)] else [])
        @ [(''scope'', JStr scope), (''token_type'', JStr ''Bearer'')]))"

definition invalid_grant :: "string \<Rightarrow> oauth_reply" where
  "invalid_grant desc = json_oauth_error 400 ''invalid_grant'' desc"

definition access_ttl :: duration where "access_ttl = 2 * hour"
definition refresh_ttl :: duration where "refresh_ttl = 14 * day"

text \<open>The random bytes of a minting: the key's source and the refresh token's 32 bytes.\<close>

record mint_random =
  mr_key :: bytes
  mr_refresh :: "bytes option"

text \<open>
  The tail both grants share: insert the grant and its history row. None when a uniqueness
  constraint of either table fails.
\<close>

definition insert_grant :: "grant_row \<Rightarrow> oauth_db \<Rightarrow> oauth_db option" where
  "insert_grant g db =
     (if gr_refresh_hash g \<in> gr_refresh_hash ` set (od_grants db) \<or> gr_key_id g \<in> gr_key_id ` set (od_grants db)
         \<or> gr_refresh_hash g \<in> rh_refresh_hash ` set (od_history db) then None
      else Some (db\<lparr>od_grants := od_grants db @ [g],
                    od_history := od_history db @ [\<lparr>rh_refresh_hash = gr_refresh_hash g, rh_family = gr_family g,
                       rh_key_id = gr_key_id g, rh_expires_at = gr_refresh_expires_at g\<rparr>]\<rparr>))"

text \<open>
  What both grant types end with: a key is issued, a refresh token drawn, and the grant that
  \<open>mk\<close> builds from the token's hash and the key's id is inserted. A failure rolls back to \<open>db0\<close>.
\<close>

definition mint_grant ::
  "crypto \<Rightarrow> mint_random \<Rightarrow> instant \<Rightarrow> string \<Rightarrow> string \<Rightarrow> string \<Rightarrow> rowid option \<Rightarrow>
   (string \<Rightarrow> rowid \<Rightarrow> grant_row) \<Rightarrow> oauth_db \<Rightarrow> oauth_db \<Rightarrow> oauth_reply \<times> oauth_db" where
  "mint_grant cr rnd now name via label ref mk db0 db =
     (case create_oauth_tx_with_issuance cr (mr_key rnd) now name via label ref (od_keys db) of
        Inl _ \<Rightarrow> (internal_error, db0)
      | Inr (raw_key, display, keys) \<Rightarrow>
          (case mr_refresh rnd of
             None \<Rightarrow> (internal_error, db0)
           | Some b \<Rightarrow>
               (let raw_refresh = base64_encode base64_url b;
                    g = mk (hash_key cr raw_refresh) (gk_id display)
                in case insert_grant g (db\<lparr>od_keys := keys\<rparr>) of
                  None \<Rightarrow> (internal_error, db0)
                | Some db' \<Rightarrow> (token_reply raw_key raw_refresh (gr_scope g), db'))))"

section \<open>authorization_code\<close>

definition pkce_challenge :: "crypto \<Rightarrow> string \<Rightarrow> string" where
  "pkce_challenge cr verifier = base64_encode base64_url (sha256 cr verifier)"

definition find_code :: "string \<Rightarrow> oauth_db \<Rightarrow> code_row option" where
  "find_code h db = List.find (\<lambda>c. co_hash c = h) (od_codes db)"

definition delete_code :: "string \<Rightarrow> oauth_db \<Rightarrow> oauth_db" where
  "delete_code h db = db\<lparr>od_codes := filter (\<lambda>c. co_hash c \<noteq> h) (od_codes db)\<rparr>"

text \<open>The checks on the consumed row, in the order of the code; None means that all pass.\<close>

definition check_code ::
  "oauth_server \<Rightarrow> instant \<Rightarrow> string \<Rightarrow> string \<Rightarrow> string \<Rightarrow> code_row \<Rightarrow> oauth_reply option" where
  "check_code sv now client_id redirect_uri verifier c =
     (if (case parse_stamp (co_expires_at c) of None \<Rightarrow> True | Some e \<Rightarrow> e < now) then
        Some (invalid_grant ''code expired'')
      else if co_resource c \<noteq> resource_url sv \<or> co_client_id c \<noteq> client_id \<or> co_redirect_uri c \<noteq> redirect_uri then
        Some (invalid_grant ''client_id or redirect_uri mismatch'')
      else if co_method c \<noteq> ''S256'' then Some (invalid_grant ''unsupported code challenge method'')
      else if pkce_challenge (os_crypto sv) verifier \<noteq> co_challenge c then
        Some (invalid_grant ''code verifier does not match code challenge'')
      else None)"

definition client_name_of :: "string \<Rightarrow> oauth_db \<Rightarrow> string" where
  "client_name_of client_id db =
     (case List.find (\<lambda>c. cl_id c = client_id) (od_clients db) of
        None \<Rightarrow> [] | Some c \<Rightarrow> (case cl_name c of None \<Rightarrow> [] | Some n \<Rightarrow> trim_space n))"

definition mint_from_code ::
  "oauth_server \<Rightarrow> (nat \<Rightarrow> instant) \<Rightarrow> mint_random \<Rightarrow> string \<Rightarrow> code_row \<Rightarrow> oauth_db \<Rightarrow> oauth_reply \<times> oauth_db" where
  "mint_from_code sv clk rnd client_id c db =
     (let cname = client_name_of client_id db;
          key_name = ''oauth:'' @ (if cname \<noteq> [] then cname else co_agent_label c);
          label = (if co_agent_label c = [] then (if cname \<noteq> [] then cname else client_id) else co_agent_label c);
          via = (if co_issued_via c = [] then ''operator'' else co_issued_via c)
      in mint_grant (os_crypto sv) rnd (clk 1) key_name via label (co_ref_code_id c)
           (\<lambda>h i. \<lparr>gr_refresh_hash = h, gr_key_id = i, gr_client_id = client_id,
                   gr_access_expires_at = stamp (clk 2 + access_ttl),
                   gr_refresh_expires_at = stamp (clk 2 + refresh_ttl), gr_created_at = stamp (clk 2),
                   gr_resource = co_resource c, gr_scope = co_scope c, gr_family = h\<rparr>) db db)"

definition handle_token_auth_code ::
  "oauth_server \<Rightarrow> (nat \<Rightarrow> instant) \<Rightarrow> mint_random \<Rightarrow> url_values \<Rightarrow> oauth_db \<Rightarrow> oauth_reply \<times> oauth_db" where
  "handle_token_auth_code sv clk rnd form db =
     (let code = values_get form ''code''; redirect_uri = values_get form ''redirect_uri'';
          client_id = values_get form ''client_id''; verifier = values_get form ''code_verifier'';
          h = hash_key (os_crypto sv) code
      in if code = [] \<or> redirect_uri = [] \<or> client_id = [] \<or> verifier = [] then
           (json_oauth_error 400 ''invalid_request'' ''missing required fields'', db)
         else case find_code h db of
           None \<Rightarrow> (invalid_grant ''invalid or expired code'', db)
         | Some c \<Rightarrow>
             (case check_code sv (clk 0) client_id redirect_uri verifier c of
                Some reply \<Rightarrow> (reply, delete_code h db)
              | None \<Rightarrow> mint_from_code sv clk rnd client_id c (delete_code h db)))"

section \<open>refresh_token\<close>

definition find_grant :: "string \<Rightarrow> oauth_db \<Rightarrow> grant_row option" where
  "find_grant h db = List.find (\<lambda>g. gr_refresh_hash g = h) (od_grants db)"

definition find_history :: "string \<Rightarrow> oauth_db \<Rightarrow> history_row option" where
  "find_history h db = List.find (\<lambda>x. rh_refresh_hash x = h) (od_history db)"

definition family_keys :: "string \<Rightarrow> oauth_db \<Rightarrow> rowid list" where
  "family_keys fam db = map rh_key_id (filter (\<lambda>x. rh_family x = fam) (od_history db))"

text \<open>A replayed token revokes its family: every key is disabled and every grant removed.\<close>

definition revoke_family :: "string \<Rightarrow> oauth_db \<Rightarrow> oauth_db" where
  "revoke_family fam db =
     db\<lparr>od_keys := snd (update_where (\<lambda>r. gk_id r \<in> set (family_keys fam db)) (\<lambda>r. r\<lparr>gk_enabled := False\<rparr>) (od_keys db)),
        od_grants := filter (\<lambda>g. gr_family g \<noteq> fam) (od_grants db)\<rparr>"

definition replayed_token :: "instant \<Rightarrow> string \<Rightarrow> oauth_db \<Rightarrow> oauth_db" where
  "replayed_token now h db =
     (case find_history h db of
        None \<Rightarrow> db
      | Some x \<Rightarrow>
          (case parse_stamp (rh_expires_at x) of
             None \<Rightarrow> db
           | Some e \<Rightarrow> if now < e then revoke_family (rh_family x) db else db))"

definition rotate_grant ::
  "oauth_server \<Rightarrow> (nat \<Rightarrow> instant) \<Rightarrow> mint_random \<Rightarrow> grant_row \<Rightarrow> oauth_db \<Rightarrow> oauth_db \<Rightarrow> oauth_reply \<times> oauth_db" where
  "rotate_grant sv clk rnd g db0 db =
     (case find_row (\<lambda>r. gk_id r = gr_key_id g) (od_keys db) of
        None \<Rightarrow> (invalid_grant ''gateway key revoked or disabled'', db0)
      | Some r \<Rightarrow>
          if \<not> gk_enabled r \<or> gk_revoked_at r \<noteq> None then
            (invalid_grant ''gateway key revoked or disabled'', db0)
          else
            mint_grant (os_crypto sv) rnd (clk 1) (gk_name r)
              (if gk_issued_via r \<noteq> [] then gk_issued_via r else ''operator'')
              (if gk_agent_label r \<noteq> [] then gk_agent_label r else gk_name r) (gk_ref_code_id r)
              (\<lambda>h i. g\<lparr>gr_refresh_hash := h, gr_key_id := i, gr_access_expires_at := stamp (clk 2 + access_ttl),
                       gr_created_at := stamp (clk 2)\<rparr>)
              db0 (db\<lparr>od_keys := disable_gateway_key (gr_key_id g) (od_keys db)\<rparr>))"

definition handle_token_refresh ::
  "oauth_server \<Rightarrow> (nat \<Rightarrow> instant) \<Rightarrow> mint_random \<Rightarrow> url_values \<Rightarrow> oauth_db \<Rightarrow> oauth_reply \<times> oauth_db" where
  "handle_token_refresh sv clk rnd form db =
     (let token = values_get form ''refresh_token''; client_id = values_get form ''client_id'';
          h = hash_key (os_crypto sv) token
      in if token = [] then (json_oauth_error 400 ''invalid_request'' ''refresh_token required'', db)
         else case find_grant h db of
           None \<Rightarrow> (invalid_grant ''invalid refresh token'', replayed_token (clk 0) h db)
         | Some g \<Rightarrow>
             if gr_resource g \<noteq> resource_url sv \<or> \<not> has_scope (gr_scope g) ''offline_access''
                \<or> (client_id \<noteq> [] \<and> gr_client_id g \<noteq> client_id) then
               (invalid_grant ''client_id mismatch'', db)
             else
               (let db1 = db\<lparr>od_grants := filter (\<lambda>x. gr_refresh_hash x \<noteq> h) (od_grants db)\<rparr> in
                case parse_stamp (gr_refresh_expires_at g) of
                  None \<Rightarrow> (invalid_grant ''refresh token expired'', db)
                | Some e \<Rightarrow>
                    if e < clk 0 then (invalid_grant ''refresh token expired'', db)
                    else rotate_grant sv clk rnd g db db1))"

section \<open>Dispatch\<close>

definition handle_token ::
  "oauth_server \<Rightarrow> (nat \<Rightarrow> instant) \<Rightarrow> mint_random \<Rightarrow> oauth_request \<Rightarrow> oauth_db \<Rightarrow> oauth_reply \<times> oauth_db" where
  "handle_token sv clk rnd r db =
     (case parse_form r of
        None \<Rightarrow> (json_oauth_error 400 ''invalid_request'' ''invalid form data'', db)
      | Some (post, form) \<Rightarrow>
          if \<not> valid_resource sv (values_all form ''resource'') then
            (json_oauth_error 400 ''invalid_target'' ''resource must identify this MCP server'', db)
          else if values_get form ''grant_type'' = ''authorization_code'' then handle_token_auth_code sv clk rnd form db
          else if values_get form ''grant_type'' = ''refresh_token'' then handle_token_refresh sv clk rnd form db
          else (json_oauth_error 400 ''unsupported_grant_type'' ''unsupported grant_type'', db))"

text \<open>What one request of the OAuth server draws on beside the database.\<close>

record oauth_env =
  oe_fetch :: "string \<Rightarrow> fetched option"
  oe_github :: "github_call \<Rightarrow> (int \<times> bytes) option"
  oe_during :: "login_db \<Rightarrow> login_db"
  oe_clock :: "nat \<Rightarrow> instant"
  oe_register :: "bytes option"
  oe_authorize :: authorize_random
  oe_mint :: mint_random

definition handle_github_callback ::
  "oauth_server \<Rightarrow> oauth_env \<Rightarrow> oauth_request \<Rightarrow> oauth_db \<Rightarrow> oauth_reply \<times> oauth_db" where
  "handle_github_callback sv env r db =
     (case os_github sv of
        None \<Rightarrow> (OAuthPlain not_found, db)
      | Some gh \<Rightarrow>
          (case finish_login gh (oe_github env) (oe_during env) (ar_nonce (oe_authorize env)) (ar_state (oe_authorize env))
                  (oe_clock env 0) (oe_clock env 1) (oq_login r) (od_login db) of
             (Inl _, login_db) \<Rightarrow> (denied, db\<lparr>od_login := login_db\<rparr>)
           | (Inr (form, token, name), login_db) \<Rightarrow>
               (let db' = db\<lparr>od_login := login_db\<rparr>
                in (handle_authorize_get sv (oe_fetch env) (fst (parse_query (encode_values form)))
                      (Some (token, name)) db', db'))))"

definition oauth_serve ::
  "oauth_server \<Rightarrow> oauth_env \<Rightarrow> oauth_request \<Rightarrow> reg_limiter \<times> oauth_db \<Rightarrow> oauth_reply \<times> reg_limiter \<times> oauth_db" where
  "oauth_serve sv env r st =
     (case st of (l, db) \<Rightarrow>
       (let path = oq_path r; keep = (\<lambda>(reply, db'). (reply, l, db')) in
        if oq_method r = ''GET'' \<and> path = callback_path then keep (handle_github_callback sv env r db)
        else if get_or_head r \<and> path \<in> set protected_resource_paths then (handle_protected_resource sv, l, db)
        else if get_or_head r \<and> path = ''/.well-known/oauth-authorization-server'' then (handle_auth_server_meta sv, l, db)
        else if oq_method r = ''POST'' \<and> path = ''/register'' then
          handle_register (oe_clock env) (oe_register env) r l db
        else if oq_method r = ''GET'' \<and> path = ''/authorize'' then
          (handle_authorize_get sv (oe_fetch env) (fst (parse_query (oq_raw_query r))) None db, l, db)
        else if oq_method r = ''POST'' \<and> path = ''/authorize'' then
          keep (handle_authorize_post sv (oe_fetch env) (oe_clock env) (oe_authorize env) r db)
        else if oq_method r = ''POST'' \<and> path = ''/token'' then
          keep (handle_token sv (oe_clock env) (oe_mint env) r db)
        else (OAuthPlain not_found, l, db)))"

end
