(* ===== verification/OAuthProperties.thy ===== *)
theory OAuthProperties
  imports OAuthLaws IssuanceProperties
begin

text \<open>The properties of the OAuth server: code exchange, rotation, replay, consent.\<close>

definition reply_ok :: "oauth_reply \<Rightarrow> bool" where
  "reply_ok r = (case r of OAuthJson status _ _ \<Rightarrow> status = 200 | _ \<Rightarrow> False)"

lemma reply_ok_simps [simp]: "reply_ok (token_reply k t s)" "\<not> reply_ok internal_error"
  "\<not> reply_ok (invalid_grant d)" "\<not> reply_ok (json_oauth_error 400 c d)"
  by (simp_all add: reply_ok_def token_reply_def internal_error_def invalid_grant_def json_oauth_error_def)

section \<open>The code exchange\<close>

definition complete_form :: "url_values \<Rightarrow> bool" where
  "complete_form form \<longleftrightarrow> values_get form ''code'' \<noteq> [] \<and> values_get form ''redirect_uri'' \<noteq> []
     \<and> values_get form ''client_id'' \<noteq> [] \<and> values_get form ''code_verifier'' \<noteq> []"

lemma auth_code_complete:
  assumes "complete_form form"
  shows "handle_token_auth_code sv clk rnd form db =
    (case find_code (hash_key (os_crypto sv) (values_get form ''code'')) db of
       None \<Rightarrow> (invalid_grant ''invalid or expired code'', db)
     | Some c \<Rightarrow>
         (case check_code sv (clk 0) (values_get form ''client_id'') (values_get form ''redirect_uri'')
                 (values_get form ''code_verifier'') c of
            Some reply \<Rightarrow> (reply, delete_code (hash_key (os_crypto sv) (values_get form ''code'')) db)
          | None \<Rightarrow> mint_from_code sv clk rnd (values_get form ''client_id'') c
                      (delete_code (hash_key (os_crypto sv) (values_get form ''code'')) db)))"
  using assms by (simp add: handle_token_auth_code_def complete_form_def Let_def)

lemma check_code_not_ok: "check_code sv now i u v c = Some reply \<Longrightarrow> \<not> reply_ok reply"
  by (auto simp: check_code_def split: if_splits)

lemma mint_from_code_cases:
  assumes "mint_from_code sv clk rnd client_id c db = (reply, db')"
  obtains "reply = internal_error" "db' = db"
  | g where "od_codes db' = od_codes db" "od_grants db' = od_grants db @ [g]" "gr_client_id g = client_id"
      "gr_scope g = co_scope c" "gr_resource g = co_resource c" "gr_key_id g = tseq (od_keys db) + 1"
      "wf_oauth db \<Longrightarrow> wf_oauth db'"
      "\<exists>dr. od_keys db' = snd (insert_row (build_gateway_key dr) (od_keys db)) \<and> gd_oauth_owned dr"
proof -
  show thesis
  proof (rule mint_grant_cases [OF assms [unfolded mint_from_code_def Let_def]])
    fix raw d keys b
    assume c: "create_oauth_tx_with_issuance (os_crypto sv) (mr_key rnd) (clk 1)
        (''oauth:'' @ (if client_name_of client_id db \<noteq> [] then client_name_of client_id db else co_agent_label c))
        (if co_issued_via c = [] then ''operator'' else co_issued_via c)
        (if co_agent_label c = [] then if client_name_of client_id db \<noteq> [] then client_name_of client_id db else client_id
         else co_agent_label c) (co_ref_code_id c) (od_keys db) = Inr (raw, d, keys)"
      and i: "insert_grant \<lparr>gr_refresh_hash = hash_key (os_crypto sv) (base64_encode base64_url b), gr_key_id = gk_id d,
          gr_client_id = client_id, gr_access_expires_at = stamp (clk 2 + access_ttl),
          gr_refresh_expires_at = stamp (clk 2 + refresh_ttl), gr_created_at = stamp (clk 2),
          gr_resource = co_resource c, gr_scope = co_scope c,
          gr_family = hash_key (os_crypto sv) (base64_encode base64_url b)\<rparr> (db\<lparr>od_keys := keys\<rparr>) = Some db'"
    let ?g = "\<lparr>gr_refresh_hash = hash_key (os_crypto sv) (base64_encode base64_url b), gr_key_id = gk_id d,
          gr_client_id = client_id, gr_access_expires_at = stamp (clk 2 + access_ttl),
          gr_refresh_expires_at = stamp (clk 2 + refresh_ttl), gr_created_at = stamp (clk 2),
          gr_resource = co_resource c, gr_scope = co_scope c,
          gr_family = hash_key (os_crypto sv) (base64_encode base64_url b)\<rparr> :: grant_row"
    have "gr_key_id ?g = gk_id d" "gr_client_id ?g = client_id" "gr_scope ?g = co_scope c" "gr_resource ?g = co_resource c"
      by simp_all
    then show thesis
      by (intro that(2) [of ?g]) (use minted_db [OF c i] in simp_all)
  qed (rule that(1))
qed

text \<open>
  C11. An authorization code is good for one exchange and only with every proof: whatever the
  outcome, a complete request deletes the code, so that presenting it again is an invalid grant
  that changes nothing; and a token is issued only if the code was stored, unexpired, bound to
  this gateway and to the presented client and redirect URI, and the verifier hashes to its PKCE
  challenge. The grant that is added is the client's, with the scope of the code.
\<close>

theorem code_exchange_single_use:
  assumes "complete_form form" "handle_token_auth_code sv clk rnd form db = (reply, db')"
  shows "handle_token_auth_code sv clk' rnd' form db' = (invalid_grant ''invalid or expired code'', db')
    \<and> (reply_ok reply \<longrightarrow>
        (\<exists>c g e. find_code (hash_key (os_crypto sv) (values_get form ''code'')) db = Some c
           \<and> parse_stamp (co_expires_at c) = Some e \<and> clk 0 \<le> e \<and> co_resource c = resource_url sv
           \<and> co_client_id c = values_get form ''client_id'' \<and> co_redirect_uri c = values_get form ''redirect_uri''
           \<and> co_method c = ''S256''
           \<and> pkce_challenge (os_crypto sv) (values_get form ''code_verifier'') = co_challenge c
           \<and> od_grants db' = od_grants db @ [g] \<and> gr_scope g = co_scope c
           \<and> gr_client_id g = values_get form ''client_id''))"
proof -
  let ?h = "hash_key (os_crypto sv) (values_get form ''code'')"
  have "find_code ?h db' = None \<and> (reply_ok reply \<longrightarrow>
        (\<exists>c g e. find_code ?h db = Some c
           \<and> parse_stamp (co_expires_at c) = Some e \<and> clk 0 \<le> e \<and> co_resource c = resource_url sv
           \<and> co_client_id c = values_get form ''client_id'' \<and> co_redirect_uri c = values_get form ''redirect_uri''
           \<and> co_method c = ''S256''
           \<and> pkce_challenge (os_crypto sv) (values_get form ''code_verifier'') = co_challenge c
           \<and> od_grants db' = od_grants db @ [g] \<and> gr_scope g = co_scope c
           \<and> gr_client_id g = values_get form ''client_id''))"
  proof (cases "find_code ?h db")
    case None
    with assms(2) show ?thesis by (auto simp: auth_code_complete [OF assms(1)])
  next
    case (Some c)
    note found = this
    show ?thesis
    proof (cases "check_code sv (clk 0) (values_get form ''client_id'') (values_get form ''redirect_uri'')
        (values_get form ''code_verifier'') c")
      case (Some r)
      with found assms(2) check_code_not_ok show ?thesis by (auto simp: auth_code_complete [OF assms(1)])
    next
      case None
      with found assms(2) have m: "mint_from_code sv clk rnd (values_get form ''client_id'') c (delete_code ?h db) = (reply, db')"
        by (simp add: auth_code_complete [OF assms(1)])
      show ?thesis
      proof (rule mint_from_code_cases [OF m])
        assume "reply = internal_error" "db' = delete_code ?h db"
        then show ?thesis by simp
      next
        fix g
        assume "od_codes db' = od_codes (delete_code ?h db)" "od_grants db' = od_grants (delete_code ?h db) @ [g]"
          "gr_client_id g = values_get form ''client_id''" "gr_scope g = co_scope c"
        moreover from this(1) have "find_code ?h db' = None"
          by (metis find_code_def find_code_delete)
        ultimately show ?thesis using None found
          by (auto simp: check_code_def delete_code_def split: if_splits option.splits)
      qed
    qed
  qed
  then show ?thesis by (simp add: auth_code_complete [OF assms(1)])
qed

definition demo_oauth_server :: oauth_server where
  "demo_oauth_server = \<lparr>os_issuer = ''https://mcp.example'', os_password_hash = [], os_github = None,
     os_crypto = demo_crypto, os_scrypt = (\<lambda>_ _ _ _ _ k. Some (replicate k (CHR ''h'')))\<rparr>"

definition demo_login_db :: login_db where
  "demo_login_db = \<lparr>ld_settings = \<lparr>sd_providers = Map.empty, sd_settings = Map.empty\<rparr>, ld_flows = []\<rparr>"

definition demo_code :: code_row where
  "demo_code = \<lparr>co_hash = hash_key demo_crypto ''c'', co_client_id = ''id'', co_redirect_uri = ''https://a'',
     co_challenge = pkce_challenge demo_crypto ''v'', co_method = ''S256'', co_expires_at = stamp hour,
     co_created_at = stamp 0, co_issued_via = ''operator'', co_agent_label = ''agent'', co_ref_code_id = None,
     co_resource = ''https://mcp.example/mcp'', co_scope = ''mcp offline_access''\<rparr>"

definition demo_oauth_db :: oauth_db where
  "demo_oauth_db = \<lparr>od_clients = [], od_codes = [demo_code], od_grants = [], od_history = [],
     od_keys = empty_table, od_invites = empty_table, od_login = demo_login_db\<rparr>"

definition demo_code_form :: url_values where
  "demo_code_form = [(''code'', [''c'']), (''redirect_uri'', [''https://a'']), (''client_id'', [''id'']), (''code_verifier'', [''v''])]"

lemma code_exchange_single_use_witness:
  "\<exists>reply db'. handle_token_auth_code demo_oauth_server (\<lambda>_. 0) \<lparr>mr_key = replicate 40 (CHR 0x00), mr_refresh = Some ''r''\<rparr>
       demo_code_form demo_oauth_db = (reply, db')
     \<and> handle_token_auth_code demo_oauth_server (\<lambda>_. 1) \<lparr>mr_key = [], mr_refresh = None\<rparr> demo_code_form db'
       = (invalid_grant ''invalid or expired code'', db')"
proof -
  obtain reply db' where h: "handle_token_auth_code demo_oauth_server (\<lambda>_. 0)
      \<lparr>mr_key = replicate 40 (CHR 0x00), mr_refresh = Some ''r''\<rparr> demo_code_form demo_oauth_db = (reply, db')"
    by fastforce
  have "complete_form demo_code_form"
    by (simp add: complete_form_def demo_code_form_def values_get_def values_all_def)
  from code_exchange_single_use [OF this h] h show ?thesis by blast
qed

section \<open>Refresh tokens\<close>

lemma refresh_ok:
  assumes "handle_token_refresh sv clk rnd form db = (reply, db')" "reply_ok reply"
  obtains g e where "find_grant (hash_key (os_crypto sv) (values_get form ''refresh_token'')) db = Some g"
    "values_get form ''refresh_token'' \<noteq> []"
    "gr_resource g = resource_url sv" "has_scope (gr_scope g) ''offline_access''"
    "parse_stamp (gr_refresh_expires_at g) = Some e" "clk 0 \<le> e"
    "rotate_grant sv clk rnd g db (db\<lparr>od_grants := filter (\<lambda>x. gr_refresh_hash x \<noteq>
       hash_key (os_crypto sv) (values_get form ''refresh_token'')) (od_grants db)\<rparr>) = (reply, db')"
proof -
  let ?h = "hash_key (os_crypto sv) (values_get form ''refresh_token'')"
  from assms obtain g where g: "find_grant ?h db = Some g" "values_get form ''refresh_token'' \<noteq> []"
    "gr_resource g = resource_url sv" "has_scope (gr_scope g) ''offline_access''"
    by (auto simp: handle_token_refresh_def Let_def split: if_splits option.splits)
  from assms g obtain e where "parse_stamp (gr_refresh_expires_at g) = Some e" "clk 0 \<le> e"
    by (auto simp: handle_token_refresh_def Let_def split: if_splits option.splits)
  with assms g show thesis
    by (intro that [of g e]) (auto simp: handle_token_refresh_def Let_def split: if_splits)
qed

lemma rotate_ok:
  assumes "rotate_grant sv clk rnd g db0 db = (reply, db')" "reply_ok reply"
  obtains r raw d keys b g' where "find_row (\<lambda>r. gk_id r = gr_key_id g) (od_keys db) = Some r" "gk_enabled r"
    "gk_revoked_at r = None"
    "create_oauth_tx_with_issuance (os_crypto sv) (mr_key rnd) (clk 1) (gk_name r)
        (if gk_issued_via r \<noteq> [] then gk_issued_via r else ''operator'')
        (if gk_agent_label r \<noteq> [] then gk_agent_label r else gk_name r) (gk_ref_code_id r)
        (disable_gateway_key (gr_key_id g) (od_keys db)) = Inr (raw, d, keys)"
    "insert_grant g' (db\<lparr>od_keys := keys\<rparr>) = Some db'"
    "g' = g\<lparr>gr_refresh_hash := hash_key (os_crypto sv) (base64_encode base64_url b), gr_key_id := gk_id d,
              gr_access_expires_at := stamp (clk 2 + access_ttl), gr_created_at := stamp (clk 2)\<rparr>"
proof -
  from assms obtain r where r: "find_row (\<lambda>r. gk_id r = gr_key_id g) (od_keys db) = Some r" "gk_enabled r"
    "gk_revoked_at r = None"
    by (auto simp: rotate_grant_def split: option.splits if_splits)
  with assms(1) have m: "mint_grant (os_crypto sv) rnd (clk 1) (gk_name r)
      (if gk_issued_via r \<noteq> [] then gk_issued_via r else ''operator'')
      (if gk_agent_label r \<noteq> [] then gk_agent_label r else gk_name r) (gk_ref_code_id r)
      (\<lambda>h i. g\<lparr>gr_refresh_hash := h, gr_key_id := i, gr_access_expires_at := stamp (clk 2 + access_ttl),
               gr_created_at := stamp (clk 2)\<rparr>)
      db0 (db\<lparr>od_keys := disable_gateway_key (gr_key_id g) (od_keys db)\<rparr>) = (reply, db')"
    by (simp add: rotate_grant_def)
  show thesis
  proof (rule mint_grant_cases [OF m])
    assume "reply = internal_error"
    with assms(2) show thesis by simp
  next
    fix raw d keys b
    assume "create_oauth_tx_with_issuance (os_crypto sv) (mr_key rnd) (clk 1) (gk_name r)
        (if gk_issued_via r \<noteq> [] then gk_issued_via r else ''operator'')
        (if gk_agent_label r \<noteq> [] then gk_agent_label r else gk_name r) (gk_ref_code_id r)
        (od_keys (db\<lparr>od_keys := disable_gateway_key (gr_key_id g) (od_keys db)\<rparr>)) = Inr (raw, d, keys)"
      "insert_grant (g\<lparr>gr_refresh_hash := hash_key (os_crypto sv) (base64_encode base64_url b), gr_key_id := gk_id d,
          gr_access_expires_at := stamp (clk 2 + access_ttl), gr_created_at := stamp (clk 2)\<rparr>)
        (db\<lparr>od_keys := disable_gateway_key (gr_key_id g) (od_keys db), od_keys := keys\<rparr>) = Some db'"
    with r show thesis by (intro that [OF r, of raw d keys _ b]) simp_all
  qed
qed

lemma wf_oauth_drop_grant:
  "wf_oauth db \<Longrightarrow> wf_oauth (db\<lparr>od_grants := filter P (od_grants db), od_keys := disable_gateway_key i (od_keys db)\<rparr>)"
  using gateway_step_wf [OF gateway_step.disable]
  by (auto simp: wf_oauth_def distinct_map_filter list_all_iff)

text \<open>
  C30. Rotation: a successful refresh replaces the presented grant by one successor of the same
  family, client, scope and resource and the same absolute expiry, issued for a fresh key; the
  key of the old grant is disabled and the tables stay well formed.
\<close>

theorem refresh_rotates:
  assumes "wf_oauth db" "handle_token_refresh sv clk rnd form db = (reply, db')" "reply_ok reply"
  shows "\<exists>g g'. find_grant (hash_key (os_crypto sv) (values_get form ''refresh_token'')) db = Some g
    \<and> od_grants db' = filter (\<lambda>x. gr_refresh_hash x \<noteq> gr_refresh_hash g) (od_grants db) @ [g']
    \<and> gr_family g' = gr_family g \<and> gr_client_id g' = gr_client_id g \<and> gr_scope g' = gr_scope g
    \<and> gr_resource g' = gr_resource g \<and> gr_refresh_expires_at g' = gr_refresh_expires_at g
    \<and> gr_refresh_hash g' \<noteq> gr_refresh_hash g \<and> gr_key_id g' = tseq (od_keys db) + 1
    \<and> od_history db' = od_history db @ [\<lparr>rh_refresh_hash = gr_refresh_hash g', rh_family = gr_family g,
          rh_key_id = gr_key_id g', rh_expires_at = gr_refresh_expires_at g\<rparr>]
    \<and> (\<forall>r \<in> set (rows (od_keys db')). gk_id r = gr_key_id g \<longrightarrow> \<not> gk_enabled r)
    \<and> wf_oauth db'"
proof -
  let ?h = "hash_key (os_crypto sv) (values_get form ''refresh_token'')"
  obtain g e where g: "find_grant ?h db = Some g"
    "rotate_grant sv clk rnd g db (db\<lparr>od_grants := filter (\<lambda>x. gr_refresh_hash x \<noteq> ?h) (od_grants db)\<rparr>) = (reply, db')"
    by (rule refresh_ok [OF assms(2,3)])
  have mem: "g \<in> set (od_grants db)" "gr_refresh_hash g = ?h" using find_grant_Some [OF g(1)] by auto
  let ?db1 = "db\<lparr>od_grants := filter (\<lambda>x. gr_refresh_hash x \<noteq> ?h) (od_grants db),
                od_keys := disable_gateway_key (gr_key_id g) (od_keys db)\<rparr>"
  show ?thesis
  proof (rule rotate_ok [OF g(2) assms(3)])
    fix r raw d keys b and g' :: grant_row
    assume row: "find_row (\<lambda>r. gk_id r = gr_key_id g)
        (od_keys (db\<lparr>od_grants := filter (\<lambda>x. gr_refresh_hash x \<noteq> ?h) (od_grants db)\<rparr>)) = Some r"
      and c: "create_oauth_tx_with_issuance (os_crypto sv) (mr_key rnd) (clk 1) (gk_name r)
        (if gk_issued_via r \<noteq> [] then gk_issued_via r else ''operator'')
        (if gk_agent_label r \<noteq> [] then gk_agent_label r else gk_name r) (gk_ref_code_id r)
        (disable_gateway_key (gr_key_id g)
          (od_keys (db\<lparr>od_grants := filter (\<lambda>x. gr_refresh_hash x \<noteq> ?h) (od_grants db)\<rparr>))) = Inr (raw, d, keys)"
      and i: "insert_grant g' (db\<lparr>od_grants := filter (\<lambda>x. gr_refresh_hash x \<noteq> ?h) (od_grants db), od_keys := keys\<rparr>)
        = Some db'"
      and g': "g' = g\<lparr>gr_refresh_hash := hash_key (os_crypto sv) (base64_encode base64_url b), gr_key_id := gk_id d,
              gr_access_expires_at := stamp (clk 2 + access_ttl), gr_created_at := stamp (clk 2)\<rparr>"
    have c': "create_oauth_tx_with_issuance (os_crypto sv) (mr_key rnd) (clk 1) (gk_name r)
        (if gk_issued_via r \<noteq> [] then gk_issued_via r else ''operator'')
        (if gk_agent_label r \<noteq> [] then gk_agent_label r else gk_name r) (gk_ref_code_id r)
        (od_keys ?db1) = Inr (raw, d, keys)" using c by simp
    have i': "insert_grant g' (?db1\<lparr>od_keys := keys\<rparr>) = Some db'" using i by simp
    have kid: "gr_key_id g' = gk_id d" by (simp add: g')
    note m = minted_db [OF c' i' kid]
    have "wf_oauth ?db1" by (rule wf_oauth_drop_grant [OF assms(1)])
    then have wf: "wf_oauth db'" by (rule m(6))
    have "\<lparr>rh_refresh_hash = gr_refresh_hash g, rh_family = gr_family g, rh_key_id = gr_key_id g,
      rh_expires_at = gr_refresh_expires_at g\<rparr> \<in> set (od_history db)"
      by (rule recorded_mem [OF assms(1) mem(1)])
    then have "gr_refresh_hash g \<in> rh_refresh_hash ` set (od_history db)" by (simp add: rev_image_eqI)
    with insert_grant_Some [OF i'] have fresh: "gr_refresh_hash g' \<noteq> gr_refresh_hash g" by auto
    obtain dr where dr: "od_keys db' = snd (insert_row (build_gateway_key dr) (disable_gateway_key (gr_key_id g) (od_keys db)))"
      using m(5) by auto
    have rid: "gr_key_id g \<le> tseq (od_keys db)"
      using row assms(1) by (auto simp: wf_oauth_def wf_gateway_def wf_table_def dest!: find_row_Some)
    have tseq: "tseq (disable_gateway_key (gr_key_id g) (od_keys db)) = tseq (od_keys db)"
      by (simp add: disable_gateway_key_def)
    have off: "\<forall>r \<in> set (rows (od_keys db')). gk_id r = gr_key_id g \<longrightarrow> \<not> gk_enabled r"
      unfolding dr rows_insert_row tseq using rid
      by (auto simp: build_gateway_key_def disable_gateway_key_def rows_set_gateway_row)
    show ?thesis
      by (rule exI [of _ g], rule exI [of _ g'])
         (use g mem m(1-3) fresh off wf tseq in \<open>simp add: g'\<close>)
  qed
qed

text \<open>A database with one grant, and its successful refresh.\<close>

definition demo_grant :: grant_row where
  "demo_grant = \<lparr>gr_refresh_hash = hash_key demo_crypto ''t'', gr_key_id = 1, gr_client_id = ''id'',
     gr_access_expires_at = stamp 0, gr_refresh_expires_at = stamp hour, gr_created_at = stamp 0,
     gr_resource = ''https://mcp.example/mcp'', gr_scope = ''mcp offline_access'', gr_family = ''f''\<rparr>"

definition demo_refresh_db :: oauth_db where
  "demo_refresh_db = demo_oauth_db\<lparr>od_codes := [], od_grants := [demo_grant],
     od_history := [\<lparr>rh_refresh_hash = hash_key demo_crypto ''t'', rh_family = ''f'', rh_key_id = 1, rh_expires_at = stamp hour\<rparr>],
     od_keys := \<lparr>tseq = 1, rows = [demo_used_row\<lparr>gk_oauth_owned := True\<rparr>]\<rparr>\<rparr>"

definition demo_refresh_form :: url_values where "demo_refresh_form = [(''refresh_token'', [''t''])]"

definition demo_mint :: mint_random where
  "demo_mint = \<lparr>mr_key = demo_key_source, mr_refresh = Some ''r''\<rparr>"

lemma demo_wf_oauth: "wf_oauth demo_refresh_db"
  by (simp add: wf_oauth_def demo_refresh_db_def demo_oauth_db_def demo_grant_def recorded_def wf_gateway_def
      wf_table_def demo_used_row_def)

lemma demo_refresh_parts:
  "find_grant (hash_key demo_crypto ''t'') demo_refresh_db = Some demo_grant"
  "values_get demo_refresh_form ''refresh_token'' = ''t''" "values_get demo_refresh_form ''client_id'' = []"
  "has_scope ''mcp offline_access'' ''offline_access''" "in_range hour"
  "hash_key demo_crypto (base64_encode base64_url ''r'') \<noteq> hash_key demo_crypto ''t''"
proof -
  show "find_grant (hash_key demo_crypto ''t'') demo_refresh_db = Some demo_grant"
    by (simp add: find_grant_def demo_refresh_db_def) (simp add: demo_grant_def)
  show "values_get demo_refresh_form ''refresh_token'' = ''t''" "values_get demo_refresh_form ''client_id'' = []"
    by (simp_all add: demo_refresh_form_def values_get_def values_all_def)
  show "has_scope ''mcp offline_access'' ''offline_access''" by code_simp
  show "in_range hour" by (simp add: in_range_def)
  have "base64_encode base64_url ''r'' = ''cg''" by code_simp
  then show "hash_key demo_crypto (base64_encode base64_url ''r'') \<noteq> hash_key demo_crypto ''t''"
    by (simp add: hash_key_def demo_crypto_def hex_encode_def hex_lower_def)
qed

lemma demo_refresh:
  "\<exists>raw s db'. handle_token_refresh demo_oauth_server (\<lambda>_. 0) demo_mint demo_refresh_form demo_refresh_db
     = (token_reply raw (base64_encode base64_url ''r'') s, db')"
proof -
  have row: "find_row (\<lambda>r. gk_id r = 1) \<lparr>tseq = 1, rows = [demo_used_row\<lparr>gk_oauth_owned := True\<rparr>]\<rparr>
      = Some (demo_used_row\<lparr>gk_oauth_owned := True\<rparr>)"
    by (simp add: find_row_def demo_used_row_def)
  note p = demo_refresh_parts
  obtain d keys where c: "create_oauth_tx_with_issuance demo_crypto demo_key_source 0 ''a'' ''operator'' ''a'' None
      (disable_gateway_key 1 (od_keys demo_refresh_db)) = Inr (demo_raw_key, d, keys)"
    using demo_create by blast
  have k: "gk_id d = 2"
    using c by (rule create_oauth_Inr) (simp add: disable_gateway_key_def demo_refresh_db_def)
  obtain db' where i: "insert_grant (demo_grant\<lparr>gr_refresh_hash := hash_key demo_crypto (base64_encode base64_url ''r''),
      gr_key_id := 2, gr_access_expires_at := stamp (0 + access_ttl), gr_created_at := stamp 0\<rparr>)
      (demo_refresh_db\<lparr>od_grants := [], od_keys := keys\<rparr>) = Some db'"
    using p(6) by (simp add: insert_grant_def demo_refresh_db_def)
  have "rotate_grant demo_oauth_server (\<lambda>_. 0) demo_mint demo_grant demo_refresh_db
      (demo_refresh_db\<lparr>od_grants := []\<rparr>) = (token_reply demo_raw_key (base64_encode base64_url ''r'') (gr_scope demo_grant), db')"
  proof -
    have r: "find_row (\<lambda>r. gk_id r = 1) (od_keys demo_refresh_db) = Some (demo_used_row\<lparr>gk_oauth_owned := True\<rparr>)"
      using row by (simp add: demo_refresh_db_def)
    have "gr_key_id demo_grant = 1" by (simp add: demo_grant_def)
    then show ?thesis
      using c k i by (simp add: rotate_grant_def r)
        (simp add: demo_used_row_def mint_grant_def demo_oauth_server_def demo_mint_def Let_def)
  qed
  moreover have "filter (\<lambda>x. gr_refresh_hash x \<noteq> hash_key demo_crypto ''t'') (od_grants demo_refresh_db) = []"
    by (simp add: demo_refresh_db_def demo_grant_def)
  ultimately show ?thesis
    using p by (auto simp: handle_token_refresh_def Let_def demo_oauth_server_def resource_url_def demo_grant_def
        parse_stamp_stamp)
qed

lemma refresh_rotates_witness:
  "\<exists>raw s db'. handle_token_refresh demo_oauth_server (\<lambda>_. 0) demo_mint demo_refresh_form demo_refresh_db
     = (token_reply raw (base64_encode base64_url ''r'') s, db') \<and> wf_oauth db'"
proof -
  obtain raw s db' where d: "handle_token_refresh demo_oauth_server (\<lambda>_. 0) demo_mint demo_refresh_form demo_refresh_db
      = (token_reply raw (base64_encode base64_url ''r'') s, db')"
    using demo_refresh by blast
  from refresh_rotates [OF demo_wf_oauth d] d show ?thesis by auto
qed

section \<open>Replay\<close>

lemma replay_revokes:
  assumes "find_grant h db = None" "find_history h db = Some x" "parse_stamp (rh_expires_at x) = Some e" "now < e"
  shows "replayed_token now h db = revoke_family (rh_family x) db"
  using assms by (simp add: replayed_token_def)

lemma revoke_family_effect:
  "(\<forall>g \<in> set (od_grants (revoke_family fam db)). gr_family g \<noteq> fam)
   \<and> (\<forall>r \<in> set (rows (od_keys (revoke_family fam db))). gk_id r \<in> set (family_keys fam db) \<longrightarrow> \<not> gk_enabled r)"
  by (auto simp: revoke_family_def table_simps)

text \<open>
  C12. Replay: once a refresh token has been used, presenting it again before its family expires
  is refused and revokes everything the family got, so that afterwards neither the key of the
  original grant nor that of its successor is enabled and no grant of the family is left.
\<close>

theorem replayed_refresh_revokes_family:
  assumes "wf_oauth db" "handle_token_refresh sv clk rnd form db = (reply, db')" "reply_ok reply"
    "find_grant (hash_key (os_crypto sv) (values_get form ''refresh_token'')) db = Some g"
    "parse_stamp (gr_refresh_expires_at g) = Some e" "clk' 0 < e"
    "handle_token_refresh sv clk' rnd' form db' = (reply', db'')"
  shows "reply' = invalid_grant ''invalid refresh token''
    \<and> (\<forall>x \<in> set (od_grants db''). gr_family x \<noteq> gr_family g)
    \<and> (\<forall>r \<in> set (rows (od_keys db'')). gk_id r \<in> {gr_key_id g, tseq (od_keys db) + 1} \<longrightarrow> \<not> gk_enabled r)"
proof -
  let ?h = "hash_key (os_crypto sv) (values_get form ''refresh_token'')"
  obtain g' where r: "od_grants db' = filter (\<lambda>x. gr_refresh_hash x \<noteq> gr_refresh_hash g) (od_grants db) @ [g']"
    "gr_refresh_hash g' \<noteq> gr_refresh_hash g" "gr_key_id g' = tseq (od_keys db) + 1"
    "od_history db' = od_history db @ [\<lparr>rh_refresh_hash = gr_refresh_hash g', rh_family = gr_family g,
          rh_key_id = gr_key_id g', rh_expires_at = gr_refresh_expires_at g\<rparr>]" "wf_oauth db'"
    using refresh_rotates [OF assms(1-3)] assms(4) by auto
  have mem: "g \<in> set (od_grants db)" "gr_refresh_hash g = ?h" using find_grant_Some [OF assms(4)] by auto
  let ?x = "\<lparr>rh_refresh_hash = gr_refresh_hash g, rh_family = gr_family g, rh_key_id = gr_key_id g,
      rh_expires_at = gr_refresh_expires_at g\<rparr>"
  have x: "?x \<in> set (od_history db')" using recorded_mem [OF assms(1) mem(1)] r(4) by simp
  have none: "find_grant ?h db' = None"
    using r(1,2) mem(2) by (auto simp: find_grant_def find_None_iff)
  have "find_history ?h db' = Some ?x"
    unfolding find_history_def by (rule list_find_unique [OF _ x]) (use r(5) mem(2) in \<open>simp_all add: wf_oauth_def\<close>)
  then have rep: "replayed_token (clk' 0) ?h db' = revoke_family (gr_family g) db'"
    using replay_revokes [OF none, of ?x e "clk' 0"] assms(5,6) by simp
  have "values_get form ''refresh_token'' \<noteq> []"
    by (rule refresh_ok [OF assms(2,3)])
  then have "reply' = invalid_grant ''invalid refresh token''" "db'' = revoke_family (gr_family g) db'"
    using assms(7) none rep by (simp_all add: handle_token_refresh_def Let_def)
  moreover have "gr_key_id g \<in> set (family_keys (gr_family g) db')" "tseq (od_keys db) + 1 \<in> set (family_keys (gr_family g) db')"
    using x r(3,4) by (force simp: family_keys_def)+
  ultimately show ?thesis using revoke_family_effect [of "gr_family g" db'] by auto
qed

lemma replayed_refresh_revokes_family_witness:
  "\<exists>raw s db' reply db''. handle_token_refresh demo_oauth_server (\<lambda>_. 0) demo_mint demo_refresh_form demo_refresh_db
     = (token_reply raw (base64_encode base64_url ''r'') s, db')
     \<and> handle_token_refresh demo_oauth_server (\<lambda>_. 1) demo_mint demo_refresh_form db' = (reply, db'')
     \<and> reply = invalid_grant ''invalid refresh token''"
proof -
  obtain raw s db' where d: "handle_token_refresh demo_oauth_server (\<lambda>_. 0) demo_mint demo_refresh_form demo_refresh_db
      = (token_reply raw (base64_encode base64_url ''r'') s, db')"
    using demo_refresh by blast
  obtain reply db'' where r: "handle_token_refresh demo_oauth_server (\<lambda>_. 1) demo_mint demo_refresh_form db' = (reply, db'')"
    by fastforce
  have g: "find_grant (hash_key (os_crypto demo_oauth_server) (values_get demo_refresh_form ''refresh_token''))
      demo_refresh_db = Some demo_grant"
    using demo_refresh_parts by (simp add: demo_oauth_server_def)
  have e: "parse_stamp (gr_refresh_expires_at demo_grant) = Some hour"
    by (simp add: demo_grant_def parse_stamp_stamp in_range_def)
  from replayed_refresh_revokes_family [OF demo_wf_oauth d _ g e _ r] d r show ?thesis by auto
qed

end
