(* ===== verification/ConsentProperties.thy ===== *)
theory ConsentProperties
  imports OAuthTokens Instances
begin

text \<open>
  The properties of consent: which authorization codes may come into being, and that the approval
  GitHub gives is bound to one form, one browser and one use.
\<close>

section \<open>Codes that are stored\<close>

lemma issue_code_codes:
  assumes "issue_code sv now rnd d via db = (reply, db')"
  shows "od_invites db' = od_invites db" "od_codes db' = od_codes db \<or>
    (\<exists>c. od_codes db' = od_codes db @ [c] \<and> co_client_id c = cd_client_id d \<and> co_redirect_uri c = cd_redirect_uri d
       \<and> co_challenge c = cd_challenge d \<and> co_method c = cd_method d \<and> co_scope c = cd_scope d
       \<and> co_issued_via c = fst via \<and> co_ref_code_id c = snd via \<and> co_resource c = resource_url sv
       \<and> co_expires_at c = stamp (now + code_ttl))" (is ?codes)
proof -
  show "od_invites db' = od_invites db"
    using assms by (auto simp: issue_code_def Let_def split: if_splits option.splits)
  show ?codes
  proof (cases rnd)
    case None
    with assms show ?thesis by (simp add: issue_code_def)
  next
    case (Some b)
    let ?c = "\<lparr>co_hash = hash_key (os_crypto sv) (base64_encode base64_url b), co_client_id = cd_client_id d,
        co_redirect_uri = cd_redirect_uri d, co_challenge = cd_challenge d, co_method = cd_method d,
        co_expires_at = stamp (now + code_ttl), co_created_at = stamp now, co_issued_via = fst via,
        co_agent_label = cd_label d, co_ref_code_id = snd via, co_resource = resource_url sv, co_scope = cd_scope d\<rparr>"
    from assms Some have "db' = db \<or> db' = db\<lparr>od_codes := od_codes db @ [?c]\<rparr>"
      by (auto simp: issue_code_def Let_def split: if_splits option.splits)
    then show ?thesis
    proof
      assume "db' = db\<lparr>od_codes := od_codes db @ [?c]\<rparr>"
      then have "od_codes db' = od_codes db @ [?c]" by simp
      then show ?thesis by (intro disjI2 exI [of _ ?c]) simp
    qed simp
  qed
qed

lemma mint_decision_Inr:
  assumes "mint_decision now approved invite label db = Inr (via, db')"
  shows "od_codes db' = od_codes db \<and> od_login db' = od_login db
    \<and> (fst via = ''operator'' \<longrightarrow> approved)
    \<and> (fst via \<noteq> ''operator'' \<longrightarrow> \<not> approved \<and>
         (fst via = ''open_register'' \<and> public_issuance_mode db = ''open'' \<or>
          fst via = ''ref_code'' \<and> public_issuance_mode db = ''ref_code''
          \<and> (\<exists>item. redeem_tx now invite label (od_invites db) = Inr (item, od_invites db') \<and> snd via = Some (ic_id item))))"
  using assms by (auto simp: mint_decision_def Let_def split: if_splits sum.splits)

text \<open>An invite that the code in the form names, usable at that time, and counted up.\<close>

definition invite_spent :: "instant \<Rightarrow> string \<Rightarrow> string \<Rightarrow> invite_table \<Rightarrow> invite_table \<Rightarrow> rowid \<Rightarrow> bool" where
  "invite_spent now invite label t t' i \<longleftrightarrow>
     (\<exists>item \<in> set (rows t). ic_id item = i \<and> ic_code item = trim_space invite \<and> ic_revoked_at item = None
        \<and> ic_count item < ic_max item \<and> stamp now < ic_expires_at item
        \<and> (ic_bind item = [] \<or> ic_bind item = trim_space label)
        \<and> item\<lparr>ic_count := ic_count item + 1\<rparr> \<in> set (rows t'))"

lemma redeemed_spent:
  assumes "wf_invites t" "redeem_tx now invite label t = Inr (r, t')"
  shows "invite_spent now invite label t t' (ic_id r)"
  using assms
proof (rule redeem_tx_item)
  fix item
  assume "item \<in> set (rows t)" "r = bump_count item" "redeemable (trim_space invite) (stamp now) item"
    "ic_bind item = [] \<or> ic_bind item = trim_space label" "bump_count item \<in> set (rows t')"
  then show ?thesis
    unfolding invite_spent_def by (intro bexI [of _ item]) (simp_all add: redeemable_def bump_count_def)
qed

text \<open>The conditions under which an approved form stores a code.\<close>

definition code_justified ::
  "oauth_server \<Rightarrow> instant \<Rightarrow> bool \<Rightarrow> string \<Rightarrow> oauth_db \<Rightarrow> oauth_db \<Rightarrow> code_draft \<Rightarrow> code_row \<Rightarrow> bool" where
  "code_justified sv now approved invite db db' d c \<longleftrightarrow>
     co_client_id c = cd_client_id d \<and> co_redirect_uri c = cd_redirect_uri d \<and> co_challenge c = cd_challenge d
     \<and> co_method c = cd_method d \<and> co_scope c = cd_scope d \<and> co_resource c = resource_url sv
     \<and> (has_scope (co_scope c) ''config:write'' \<longrightarrow> co_issued_via c = ''operator'')
     \<and> (co_issued_via c = ''operator'' \<longrightarrow> approved)
     \<and> (co_issued_via c \<noteq> ''operator'' \<longrightarrow> \<not> approved \<and>
         (co_issued_via c = ''open_register'' \<and> public_issuance_mode db = ''open'' \<or>
          co_issued_via c = ''ref_code'' \<and> public_issuance_mode db = ''ref_code''
          \<and> (\<exists>i. co_ref_code_id c = Some i
               \<and> invite_spent now invite (cd_label d) (od_invites db) (od_invites db') i)))"

lemma approve_authorize_codes:
  assumes "approve_authorize sv clk rnd client d invite approved db = (reply, db')"
    "c \<in> set (od_codes db')" "c \<notin> set (od_codes db)" "wf_invites (od_invites db)"
  shows "code_justified sv (clk 1) approved invite db db' d c"
proof -
  from assms obtain via db1 where m: "mint_decision (clk 1) approved invite (cd_label d) db = Inr (via, db1)"
    and i: "issue_code sv (clk 2) (ar_code rnd) d via db1 = (reply, db')"
    and s: "has_scope (cd_scope d) ''config:write'' \<longrightarrow> approved"
    by (auto simp: approve_authorize_def split: if_splits sum.splits)
  note dec = mint_decision_Inr [OF m]
  have "od_codes db1 = od_codes db" using dec by simp
  with issue_code_codes(2) [OF i] assms(2,3)
  have "co_client_id c = cd_client_id d" "co_redirect_uri c = cd_redirect_uri d" "co_challenge c = cd_challenge d"
    "co_method c = cd_method d" "co_scope c = cd_scope d" "co_issued_via c = fst via" "co_ref_code_id c = snd via"
    "co_resource c = resource_url sv"
    by auto
  moreover have "od_invites db' = od_invites db1" by (rule issue_code_codes(1) [OF i])
  ultimately show ?thesis using dec s redeemed_spent [OF assms(4)] by (auto simp: code_justified_def)
qed

text \<open>The form of a request and the consent values it is bound to.\<close>

definition bound_form :: "oauth_server \<Rightarrow> string \<Rightarrow> oauth_client \<Rightarrow> url_values \<Rightarrow> url_values" where
  "bound_form sv scope client form =
     consent_values (values_get form ''client_id'') (values_get form ''redirect_uri'') (values_get form ''state'')
       (values_get form ''code_challenge'') (values_get form ''code_challenge_method'') scope (resource_url sv)
       (default_label (trim_space (values_get form ''agent_label'')) client) (trim_space (values_get form ''invite''))"

text \<open>
  C31. No authorization code without consent: a code that POST /authorize stores is bound to this
  gateway, a client that exists and a redirect URI registered for it, and an S256 challenge. A
  code issued as the operator's rests on the operator's password or on a GitHub approval that was
  consumed for exactly this form; the scope that may change the configuration is never granted in
  another way; and any other code needs the open mode or an invite: one that has the code of the form, is
  not revoked, used up or expired, may be used under that label, and is counted as used once more; its id
  is stored with the code.
\<close>

theorem code_needs_consent:
  assumes "handle_authorize_post sv fetch clk rnd r db = (reply, db')"
    "c \<in> set (od_codes db')" "c \<notin> set (od_codes db)" "wf_invites (od_invites db)"
  shows "\<exists>post form client. parse_form r = Some (post, form)
    \<and> lookup_client fetch (co_client_id c) db = Inr (Some client) \<and> valid_redirect client (co_redirect_uri c)
    \<and> co_resource c = resource_url sv \<and> co_method c = ''S256'' \<and> co_challenge c \<noteq> []
    \<and> normalize_scope (values_get form ''scope'') = Some (co_scope c)
    \<and> (has_scope (co_scope c) ''config:write'' \<longrightarrow> co_issued_via c = ''operator'')
    \<and> (co_issued_via c = ''operator'' \<longrightarrow>
         operator_approved sv False (values_get form ''password'') db
         \<or> (\<exists>gh login_db. os_github sv = Some gh \<and>
              consume_proof gh (clk 0) (oq_login r) (values_get post ''github_consent'')
                (bound_form sv (co_scope c) client form) (od_login db) = (None, login_db)))
    \<and> (co_issued_via c \<noteq> ''operator'' \<longrightarrow>
         public_issuance_mode db = ''open'' \<and> co_issued_via c = ''open_register''
         \<or> public_issuance_mode db = ''ref_code'' \<and> co_issued_via c = ''ref_code''
           \<and> (\<exists>item \<in> set (rows (od_invites db)). co_ref_code_id c = Some (ic_id item)
                \<and> ic_code item = trim_space (values_get form ''invite'') \<and> ic_revoked_at item = None
                \<and> ic_count item < ic_max item \<and> stamp (clk 1) < ic_expires_at item
                \<and> (ic_bind item = [] \<or> ic_bind item =
                      trim_space (default_label (trim_space (values_get form ''agent_label'')) client))
                \<and> item\<lparr>ic_count := ic_count item + 1\<rparr> \<in> set (rows (od_invites db'))))"
proof -
  note def = handle_authorize_post_def
  from assms obtain post form where p: "parse_form r = Some (post, form)"
    by (cases "parse_form r") (auto simp: def)
  let ?v = "values_get form"
  from assms p obtain scope where sc: "normalize_scope (?v ''scope'') = Some scope"
    by (cases "normalize_scope (?v ''scope'')") (auto simp: def Let_def)
  have res: "valid_resource sv (values_all form ''resource'')"
    by (rule ccontr) (use assms p sc in \<open>auto simp: def\<close>)
  obtain client where cl: "lookup_client fetch (?v ''client_id'') db = Inr (Some client)"
  proof (cases "lookup_client fetch (?v ''client_id'') db")
    case (Inl e)
    with assms p sc res show thesis by (auto simp: def Let_def)
  next
    case (Inr b)
    with assms p sc res that show thesis by (cases b) (auto simp: def Let_def)
  qed
  have red: "valid_redirect client (?v ''redirect_uri'')"
    by (rule ccontr) (use assms p sc res cl in \<open>auto simp: def Let_def\<close>)
  have meth: "?v ''code_challenge_method'' = ''S256'' \<and> ?v ''code_challenge'' \<noteq> []"
    by (rule ccontr) (use assms p sc res cl red in \<open>auto simp: def Let_def\<close>)
  let ?label = "default_label (trim_space (?v ''agent_label'')) client"
  let ?invite = "trim_space (?v ''invite'')"
  let ?d = "\<lparr>cd_client_id = ?v ''client_id'', cd_redirect_uri = ?v ''redirect_uri'', cd_state = ?v ''state'',
      cd_challenge = ?v ''code_challenge'', cd_method = ''S256'', cd_scope = scope, cd_label = ?label\<rparr>"
  have post: "values_get post ''operator_login'' \<noteq> ''github''"
    by (rule ccontr) (use assms p sc res cl red meth in \<open>auto simp: def Let_def split: option.splits sum.splits\<close>)
  have "(\<exists>gh login_db. os_github sv = Some gh
        \<and> consume_proof gh (clk 0) (oq_login r) (values_get post ''github_consent'') (bound_form sv scope client form)
            (od_login db) = (None, login_db)
        \<and> approve_authorize sv clk rnd client ?d ?invite True (db\<lparr>od_login := login_db\<rparr>) = (reply, db'))
    \<or> approve_authorize sv clk rnd client ?d ?invite (operator_approved sv False (?v ''password'') db) db = (reply, db')"
    using assms p sc res cl red meth post
    by (auto simp: def Let_def bound_form_def split: option.splits if_splits prod.splits)
  then show ?thesis
  proof
    assume "approve_authorize sv clk rnd client ?d ?invite (operator_approved sv False (?v ''password'') db) db = (reply, db')"
    from approve_authorize_codes [OF this assms(2-4)] p sc cl red meth show ?thesis
      by (intro exI [of _ post] exI [of _ form] exI [of _ client]) (auto simp: code_justified_def invite_spent_def trim_space_idem)
  next
    assume "\<exists>gh login_db. os_github sv = Some gh
        \<and> consume_proof gh (clk 0) (oq_login r) (values_get post ''github_consent'') (bound_form sv scope client form)
            (od_login db) = (None, login_db)
        \<and> approve_authorize sv clk rnd client ?d ?invite True (db\<lparr>od_login := login_db\<rparr>) = (reply, db')"
    then obtain gh login_db where gh: "os_github sv = Some gh"
      "consume_proof gh (clk 0) (oq_login r) (values_get post ''github_consent'') (bound_form sv scope client form)
         (od_login db) = (None, login_db)"
      "approve_authorize sv clk rnd client ?d ?invite True (db\<lparr>od_login := login_db\<rparr>) = (reply, db')"
      by blast
    have "c \<notin> set (od_codes (db\<lparr>od_login := login_db\<rparr>))" "wf_invites (od_invites (db\<lparr>od_login := login_db\<rparr>))"
      using assms(3,4) by simp_all
    from approve_authorize_codes [OF gh(3) assms(2) this] p sc cl red meth gh(1,2) show ?thesis
      by (intro exI [of _ post] exI [of _ form] exI [of _ client]) (auto simp: code_justified_def invite_spent_def trim_space_idem)
  qed
qed

text \<open>A gateway in open mode and a form that a registered client submits.\<close>

definition open_server :: oauth_server where
  "open_server = \<lparr>os_issuer = ''https://mcp.example'', os_password_hash = [], os_github = None,
     os_crypto = demo_crypto, os_scrypt = (\<lambda>_ _ _ _ _ k. None)\<rparr>"

definition open_db :: oauth_db where
  "open_db = \<lparr>od_clients = [\<lparr>cl_id = ''id'', cl_name = Some ''agent'', cl_uris = [CHR ''['', CHR 0x22] @ ''https://a'' @ [CHR 0x22, CHR '']''],
       cl_created_at = stamp 0\<rparr>], od_codes = [], od_grants = [], od_history = [], od_keys = empty_table,
     od_invites = empty_table, od_login = \<lparr>ld_settings = \<lparr>sd_providers = Map.empty,
       sd_settings = [''public_issuance'' \<mapsto> (''open'', stamp 0)]\<rparr>, ld_flows = []\<rparr>\<rparr>"

definition open_request :: oauth_request where
  "open_request = \<lparr>oq_method = ''POST'', oq_path = ''/authorize'', oq_raw_query = [],
     oq_body_form = Some ''client_id=id&redirect_uri=https://a&code_challenge=ch&code_challenge_method=S256'',
     oq_body = [], oq_login = \<lparr>lq_origin = [], lq_fetch_site = [], lq_cookie = None, lq_query = []\<rparr>\<rparr>"

definition open_random :: authorize_random where
  "open_random = \<lparr>ar_nonce = [], ar_browser = [], ar_verifier = [], ar_state = [], ar_code = Some ''r''\<rparr>"

definition open_form :: url_values where
  "open_form = [(''client_id'', [''id'']), (''redirect_uri'', [''https://a'']), (''code_challenge'', [''ch'']),
     (''code_challenge_method'', [''S256''])]"

lemma open_parts:
  "parse_form open_request = Some (open_form, open_form)" "normalize_scope [] = Some ''mcp offline_access''"
  "lookup_client fetch ''id'' open_db = Inr (Some \<lparr>oc_id = ''id'', oc_name = ''agent'', oc_redirects = [''https://a'']\<rparr>)"
  "has_scope ''mcp offline_access'' ''config:write'' = False" "trim_space ''open'' = ''open''"
proof -
  show "parse_form open_request = Some (open_form, open_form)"
    unfolding open_request_def open_form_def by code_simp
  show "normalize_scope [] = Some ''mcp offline_access''" by (simp add: normalize_scope_def)
  have "parse_json ([CHR ''['', CHR 0x22] @ ''https://a'' @ [CHR 0x22, CHR '']'']) = Some (JArr [JStr ''https://a''])"
    by code_simp
  then show "lookup_client fetch ''id'' open_db = Inr (Some \<lparr>oc_id = ''id'', oc_name = ''agent'', oc_redirects = [''https://a'']\<rparr>)"
    by (simp add: lookup_client_def open_db_def)
  show "has_scope ''mcp offline_access'' ''config:write'' = False" by code_simp
  show "trim_space ''open'' = ''open''" by (rule trim_space_plain) (simp add: plain_char_def)
qed

lemma open_values:
  "values_get open_form ''client_id'' = ''id''" "values_get open_form ''redirect_uri'' = ''https://a''"
  "values_get open_form ''code_challenge'' = ''ch''" "values_get open_form ''code_challenge_method'' = ''S256''"
  "values_get open_form ''scope'' = []" "values_get open_form ''password'' = []" "values_all open_form ''resource'' = []"
  "values_get open_form ''operator_login'' = []" "values_get open_form ''github_consent'' = []"
  by (simp_all add: open_form_def values_get_def values_all_def)

lemma open_stores:
  "\<exists>reply db' c. handle_authorize_post open_server (\<lambda>_. None) (\<lambda>_. 0) open_random open_request open_db = (reply, db')
     \<and> c \<in> set (od_codes db')"
proof -
  let ?d = "\<lparr>cd_client_id = ''id'', cd_redirect_uri = ''https://a'', cd_state = values_get open_form ''state'', cd_challenge = ''ch'',
      cd_method = ''S256'', cd_scope = ''mcp offline_access'',
      cd_label = default_label (trim_space (values_get open_form ''agent_label'')) \<lparr>oc_id = ''id'', oc_name = ''agent'', oc_redirects = [''https://a'']\<rparr>\<rparr>"
  have "handle_authorize_post open_server (\<lambda>_. None) (\<lambda>_. 0) open_random open_request open_db
      = approve_authorize open_server (\<lambda>_. 0) open_random \<lparr>oc_id = ''id'', oc_name = ''agent'', oc_redirects = [''https://a'']\<rparr> ?d
          (trim_space (values_get open_form ''invite'')) False open_db"
    by (simp add: handle_authorize_post_def open_parts open_values Let_def valid_resource_def valid_redirect_def
        redirect_matches_def operator_approved_def)
  also have "\<dots> = issue_code open_server 0 (Some ''r'') ?d (''open_register'', None) open_db"
    by (simp add: approve_authorize_def open_parts mint_decision_def public_issuance_mode_def open_db_def open_random_def Let_def)
  finally have eq: "handle_authorize_post open_server (\<lambda>_. None) (\<lambda>_. 0) open_random open_request open_db
      = issue_code open_server 0 (Some ''r'') ?d (''open_register'', None) open_db" .
  have "od_codes (snd (issue_code open_server 0 (Some ''r'') ?d (''open_register'', None) open_db)) \<noteq> []"
    by (simp add: issue_code_def Let_def open_db_def split: option.split)
  then show ?thesis unfolding eq by (metis list.set_sel(1) prod.collapse)
qed

lemma code_needs_consent_witness:
  "\<exists>reply db' c. handle_authorize_post open_server (\<lambda>_. None) (\<lambda>_. 0) open_random open_request open_db = (reply, db')
     \<and> c \<in> set (od_codes db') \<and> co_method c = ''S256'' \<and> co_challenge c \<noteq> []"
proof -
  obtain reply db' c where s: "handle_authorize_post open_server (\<lambda>_. None) (\<lambda>_. 0) open_random open_request open_db = (reply, db')"
    "c \<in> set (od_codes db')"
    using open_stores by blast
  have "c \<notin> set (od_codes open_db)" "wf_invites (od_invites open_db)"
    by (simp_all add: open_db_def wf_invites_def) (simp add: empty_table_def)
  from code_needs_consent [OF s this] s show ?thesis by blast
qed

section \<open>GitHub approvals\<close>

lemma take_flow_Inr:
  assumes "take_flow sv now c token browser phase db = (Inr f, db')"
  obtains r where "r \<in> set (ld_flows db)" "flow_matches sv now c token browser phase db r"
    "open_payload sv r = Some f" "db' = db\<lparr>ld_flows := filter (\<lambda>x. \<not> flow_matches sv now c token browser phase db x) (ld_flows db)\<rparr>"
  using assms by (auto simp: take_flow_def split: if_splits option.splits dest: list_find_Some)

lemma consume_proof_None:
  assumes "consume_proof sv now r token form db = (None, db')"
  obtains c browser f where "enabled_config sv db = Inr c" "same_site sv r" "lq_cookie r = Some browser"
    "take_flow sv now c token browser ''consent'' db = (Inr f, db')" "allowed_user c (lf_user_id f)"
    "encode_values (lf_form f) = encode_values form"
  using assms by (auto simp: consume_proof_def split: sum.splits if_splits option.splits prod.splits)

text \<open>
  C32. A GitHub approval is spent by its use: when a proof is accepted, it was stored for the
  browser that presents it, for the current revision of the configuration and not expired, the
  user sealed in it is still allowed, and the sealed form carries the same values; the stored flow
  is gone, so that presenting the proof again, at any later time and with any form, is denied.
\<close>

theorem github_approval_single_use:
  assumes "consume_proof sv now r token form db = (None, db')"
    "distinct (map fr_token_hash (ld_flows db))"
  shows "(\<exists>c browser (f :: login_flow) row. enabled_config sv db = Inr c \<and> lq_cookie r = Some browser \<and> row \<in> set (ld_flows db)
       \<and> fr_token_hash row = login_hash sv token \<and> fr_browser_hash row = login_hash sv browser
       \<and> fr_revision row = lc_revision c \<and> fr_phase row = ''consent'' \<and> now div second < fr_expires_at row
       \<and> open_payload sv row = Some f \<and> allowed_user c (lf_user_id f)
       \<and> (flat_values form \<noteq> [] \<and> flat_values (lf_form f) \<noteq> [] \<longrightarrow> flat_values (lf_form f) = flat_values form))
    \<and> (\<forall>row \<in> set (ld_flows db'). fr_token_hash row \<noteq> login_hash sv token)
    \<and> fst (consume_proof sv now' r' token form' db') \<noteq> None"
proof (rule consume_proof_None [OF assms(1)])
  fix c browser and f :: login_flow
  assume c: "enabled_config sv db = Inr c" "lq_cookie r = Some browser"
    "take_flow sv now c token browser ''consent'' db = (Inr f, db')" "allowed_user c (lf_user_id f)"
    "encode_values (lf_form f) = encode_values form"
  show ?thesis
  proof (rule take_flow_Inr [OF c(3)])
    fix row
    assume row: "row \<in> set (ld_flows db)" "flow_matches sv now c token browser ''consent'' db row"
      and sealed: "open_payload sv row = Some f"
      and db': "db' = db\<lparr>ld_flows := filter (\<lambda>x. \<not> flow_matches sv now c token browser ''consent'' db x) (ld_flows db)\<rparr>"
    have gone: "\<forall>x \<in> set (ld_flows db'). fr_token_hash x \<noteq> login_hash sv token"
    proof
      fix x assume "x \<in> set (ld_flows db')"
      then have x: "x \<in> set (ld_flows db)" "x \<noteq> row" using row db' by auto
      with row(1) assms(2) have "fr_token_hash x \<noteq> fr_token_hash row" by (auto simp: distinct_map dest: inj_onD)
      with row(2) show "fr_token_hash x \<noteq> login_hash sv token" by (simp add: flow_matches_def)
    qed
    have "fst (consume_proof sv now' r' token form' db') \<noteq> None"
    proof
      assume "fst (consume_proof sv now' r' token form' db') = None"
      then obtain db'' where "consume_proof sv now' r' token form' db' = (None, db'')" by (metis prod.collapse)
      then show False
      proof (rule consume_proof_None)
        fix c2 b2 f2
        assume "take_flow sv now' c2 token b2 ''consent'' db' = (Inr f2, db'')"
        then show False by (rule take_flow_Inr) (use gone in \<open>auto simp: flow_matches_def\<close>)
      qed
    qed
    moreover have "flat_values form \<noteq> [] \<and> flat_values (lf_form f) \<noteq> [] \<longrightarrow> flat_values (lf_form f) = flat_values form"
      using encode_values_inj c(5) by blast
    moreover have "fr_token_hash row = login_hash sv token \<and> fr_browser_hash row = login_hash sv browser
       \<and> fr_revision row = lc_revision c \<and> fr_phase row = ''consent'' \<and> now div second < fr_expires_at row"
      using row(2) by (simp add: flow_matches_def)
    ultimately show ?thesis using c(1,2,4) row(1) sealed gone by blast
  qed
qed

text \<open>A stored approval, and its use from the browser it was given in.\<close>

definition login_demo :: login_service where
  "login_demo = \<lparr>ls_crypto = demo_crypto, ls_key = replicate 32 (CHR ''m''), ls_issuer = ''https://mcp.example''\<rparr>"

definition demo_config :: login_config where
  "demo_config = \<lparr>lc_enabled = True, lc_client_id = ''app'', lc_secret = ''s'', lc_allowed = [''7''], lc_revision = ''rev''\<rparr>"

definition demo_flow :: login_flow where
  "demo_flow = \<lparr>lf_form = [(''state'', [''x''])], lf_verifier = [], lf_user_id = ''7'', lf_login = ''op''\<rparr>"

definition demo_token43 :: string where "demo_token43 = replicate 43 (CHR ''t'')"
definition demo_browser43 :: string where "demo_browser43 = replicate 43 (CHR ''b'')"

definition approval_db :: login_db where
  "approval_db = \<lparr>ld_settings = \<lparr>sd_providers = Map.empty,
       sd_settings = [login_setting_key \<mapsto> (encode_config demo_config, stamp 0)]\<rparr>,
     ld_flows = [\<lparr>fr_token_hash = login_hash login_demo demo_token43, fr_browser_hash = login_hash login_demo demo_browser43,
       fr_revision = ''rev'', fr_phase = ''consent'',
       fr_payload = base64_encode base64_std (demo_nonce @ CHR ''S'' # encode_flow demo_flow), fr_expires_at = 600\<rparr>]\<rparr>"

definition approval_request :: login_request where
  "approval_request = \<lparr>lq_origin = [], lq_fetch_site = [], lq_cookie = Some demo_browser43, lq_query = []\<rparr>"

lemma approval_parts:
  "decode_config (encode_config demo_config) = Some demo_config"
  "parse_json (encode_config demo_config) = Some (JObj [(''enabled'', JBool True), (''client_id'', JStr ''app''),
     (''secret_ciphertext'', JStr ''s''), (''allowed_user_ids'', JArr [JStr ''7'']), (''revision'', JStr ''rev'')])"
  "decode_flow (encode_flow demo_flow) = Some demo_flow"
  unfolding demo_config_def demo_flow_def by code_simp+

lemma approval_consumed:
  "consume_proof login_demo 0 approval_request demo_token43 (lf_form demo_flow) approval_db = (None, approval_db\<lparr>ld_flows := []\<rparr>)"
proof -
  have cfg: "enabled_config login_demo approval_db = Inr demo_config"
    by (simp add: enabled_config_def load_config_def approval_db_def approval_parts)
       (simp add: demo_config_def login_demo_def)
  have act: "config_active approval_db ''rev''"
    by (simp add: config_active_def approval_db_def approval_parts)
  have len: "length demo_token43 = 43" "length demo_browser43 = 43" by (simp_all add: demo_token43_def demo_browser43_def)
  have dec: "base64_decode base64_std (base64_encode base64_std x) = Some x" for x
    by (rule base64_decode_encode) (simp_all add: base64_alphabets, simp_all add: base64_std_def)
  have opened: "decrypt (ls_crypto login_demo) (ls_key login_demo) (demo_nonce @ CHR ''S'' # p) = Inr p" for p
    by (simp add: decrypt_def login_demo_def demo_crypto_def demo_nonce_def gcm_nonce_size_def)
  have rev: "lc_revision demo_config = ''rev''" by (simp add: demo_config_def)
  have m: "flow_matches login_demo 0 demo_config demo_token43 demo_browser43 ''consent'' approval_db r"
    if "r \<in> set (ld_flows approval_db)" for r
    using that act by (simp add: flow_matches_def rev) (simp add: approval_db_def)
  obtain row where row: "ld_flows approval_db = [row]" "fr_payload row = base64_encode base64_std (demo_nonce @ CHR ''S'' # encode_flow demo_flow)"
    by (simp add: approval_db_def)
  have "take_flow login_demo 0 demo_config demo_token43 demo_browser43 ''consent'' approval_db
      = (Inr demo_flow, approval_db\<lparr>ld_flows := []\<rparr>)"
    using m row by (simp add: take_flow_def open_payload_def len dec opened approval_parts)
  then show ?thesis
    by (simp add: consume_proof_def cfg approval_request_def same_site_def allowed_user_def)
       (simp add: demo_config_def demo_flow_def)
qed

lemma github_approval_single_use_witness:
  "consume_proof login_demo 0 approval_request demo_token43 (lf_form demo_flow) approval_db = (None, approval_db\<lparr>ld_flows := []\<rparr>)
   \<and> fst (consume_proof login_demo 1 approval_request demo_token43 (lf_form demo_flow) (approval_db\<lparr>ld_flows := []\<rparr>)) \<noteq> None"
proof -
  have "distinct (map fr_token_hash (ld_flows approval_db))" by (simp add: approval_db_def)
  from github_approval_single_use [OF approval_consumed this] approval_consumed show ?thesis by blast
qed

end
