(* ===== verification/AuditLog.thy ===== *)
theory AuditLog
  imports Redact GoJson GoTime
begin

text \<open>
  internal/audit/audit.go: the audit log. A detail is stored only when it is a short list of
  \<open>key=value\<close> segments, and then redacted; an address is reduced to a category. Proved: the shape of
  what Record stores, and that ListRecent shows the newest events in the order they occurred.
\<close>

record audit_event =
  ae_actor_kind :: string
  ae_actor_id :: string
  ae_action :: string
  ae_target_kind :: string
  ae_target_id :: string
  ae_detail :: string
  ae_client_ip :: string

record stored_event =
  av_id :: rowid
  av_occurred_at :: timestamp
  av_actor_kind :: string
  av_actor_id :: "string option"
  av_action :: string
  av_target_kind :: "string option"
  av_target_id :: "string option"
  av_detail :: string
  av_client_ip :: "string option"

record audit_filter =
  ad_action :: string
  ad_actor_kind :: string
  ad_from :: string
  ad_to :: string
  ad_limit :: int
  ad_offset :: int

type_synonym audit_table = "stored_event table"

definition no_event :: audit_event where
  "no_event = \<lparr>ae_actor_kind = [], ae_actor_id = [], ae_action = [], ae_target_kind = [],
     ae_target_id = [], ae_detail = [], ae_client_ip = []\<rparr>"

definition no_audit_filter :: audit_filter where
  "no_audit_filter = \<lparr>ad_action = [], ad_actor_kind = [], ad_from = [], ad_to = [], ad_limit = 0, ad_offset = 0\<rparr>"

section \<open>Details\<close>

definition audit_detail_max_len :: nat where "audit_detail_max_len = 80"
definition audit_detail_fallback :: string where "audit_detail_fallback = ''action_recorded''"

text \<open>Runes as the regexp engine counts them: an invalid byte is one rune.\<close>

function rune_count :: "string \<Rightarrow> nat" where
  "rune_count s = (if s = [] then 0 else Suc (rune_count (drop (max 1 (rune_len s)) s)))"
  by pat_completeness auto

termination
  by (relation "measure length") auto

declare rune_count.simps [simp del]

definition lower_letter :: "char \<Rightarrow> bool" where
  "lower_letter c \<longleftrightarrow> (let n = of_char c :: nat in 97 \<le> n \<and> n \<le> 122)"

text \<open>\<open>^[a-z][a-z0-9_]*=[^{}\n]{1,64}$\<close>\<close>

definition audit_detail_segment :: "string \<Rightarrow> bool" where
  "audit_detail_segment s =
     (case cut_at (CHR ''='') s of
        None \<Rightarrow> False
      | Some (key, val) \<Rightarrow>
          key \<noteq> [] \<and> lower_letter (hd key)
          \<and> list_all (\<lambda>c. lower_letter c \<or> is_digit c \<or> c = CHR ''_'') (tl key)
          \<and> val \<noteq> [] \<and> rune_count val \<le> 64
          \<and> list_all (\<lambda>c. c \<noteq> CHR ''{'' \<and> c \<noteq> CHR ''}'' \<and> c \<noteq> CHR 0x0A) val)"

definition nonempty_parts :: "char \<Rightarrow> string \<Rightarrow> string list" where
  "nonempty_parts sep s = filter (\<lambda>p. p \<noteq> []) (map trim_space (split_on sep s))"

definition split_audit_detail_parts :: "string \<Rightarrow> string list" where
  "split_audit_detail_parts detail =
     (let d = trim_space detail in
      if d = [] then []
      else if CHR '';'' \<in> set d then nonempty_parts (CHR '';'') d
      else if CHR '','' \<in> set d then nonempty_parts (CHR '','') d
      else [d])"

definition is_categorical_audit_detail :: "string \<Rightarrow> bool" where
  "is_categorical_audit_detail detail =
     (let lower = to_lower detail; parts = split_audit_detail_parts detail in
      if audit_detail_max_len < length detail then False
      else if list_ex (\<lambda>c. c = CHR ''{'' \<or> c = CHR ''}'' \<or> c = CHR 0x0A \<or> c = CHR 0x0D) detail then False
      else if contains ''request body'' lower \<or> contains (CHR 0x22 # ''messages'' @ [CHR 0x22]) lower
              \<or> contains ''prompt'' lower \<or> contains (CHR 0x22 # ''content'' @ [CHR 0x22]) lower then False
      else if parts = [] then False
      else list_all audit_detail_segment parts)"

definition sanitize_audit_detail :: "string \<Rightarrow> string \<Rightarrow> string" where
  "sanitize_audit_detail detail action =
     (if detail = [] then []
      else if \<not> is_categorical_audit_detail detail then
        (if action \<noteq> [] then action else audit_detail_fallback)
      else redact detail)"

definition redact_client_ip :: "string \<Rightarrow> string" where
  "redact_client_ip ip0 =
     (let ip = trim_space ip0; parts = split_on (CHR ''.'') ip in
      if ip = [] then []
      else if CHR '':'' \<in> set ip then ''ipv6''
      else if length parts = 4 then hd parts @ ''.x.x.x''
      else ''ip'')"

section \<open>Record\<close>

definition null_if_empty :: "string \<Rightarrow> string option" where
  "null_if_empty s = (if s = [] then None else Some s)"

definition build_event :: "instant \<Rightarrow> audit_event \<Rightarrow> rowid \<Rightarrow> stored_event" where
  "build_event now ev i =
     \<lparr>av_id = i, av_occurred_at = stamp now,
      av_actor_kind = (if ae_actor_kind ev = [] then ''system'' else ae_actor_kind ev),
      av_actor_id = null_if_empty (ae_actor_id ev), av_action = ae_action ev,
      av_target_kind = null_if_empty (ae_target_kind ev), av_target_id = null_if_empty (ae_target_id ev),
      av_detail = sanitize_audit_detail (ae_detail ev) (ae_action ev),
      av_client_ip = null_if_empty (redact_client_ip (ae_client_ip ev))\<rparr>"

definition audit_record :: "instant \<Rightarrow> audit_event \<Rightarrow> audit_table \<Rightarrow> string + audit_table" where
  "audit_record now ev t =
     (if ae_action ev = [] then Inl ''audit: action required''
      else Inr (snd (insert_row (build_event now ev) t)))"

text \<open>The handlers ignore the error of Record.\<close>

definition audit_ignored :: "instant \<Rightarrow> audit_event \<Rightarrow> audit_table \<Rightarrow> audit_table" where
  "audit_ignored now ev t = (case audit_record now ev t of Inl _ \<Rightarrow> t | Inr t' \<Rightarrow> t')"

section \<open>List\<close>

definition audit_matches :: "audit_filter \<Rightarrow> stored_event \<Rightarrow> bool" where
  "audit_matches f r \<longleftrightarrow>
     (ad_action f \<noteq> [] \<longrightarrow> av_action r = ad_action f)
     \<and> (ad_actor_kind f \<noteq> [] \<longrightarrow> av_actor_kind r = ad_actor_kind f)
     \<and> (ad_from f \<noteq> [] \<longrightarrow> ad_from f \<le> av_occurred_at r)
     \<and> (ad_to f \<noteq> [] \<longrightarrow> av_occurred_at r \<le> ad_to f)"

definition audit_list :: "audit_filter \<Rightarrow> audit_table \<Rightarrow> stored_event list" where
  "audit_list f t =
     (let found = sort_key av_id (filter (audit_matches f) (rows t)) in
      if 0 < ad_limit f then
        take (nat (ad_limit f)) (if 0 < ad_offset f then drop (nat (ad_offset f)) found else found)
      else found)"

definition audit_list_recent :: "int \<Rightarrow> audit_table \<Rightarrow> string + stored_event list" where
  "audit_list_recent limit t =
     (if limit < 1 then Inl ''audit: limit must be >= 1''
      else Inr (rev (take (nat limit) (rev (sort_key av_id (rows t))))))"

section \<open>What is stored\<close>

lemma audit_record_Inr:
  assumes "audit_record now ev t = Inr t'"
  shows "ae_action ev \<noteq> []" "rows t' = rows t @ [build_event now ev (tseq t + 1)]" "tseq t' = tseq t + 1"
  using assms by (auto simp: audit_record_def table_simps split: if_splits)

lemma cut_at_Some: "cut_at c s = Some (a, b) \<Longrightarrow> s = a @ c # b"
  by (induction s arbitrary: a) (auto split: if_splits)

text \<open>The parts of a detail, and the shape that the pattern of a part gives it.\<close>

lemma split_detail:
  "split_audit_detail_parts detail =
     (let d = trim_space detail in nonempty_parts (if CHR '';'' \<in> set d then CHR '';'' else CHR '','') d)"
proof -
  have "split_on c x = [x]" if "c \<notin> set x" for c :: char and x using that by (induction x) auto
  then show ?thesis by (auto simp: split_audit_detail_parts_def nonempty_parts_def Let_def)
qed

lemma segment_shape:
  assumes "audit_detail_segment s"
  shows "\<exists>key val. s = key @ ''='' @ val \<and> key \<noteq> [] \<and> lower_letter (hd key)
    \<and> list_all (\<lambda>c. lower_letter c \<or> is_digit c \<or> c = CHR ''_'') key
    \<and> val \<noteq> [] \<and> rune_count val \<le> 64 \<and> list_all (\<lambda>c. c \<notin> {CHR ''{'', CHR ''}'', CHR 0x0A}) val"
proof -
  from assms obtain key val where c: "cut_at (CHR ''='') s = Some (key, val)" and *: "key \<noteq> []" "lower_letter (hd key)"
    "list_all (\<lambda>c. lower_letter c \<or> is_digit c \<or> c = CHR ''_'') (tl key)" "val \<noteq> []" "rune_count val \<le> 64"
    "list_all (\<lambda>c. c \<noteq> CHR ''{'' \<and> c \<noteq> CHR ''}'' \<and> c \<noteq> CHR 0x0A) val"
    by (auto simp: audit_detail_segment_def split: option.splits)
  from *(1-3) have "list_all (\<lambda>c. lower_letter c \<or> is_digit c \<or> c = CHR ''_'') key" by (cases key) auto
  with * cut_at_Some [OF c] show ?thesis by (intro exI [of _ key] exI [of _ val]) simp
qed

text \<open>What Record stores of a detail that is neither empty nor replaced by the action.\<close>

lemma sanitize_cases:
  assumes "a \<noteq> []" "sanitize_audit_detail d a \<notin> {[], a}"
  shows "sanitize_audit_detail d a = redact d" "length d \<le> 80"
    "list_all (\<lambda>c. c \<notin> {CHR ''{'', CHR ''}'', CHR 0x0A, CHR 0x0D}) d"
    "list_all (\<lambda>m. \<not> contains m (to_lower d))
       [''request body'', ''prompt'', CHR 0x22 # ''messages'' @ [CHR 0x22], CHR 0x22 # ''content'' @ [CHR 0x22]]"
    "split_audit_detail_parts d \<noteq> []" "list_all audit_detail_segment (split_audit_detail_parts d)"
  using assms
  by (auto simp: sanitize_audit_detail_def is_categorical_audit_detail_def audit_detail_max_len_def Let_def
      list_ex_iff list_all_iff split: if_splits)

lemma redacted_clean: "length (redact_text d) \<le> 256 \<Longrightarrow> clean sk_like_len None (redact d)"
proof -
  have "clean sk_like_len None ''upstream_error''" by code_simp
  then show "length (redact_text d) \<le> 256 \<Longrightarrow> clean sk_like_len None (redact d)"
    using clean_redact_text by (simp add: redact_def redact_max_len_def Let_def)
qed

lemma sanitized_detail:
  assumes "a \<noteq> []" "x = sanitize_audit_detail d a"
  shows "x \<in> {[], a}
        \<or> x = redact d \<and> length d \<le> 80
          \<and> list_all (\<lambda>c. c \<notin> {CHR ''{'', CHR ''}'', CHR 0x0A, CHR 0x0D}) d
          \<and> list_all (\<lambda>m. \<not> contains m (to_lower d))
              [''request body'', ''prompt'', CHR 0x22 # ''messages'' @ [CHR 0x22], CHR 0x22 # ''content'' @ [CHR 0x22]]
          \<and> (let d = trim_space d; sep = (if CHR '';'' \<in> set d then CHR '';'' else CHR '','');
                 parts = filter (\<lambda>p. p \<noteq> []) (map trim_space (split_on sep d)) in
             parts \<noteq> [] \<and> (\<forall>part \<in> set parts. \<exists>key val. part = key @ ''='' @ val
               \<and> key \<noteq> [] \<and> lower_letter (hd key)
               \<and> list_all (\<lambda>c. lower_letter c \<or> is_digit c \<or> c = CHR ''_'') key
               \<and> val \<noteq> [] \<and> rune_count val \<le> 64
               \<and> list_all (\<lambda>c. c \<notin> {CHR ''{'', CHR ''}'', CHR 0x0A}) val))
          \<and> (if length (redact_text d) \<le> 256 then clean sk_like_len None x else True)"
proof (cases "sanitize_audit_detail d a \<in> {[], a}")
  case False
  note x = sanitize_cases [OF assms(1) False]
  note parts = x(5,6) [unfolded split_detail nonempty_parts_def Let_def list_all_iff]
  have "if length (redact_text d) \<le> 256 then clean sk_like_len None (redact d) else True"
    using redacted_clean by simp
  with parts show ?thesis
    unfolding assms(2) x(1) Let_def by (intro disjI2 conjI ballI refl x(2-4)) (blast intro: segment_shape)+
qed (simp add: assms(2))

interpretation audit_rows: rowid_table av_id "build_event now" for now
  by unfold_locales (simp add: build_event_def)

lemma audit_record_wf: "wf_table av_id t \<Longrightarrow> audit_record now ev t = Inr t' \<Longrightarrow> wf_table av_id t'"
  using audit_rows.insert_wf [of t now ev] by (auto simp: audit_record_def split: if_splits)

lemma audit_ignored_wf: "wf_table av_id t \<Longrightarrow> wf_table av_id (audit_ignored now ev t)"
  by (auto simp: audit_ignored_def intro: audit_record_wf split: sum.splits)

lemma audit_list_recent_rows:
  "wf_table av_id t \<Longrightarrow> 1 \<le> n \<Longrightarrow> audit_list_recent n t = Inr (drop (length (rows t) - nat n) (rows t))"
  by (simp add: audit_list_recent_def wf_sorted_all take_rev)

text \<open>An address is stored as its category: at most its first octet.\<close>

lemma split_on_count: "length (split_on c s) = Suc (count_list s c)" "hd (split_on c s) = takeWhile (\<lambda>x. x \<noteq> c) s"
  by (induction s) (auto split: list.splits)

lemma redact_client_ip_category:
  "null_if_empty (redact_client_ip address) =
     (let ip = trim_space address in
      if ip = [] then None
      else if CHR '':'' \<in> set ip then Some ''ipv6''
      else if count_list ip (CHR ''.'') = 3 then Some (takeWhile (\<lambda>c. c \<noteq> CHR ''.'') ip @ ''.x.x.x'')
      else Some ''ip'')"
  by (simp add: redact_client_ip_def null_if_empty_def split_on_count Let_def)

section \<open>Properties\<close>

text \<open>
  C35. What the audit log keeps of an event: it is appended as one row whose detail is empty, the action's
  name, or the redaction of a detail that has at most 80 bytes, no brace and no line break, none of the
  words that mark a request body or a prompt, and that consists of key=value segments, each with a lower
  case key and a value of at most 64 characters; nothing that looks like an sk key is left in it. The
  client's address is kept as ipv6, as ip, or as the first octet of the address that was given. The listing of
  recent events ends with the new row, and shows the newest rows in the order they occurred.
\<close>

theorem audit_stores_categories:
  assumes "wf_table av_id t" "audit_record now ev t = Inr t'" "1 \<le> n"
  shows "\<exists>row. rows t' = rows t @ [row] \<and> av_action row = ae_action ev \<and> av_occurred_at row = stamp now
     \<and> (av_detail row \<in> {[], ae_action ev}
        \<or> av_detail row = redact (ae_detail ev) \<and> length (ae_detail ev) \<le> 80
          \<and> list_all (\<lambda>c. c \<notin> {CHR ''{'', CHR ''}'', CHR 0x0A, CHR 0x0D}) (ae_detail ev)
          \<and> list_all (\<lambda>m. \<not> contains m (to_lower (ae_detail ev)))
              [''request body'', ''prompt'', CHR 0x22 # ''messages'' @ [CHR 0x22], CHR 0x22 # ''content'' @ [CHR 0x22]]
          \<and> (let d = trim_space (ae_detail ev); sep = (if CHR '';'' \<in> set d then CHR '';'' else CHR '','');
                 parts = filter (\<lambda>p. p \<noteq> []) (map trim_space (split_on sep d)) in
             parts \<noteq> [] \<and> (\<forall>part \<in> set parts. \<exists>key val. part = key @ ''='' @ val
               \<and> key \<noteq> [] \<and> lower_letter (hd key)
               \<and> list_all (\<lambda>c. lower_letter c \<or> is_digit c \<or> c = CHR ''_'') key
               \<and> val \<noteq> [] \<and> rune_count val \<le> 64
               \<and> list_all (\<lambda>c. c \<notin> {CHR ''{'', CHR ''}'', CHR 0x0A}) val))
          \<and> (if length (redact_text (ae_detail ev)) \<le> 256 then clean sk_like_len None (av_detail row) else True))
     \<and> av_client_ip row =
         (let ip = trim_space (ae_client_ip ev) in
          if ip = [] then None
          else if CHR '':'' \<in> set ip then Some ''ipv6''
          else if count_list ip (CHR ''.'') = 3 then Some (takeWhile (\<lambda>c. c \<noteq> CHR ''.'') ip @ ''.x.x.x'')
          else Some ''ip'')
     \<and> wf_table av_id t'
     \<and> audit_list_recent n t' = Inr (drop (Suc (length (rows t)) - nat n) (rows t @ [row]))"
proof -
  let ?row = "build_event now ev (tseq t + 1)"
  note rec = audit_record_Inr [OF assms(2)] and wf = audit_record_wf [OF assms(1,2)]
  have detail: "av_detail ?row = sanitize_audit_detail (ae_detail ev) (ae_action ev)" by (simp add: build_event_def)
  have address: "av_client_ip ?row = null_if_empty (redact_client_ip (ae_client_ip ev))" by (simp add: build_event_def)
  show ?thesis
  proof (intro exI [of _ ?row] conjI)
    show "audit_list_recent n t' = Inr (drop (Suc (length (rows t)) - nat n) (rows t @ [?row]))"
      using audit_list_recent_rows [OF wf assms(3)] by (simp add: rec(2))
  qed (rule rec(2) wf sanitized_detail [OF rec(1) detail] address [unfolded redact_client_ip_category]
      | simp add: build_event_def)+
qed

definition demo_event :: audit_event where
  "demo_event = no_event\<lparr>ae_action := ''gateway_key.create'', ae_detail := ''please summarise my mail'',
     ae_client_ip := ''203.0.113.9''\<rparr>"

lemma audit_stores_categories_witness:
  "\<exists>t' row. audit_record 5 demo_event empty_table = Inr t' \<and> rows t' = [row]
     \<and> av_detail row = ''gateway_key.create'' \<and> av_client_ip row = Some ''203.x.x.x''
     \<and> audit_list_recent 20 t' = Inr [row]"
proof -
  have free: "\<not> is_categorical_audit_detail ''please summarise my mail''" by code_simp
  obtain t' where e: "audit_record 5 demo_event empty_table = Inr t'"
    by (simp add: audit_record_def demo_event_def no_event_def)
  from audit_stores_categories [OF wf_table_empty e, of 20] obtain row where
    "rows t' = [row]" "audit_list_recent 20 t' = Inr [row]"
    by (auto simp: empty_table_def)
  moreover from this(1) audit_record_Inr(2) [OF e] have "row = build_event 5 demo_event 1"
    by (simp add: empty_table_def)
  moreover have "redact_client_ip ''203.0.113.9'' = ''203.x.x.x''" by code_simp
  ultimately show ?thesis
    using e free by (simp add: build_event_def demo_event_def no_event_def sanitize_audit_detail_def null_if_empty_def)
qed

end
