(* ===== verification/GoJsonFields.thy ===== *)
theory GoJsonFields
  imports GoJsonText "HOL-Library.AList"
begin

text \<open>
  The struct fields that the quota payloads decode: pointers to integers and strings, nested
  structs, slices, maps of structs, and \<open>float64\<close> numbers that are converted to \<open>int64\<close>.
  None is a type error, which makes the whole decoding fail.
\<close>

section \<open>Pointers\<close>

fun last_int_ptr :: "int option \<Rightarrow> json list \<Rightarrow> int option option" where
  "last_int_ptr acc [] = Some acc"
| "last_int_ptr acc (JNull # vs) = last_int_ptr None vs"
| "last_int_ptr acc (JNum t # vs) = (case parse_int64 t of None \<Rightarrow> None | Some n \<Rightarrow> last_int_ptr (Some n) vs)"
| "last_int_ptr acc (_ # vs) = None"

definition int_ptr_field :: "string list \<Rightarrow> string \<Rightarrow> (string \<times> json) list \<Rightarrow> int option option" where
  "int_ptr_field names f ms = last_int_ptr None (field_values names f ms)"

fun last_string_ptr :: "string option \<Rightarrow> json list \<Rightarrow> string option option" where
  "last_string_ptr acc [] = Some acc"
| "last_string_ptr acc (JNull # vs) = last_string_ptr None vs"
| "last_string_ptr acc (JStr s # vs) = last_string_ptr (Some s) vs"
| "last_string_ptr acc (_ # vs) = None"

definition string_ptr_field :: "string list \<Rightarrow> string \<Rightarrow> (string \<times> json) list \<Rightarrow> string option option" where
  "string_ptr_field names f ms = last_string_ptr None (field_values names f ms)"

fun last_bool_ptr :: "bool option \<Rightarrow> json list \<Rightarrow> bool option option" where
  "last_bool_ptr acc [] = Some acc"
| "last_bool_ptr acc (JNull # vs) = last_bool_ptr None vs"
| "last_bool_ptr acc (JBool b # vs) = last_bool_ptr (Some b) vs"
| "last_bool_ptr acc (_ # vs) = None"

definition bool_ptr_field :: "string list \<Rightarrow> string \<Rightarrow> (string \<times> json) list \<Rightarrow> bool option option" where
  "bool_ptr_field names f ms = last_bool_ptr None (field_values names f ms)"

section \<open>Structs\<close>

text \<open>Objects that reach one struct are decoded into it one after the other; null leaves it alone.\<close>

fun last_members :: "(string \<times> json) list \<Rightarrow> json list \<Rightarrow> (string \<times> json) list option" where
  "last_members acc [] = Some acc"
| "last_members acc (JNull # vs) = last_members acc vs"
| "last_members acc (JObj ms # vs) = last_members (acc @ ms) vs"
| "last_members acc (_ # vs) = None"

definition struct_field :: "string list \<Rightarrow> string \<Rightarrow> (string \<times> json) list \<Rightarrow> (string \<times> json) list option" where
  "struct_field names f ms = last_members [] (field_values names f ms)"

text \<open>A pointer to a struct: null makes it nil again.\<close>

fun last_members_ptr :: "(string \<times> json) list option \<Rightarrow> json list \<Rightarrow> (string \<times> json) list option option" where
  "last_members_ptr acc [] = Some acc"
| "last_members_ptr acc (JNull # vs) = last_members_ptr None vs"
| "last_members_ptr acc (JObj ms # vs) =
     last_members_ptr (Some ((case acc of None \<Rightarrow> [] | Some xs \<Rightarrow> xs) @ ms)) vs"
| "last_members_ptr acc (_ # vs) = None"

definition struct_ptr_field :: "string list \<Rightarrow> string \<Rightarrow> (string \<times> json) list \<Rightarrow> (string \<times> json) list option option" where
  "struct_ptr_field names f ms = last_members_ptr None (field_values names f ms)"

text \<open>The whole document as a struct.\<close>

definition document_members :: "bytes \<Rightarrow> (string \<times> json) list option" where
  "document_members body =
     (case parse_json body of
        Some (JObj ms) \<Rightarrow> Some ms | Some JNull \<Rightarrow> Some [] | _ \<Rightarrow> None)"

section \<open>Slices and maps of structs\<close>

fun last_elems :: "json list \<Rightarrow> json list \<Rightarrow> json list option" where
  "last_elems acc [] = Some acc"
| "last_elems acc (JNull # vs) = last_elems [] vs"
| "last_elems acc (JArr xs # vs) = last_elems xs vs"
| "last_elems acc (_ # vs) = None"

definition slice_field :: "string list \<Rightarrow> string \<Rightarrow> (string \<times> json) list \<Rightarrow> json list option" where
  "slice_field names f ms = last_elems [] (field_values names f ms)"

text \<open>The members of a struct that is an element: an object, or null for the zero value.\<close>

fun elem_members :: "json \<Rightarrow> (string \<times> json) list option" where
  "elem_members (JObj ms) = Some ms"
| "elem_members JNull = Some []"
| "elem_members _ = None"

fun decode_all :: "('a \<Rightarrow> 'b option) \<Rightarrow> 'a list \<Rightarrow> 'b list option" where
  "decode_all f [] = Some []"
| "decode_all f (x # xs) =
     (case f x of None \<Rightarrow> None
      | Some y \<Rightarrow> (case decode_all f xs of None \<Rightarrow> None | Some ys \<Rightarrow> Some (y # ys)))"

lemma decode_all_length: "decode_all f xs = Some ys \<Longrightarrow> length ys = length xs"
  by (induction xs arbitrary: ys) (auto split: option.splits)

fun last_map :: "(string \<times> json) list \<Rightarrow> json list \<Rightarrow> (string \<times> json) list option" where
  "last_map acc [] = Some acc"
| "last_map acc (JNull # vs) = last_map [] vs"
| "last_map acc (JObj ms # vs) = last_map (acc @ ms) vs"
| "last_map acc (_ # vs) = None"

definition map_field :: "string list \<Rightarrow> string \<Rightarrow> (string \<times> json) list \<Rightarrow> (string \<times> json) list option" where
  "map_field names f ms = last_map [] (field_values names f ms)"

text \<open>Every member is decoded; of those with the same key the last is kept.\<close>

definition keep_last :: "(string \<times> 'a) list \<Rightarrow> (string \<times> 'a) list" where
  "keep_last ms = fold (\<lambda>(k, v). AList.update k v) ms []"

section \<open>float64\<close>

text \<open>The decimal text of a number as mantissa and exponent of ten.\<close>

definition decimal_parts :: "string \<Rightarrow> bool \<times> nat \<times> int" where
  "decimal_parts t =
     (let neg = prefix ''-'' t; s = trim_prefix ''-'' t;
          whole = digits_prefix s; s1 = drop (length whole) s;
          frac = (if prefix ''.'' s1 then digits_prefix (drop 1 s1) else []);
          s2 = (if prefix ''.'' s1 then drop (Suc (length frac)) s1 else s1);
          ex = (if s2 = [] then 0
                else let e = drop 1 s2; m = prefix ''-'' e; ds = (if m \<or> prefix ''+'' e then drop 1 e else e)
                     in (if m then - int (digits_val ds) else int (digits_val ds)))
      in (neg, digits_val (whole @ frac), ex - int (length frac)))"

fun bit_length :: "nat \<Rightarrow> nat" where
  "bit_length n = (if n = 0 then 0 else Suc (bit_length (n div 2)))"

declare bit_length.simps [simp del]

definition round_half_even :: "nat \<Rightarrow> nat \<Rightarrow> nat" where
  "round_half_even n d =
     (let q = n div d; r = n mod d in
      if 2 * r < d then q else if d < 2 * r then Suc q else if even q then q else Suc q)"

text \<open>Whether \<open>2 ^ k \<le> n / d\<close>.\<close>

definition pow2_le :: "int \<Rightarrow> nat \<Rightarrow> nat \<Rightarrow> bool" where
  "pow2_le k n d = (if 0 \<le> k then d * 2 ^ nat k \<le> n else d \<le> n * 2 ^ nat (- k))"

text \<open>
  The double nearest to \<open>n / d\<close>, ties to even, as mantissa and exponent of two: 53 bits, an exponent
  of at least -1074; None when it exceeds the largest finite double.
\<close>

definition double_exponent :: "nat \<Rightarrow> nat \<Rightarrow> int" where
  "double_exponent n d =
     (let l0 = int (bit_length n) - int (bit_length d); l = (if pow2_le l0 n d then l0 else l0 - 1)
      in max (- 1074) (l - 52))"

definition mantissa_at :: "int \<Rightarrow> nat \<Rightarrow> nat \<Rightarrow> nat" where
  "mantissa_at e n d =
     (if 0 \<le> e then round_half_even n (d * 2 ^ nat e) else round_half_even (n * 2 ^ nat (- e)) d)"

definition finite_double :: "nat \<Rightarrow> int \<Rightarrow> bool" where
  "finite_double m e \<longleftrightarrow> e \<le> 0 \<or> m * 2 ^ nat e < 2 ^ 1024"

definition to_double :: "nat \<Rightarrow> nat \<Rightarrow> (nat \<times> int) option" where
  "to_double n d =
     (if n = 0 then Some (0, 0)
      else let e = double_exponent n d; m = mantissa_at e n d
           in if finite_double m e then Some (m, e) else None)"

text \<open>A \<open>float64\<close> as the sources use it: its sign, mantissa and exponent.\<close>

type_synonym float64 = "bool \<times> nat \<times> int"

definition parse_float64 :: "string \<Rightarrow> float64 option" where
  "parse_float64 t =
     (case decimal_parts t of (neg, n, ex) \<Rightarrow>
        map_option (\<lambda>(m, e). (neg, m, e))
          (if 0 \<le> ex then to_double (n * 10 ^ nat ex) 1 else to_double n (10 ^ nat (- ex))))"

definition float64_zero :: float64 where "float64_zero = (False, 0, 0)"

definition float64_positive :: "float64 \<Rightarrow> bool" where
  "float64_positive x = (case x of (neg, m, e) \<Rightarrow> \<not> neg \<and> m \<noteq> 0)"

text \<open>\<open>int64(x)\<close>: towards zero; out of range amd64 gives the smallest integer.\<close>

definition float64_to_int :: "float64 \<Rightarrow> int" where
  "float64_to_int x =
     (case x of (neg, m, e) \<Rightarrow>
        (let k = (if 0 \<le> e then m * 2 ^ nat e else m div 2 ^ nat (- e));
             i = (if neg then - int k else int k)
         in if - (2 ^ 63) \<le> i \<and> i < 2 ^ 63 then i else - (2 ^ 63)))"

fun last_float :: "float64 \<Rightarrow> json list \<Rightarrow> float64 option" where
  "last_float acc [] = Some acc"
| "last_float acc (JNull # vs) = last_float acc vs"
| "last_float acc (JNum t # vs) = (case parse_float64 t of None \<Rightarrow> None | Some x \<Rightarrow> last_float x vs)"
| "last_float acc (_ # vs) = None"

definition float_field :: "string list \<Rightarrow> string \<Rightarrow> (string \<times> json) list \<Rightarrow> float64 option" where
  "float_field names f ms = last_float float64_zero (field_values names f ms)"

section \<open>A whole number survives\<close>

lemma bit_length_bounds: "n \<noteq> 0 \<Longrightarrow> 2 ^ (bit_length n - 1) \<le> n \<and> n < 2 ^ bit_length n"
proof (induction n rule: bit_length.induct)
  case (1 n)
  show ?case
  proof (cases "n div 2 = 0")
    case True
    then have "n = 1" using 1(2) by linarith
    then show ?thesis by (simp add: bit_length.simps)
  next
    case False
    with 1 have ih: "2 ^ (bit_length (n div 2) - 1) \<le> n div 2" "n div 2 < 2 ^ bit_length (n div 2)" by auto
    have b: "bit_length n = Suc (bit_length (n div 2))" using 1(2) by (simp add: bit_length.simps [of n])
    have "bit_length (n div 2) \<noteq> 0" using False by (simp add: bit_length.simps [of "n div 2"])
    then have "(2 :: nat) ^ bit_length (n div 2) = 2 * 2 ^ (bit_length (n div 2) - 1)"
      by (metis Suc_pred' neq0_conv power_Suc)
    with ih b show ?thesis by simp linarith
  qed
qed

lemma float64_to_int_scaled:
  assumes "n < 2 ^ 53"
  shows "float64_to_int (neg, n * 2 ^ k, - int k) = (if neg then - int n else int n)"
proof -
  have "int n < 2 ^ 53" using assms by (metis of_nat_less_iff of_nat_numeral of_nat_power)
  then show ?thesis by (auto simp: float64_to_int_def Let_def)
qed

lemma to_double_int:
  assumes "n < 2 ^ 53"
  shows "\<exists>m e. to_double n 1 = Some (m, e) \<and> float64_to_int (neg, m, e) = (if neg then - int n else int n)"
proof (cases "n = 0")
  case True
  then show ?thesis by (simp add: to_double_def float64_to_int_def)
next
  case False
  let ?b = "bit_length n"
  have b: "2 ^ (?b - 1) \<le> n" "n < 2 ^ ?b" using bit_length_bounds [OF False] by auto
  have pos: "0 < ?b" using False by (simp add: bit_length.simps [of n])
  have "\<not> 54 \<le> ?b"
  proof
    assume "54 \<le> ?b"
    then have "(2 :: nat) ^ 53 \<le> 2 ^ (?b - 1)" by (intro power_increasing) auto
    with b assms show False by linarith
  qed
  then have le: "?b \<le> 53" by simp
  let ?k = "53 - ?b"
  have "pow2_le (int ?b - 1) n 1" using b(1) pos by (simp add: pow2_le_def nat_diff_distrib)
  then have e: "double_exponent n 1 = - int ?k"
    using le pos by (simp add: double_exponent_def bit_length.simps [of "Suc 0"] bit_length.simps [of 0] Let_def)
  have m: "mantissa_at (- int ?k) n 1 = n * 2 ^ ?k"
    by (cases "?k = 0") (simp_all add: mantissa_at_def round_half_even_def nat_diff_distrib)
  have "finite_double (n * 2 ^ ?k) (- int ?k)" by (simp add: finite_double_def)
  with e m \<open>n \<noteq> 0\<close> have m: "to_double n 1 = Some (n * 2 ^ ?k, - int ?k)"
    by (simp add: to_double_def)
  with float64_to_int_scaled [OF assms] show ?thesis by blast
qed

end
