(* ===== verification/QuotaPayloads.thy ===== *)
theory QuotaPayloads
  imports KeyQuota GoJsonFields
begin

text \<open>
  internal/providers/quota_refresh.go, the payloads: the answers of the quota endpoints, how they
  are decoded, and the quota snapshot each is normalised to. An \<open>int64\<close> sum or difference wraps.
\<close>

section \<open>Snapshots\<close>

definition quota_cache_shell :: "string \<Rightarrow> string \<Rightarrow> timestamp \<Rightarrow> timestamp \<Rightarrow> rowid option \<Rightarrow> quota_cache" where
  "quota_cache_shell provider source checked expires key_id =
     \<lparr>qs_source = source, qs_available = True, qs_used = None, qs_limit_value = None, qs_remaining = None,
      qs_period_start = None, qs_period_end = None, qs_checked_at = checked, qs_expires_at = expires,
      qs_message = None, qs_details = None, qc_provider = provider, qc_key_id = key_id\<rparr>"

definition failed_snapshot ::
  "string \<Rightarrow> string \<Rightarrow> string \<Rightarrow> timestamp \<Rightarrow> timestamp \<Rightarrow> rowid option \<Rightarrow> quota_cache" where
  "failed_snapshot msg provider source checked expires key_id =
     (quota_cache_shell provider source checked expires key_id)\<lparr>qs_available := False, qs_message := Some msg\<rparr>"

definition coalesce_int64 :: "int option \<Rightarrow> int option \<Rightarrow> int option" where
  "coalesce_int64 a b = (if a \<noteq> None then a else b)"

definition remaining_from_limit_usage :: "int option \<Rightarrow> int option \<Rightarrow> int option" where
  "remaining_from_limit_usage limit usage =
     (case (limit, usage) of
        (Some l, Some u) \<Rightarrow> Some (let rem = wrap64 (l - u) in if rem < 0 then 0 else rem)
      | _ \<Rightarrow> None)"

definition clamp_used_non_negative :: "int option \<Rightarrow> int option" where
  "clamp_used_non_negative used = (case used of None \<Rightarrow> None | Some u \<Rightarrow> Some (if u < 0 then 0 else u))"

fun json_int_ptr :: "int option \<Rightarrow> json" where
  "json_int_ptr None = JNull"
| "json_int_ptr (Some n) = JNum (itoa n)"

section \<open>Tavily /usage\<close>

record tavily_key =
  tk_usage :: "int option"
  tk_limit :: "int option"
  tk_search :: "int option"
  tk_extract :: "int option"
  tk_crawl :: "int option"
  tk_map :: "int option"
  tk_research :: "int option"

record tavily_account =
  ta_plan :: string
  ta_plan_usage :: "int option"
  ta_plan_limit :: "int option"
  ta_paygo_usage :: "int option"
  ta_paygo_limit :: "int option"

definition tavily_key_names :: "string list" where
  "tavily_key_names = [''usage'', ''limit'', ''search_usage'', ''extract_usage'', ''crawl_usage'', ''map_usage'',
     ''research_usage'']"

definition decode_tavily_key :: "(string \<times> json) list \<Rightarrow> tavily_key option" where
  "decode_tavily_key ms =
     (case map (\<lambda>f. int_ptr_field tavily_key_names f ms) tavily_key_names of
        [Some u, Some l, Some s, Some e, Some c, Some m, Some r] \<Rightarrow>
          Some \<lparr>tk_usage = u, tk_limit = l, tk_search = s, tk_extract = e, tk_crawl = c, tk_map = m, tk_research = r\<rparr>
      | _ \<Rightarrow> None)"

definition tavily_account_names :: "string list" where
  "tavily_account_names = [''current_plan'', ''plan_usage'', ''plan_limit'', ''paygo_usage'', ''paygo_limit'']"

definition decode_tavily_account :: "(string \<times> json) list \<Rightarrow> tavily_account option" where
  "decode_tavily_account ms =
     (case (string_field tavily_account_names ''current_plan'' ms,
            map (\<lambda>f. int_ptr_field tavily_account_names f ms) (tl tavily_account_names)) of
        (Some p, [Some u, Some l, Some pu, Some pl]) \<Rightarrow>
          Some \<lparr>ta_plan = p, ta_plan_usage = u, ta_plan_limit = l, ta_paygo_usage = pu, ta_paygo_limit = pl\<rparr>
      | _ \<Rightarrow> None)"

definition decode_tavily_usage :: "bytes \<Rightarrow> (tavily_key \<times> tavily_account) option" where
  "decode_tavily_usage body =
     (case document_members body of
        None \<Rightarrow> None
      | Some ms \<Rightarrow>
          (case (struct_field [''key'', ''account''] ''key'' ms, struct_field [''key'', ''account''] ''account'' ms) of
             (Some k, Some a) \<Rightarrow>
               (case (decode_tavily_key k, decode_tavily_account a) of
                  (Some key, Some account) \<Rightarrow> Some (key, account) | _ \<Rightarrow> None)
           | _ \<Rightarrow> None))"

text \<open>The switch over what is known: used, limit, remaining and the basis of the remaining.\<close>

definition tavily_figures ::
  "tavily_key \<Rightarrow> tavily_account \<Rightarrow> int option \<times> int option \<times> int option \<times> string" where
  "tavily_figures k a =
     (let used = coalesce_int64 (tk_usage k) (ta_plan_usage a) in
      if tk_limit k \<noteq> None \<and> tk_usage k \<noteq> None then
        (used, tk_limit k, remaining_from_limit_usage (tk_limit k) (tk_usage k), ''key'')
      else if tk_limit k \<noteq> None then (used, tk_limit k, None, [])
      else if ta_plan_limit a \<noteq> None \<and> ta_plan_usage a \<noteq> None then
        (ta_plan_usage a, ta_plan_limit a, remaining_from_limit_usage (ta_plan_limit a) (ta_plan_usage a), ''account_plan'')
      else if ta_plan_limit a \<noteq> None then (used, ta_plan_limit a, None, [])
      else (used, None, None, []))"

definition tavily_details :: "tavily_key \<Rightarrow> tavily_account \<Rightarrow> string \<Rightarrow> string \<rightharpoonup> json" where
  "tavily_details k a basis =
     (let d = Map.empty(''key_search_usage'' \<mapsto> json_int_ptr (tk_search k),
                ''key_extract_usage'' \<mapsto> json_int_ptr (tk_extract k), ''key_crawl_usage'' \<mapsto> json_int_ptr (tk_crawl k),
                ''key_map_usage'' \<mapsto> json_int_ptr (tk_map k), ''key_research_usage'' \<mapsto> json_int_ptr (tk_research k),
                ''account_plan'' \<mapsto> JStr (ta_plan a), ''account_plan_usage'' \<mapsto> json_int_ptr (ta_plan_usage a),
                ''account_plan_limit'' \<mapsto> json_int_ptr (ta_plan_limit a),
                ''account_paygo_usage'' \<mapsto> json_int_ptr (ta_paygo_usage a),
                ''account_paygo_limit'' \<mapsto> json_int_ptr (ta_paygo_limit a))
      in if basis = [] then d else d(''remaining_basis'' \<mapsto> JStr basis))"

definition normalize_tavily_usage ::
  "string \<Rightarrow> rowid option \<Rightarrow> timestamp \<Rightarrow> timestamp \<Rightarrow> tavily_key \<times> tavily_account \<Rightarrow> quota_cache" where
  "normalize_tavily_usage provider key_id checked expires payload =
     (case payload of (k, a) \<Rightarrow> (case tavily_figures k a of (used, limit, remaining, basis) \<Rightarrow>
        (quota_cache_shell provider ''tavily_usage'' checked expires key_id)
          \<lparr>qs_used := used, qs_limit_value := limit, qs_remaining := remaining,
           qs_details := Some (tavily_details k a basis)\<rparr>))"

section \<open>Firecrawl credit usage\<close>

record firecrawl_data =
  fd_remaining :: "int option"
  fd_remaining_alt :: "int option"
  fd_plan :: "int option"
  fd_plan_alt :: "int option"
  fd_period_start :: "string option"
  fd_period_end :: "string option"

record firecrawl_usage =
  fu_success :: bool
  fu_data :: "firecrawl_data option"
  fu_total :: "int option"
  fu_used :: "int option"
  fu_remaining :: "int option"

definition firecrawl_data_names :: "string list" where
  "firecrawl_data_names = [''remainingCredits'', ''remaining_credits'', ''planCredits'', ''plan_credits'',
     ''billingPeriodStart'', ''billingPeriodEnd'']"

definition decode_firecrawl_data :: "(string \<times> json) list \<Rightarrow> firecrawl_data option" where
  "decode_firecrawl_data ms =
     (case (map (\<lambda>f. int_ptr_field firecrawl_data_names f ms) (take 4 firecrawl_data_names),
            map (\<lambda>f. string_ptr_field firecrawl_data_names f ms) (drop 4 firecrawl_data_names)) of
        ([Some r, Some ra, Some p, Some pa], [Some s, Some e]) \<Rightarrow>
          Some \<lparr>fd_remaining = r, fd_remaining_alt = ra, fd_plan = p, fd_plan_alt = pa, fd_period_start = s, fd_period_end = e\<rparr>
      | _ \<Rightarrow> None)"

definition firecrawl_names :: "string list" where
  "firecrawl_names = [''success'', ''data'', ''credits_total'', ''credits_used'', ''credits_remaining'']"

definition decode_firecrawl_usage :: "bytes \<Rightarrow> firecrawl_usage option" where
  "decode_firecrawl_usage body =
     (case document_members body of
        None \<Rightarrow> None
      | Some ms \<Rightarrow>
          (case (bool_field firecrawl_names ''success'' ms, struct_ptr_field firecrawl_names ''data'' ms,
                 map (\<lambda>f. int_ptr_field firecrawl_names f ms) (drop 2 firecrawl_names)) of
             (Some ok, Some d, [Some t, Some u, Some r]) \<Rightarrow>
               (case d of
                  None \<Rightarrow> Some \<lparr>fu_success = ok, fu_data = None, fu_total = t, fu_used = u, fu_remaining = r\<rparr>
                | Some dm \<Rightarrow> map_option (\<lambda>x. \<lparr>fu_success = ok, fu_data = Some x, fu_total = t, fu_used = u,
                               fu_remaining = r\<rparr>) (decode_firecrawl_data dm))
           | _ \<Rightarrow> None))"

definition firecrawl_figures :: "firecrawl_usage \<Rightarrow> int option \<times> int option \<times> int option" where
  "firecrawl_figures p =
     (let dr = (case fu_data p of None \<Rightarrow> None | Some d \<Rightarrow> coalesce_int64 (fd_remaining d) (fd_remaining_alt d));
          dl = (case fu_data p of None \<Rightarrow> None | Some d \<Rightarrow> coalesce_int64 (fd_plan d) (fd_plan_alt d));
          remaining = (if dr = None then fu_remaining p else dr);
          limit = (if dl = None then fu_total p else dl);
          used = (case (fu_used p, limit, remaining) of
                    (None, Some l, Some r) \<Rightarrow> Some (wrap64 (l - r)) | _ \<Rightarrow> fu_used p)
      in (used, limit, remaining))"

definition firecrawl_extra_details :: "int \<Rightarrow> int \<Rightarrow> string \<rightharpoonup> json" where
  "firecrawl_extra_details limit remaining =
     Map.empty(''plan_credits'' \<mapsto> JNum (itoa limit),
       ''extra_credits_remaining'' \<mapsto> JNum (itoa (wrap64 (remaining - limit))),
       ''plan_credits_note'' \<mapsto> JStr ''planCredits excludes one-time credit packs per Firecrawl API'')"

definition normalize_firecrawl_credit_usage ::
  "string \<Rightarrow> rowid option \<Rightarrow> timestamp \<Rightarrow> timestamp \<Rightarrow> firecrawl_usage \<Rightarrow> quota_cache" where
  "normalize_firecrawl_credit_usage provider key_id checked expires p =
     (let q = (quota_cache_shell provider ''firecrawl_credit_usage'' checked expires key_id)
                \<lparr>qs_period_start := Option.bind (fu_data p) fd_period_start,
                 qs_period_end := Option.bind (fu_data p) fd_period_end\<rparr>
      in case firecrawl_figures p of (used, limit, remaining) \<Rightarrow>
        (case (limit, remaining) of
           (Some l, Some r) \<Rightarrow>
             if l < r then q\<lparr>qs_details := Some (firecrawl_extra_details l r), qs_limit_value := None,
                             qs_used := clamp_used_non_negative used, qs_remaining := remaining\<rparr>
             else q\<lparr>qs_remaining := remaining, qs_limit_value := limit, qs_used := clamp_used_non_negative used\<rparr>
         | _ \<Rightarrow> q\<lparr>qs_remaining := remaining, qs_limit_value := limit, qs_used := clamp_used_non_negative used\<rparr>))"

section \<open>Grok2API tokens\<close>

text \<open>A token: the quota of each of its modes, remaining and total.\<close>

type_synonym token_quota = "(string \<times> int option \<times> int option) list"

definition decode_token_mode :: "string \<times> json \<Rightarrow> (string \<times> int option \<times> int option) option" where
  "decode_token_mode m =
     (case elem_members (snd m) of
        None \<Rightarrow> None
      | Some ms \<Rightarrow>
          (case (int_ptr_field [''remaining'', ''total''] ''remaining'' ms,
                 int_ptr_field [''remaining'', ''total''] ''total'' ms) of
             (Some r, Some t) \<Rightarrow> Some (fst m, r, t) | _ \<Rightarrow> None))"

definition decode_token :: "json \<Rightarrow> token_quota option" where
  "decode_token v =
     (case elem_members v of
        None \<Rightarrow> None
      | Some ms \<Rightarrow>
          (case map_field [''quota''] ''quota'' ms of
             None \<Rightarrow> None
           | Some modes \<Rightarrow> map_option keep_last (decode_all decode_token_mode modes)))"

definition decode_grok2api_tokens :: "bytes \<Rightarrow> token_quota list option" where
  "decode_grok2api_tokens body =
     (case document_members body of
        None \<Rightarrow> None
      | Some ms \<Rightarrow>
          (case slice_field [''tokens''] ''tokens'' ms of
             None \<Rightarrow> None | Some vs \<Rightarrow> decode_all decode_token vs))"

definition add64 :: "int \<Rightarrow> int option \<Rightarrow> int" where
  "add64 acc x = (case x of None \<Rightarrow> acc | Some n \<Rightarrow> wrap64 (acc + n))"

definition token_totals :: "token_quota list \<Rightarrow> int \<times> int" where
  "token_totals toks =
     fold (\<lambda>(_, r, t) (rem, lim). (add64 rem r, add64 lim t)) (concat toks) (0, 0)"

definition normalize_grok2api_tokens ::
  "string \<Rightarrow> rowid option \<Rightarrow> timestamp \<Rightarrow> timestamp \<Rightarrow> token_quota list \<Rightarrow> quota_cache" where
  "normalize_grok2api_tokens provider key_id checked expires toks =
     (case token_totals toks of (rem, lim) \<Rightarrow>
        (quota_cache_shell provider ''grok2api_admin_tokens'' checked expires key_id)
          \<lparr>qs_remaining := Some rem, qs_limit_value := Some lim, qs_used := Some (wrap64 (lim - rem))\<rparr>)"

section \<open>Grok2API v3 accounts\<close>

record v3_quota =
  vq_limit_known :: bool
  vq_remaining :: float64
  vq_limit :: float64

record v3_billing =
  vb_monthly_limit :: float64
  vb_remaining :: float64

record v3_account =
  va_enabled :: bool
  va_auth_status :: string
  va_windows :: "(int \<times> int) list"
  va_billing :: "v3_billing option"
  va_quota :: "v3_quota option"

record v3_totals =
  vt_remaining :: int
  vt_limit :: int
  vt_accounts :: int
  vt_windows :: int

definition no_totals :: v3_totals where
  "no_totals = \<lparr>vt_remaining = 0, vt_limit = 0, vt_accounts = 0, vt_windows = 0\<rparr>"

definition decode_v3_window :: "json \<Rightarrow> (int \<times> int) option" where
  "decode_v3_window v =
     (case elem_members v of
        None \<Rightarrow> None
      | Some ms \<Rightarrow>
          (case (int_field [''remaining'', ''total''] ''remaining'' ms, int_field [''remaining'', ''total''] ''total'' ms) of
             (Some r, Some t) \<Rightarrow> Some (r, t) | _ \<Rightarrow> None))"

definition decode_v3_billing :: "(string \<times> json) list \<Rightarrow> v3_billing option" where
  "decode_v3_billing ms =
     (let names = [''monthlyLimit'', ''remaining''] in
      case (float_field names ''monthlyLimit'' ms, float_field names ''remaining'' ms) of
        (Some l, Some r) \<Rightarrow> Some \<lparr>vb_monthly_limit = l, vb_remaining = r\<rparr> | _ \<Rightarrow> None)"

definition decode_v3_quota :: "(string \<times> json) list \<Rightarrow> v3_quota option" where
  "decode_v3_quota ms =
     (let names = [''limitKnown'', ''remaining'', ''limit''] in
      case (bool_field names ''limitKnown'' ms, float_field names ''remaining'' ms, float_field names ''limit'' ms) of
        (Some k, Some r, Some l) \<Rightarrow> Some \<lparr>vq_limit_known = k, vq_remaining = r, vq_limit = l\<rparr> | _ \<Rightarrow> None)"

text \<open>A pointer to a struct whose members decode with the given function.\<close>

definition decode_ptr :: "('m \<Rightarrow> 'a option) \<Rightarrow> 'm option option \<Rightarrow> 'a option option" where
  "decode_ptr f p = (case p of None \<Rightarrow> None | Some None \<Rightarrow> Some None | Some (Some ms) \<Rightarrow> map_option Some (f ms))"

definition v3_account_names :: "string list" where
  "v3_account_names = [''enabled'', ''authStatus'', ''quotaWindows'', ''billing'', ''quota'']"

definition decode_v3_account :: "json \<Rightarrow> v3_account option" where
  "decode_v3_account v =
     (case elem_members v of
        None \<Rightarrow> None
      | Some ms \<Rightarrow>
          (case (bool_field v3_account_names ''enabled'' ms, string_field v3_account_names ''authStatus'' ms,
                 Option.bind (slice_field v3_account_names ''quotaWindows'' ms) (decode_all decode_v3_window),
                 decode_ptr decode_v3_billing (struct_ptr_field v3_account_names ''billing'' ms),
                 decode_ptr decode_v3_quota (struct_ptr_field v3_account_names ''quota'' ms)) of
             (Some en, Some auth, Some ws, Some b, Some q) \<Rightarrow>
               Some \<lparr>va_enabled = en, va_auth_status = auth, va_windows = ws, va_billing = b, va_quota = q\<rparr>
           | _ \<Rightarrow> None))"

text \<open>A page of accounts and the declared total.\<close>

definition decode_v3_accounts :: "bytes \<Rightarrow> (v3_account list \<times> int) option" where
  "decode_v3_accounts body =
     (case document_members body of
        None \<Rightarrow> None
      | Some ms \<Rightarrow>
          (case struct_field [''data''] ''data'' ms of
             None \<Rightarrow> None
           | Some d \<Rightarrow>
               (case (Option.bind (slice_field [''items'', ''total''] ''items'' d) (decode_all decode_v3_account),
                      int_field [''items'', ''total''] ''total'' d) of
                  (Some items, Some n) \<Rightarrow> Some (items, n) | _ \<Rightarrow> None)))"

definition add_window :: "int \<times> int \<Rightarrow> v3_totals \<Rightarrow> v3_totals" where
  "add_window w t =
     t\<lparr>vt_remaining := wrap64 (vt_remaining t + fst w), vt_limit := wrap64 (vt_limit t + snd w),
       vt_windows := vt_windows t + 1\<rparr>"

definition add_amounts :: "float64 \<Rightarrow> float64 \<Rightarrow> v3_totals \<Rightarrow> v3_totals" where
  "add_amounts remaining limit t =
     t\<lparr>vt_remaining := wrap64 (vt_remaining t + float64_to_int remaining),
       vt_limit := wrap64 (vt_limit t + float64_to_int limit)\<rparr>"

definition add_account :: "v3_account \<Rightarrow> v3_totals \<Rightarrow> v3_totals" where
  "add_account a t0 =
     (if \<not> va_enabled a \<or> va_auth_status a \<noteq> ''active'' then t0
      else let t = t0\<lparr>vt_accounts := vt_accounts t0 + 1\<rparr> in
        if va_windows a \<noteq> [] then fold add_window (va_windows a) t
        else (case va_quota a of
          Some q \<Rightarrow> if vq_limit_known q then add_amounts (vq_remaining q) (vq_limit q) t
                    else (case va_billing a of
                      Some b \<Rightarrow> if float64_positive (vb_monthly_limit b)
                                then add_amounts (vb_remaining b) (vb_monthly_limit b) t else t
                    | None \<Rightarrow> t)
        | None \<Rightarrow> (case va_billing a of
            Some b \<Rightarrow> if float64_positive (vb_monthly_limit b)
                      then add_amounts (vb_remaining b) (vb_monthly_limit b) t else t
          | None \<Rightarrow> t)))"

definition normalize_grok2api_v3_accounts :: "v3_account list \<Rightarrow> v3_totals" where
  "normalize_grok2api_v3_accounts items = fold add_account items no_totals"

section \<open>Grok2API v3 login\<close>

text \<open>\<open>username:password\<close>, the password may contain colons, or a JSON object.\<close>

definition parse_v3_admin_cred :: "string \<Rightarrow> provider_error + string \<times> string" where
  "parse_v3_admin_cred raw0 =
     (let raw = trim_space raw0 in
      if raw = [] then Inl (ErrInvalidQuotaConfig ''empty grok2api v3 admin credential'')
      else if prefix ''{'' raw then
        (case document_members raw of
           None \<Rightarrow> Inl (ErrInvalidQuotaConfig ''grok2api v3 admin credential JSON invalid'')
         | Some ms \<Rightarrow>
             (case (string_field [''username'', ''password''] ''username'' ms,
                    string_field [''username'', ''password''] ''password'' ms) of
                (Some u, Some p) \<Rightarrow>
                  if trim_space u = [] \<or> p = [] then
                    Inl (ErrInvalidQuotaConfig ''grok2api v3 admin credential JSON requires username and password'')
                  else Inr (trim_space u, p)
              | _ \<Rightarrow> Inl (ErrInvalidQuotaConfig ''grok2api v3 admin credential JSON invalid'')))
      else (case cut_at (CHR '':'') raw of
          None \<Rightarrow> Inl (ErrInvalidQuotaConfig ''grok2api v3 admin credential must be username:password or JSON'')
        | Some (u, p) \<Rightarrow>
            if trim_space u = [] \<or> p = [] then
              Inl (ErrInvalidQuotaConfig ''grok2api v3 admin credential must be username:password or JSON'')
            else Inr (trim_space u, p)))"

definition decode_v3_login :: "bytes \<Rightarrow> string option" where
  "decode_v3_login body =
     (case document_members body of
        None \<Rightarrow> None
      | Some ms \<Rightarrow>
          (case struct_field [''data''] ''data'' ms of
             None \<Rightarrow> None
           | Some d \<Rightarrow>
               (case struct_field [''tokens''] ''tokens'' d of
                  None \<Rightarrow> None
                | Some t \<Rightarrow> string_field [''accessToken''] ''accessToken'' t)))"

end
