(* ===== verification/QuotaRefresh.thy ===== *)
theory QuotaRefresh
  imports QuotaPayloads ProviderSettings
begin

text \<open>
  internal/providers/quota_refresh.go, the refresher: it asks an upstream for its quota, per
  provider or per key, and records the outcome as an event of the key. The network is a function
  from the number and content of a call to its answer; the clock readings are arguments.
\<close>

section \<open>The network\<close>

record quota_call =
  ql_method :: string
  ql_url :: string
  ql_bearer :: string
  ql_body :: "bytes option"
  ql_redirects :: bool

text \<open>An answer is a transport error, or a status with the body or the error of reading it.\<close>

datatype quota_answer = NetError string | Answer int "string + bytes"

record quota_env =
  qe_keys :: key_env
  qe_transport :: "nat \<Rightarrow> quota_call \<Rightarrow> quota_answer"
  qe_now :: instant
  qe_select_time :: instant
  qe_mark_time :: instant
  qe_json_error :: "bytes \<Rightarrow> string"

definition quota_cache_ttl :: duration where "quota_cache_ttl = 5 * minute"
definition max_quota_response_bytes :: nat where "max_quota_response_bytes = 16777216"

text \<open>The status, 0 without an answer, and the body or the error text.\<close>

definition request_http :: "quota_env \<Rightarrow> nat \<Rightarrow> quota_call \<Rightarrow> int \<times> (string + bytes)" where
  "request_http env n call =
     (if parse_url (ql_url call) = None then (0, Inl (''parse '' @ ql_url call))
      else case qe_transport env n call of
        NetError e \<Rightarrow> (0, Inl e)
      | Answer status (Inl e) \<Rightarrow> (status, Inl e)
      | Answer status (Inr body) \<Rightarrow>
          if status < 200 \<or> 300 \<le> status then (status, Inl (''upstream status '' @ itoa status))
          else (status, Inr (take max_quota_response_bytes body)))"

definition get_json :: "quota_env \<Rightarrow> nat \<Rightarrow> string \<Rightarrow> string \<Rightarrow> int \<times> (string + bytes)" where
  "get_json env n url bearer =
     request_http env n \<lparr>ql_method = ''GET'', ql_url = url, ql_bearer = bearer, ql_body = None, ql_redirects = True\<rparr>"

definition post_json :: "quota_env \<Rightarrow> nat \<Rightarrow> bool \<Rightarrow> string \<Rightarrow> string \<Rightarrow> bytes \<Rightarrow> int \<times> (string + bytes)" where
  "post_json env n redirects url bearer body =
     request_http env n \<lparr>ql_method = ''POST'', ql_url = url, ql_bearer = bearer, ql_body = Some body, ql_redirects = redirects\<rparr>"

section \<open>Failures and events\<close>

fun mentions_decrypt :: "provider_error \<Rightarrow> bool" where
  "mentions_decrypt (ErrOther m) = contains ''decrypt'' m"
| "mentions_decrypt (ErrInvalidQuotaConfig m) = contains ''decrypt'' m"
| "mentions_decrypt (ErrInvalidBaseURL m) = contains ''decrypt'' m"
| "mentions_decrypt (ErrQuotaURL m) = contains ''decrypt'' m"
| "mentions_decrypt _ = False"

definition quota_failure ::
  "string \<Rightarrow> string \<Rightarrow> timestamp \<Rightarrow> timestamp \<Rightarrow> rowid option \<Rightarrow> provider_error \<Rightarrow> quota_cache" where
  "quota_failure provider source checked expires key_id e =
     failed_snapshot
       (if e = ErrNoEnabledKey then ''no enabled provider key available''
        else if mentions_decrypt e then ''stored provider key could not be decrypted (check GUDA_MASTER_KEY_PATH)''
        else ''quota refresh failed'')
       provider source checked expires key_id"

definition quota_http_failure ::
  "string \<Rightarrow> string \<Rightarrow> timestamp \<Rightarrow> timestamp \<Rightarrow> rowid option \<Rightarrow> int \<Rightarrow> string \<Rightarrow> quota_cache" where
  "quota_http_failure provider source checked expires key_id status e =
     failed_snapshot
       (redact (if status = 401 \<or> status = 403 then ''credential rejected by upstream''
                else if status = 404 then ''quota endpoint not found''
                else if contains ''timeout'' e then ''quota refresh timed out''
                else ''quota refresh failed''))
       provider source checked expires key_id"

definition quota_malformed :: "string \<Rightarrow> string \<Rightarrow> timestamp \<Rightarrow> timestamp \<Rightarrow> rowid option \<Rightarrow> quota_cache" where
  "quota_malformed provider source checked expires key_id =
     failed_snapshot ''quota response was not understood'' provider source checked expires key_id"

definition grok_admin_required_quota :: "timestamp \<Rightarrow> timestamp \<Rightarrow> quota_cache" where
  "grok_admin_required_quota checked expires =
     failed_snapshot ''grok2api admin key required for quota refresh'' provider_grok ''grok2api_admin_required''
       checked expires None"

definition quota_event :: "int \<Rightarrow> string option \<Rightarrow> last_event" where
  "quota_event status err =
     (case err of
        None \<Rightarrow> \<lparr>le_source = ''quota_refresh'', le_status_class = ''2xx'', le_http_status = None,
                 le_message = ''quota refresh ok''\<rparr>
      | Some e \<Rightarrow>
          if status \<noteq> 0 then
            \<lparr>le_source = ''quota_refresh'', le_status_class = ''error'', le_http_status = Some status,
             le_message = redact (''quota refresh failed: '' @ e)\<rparr>
          else \<lparr>le_source = ''quota_refresh'', le_status_class = ''error'', le_http_status = None,
                le_message = ''quota refresh failed''\<rparr>)"

definition record_quota_event ::
  "quota_env \<Rightarrow> rowid option \<Rightarrow> int \<Rightarrow> string option \<Rightarrow> key_table \<Rightarrow> key_table" where
  "record_quota_event env key_id status err t =
     (case key_id of None \<Rightarrow> t | Some i \<Rightarrow> mark_last_event (qe_mark_time env) i (quota_event status err) t)"

section \<open>One endpoint of Tavily or Firecrawl\<close>

definition parse_tavily :: "timestamp \<Rightarrow> timestamp \<Rightarrow> rowid option \<Rightarrow> bytes \<Rightarrow> quota_cache" where
  "parse_tavily checked expires key_id body =
     (case decode_tavily_usage body of
        None \<Rightarrow> quota_malformed provider_tavily ''tavily_usage'' checked expires key_id
      | Some p \<Rightarrow> normalize_tavily_usage provider_tavily key_id checked expires p)"

definition parse_firecrawl :: "timestamp \<Rightarrow> timestamp \<Rightarrow> rowid option \<Rightarrow> bytes \<Rightarrow> quota_cache" where
  "parse_firecrawl checked expires key_id body =
     (case decode_firecrawl_usage body of
        None \<Rightarrow> quota_malformed provider_firecrawl ''firecrawl_credit_usage'' checked expires key_id
      | Some p \<Rightarrow> normalize_firecrawl_credit_usage provider_firecrawl key_id checked expires p)"

definition refresh_provider_http_with_endpoint ::
  "quota_env \<Rightarrow> string \<Rightarrow> string \<Rightarrow> string \<Rightarrow> timestamp \<Rightarrow> timestamp \<Rightarrow> rowid \<Rightarrow> string \<Rightarrow> string \<Rightarrow>
   (rowid option \<Rightarrow> bytes \<Rightarrow> quota_cache) \<Rightarrow> key_table \<Rightarrow> quota_cache \<times> key_table" where
  "refresh_provider_http_with_endpoint env provider source path checked expires i base_url api_key parse t =
     (case join_endpoint_url base_url path [] of
        Inl e \<Rightarrow> (quota_failure provider source checked expires (Some i) e, t)
      | Inr url \<Rightarrow>
          (case get_json env 0 url api_key of
             (status, Inl e) \<Rightarrow> (quota_http_failure provider source checked expires (Some i) status e,
                                 record_quota_event env (Some i) status (Some e) t)
           | (status, Inr body) \<Rightarrow> (parse (Some i) body, record_quota_event env (Some i) status None t)))"

definition refresh_tavily_endpoint ::
  "quota_env \<Rightarrow> rowid \<Rightarrow> string \<Rightarrow> string \<Rightarrow> timestamp \<Rightarrow> timestamp \<Rightarrow> key_table \<Rightarrow> quota_cache \<times> key_table" where
  "refresh_tavily_endpoint env i base_url api_key checked expires =
     refresh_provider_http_with_endpoint env provider_tavily ''tavily_usage'' ''/usage'' checked expires
       i base_url api_key (parse_tavily checked expires)"

definition refresh_firecrawl_endpoint ::
  "quota_env \<Rightarrow> rowid \<Rightarrow> string \<Rightarrow> string \<Rightarrow> timestamp \<Rightarrow> timestamp \<Rightarrow> key_table \<Rightarrow> quota_cache \<times> key_table" where
  "refresh_firecrawl_endpoint env i base_url api_key checked expires =
     refresh_provider_http_with_endpoint env provider_firecrawl ''firecrawl_credit_usage'' ''/team/credit-usage''
       checked expires i base_url api_key (parse_firecrawl checked expires)"

section \<open>Grok2API admin tokens\<close>

text \<open>The batch refresh is best effort: its outcome is not looked at.\<close>

definition fetch_grok2api_admin_tokens ::
  "quota_env \<Rightarrow> string \<Rightarrow> string \<Rightarrow> rowid option \<Rightarrow> timestamp \<Rightarrow> timestamp \<Rightarrow> bool \<Rightarrow> key_table \<Rightarrow> quota_cache \<times> key_table" where
  "fetch_grok2api_admin_tokens env base admin_key key_id checked expires record_event t =
     (let admin_base = trim_right_slash base;
          batch = post_json env 0 True (admin_base @ ''/admin/api/batch/refresh?all_manageable=true'') admin_key
                    (''{'' @ json_quote ''tokens'' @ '':[]}'');
          event_key = (if record_event then key_id else None)
      in case get_json env 1 (admin_base @ ''/admin/api/tokens'') admin_key of
           (status, Inl e) \<Rightarrow> (quota_http_failure provider_grok ''grok2api_admin_tokens'' checked expires key_id status e,
                               record_quota_event env event_key status (Some e) t)
         | (status, Inr body) \<Rightarrow>
             (case decode_grok2api_tokens body of
                None \<Rightarrow> quota_malformed provider_grok ''grok2api_admin_tokens'' checked expires key_id
              | Some toks \<Rightarrow> normalize_grok2api_tokens provider_grok key_id checked expires toks,
              record_quota_event env event_key status None t))"

section \<open>Grok2API v3 accounts\<close>

text \<open>The access token, or the error with the status of the call.\<close>

definition login_grok2api_v3 :: "quota_env \<Rightarrow> string \<Rightarrow> string \<Rightarrow> string \<Rightarrow> int \<times> (string + string)" where
  "login_grok2api_v3 env admin_base username password =
     (case post_json env 0 False (admin_base @ ''/api/admin/v1/auth/login'') []
             (json_text (JObj [(''password'', JStr password), (''username'', JStr username)])) of
        (status, Inl e) \<Rightarrow> (status, Inl e)
      | (status, Inr body) \<Rightarrow>
          (case decode_v3_login body of
             None \<Rightarrow> (status, Inl ''grok2api v3 login response malformed'')
           | Some tok \<Rightarrow>
               if trim_space tok = [] then (status, Inl ''grok2api v3 login missing accessToken'')
               else (status, Inr (trim_space tok))))"

definition v3_page_size :: nat where "v3_page_size = 100"
definition v3_max_pages :: nat where "v3_max_pages = 50"

definition v3_page_url :: "string \<Rightarrow> nat \<Rightarrow> string" where
  "v3_page_url admin_base page =
     admin_base @ ''/api/admin/v1/accounts?page='' @ nat_dec page @ ''&pageSize='' @ nat_dec v3_page_size"

text \<open>The variables of the paging loop, and how it ends: a failed page or the loop's end.\<close>

record v3_pass =
  vp_totals :: v3_totals
  vp_fetched :: int
  vp_declared :: int
  vp_status :: int

datatype v3_end = PageFailed int string | PageMalformed int string | PagesDone v3_pass

definition add_page :: "v3_account list \<Rightarrow> v3_pass \<Rightarrow> v3_pass" where
  "add_page items p =
     (let pt = normalize_grok2api_v3_accounts items; t = vp_totals p in
      p\<lparr>vp_totals := \<lparr>vt_remaining = wrap64 (vt_remaining t + vt_remaining pt),
          vt_limit = wrap64 (vt_limit t + vt_limit pt), vt_accounts = vt_accounts t + vt_accounts pt,
          vt_windows = vt_windows t + vt_windows pt\<rparr>,
        vp_fetched := vp_fetched p + int (length items)\<rparr>)"

text \<open>\<open>k\<close> counts the pages that are still allowed.\<close>

fun v3_pages :: "quota_env \<Rightarrow> string \<Rightarrow> string \<Rightarrow> nat \<Rightarrow> nat \<Rightarrow> v3_pass \<Rightarrow> v3_end" where
  "v3_pages env admin_base token 0 page p = PagesDone p"
| "v3_pages env admin_base token (Suc k) page p =
     (case get_json env page (v3_page_url admin_base page) token of
        (status, Inl e) \<Rightarrow> PageFailed status e
      | (status, Inr body) \<Rightarrow>
          (case decode_v3_accounts body of
             None \<Rightarrow> PageMalformed status (qe_json_error env body)
           | Some (items, declared) \<Rightarrow>
               (let p1 = p\<lparr>vp_declared := declared, vp_status := status\<rparr>; p2 = add_page items p1 in
                if items = [] then PagesDone p1
                else if 0 < declared \<and> declared \<le> vp_fetched p2 then PagesDone p2
                else if length items < v3_page_size then PagesDone p2
                else v3_pages env admin_base token k (Suc page) p2)))"

definition v3_snapshot :: "v3_totals \<Rightarrow> timestamp \<Rightarrow> timestamp \<Rightarrow> rowid option \<Rightarrow> quota_cache" where
  "v3_snapshot t checked expires key_id =
     (quota_cache_shell provider_grok ''grok2api_v3_accounts'' checked expires key_id)
       \<lparr>qs_remaining := Some (vt_remaining t), qs_limit_value := Some (vt_limit t),
        qs_used := clamp_used_non_negative (Some (wrap64 (vt_limit t - vt_remaining t))),
        qs_details := Some (Map.empty(''account_count'' \<mapsto> JNum (itoa (vt_accounts t)),
          ''window_count'' \<mapsto> JNum (itoa (vt_windows t)), ''remaining_basis'' \<mapsto> JStr ''quota_windows''))\<rparr>"

definition v3_page_limit_error :: string where
  "v3_page_limit_error = ''grok2api v3 accounts response exceeded 50-page safety limit''"

definition v3_start :: "int \<Rightarrow> v3_pass" where
  "v3_start status = \<lparr>vp_totals = no_totals, vp_fetched = 0, vp_declared = 0, vp_status = status\<rparr>"

text \<open>The snapshot, the status and the error that the event records.\<close>

definition v3_outcome ::
  "timestamp \<Rightarrow> timestamp \<Rightarrow> rowid option \<Rightarrow> v3_end \<Rightarrow> quota_cache \<times> int \<times> string option" where
  "v3_outcome checked expires key_id r =
     (case r of
        PageFailed status e \<Rightarrow>
          (quota_http_failure provider_grok ''grok2api_v3_accounts'' checked expires key_id status e, status, Some e)
      | PageMalformed status e \<Rightarrow>
          (quota_malformed provider_grok ''grok2api_v3_accounts'' checked expires key_id, status, Some e)
      | PagesDone p \<Rightarrow>
          if vp_fetched p < vp_declared p then
            (quota_failure provider_grok ''grok2api_v3_accounts'' checked expires key_id (ErrOther v3_page_limit_error),
             vp_status p, Some v3_page_limit_error)
          else (v3_snapshot (vp_totals p) checked expires key_id, vp_status p, None))"

text \<open>An event of a status 0 does not show the error, so a credential error is recorded without its text.\<close>

definition fetch_grok2api_v3_accounts ::
  "quota_env \<Rightarrow> string \<Rightarrow> string \<Rightarrow> rowid option \<Rightarrow> timestamp \<Rightarrow> timestamp \<Rightarrow> bool \<Rightarrow> key_table \<Rightarrow> quota_cache \<times> key_table" where
  "fetch_grok2api_v3_accounts env base admin_cred key_id checked expires record_event t =
     (let admin_base = trim_right_slash base; event_key = (if record_event then key_id else None) in
      case parse_v3_admin_cred admin_cred of
        Inl e \<Rightarrow> (quota_failure provider_grok ''grok2api_v3_admin'' checked expires key_id e,
                  record_quota_event env event_key 0 (Some []) t)
      | Inr (username, password) \<Rightarrow>
          (case login_grok2api_v3 env admin_base username password of
             (status, Inl e) \<Rightarrow> (quota_http_failure provider_grok ''grok2api_v3_admin'' checked expires key_id status e,
                                 record_quota_event env event_key status (Some e) t)
           | (status, Inr token) \<Rightarrow>
               (case v3_outcome checked expires key_id (v3_pages env admin_base token v3_max_pages 1 (v3_start status)) of
                  (q, st, err) \<Rightarrow> (q, record_quota_event env event_key st err t))))"

section \<open>Refresh of a provider\<close>

definition refresh_provider_http ::
  "quota_env \<Rightarrow> string \<Rightarrow> string \<Rightarrow> string \<Rightarrow> timestamp \<Rightarrow> timestamp \<Rightarrow> (rowid option \<Rightarrow> bytes \<Rightarrow> quota_cache) \<Rightarrow>
   key_table \<Rightarrow> quota_cache \<times> key_table" where
  "refresh_provider_http env provider source path checked expires parse t =
     (case select_endpoint (qe_keys env) (qe_select_time env) provider t of
        Inl e \<Rightarrow> (quota_failure provider source checked expires None e, t)
      | Inr (ep, t') \<Rightarrow>
          refresh_provider_http_with_endpoint env provider source path checked expires
            (se_id ep) (se_base_url ep) (se_api_key ep) parse t')"

definition refresh_grok2api ::
  "quota_env \<Rightarrow> settings_db \<Rightarrow> bytes \<Rightarrow> timestamp \<Rightarrow> timestamp \<Rightarrow> key_table \<Rightarrow> quota_cache \<times> key_table" where
  "refresh_grok2api env db master checked expires t =
     (if get_grok_quota_mode db \<noteq> ''grok2api_admin'' then (grok_admin_required_quota checked expires, t)
      else case get_grok2api_admin_key (ke_crypto (qe_keys env)) master db of
        Inl e \<Rightarrow> (quota_failure provider_grok ''grok2api_admin_required'' checked expires None e, t)
      | Inr admin_key \<Rightarrow>
          if admin_key = [] then (grok_admin_required_quota checked expires, t)
          else (let base = get_grok2api_admin_base_url db in
            case (if base = [] then get_base_url db provider_grok else Inr base) of
              Inl e \<Rightarrow> (quota_failure provider_grok ''grok2api_admin_tokens'' checked expires None e, t)
            | Inr base' \<Rightarrow> fetch_grok2api_admin_tokens env base' admin_key None checked expires False t))"

definition quota_refresh ::
  "quota_env \<Rightarrow> settings_db \<Rightarrow> bytes \<Rightarrow> string \<Rightarrow> key_table \<Rightarrow> provider_error + quota_cache \<times> key_table" where
  "quota_refresh env db master provider t =
     and_then (validate_provider provider) (\<lambda>_.
       let checked = stamp (qe_now env); expires = stamp (qe_now env + quota_cache_ttl) in
       if provider = provider_tavily then
         Inr (refresh_provider_http env provider_tavily ''tavily_usage'' ''/usage'' checked expires
                (parse_tavily checked expires) t)
       else if provider = provider_firecrawl then
         Inr (refresh_provider_http env provider_firecrawl ''firecrawl_credit_usage'' ''/team/credit-usage''
                checked expires (parse_firecrawl checked expires) t)
       else if provider = provider_grok then Inr (refresh_grok2api env db master checked expires t)
       else Inl ErrUnknownProvider)"

section \<open>Refresh of a key\<close>

definition provider_key_quota_from_cache :: "rowid \<Rightarrow> quota_cache \<Rightarrow> key_quota" where
  "provider_key_quota_from_cache i q =
     quota_snapshot.extend (quota_snapshot.truncate q) \<lparr>kq_key_id = i, kq_provider = qc_provider q\<rparr>"

definition key_quota_failure :: "display_key \<Rightarrow> string \<Rightarrow> timestamp \<Rightarrow> timestamp \<Rightarrow> provider_error \<Rightarrow> key_quota" where
  "key_quota_failure d source checked expires e =
     provider_key_quota_from_cache (pk_id d) (quota_failure (pk_provider d) source checked expires (Some (pk_id d)) e)"

definition operational_provider_key_quota ::
  "display_key \<Rightarrow> string \<Rightarrow> string \<Rightarrow> timestamp \<Rightarrow> timestamp \<Rightarrow> key_quota" where
  "operational_provider_key_quota d source msg checked expires =
     provider_key_quota_from_cache (pk_id d) (failed_snapshot msg (pk_provider d) source checked expires None)"

definition quota_source_disabled :: string where "quota_source_disabled = ''quota_disabled''"
definition quota_source_not_configured :: string where "quota_source_not_configured = ''quota_not_configured''"

definition refresh_resolved ::
  "quota_env \<Rightarrow> display_key \<Rightarrow> timestamp \<Rightarrow> timestamp \<Rightarrow> resolved_quota \<Rightarrow> key_table \<Rightarrow> key_quota \<times> key_table" where
  "refresh_resolved env d checked expires rq t =
     (let i = rq_endpoint_id rq; url = rq_base_url rq; key = rq_api_key rq;
          finish = (\<lambda>(q, t'). (provider_key_quota_from_cache (pk_id d) q, t'))
      in if rq_flow rq = flow_grok2api_admin then
           finish (fetch_grok2api_admin_tokens env url key (Some i) checked expires True t)
         else if rq_flow rq = flow_grok2api_v3_admin then
           finish (fetch_grok2api_v3_accounts env url key (Some i) checked expires True t)
         else if rq_flow rq = flow_tavily_usage then
           finish (refresh_tavily_endpoint env i url key checked expires t)
         else if rq_flow rq = flow_firecrawl_credit_usage then
           finish (refresh_firecrawl_endpoint env i url key checked expires t)
         else (key_quota_failure d ''quota_flow'' checked expires (ErrInvalidQuotaConfig []), t))"

definition refresh_key_from_sidecar ::
  "quota_env \<Rightarrow> display_key \<Rightarrow> key_table \<Rightarrow> key_quota \<times> key_table" where
  "refresh_key_from_sidecar env d t =
     (let checked = stamp (qe_now env); expires = stamp (qe_now env + quota_cache_ttl) in
      case resolve_endpoint_quota (qe_keys env) (pk_id d) t of
        Inl e \<Rightarrow>
          ((if e = ErrQuotaDisabled then operational_provider_key_quota d quota_source_disabled
                ''quota refresh disabled for this endpoint'' checked expires
            else if e = ErrQuotaNotConfigured then operational_provider_key_quota d quota_source_not_configured
                ''quota credentials not configured for this endpoint'' checked expires
            else key_quota_failure d ''quota_resolution'' checked expires e), t)
      | Inr rq \<Rightarrow> refresh_resolved env d checked expires rq t)"

text \<open>The events of a refresh stay when storing its snapshot fails.\<close>

definition refresh_key ::
  "quota_env \<Rightarrow> rowid \<Rightarrow> key_table \<Rightarrow> key_quota_table \<Rightarrow> (provider_error + key_quota) \<times> key_table \<times> key_quota_table" where
  "refresh_key env i t kq =
     (case get_key i t of
        Inl e \<Rightarrow> (Inl e, t, kq)
      | Inr d \<Rightarrow>
          (case refresh_key_from_sidecar env d t of
             (q, t') \<Rightarrow>
               (case key_quota_upsert q kq of Inl e \<Rightarrow> (Inl e, t', kq) | Inr kq' \<Rightarrow> (Inr q, t', kq'))))"

section \<open>Refresh of all keys of a provider\<close>

datatype key_outcome = Skipped string | Attempted key_quota

record refresh_all_result =
  ra_attempted :: int
  ra_succeeded :: int
  ra_failed :: int
  ra_skipped_cooldown :: int
  ra_skipped_disabled :: int
  ra_skipped_archived :: int
  ra_skipped_not_configured :: int
  ra_results :: "(rowid \<times> key_outcome) list"

definition no_results :: refresh_all_result where
  "no_results = \<lparr>ra_attempted = 0, ra_succeeded = 0, ra_failed = 0, ra_skipped_cooldown = 0,
     ra_skipped_disabled = 0, ra_skipped_archived = 0, ra_skipped_not_configured = 0, ra_results = []\<rparr>"

definition add_skip :: "string \<Rightarrow> rowid \<Rightarrow> refresh_all_result \<Rightarrow> refresh_all_result" where
  "add_skip reason i r =
     (let r1 = (if reason = ''archived'' then r\<lparr>ra_skipped_archived := ra_skipped_archived r + 1\<rparr>
                else if reason = ''disabled'' \<or> reason = ''quota_disabled'' then
                  r\<lparr>ra_skipped_disabled := ra_skipped_disabled r + 1\<rparr>
                else if reason = ''cooldown'' then r\<lparr>ra_skipped_cooldown := ra_skipped_cooldown r + 1\<rparr>
                else if reason = ''quota_not_configured'' then
                  r\<lparr>ra_skipped_not_configured := ra_skipped_not_configured r + 1\<rparr>
                else r)
      in r1\<lparr>ra_results := ra_results r1 @ [(i, Skipped reason)]\<rparr>)"

definition skip_reason :: "instant \<Rightarrow> display_key \<Rightarrow> string" where
  "skip_reason now k =
     (let reason = pool_key_skip_reason k now in
      if reason \<noteq> [] then reason
      else if pk_quota_mode k = quota_disabled then ''quota_disabled''
      else if pk_quota_mode k = quota_separate_credentials \<and> \<not> dk_quota_key_configured k then ''quota_not_configured''
      else [])"

definition add_attempt :: "rowid \<Rightarrow> key_quota \<Rightarrow> refresh_all_result \<Rightarrow> refresh_all_result" where
  "add_attempt i q r =
     (let r1 = (if qs_available q then r\<lparr>ra_succeeded := ra_succeeded r + 1\<rparr> else r\<lparr>ra_failed := ra_failed r + 1\<rparr>)
      in r1\<lparr>ra_results := ra_results r1 @ [(i, Attempted q)]\<rparr>)"

text \<open>The loop over the keys; the n-th attempt draws on the n-th environment.\<close>

fun refresh_each ::
  "instant \<Rightarrow> (nat \<Rightarrow> quota_env) \<Rightarrow> nat \<Rightarrow> display_key list \<Rightarrow> refresh_all_result \<Rightarrow> key_table \<Rightarrow> key_quota_table \<Rightarrow>
   provider_error option \<times> refresh_all_result \<times> key_table \<times> key_quota_table" where
  "refresh_each now envs n [] r t kq = (None, r, t, kq)"
| "refresh_each now envs n (k # ks) r t kq =
     (if skip_reason now k \<noteq> [] then refresh_each now envs n ks (add_skip (skip_reason now k) (pk_id k) r) t kq
      else let r1 = r\<lparr>ra_attempted := ra_attempted r + 1\<rparr> in
        (case refresh_key_from_sidecar (envs n) k t of
           (q, t') \<Rightarrow>
             (case key_quota_upsert q kq of
                Inl e \<Rightarrow> (Some e, r1, t', kq)
              | Inr kq' \<Rightarrow> refresh_each now envs (Suc n) ks (add_attempt (pk_id k) q r1) t' kq')))"

definition refresh_all_keys ::
  "instant \<Rightarrow> (nat \<Rightarrow> quota_env) \<Rightarrow> string \<Rightarrow> key_table \<Rightarrow> key_quota_table \<Rightarrow>
   (provider_error + refresh_all_result) \<times> key_table \<times> key_quota_table" where
  "refresh_all_keys now envs provider t kq =
     (case list_keys provider t of
        Inl e \<Rightarrow> (Inl e, t, kq)
      | Inr keys \<Rightarrow>
          (case refresh_each now envs 0 keys no_results t kq of
             (Some e, r, t', kq') \<Rightarrow> (Inl e, t', kq')
           | (None, r, t', kq') \<Rightarrow> (Inr r, t', kq')))"

end
