(* ===== verification/GatewayDb.thy ===== *)
theory GatewayDb
  imports OAuthStore AttemptLog UsageDaily AdminAuth AuditLog QuotaRefresh
begin

text \<open>
  The control-plane database as one record of the tables the components keep. The gateway keys, the
  invite codes, the settings and the operator login are shared with the OAuth server and live in its part.
\<close>

record gateway_db =
  gw_oauth :: oauth_db
  gw_provider_keys :: key_table
  gw_usage :: usage_table
  gw_attempts :: attempt_repo
  gw_auth :: auth_db
  gw_audit :: audit_table
  gw_quotas :: provider_quota_table
  gw_key_quotas :: key_quota_table

definition gw_keys :: "gateway_db \<Rightarrow> gateway_table" where
  "gw_keys db = od_keys (gw_oauth db)"

definition set_gw_keys :: "gateway_table \<Rightarrow> gateway_db \<Rightarrow> gateway_db" where
  "set_gw_keys t db = db\<lparr>gw_oauth := (gw_oauth db)\<lparr>od_keys := t\<rparr>\<rparr>"

definition gw_invites :: "gateway_db \<Rightarrow> invite_table" where
  "gw_invites db = od_invites (gw_oauth db)"

definition set_gw_invites :: "invite_table \<Rightarrow> gateway_db \<Rightarrow> gateway_db" where
  "set_gw_invites t db = db\<lparr>gw_oauth := (gw_oauth db)\<lparr>od_invites := t\<rparr>\<rparr>"

definition gw_login :: "gateway_db \<Rightarrow> login_db" where
  "gw_login db = od_login (gw_oauth db)"

definition set_gw_login :: "login_db \<Rightarrow> gateway_db \<Rightarrow> gateway_db" where
  "set_gw_login l db = db\<lparr>gw_oauth := (gw_oauth db)\<lparr>od_login := l\<rparr>\<rparr>"

definition gw_settings :: "gateway_db \<Rightarrow> settings_db" where
  "gw_settings db = ld_settings (od_login (gw_oauth db))"

definition set_gw_settings :: "settings_db \<Rightarrow> gateway_db \<Rightarrow> gateway_db" where
  "set_gw_settings s db = set_gw_login ((gw_login db)\<lparr>ld_settings := s\<rparr>) db"

text \<open>An audit event whose error the caller drops.\<close>

definition audited :: "instant \<Rightarrow> audit_event \<Rightarrow> gateway_db \<Rightarrow> gateway_db" where
  "audited now ev db = db\<lparr>gw_audit := audit_ignored now ev (gw_audit db)\<rparr>"

section \<open>Reading after writing\<close>

lemma gw_keys_simps [simp]:
  "gw_keys (set_gw_keys t db) = t" "gw_keys (set_gw_invites u db) = gw_keys db"
  "gw_keys (set_gw_login l db) = gw_keys db" "gw_keys (set_gw_settings s db) = gw_keys db"
  "gw_keys (audited now ev db) = gw_keys db" "gw_keys (db\<lparr>gw_provider_keys := pk\<rparr>) = gw_keys db"
  "gw_keys (db\<lparr>gw_auth := a\<rparr>) = gw_keys db" "gw_keys (db\<lparr>gw_quotas := q\<rparr>) = gw_keys db"
  "gw_keys (db\<lparr>gw_key_quotas := kq\<rparr>) = gw_keys db"
  by (simp_all add: gw_keys_def set_gw_keys_def set_gw_invites_def set_gw_login_def set_gw_settings_def audited_def)

lemma gw_invites_simps [simp]:
  "gw_invites (set_gw_keys t db) = gw_invites db" "gw_invites (set_gw_invites u db) = u"
  "gw_invites (set_gw_login l db) = gw_invites db" "gw_invites (set_gw_settings s db) = gw_invites db"
  "gw_invites (audited now ev db) = gw_invites db" "gw_invites (db\<lparr>gw_provider_keys := pk\<rparr>) = gw_invites db"
  "gw_invites (db\<lparr>gw_auth := a\<rparr>) = gw_invites db" "gw_invites (db\<lparr>gw_quotas := q\<rparr>) = gw_invites db"
  "gw_invites (db\<lparr>gw_key_quotas := kq\<rparr>) = gw_invites db"
  by (simp_all add: gw_invites_def set_gw_keys_def set_gw_invites_def set_gw_login_def set_gw_settings_def audited_def)

lemma gw_login_simps [simp]:
  "gw_login (set_gw_keys t db) = gw_login db" "gw_login (set_gw_invites u db) = gw_login db"
  "gw_login (set_gw_login l db) = l" "gw_login (set_gw_settings s db) = (gw_login db)\<lparr>ld_settings := s\<rparr>"
  "gw_login (audited now ev db) = gw_login db"
  by (simp_all add: gw_login_def set_gw_keys_def set_gw_invites_def set_gw_login_def set_gw_settings_def audited_def)

lemma gw_settings_simps [simp]:
  "gw_settings (set_gw_settings s db) = s" "gw_settings (audited now ev db) = gw_settings db"
  "gw_settings (set_gw_keys t db) = gw_settings db"
  by (simp_all add: gw_settings_def gw_login_def set_gw_keys_def set_gw_login_def set_gw_settings_def audited_def)

lemma gw_fields_simps [simp]:
  "gw_provider_keys (set_gw_keys t db) = gw_provider_keys db" "gw_provider_keys (set_gw_invites u db) = gw_provider_keys db"
  "gw_provider_keys (set_gw_login l db) = gw_provider_keys db" "gw_provider_keys (set_gw_settings s db) = gw_provider_keys db"
  "gw_provider_keys (audited now ev db) = gw_provider_keys db"
  "gw_auth (set_gw_keys t db) = gw_auth db" "gw_auth (set_gw_invites u db) = gw_auth db"
  "gw_auth (set_gw_login l db) = gw_auth db" "gw_auth (set_gw_settings s db) = gw_auth db"
  "gw_auth (audited now ev db) = gw_auth db"
  "gw_audit (set_gw_keys t db) = gw_audit db" "gw_audit (set_gw_invites u db) = gw_audit db"
  "gw_audit (set_gw_login l db) = gw_audit db" "gw_audit (set_gw_settings s db) = gw_audit db"
  "gw_audit (audited now ev db) = audit_ignored now ev (gw_audit db)"
  by (simp_all add: set_gw_keys_def set_gw_invites_def set_gw_login_def set_gw_settings_def audited_def)

end
