(* ===== verification/AdminWeb.thy ===== *)
theory AdminWeb
  imports GatewayDb OAuthServer ProviderHealth Proxy
begin

text \<open>
  internal/adminweb/handlers.go, the frame of the admin API: a request as the handlers read it, the
  answers they write, the parsing of paths and bodies, and the handlers of sign-in, of the operator
  password, of invite codes and of gateway keys. A JSON answer is the value handed to \<open>writeJSON\<close>.
\<close>

section \<open>Requests\<close>

record admin_request =
  aq_http :: client_request
  aq_cookie :: "string option"
  aq_remote :: string

abbreviation aq_method :: "admin_request \<Rightarrow> string" where "aq_method rq \<equiv> cr_method (aq_http rq)"
abbreviation aq_path :: "admin_request \<Rightarrow> string" where "aq_path rq \<equiv> cr_path (aq_http rq)"

definition aq_header :: "admin_request \<Rightarrow> string \<Rightarrow> string" where
  "aq_header rq k = header_get (cr_header (aq_http rq)) k"

definition aq_session :: "admin_request \<Rightarrow> string" where
  "aq_session rq = session_id_from_request (aq_cookie rq)"

definition query_param :: "admin_request \<Rightarrow> string \<Rightarrow> string" where
  "query_param rq k = values_get (fst (parse_query (cr_raw_query (aq_http rq)))) k"

text \<open>The services of \<open>Deps\<close> that may be missing are options or flags.\<close>

record admin_deps =
  dp_crypto :: crypto
  dp_scrypt :: scrypt_fun
  dp_keys :: key_env
  dp_auth :: auth_service
  dp_host :: host_zone
  dp_github :: "login_service option"
  dp_invites :: bool
  dp_quotas :: bool
  dp_key_quotas :: bool
  dp_attempt_logs :: bool
  dp_refresher :: bool

text \<open>
  What one request draws on: the readings of the clock in the order they are taken, random bytes
  and nonces, and the environments of the quota refreshes.
\<close>

record admin_env =
  an_clock :: "nat \<Rightarrow> instant"
  an_random :: bytes
  an_session :: "bytes option"
  an_salt :: "bytes option"
  an_nonce :: "nat \<Rightarrow> bytes"
  an_quota :: "nat \<Rightarrow> quota_env"

section \<open>Answers\<close>

record dashboard_row =
  dr_name :: string
  dr_base_url :: string
  dr_key_count :: int
  dr_cooldown_count :: int

record dashboard_data =
  dd_providers :: "dashboard_row list"
  dd_gateway_keys :: "gateway_key_display list"
  dd_provider_keys :: "display_key list"
  dd_audit :: "stored_event list"
  dd_usage :: "usage_row list"

text \<open>
  The bodies: a text of \<open>http.Error\<close>, the error object of \<open>writeAPIError\<close>, each also with the text
  of an error of the providers, of the invites or of the operator login; a redirect; and the JSON values.
\<close>

datatype admin_body =
    TextBody string
  | FailureText provider_error
  | ErrorBody string string
  | FailureBody provider_error
  | InviteFailure invite_error
  | LoginFailure login_error
  | RedirectBody string
  | StringsBody "(string \<times> string) list"
  | BoolBody string bool
  | SessionBody string
  | DashboardBody dashboard_data
  | GatewayKeysBody "gateway_key_display list" "int \<times> int"
  | GatewayKeyBody gateway_key_display string
  | RevokedBody int
  | InvitesBody "invite_code list"
  | InviteBody invite_code
  | ProviderKeysBody "display_key list" "int \<times> int"
  | ProviderKeyBody display_key
  | KeyRotatedBody display_key
  | QuotaUpdatedBody display_key
  | QuotaKeyRotatedBody display_key
  | BaseUrlsBody "(string \<times> string) list"
  | HealthBody "health_item list"
  | QuotasBody "quota_cache list"
  | QuotaBody quota_cache
  | PoolBody provider_pool
  | KeyQuotaBody key_quota
  | RefreshAllBody refresh_all_result
  | AttemptsBody attempt_page
  | TimezoneBody display_timezone
  | AuditBody "stored_event list" "int \<times> int"
  | UsageBody "usage_row list" "int \<times> int"
  | LoginStatusBody login_status

record admin_reply =
  ay_status :: int
  ay_cookie :: "cookie option"
  ay_body :: admin_body

definition answer :: "int \<Rightarrow> admin_body \<Rightarrow> admin_reply" where
  "answer status b = \<lparr>ay_status = status, ay_cookie = None, ay_body = b\<rparr>"

definition http_error :: "int \<Rightarrow> string \<Rightarrow> admin_reply" where
  "http_error status text = answer status (TextBody text)"

definition api_error :: "int \<Rightarrow> string \<Rightarrow> string \<Rightarrow> admin_reply" where
  "api_error status code msg = answer status (ErrorBody code msg)"

text \<open>The answers the handlers share.\<close>

definition bad_text :: admin_reply where "bad_text = http_error 400 ''bad request''"
definition bad_api :: "string \<Rightarrow> admin_reply" where "bad_api msg = api_error 400 ''bad_request'' msg"
definition internal_text :: admin_reply where "internal_text = http_error 500 ''internal error''"
definition ok_json :: "admin_body \<Rightarrow> admin_reply" where "ok_json b = answer 200 b"
definition status_ok :: admin_reply where "status_ok = ok_json (StringsBody [(''status'', ''ok'')])"

section \<open>Bodies\<close>

text \<open>A form is read for POST, PUT and PATCH only, and only when the body is declared as one.\<close>

definition form_type :: "admin_request \<Rightarrow> bool" where
  "form_type rq \<longleftrightarrow>
     trim_space (to_lower (hd (split_on (CHR '';'') (aq_header rq ''Content-Type'')))) = ''application/x-www-form-urlencoded''"

definition post_form :: "admin_request \<Rightarrow> url_values \<times> bool" where
  "post_form rq =
     (case cr_body (aq_http rq) of
        Some s \<Rightarrow> if aq_method rq \<in> {''POST'', ''PUT'', ''PATCH''} \<and> form_type rq then parse_query s else ([], True)
      | None \<Rightarrow> ([], True))"

definition form_value :: "admin_request \<Rightarrow> string \<Rightarrow> string" where
  "form_value rq k = values_get (merge_values (fst (post_form rq)) (fst (parse_query (cr_raw_query (aq_http rq))))) k"

definition form_ok :: "admin_request \<Rightarrow> bool" where
  "form_ok rq \<longleftrightarrow> snd (post_form rq) \<and> snd (parse_query (cr_raw_query (aq_http rq)))"

definition requires_csrf :: "admin_request \<Rightarrow> bool" where
  "requires_csrf rq \<longleftrightarrow>
     (if aq_method rq = ''POST'' \<or> aq_method rq = ''PATCH'' \<or> aq_method rq = ''DELETE'' then aq_path rq \<noteq> ''/admin/api/login''
      else False)"

text \<open>The token of the header, or of the form when the header has none.\<close>

definition csrf_of :: "admin_request \<Rightarrow> string" where
  "csrf_of rq =
     (let token = aq_header rq ''X-CSRF-Token'' in
      if token = [] then values_get (fst (post_form rq)) ''csrf_token'' else token)"

text \<open>Looking for the token reads the form, and a body that was read as a form is at its end.\<close>

definition form_was_read :: "admin_request \<Rightarrow> bool" where
  "form_was_read rq \<longleftrightarrow> requires_csrf rq \<and> aq_header rq ''X-CSRF-Token'' = []"

definition body_members :: "admin_request \<Rightarrow> (string \<times> json) list option" where
  "body_members rq =
     (if form_was_read rq \<and> aq_method rq \<noteq> ''DELETE'' \<and> form_type rq then None
      else case cr_body (aq_http rq) of
        None \<Rightarrow> None
      | Some s \<Rightarrow> Option.bind (map_option fst (parse_value (Suc (2 * length s)) 0 s)) elem_members)"

definition json_type :: "admin_request \<Rightarrow> bool" where
  "json_type rq \<longleftrightarrow> contains ''application/json'' (aq_header rq ''Content-Type'')"

definition wants_html_response :: "admin_request \<Rightarrow> bool" where
  "wants_html_response rq \<longleftrightarrow>
     (if contains ''application/x-www-form-urlencoded'' (aq_header rq ''Content-Type'') then True
      else let accept = aq_header rq ''Accept'' in
        if accept = [] then False else contains ''text/html'' accept)"

section \<open>Paths and paging\<close>

definition parse_id_suffix :: "string \<Rightarrow> string \<Rightarrow> rowid option" where
  "parse_id_suffix path pre = parse_int64 (trim_suffix ''/'' (trim_prefix pre path))"

definition first_segment_id :: "string \<Rightarrow> string \<Rightarrow> rowid option" where
  "first_segment_id pre path0 =
     (let path = trim_suffix ''/'' (trim_prefix pre path0) in
      parse_int64 (case cut_at (CHR ''/'') path of None \<Rightarrow> path | Some (a, _) \<Rightarrow> a))"

definition parse_provider_key_id :: "string \<Rightarrow> rowid option" where
  "parse_provider_key_id = first_segment_id ''/admin/api/provider-keys/''"

definition parse_provider_endpoint_id :: "string \<Rightarrow> rowid option" where
  "parse_provider_endpoint_id = first_segment_id ''/admin/api/provider-endpoints/''"

definition parse_action_id :: "string \<Rightarrow> string \<Rightarrow> string \<Rightarrow> rowid option" where
  "parse_action_id path pre suf = parse_int64 (trim_suffix ''/'' (trim_suffix suf (trim_prefix pre path)))"

definition provider_from_action_path :: "string \<Rightarrow> string \<Rightarrow> string \<Rightarrow> string option" where
  "provider_from_action_path path pre suf =
     (let provider = trim_right_slash (trim_left_slash (trim_suffix suf (trim_prefix pre path))) in
      if provider = provider_grok \<or> provider = provider_tavily \<or> provider = provider_firecrawl then Some provider
      else None)"

definition admin_providers :: "string list" where
  "admin_providers = [provider_grok, provider_tavily, provider_firecrawl]"

definition limit_offset :: "admin_request \<Rightarrow> int \<times> int" where
  "limit_offset rq =
     ((case parse_int64 (query_param rq ''limit'') of Some v \<Rightarrow> if 0 < v \<and> v \<le> 500 then v else 100 | None \<Rightarrow> 100),
      (case parse_int64 (query_param rq ''offset'') of Some v \<Rightarrow> if 0 \<le> v then v else 0 | None \<Rightarrow> 0))"

section \<open>Events\<close>

definition web_event :: "string \<Rightarrow> string \<Rightarrow> string \<Rightarrow> audit_event" where
  "web_event action detail ip =
     no_event\<lparr>ae_actor_kind := ''admin_web'', ae_action := action, ae_detail := detail, ae_client_ip := ip\<rparr>"

definition target_event :: "string \<Rightarrow> string \<Rightarrow> rowid \<Rightarrow> string \<Rightarrow> audit_event" where
  "target_event action kind i detail =
     no_event\<lparr>ae_actor_kind := ''admin_web'', ae_action := action, ae_target_kind := kind, ae_target_id := itoa i,
       ae_detail := detail\<rparr>"

section \<open>Sign-in\<close>

text \<open>The first reading of the clock is the middleware's, so the handlers start with the second.\<close>

definition login_token :: "admin_request \<Rightarrow> string option" where
  "login_token rq =
     (if json_type rq then
        (case body_members rq of
           None \<Rightarrow> None
         | Some ms \<Rightarrow> map_option trim_space (string_field [''token''] ''token'' ms))
      else Some (trim_space (form_value rq ''token'')))"

definition handle_login :: "admin_deps \<Rightarrow> admin_env \<Rightarrow> admin_request \<Rightarrow> gateway_db \<Rightarrow> admin_reply \<times> gateway_db" where
  "handle_login dp env rq db =
     (case login_token rq of
        None \<Rightarrow> (bad_text, db)
      | Some token \<Rightarrow>
          (case login (dp_crypto dp) (dp_auth dp) (an_session env) (an_clock env 1) token (gw_auth db) of
             Inl e \<Rightarrow> (if e = ErrInvalidToken then
                 api_error 401 ''invalid_credentials'' ''Invalid admin token. Check the password and try again.''
               else internal_text, db)
           | Inr (res, auth) \<Rightarrow>
               ((if json_type rq then ok_json (StringsBody [(''csrf_token'', lr_csrf_token res), (''status'', ''ok'')])
                 else answer 302 (RedirectBody ''/admin''))\<lparr>ay_cookie := Some (lr_cookie res)\<rparr>,
                audited (an_clock env 2) (web_event ''admin.login'' ''result=ok'' (aq_remote rq)) (db\<lparr>gw_auth := auth\<rparr>))))"

definition handle_logout :: "admin_deps \<Rightarrow> admin_request \<Rightarrow> gateway_db \<Rightarrow> admin_reply \<times> gateway_db" where
  "handle_logout dp rq db =
     (case logout (dp_auth dp) (aq_session rq) (gw_auth db) of
        (c, auth) \<Rightarrow>
          ((if wants_html_response rq then answer 302 (RedirectBody ''/admin'') else status_ok)\<lparr>ay_cookie := Some c\<rparr>,
           db\<lparr>gw_auth := auth\<rparr>))"

definition session_failure :: "auth_error \<Rightarrow> admin_reply" where
  "session_failure e = (if e = ErrSessionInvalid then http_error 401 ''unauthorized'' else internal_text)"

definition handle_session :: "admin_deps \<Rightarrow> admin_env \<Rightarrow> admin_request \<Rightarrow> gateway_db \<Rightarrow> admin_reply \<times> gateway_db" where
  "handle_session dp env rq db =
     (case validate_session (an_clock env 1) (aq_session rq) (gw_auth db) of
        Inl e \<Rightarrow> (session_failure e, db)
      | Inr _ \<Rightarrow>
          (case csrf_token (dp_crypto dp) (an_clock env 2) (aq_session rq) (gw_auth db) of
             Inl e \<Rightarrow> (session_failure e, db)
           | Inr tok \<Rightarrow> (ok_json (SessionBody tok), db)))"

section \<open>The operator password\<close>

definition password_names :: "string list" where "password_names = [''password'', ''confirm'']"

text \<open>\<open>ParseForm\<close> reports an error only when it is the first to read the form.\<close>

definition operator_passwords :: "admin_request \<Rightarrow> (string \<times> string) option" where
  "operator_passwords rq =
     (if json_type rq then
        (case body_members rq of
           None \<Rightarrow> None
         | Some ms \<Rightarrow>
             (case (string_field password_names ''password'' ms, string_field password_names ''confirm'' ms) of
                (Some p, Some c) \<Rightarrow> Some (trim_space p, trim_space c) | _ \<Rightarrow> None))
      else if \<not> form_was_read rq \<and> \<not> form_ok rq then None
      else Some (trim_space (form_value rq ''password''), trim_space (form_value rq ''confirm'')))"

definition handle_operator_password ::
  "admin_deps \<Rightarrow> admin_env \<Rightarrow> admin_request \<Rightarrow> gateway_db \<Rightarrow> admin_reply \<times> gateway_db" where
  "handle_operator_password dp env rq db =
     (case operator_passwords rq of
        None \<Rightarrow> (bad_api ''bad request'', db)
      | Some (password, confirm) \<Rightarrow>
          if password \<noteq> confirm then (bad_api ''passwords do not match'', db)
          else if password = [] then (bad_api ''password must be at least 1 character'', db)
          else (case hash_password (dp_scrypt dp) (an_salt env) password of
            None \<Rightarrow> (internal_text, db)
          | Some h \<Rightarrow>
              (if wants_html_response rq then answer 302 (RedirectBody ''/admin'') else status_ok,
               audited (an_clock env 2) (web_event ''oauth.operator_password.rotate'' ''result=ok'' (aq_remote rq))
                 (set_gw_settings (set_cooldown_setting (an_clock env 1) setting_oauth_operator_password_hash h
                    (gw_settings db)) db))))"

section \<open>Public issuance and invite codes\<close>

definition setting_public_issuance :: string where "setting_public_issuance = ''public_issuance''"

definition handle_public_issuance_get :: "gateway_db \<Rightarrow> admin_reply \<times> gateway_db" where
  "handle_public_issuance_get db =
     (let val = get_setting_string (gw_settings db) setting_public_issuance ''off''
      in (ok_json (StringsBody [(''value'', if val = [] then ''off'' else val)]), db))"

definition handle_public_issuance_patch :: "admin_env \<Rightarrow> admin_request \<Rightarrow> gateway_db \<Rightarrow> admin_reply \<times> gateway_db" where
  "handle_public_issuance_patch env rq db =
     (case Option.bind (body_members rq) (string_field [''value''] ''value'') of
        None \<Rightarrow> (bad_api ''invalid json'', db)
      | Some v \<Rightarrow>
          (let val = trim_space v in
           if val \<noteq> ''off'' \<and> val \<noteq> ''open'' \<and> val \<noteq> ''ref_code'' then
             (bad_api ''value must be one of: off, open, ref_code'', db)
           else (ok_json (StringsBody [(''value'', val)]),
             audited (an_clock env 2) (web_event ''settings.public_issuance.update'' (''value='' @ val) (aq_remote rq))
               (set_gw_settings (set_cooldown_setting (an_clock env 1) setting_public_issuance val (gw_settings db)) db))))"

definition handle_invite_codes_get :: "admin_deps \<Rightarrow> gateway_db \<Rightarrow> admin_reply \<times> gateway_db" where
  "handle_invite_codes_get dp db =
     (if \<not> dp_invites dp then (ok_json (InvitesBody []), db)
      else (ok_json (InvitesBody (list_invites (gw_invites db))), db))"

definition invite_names :: "string list" where
  "invite_names = [''agent_label_bind'', ''max_redemptions'', ''expires_at'']"

definition invite_body :: "admin_request \<Rightarrow> (string \<times> int \<times> string) option" where
  "invite_body rq =
     (case body_members rq of
        None \<Rightarrow> None
      | Some ms \<Rightarrow>
          (case (string_field invite_names ''agent_label_bind'' ms, int_field invite_names ''max_redemptions'' ms,
                 string_field invite_names ''expires_at'' ms) of
             (Some b, Some m, Some e) \<Rightarrow> Some (b, m, e) | _ \<Rightarrow> None))"

definition handle_invite_codes_post ::
  "admin_deps \<Rightarrow> admin_env \<Rightarrow> admin_request \<Rightarrow> gateway_db \<Rightarrow> admin_reply \<times> gateway_db" where
  "handle_invite_codes_post dp env rq db =
     (if \<not> dp_invites dp then (internal_text, db)
      else case invite_body rq of
        None \<Rightarrow> (bad_api ''invalid json'', db)
      | Some (label, m, e) \<Rightarrow>
          (let max_redemptions = (if m \<le> 0 then 1 else m);
               expires_at = (if trim_space e = [] then stamp (an_clock env 1 + 30 * day) else e)
           in case create_invite (an_random env) (an_clock env 2) label max_redemptions expires_at (gw_invites db) of
                Inl err \<Rightarrow> (answer 400 (InviteFailure err), db)
              | Inr (item, t) \<Rightarrow>
                  (ok_json (InviteBody item),
                   audited (an_clock env 3) (web_event ''invite_code.create''
                       (''code='' @ ic_code item @ '';bind='' @ ic_bind item @ '';max='' @ itoa (ic_max item)) (aq_remote rq))
                     (set_gw_invites t db))))"

definition handle_invite_codes_revoke ::
  "admin_deps \<Rightarrow> admin_env \<Rightarrow> admin_request \<Rightarrow> gateway_db \<Rightarrow> admin_reply \<times> gateway_db" where
  "handle_invite_codes_revoke dp env rq db =
     (if \<not> dp_invites dp then (internal_text, db)
      else case parse_action_id (aq_path rq) ''/admin/api/invite-codes/'' ''/revoke'' of
        None \<Rightarrow> (bad_api ''bad request'', db)
      | Some i \<Rightarrow>
          (case revoke_invite (an_clock env 1) i (gw_invites db) of
             (Some e, t) \<Rightarrow> (if e = ErrInviteNotFound then api_error 404 ''not_found'' ''invite code not found''
                             else internal_text, set_gw_invites t db)
           | (None, t) \<Rightarrow>
               (status_ok, audited (an_clock env 2) (web_event ''invite_code.revoke'' (''id='' @ itoa i) (aq_remote rq))
                  (set_gw_invites t db))))"

section \<open>Gateway keys\<close>

definition gateway_keys_path :: string where "gateway_keys_path = ''/admin/api/gateway-keys/''"

definition handle_gateway_keys_list :: "admin_request \<Rightarrow> gateway_db \<Rightarrow> admin_reply \<times> gateway_db" where
  "handle_gateway_keys_list rq db =
     (ok_json (GatewayKeysBody (list_gateway_keys (gw_keys db)) (limit_offset rq)), db)"

definition handle_gateway_keys_create ::
  "admin_deps \<Rightarrow> admin_env \<Rightarrow> admin_request \<Rightarrow> gateway_db \<Rightarrow> admin_reply \<times> gateway_db" where
  "handle_gateway_keys_create dp env rq db =
     (case Option.bind (body_members rq) (string_field [''name''] ''name'') of
        None \<Rightarrow> (bad_api ''bad request'', db)
      | Some name \<Rightarrow>
          if name = [] then (bad_api ''bad request'', db)
          else (case create_key (dp_crypto dp) (an_random env) (an_clock env 1) name (gw_keys db) of
            Inl _ \<Rightarrow> (internal_text, db)
          | Inr (raw, d, t) \<Rightarrow>
              (ok_json (GatewayKeyBody d raw),
               audited (an_clock env 2) (target_event ''gateway_key.create'' ''gateway_key'' (gk_id d) (''name='' @ name))
                 (set_gw_keys t db))))"

definition gateway_patch_names :: "string list" where "gateway_patch_names = [''enabled'', ''revoke'']"

definition gateway_patch_body :: "admin_request \<Rightarrow> (bool option \<times> bool) option" where
  "gateway_patch_body rq =
     (case body_members rq of
        None \<Rightarrow> None
      | Some ms \<Rightarrow>
          (case (bool_ptr_field gateway_patch_names ''enabled'' ms, bool_field gateway_patch_names ''revoke'' ms) of
             (Some e, Some r) \<Rightarrow> Some (e, r) | _ \<Rightarrow> None))"

definition handle_gateway_keys_patch :: "admin_env \<Rightarrow> admin_request \<Rightarrow> gateway_db \<Rightarrow> admin_reply \<times> gateway_db" where
  "handle_gateway_keys_patch env rq db =
     (case parse_id_suffix (aq_path rq) gateway_keys_path of
        None \<Rightarrow> (bad_text, db)
      | Some i \<Rightarrow>
          (case gateway_patch_body rq of
             None \<Rightarrow> (bad_text, db)
           | Some (_, True) \<Rightarrow> (status_ok, set_gw_keys (revoke_gateway_key (an_clock env 1) i (gw_keys db)) db)
           | Some (Some True, False) \<Rightarrow> (status_ok, set_gw_keys (enable_gateway_key i (gw_keys db)) db)
           | Some (Some False, False) \<Rightarrow> (status_ok, set_gw_keys (disable_gateway_key i (gw_keys db)) db)
           | Some (None, False) \<Rightarrow> (bad_text, db)))"

definition handle_gateway_keys_revoke :: "admin_env \<Rightarrow> admin_request \<Rightarrow> gateway_db \<Rightarrow> admin_reply \<times> gateway_db" where
  "handle_gateway_keys_revoke env rq db =
     (case parse_action_id (aq_path rq) gateway_keys_path ''/revoke'' of
        None \<Rightarrow> (bad_api ''bad request'', db)
      | Some i \<Rightarrow> (status_ok, set_gw_keys (revoke_gateway_key (an_clock env 1) i (gw_keys db)) db))"

text \<open>A body that does not decode counts as 30 days; what was decoded before the error is replaced.\<close>

definition unused_days :: "admin_request \<Rightarrow> int" where
  "unused_days rq =
     (case Option.bind (body_members rq) (int_field [''days''] ''days'') of
        None \<Rightarrow> 30 | Some d \<Rightarrow> if d \<le> 0 then 30 else d)"

definition handle_gateway_keys_revoke_unused ::
  "admin_env \<Rightarrow> admin_request \<Rightarrow> gateway_db \<Rightarrow> admin_reply \<times> gateway_db" where
  "handle_gateway_keys_revoke_unused env rq db =
     (case revoke_unused (an_clock env 1) (an_clock env 2) (unused_days rq) (gw_keys db) of
        Inl _ \<Rightarrow> (internal_text, db)
      | Inr (revoked, t) \<Rightarrow>
          (ok_json (RevokedBody revoked),
           audited (an_clock env 3) (web_event ''gateway_keys.revoke_unused''
               (''days='' @ itoa (unused_days rq) @ '';revoked_count='' @ itoa revoked) (aq_remote rq))
             (set_gw_keys t db)))"

definition handle_gateway_keys_delete :: "admin_request \<Rightarrow> gateway_db \<Rightarrow> admin_reply \<times> gateway_db" where
  "handle_gateway_keys_delete rq db =
     (case parse_id_suffix (aq_path rq) gateway_keys_path of
        None \<Rightarrow> (bad_text, db)
      | Some i \<Rightarrow> (status_ok, set_gw_keys (delete_gateway_key i (gw_keys db)) db))"

end
