(* ===== verification/AdminProviders.thy ===== *)
theory AdminProviders
  imports AdminWeb
begin

text \<open>
  internal/adminweb/handlers.go: the handlers of provider endpoints and keys, base URLs, health, quotas,
  pools, the attempt log and the display settings.
\<close>

section \<open>Creating\<close>

definition list_rows :: "string \<Rightarrow> gateway_db \<Rightarrow> provider_error + display_key list" where
  "list_rows provider db =
     (if provider \<noteq> [] then list_keys provider (gw_provider_keys db) else list_all_keys (gw_provider_keys db))"

definition handle_provider_keys_list :: "admin_request \<Rightarrow> gateway_db \<Rightarrow> admin_reply \<times> gateway_db" where
  "handle_provider_keys_list rq db =
     (case list_rows (query_param rq ''provider'') db of
        Inl e \<Rightarrow> (if e = ErrUnknownProvider then bad_text else internal_text, db)
      | Inr l \<Rightarrow> (ok_json (ProviderKeysBody l (limit_offset rq)), db))"

record endpoint_body =
  eb_provider :: string
  eb_name :: string
  eb_base_url :: string
  eb_key :: string
  eb_api_key :: string
  eb_quota :: "endpoint_quota_input option"

definition raw_key_of :: "string \<Rightarrow> string \<Rightarrow> string" where
  "raw_key_of key api_key = (if key = [] then api_key else key)"

definition key_body_names :: "string list" where
  "key_body_names = [''provider'', ''name'', ''key'', ''api_key'', ''base_url'']"

definition key_create_body :: "admin_request \<Rightarrow> endpoint_body option" where
  "key_create_body rq =
     (case body_members rq of
        None \<Rightarrow> None
      | Some ms \<Rightarrow>
          (case map (\<lambda>f. string_field key_body_names f ms) key_body_names of
             [Some p, Some n, Some k, Some a, Some u] \<Rightarrow>
               Some \<lparr>eb_provider = p, eb_name = n, eb_base_url = u, eb_key = k, eb_api_key = a, eb_quota = None\<rparr>
           | _ \<Rightarrow> None))"

text \<open>The errors that are reported to the client as a bad request.\<close>

definition is_client_error :: "provider_error \<Rightarrow> bool" where
  "is_client_error e \<longleftrightarrow> e = ErrDuplicateName \<or> e = ErrUnknownProvider \<or> is_invalid_base_url e"

definition handle_provider_keys_create ::
  "admin_deps \<Rightarrow> admin_env \<Rightarrow> admin_request \<Rightarrow> gateway_db \<Rightarrow> admin_reply \<times> gateway_db" where
  "handle_provider_keys_create dp env rq db =
     (case key_create_body rq of
        None \<Rightarrow> (bad_text, db)
      | Some b \<Rightarrow>
          (let raw_key = raw_key_of (eb_key b) (eb_api_key b); t = gw_provider_keys db in
           case (if trim_space (eb_base_url b) \<noteq> [] then
                   add_endpoint (dp_keys dp) (an_nonce env 0) (an_nonce env 1) (an_clock env 1)
                     (eb_provider b) (eb_name b) (eb_base_url b) raw_key t
                 else add_key (gw_settings db) (dp_keys dp) (an_nonce env 0) (an_nonce env 1) (an_clock env 1)
                     (eb_provider b) (eb_name b) raw_key t) of
             Inl e \<Rightarrow> (if is_client_error e then answer 400 (FailureText e) else internal_text, db)
           | Inr (d, t') \<Rightarrow>
               (ok_json (ProviderKeyBody d),
                audited (an_clock env 2) (target_event ''provider_key.add'' ''provider_key'' (pk_id d)
                    (''provider='' @ eb_provider b @ '';name='' @ eb_name b)) (db\<lparr>gw_provider_keys := t'\<rparr>))))"

definition quota_body_names :: "string list" where "quota_body_names = [''mode'', ''flow'', ''base_url'', ''key'']"

definition decode_quota_body :: "(string \<times> json) list \<Rightarrow> endpoint_quota_input option" where
  "decode_quota_body ms =
     (case map (\<lambda>f. string_field quota_body_names f ms) quota_body_names of
        [Some m, Some f, Some u, Some k] \<Rightarrow>
          Some \<lparr>qi_mode = m, qi_flow = f, qi_base_url = u, qi_raw_key = k\<rparr>
      | _ \<Rightarrow> None)"

definition endpoint_body_names :: "string list" where
  "endpoint_body_names = [''provider'', ''name'', ''base_url'', ''key'', ''api_key'', ''quota'']"

definition endpoint_create_body :: "admin_request \<Rightarrow> endpoint_body option" where
  "endpoint_create_body rq =
     (case body_members rq of
        None \<Rightarrow> None
      | Some ms \<Rightarrow>
          (case (map (\<lambda>f. string_field endpoint_body_names f ms) (butlast endpoint_body_names),
                 decode_ptr decode_quota_body (struct_ptr_field endpoint_body_names ''quota'' ms)) of
             ([Some p, Some n, Some u, Some k, Some a], Some q) \<Rightarrow>
               Some \<lparr>eb_provider = p, eb_name = n, eb_base_url = u, eb_key = k, eb_api_key = a, eb_quota = q\<rparr>
           | _ \<Rightarrow> None))"

definition quota_detail :: "display_key \<Rightarrow> string" where
  "quota_detail d =
     '';quota_mode='' @ pk_quota_mode d @ '';quota_flow='' @ pk_quota_flow d
     @ (case pk_quota_base_url d of None \<Rightarrow> [] | Some u \<Rightarrow> '';quota_base_url='' @ u)"

definition handle_provider_endpoints_create ::
  "admin_deps \<Rightarrow> admin_env \<Rightarrow> admin_request \<Rightarrow> gateway_db \<Rightarrow> admin_reply \<times> gateway_db" where
  "handle_provider_endpoints_create dp env rq db =
     (case endpoint_create_body rq of
        None \<Rightarrow> (bad_text, db)
      | Some b \<Rightarrow>
          (let raw_key = raw_key_of (eb_key b) (eb_api_key b); t = gw_provider_keys db in
           if trim_space (eb_base_url b) = [] \<or> eb_provider b = [] \<or> eb_name b = [] \<or> raw_key = [] then (bad_text, db)
           else (case (case eb_quota b of
                   Some q \<Rightarrow> add_endpoint_with_quota (dp_keys dp) (an_nonce env 0) (an_nonce env 1) (an_clock env 1)
                               (eb_provider b) (eb_name b) (eb_base_url b) raw_key q t
                 | None \<Rightarrow> add_endpoint (dp_keys dp) (an_nonce env 0) (an_nonce env 1) (an_clock env 1)
                               (eb_provider b) (eb_name b) (eb_base_url b) raw_key t) of
             Inl e \<Rightarrow> (if is_client_error e \<or> is_invalid_quota_config e then answer 400 (FailureBody e) else internal_text, db)
           | Inr (d, t') \<Rightarrow>
               (ok_json (ProviderKeyBody d),
                audited (an_clock env 2) (target_event ''provider_endpoint.add'' ''provider_endpoint'' (pk_id d)
                    (''provider='' @ eb_provider b @ '';name='' @ eb_name b @ '';base_url='' @ pk_base_url d @ quota_detail d))
                  (db\<lparr>gw_provider_keys := t'\<rparr>)))))"

section \<open>Changing an endpoint\<close>

definition endpoints_path :: string where "endpoints_path = ''/admin/api/provider-endpoints/''"

definition endpoint_missing :: admin_reply where "endpoint_missing = bad_api ''provider endpoint not found''"

text \<open>\<open>provider=...;name=...\<close>, as the details of the endpoint events start.\<close>

definition row_detail :: "display_key \<Rightarrow> string" where
  "row_detail d = ''provider='' @ pk_provider d @ '';name='' @ pk_name d"

definition endpoint_event :: "string \<Rightarrow> rowid \<Rightarrow> string \<Rightarrow> audit_event" where
  "endpoint_event action i detail = target_event action ''provider_endpoint'' i detail"

text \<open>The row is read again after the change, which the answer and the event show.\<close>

definition after_change ::
  "rowid \<Rightarrow> key_table \<Rightarrow> gateway_db \<Rightarrow> (display_key \<Rightarrow> gateway_db \<Rightarrow> admin_reply \<times> gateway_db) \<Rightarrow> admin_reply \<times> gateway_db" where
  "after_change i t' db k =
     (let db' = db\<lparr>gw_provider_keys := t'\<rparr> in
      case get_key i t' of Inl _ \<Rightarrow> (internal_text, db') | Inr updated \<Rightarrow> k updated db')"

definition handle_endpoints_update_base_url ::
  "admin_env \<Rightarrow> admin_request \<Rightarrow> gateway_db \<Rightarrow> admin_reply \<times> gateway_db" where
  "handle_endpoints_update_base_url env rq db =
     (case parse_action_id (aq_path rq) endpoints_path ''/update-base-url'' of
        None \<Rightarrow> (bad_api ''bad request'', db)
      | Some i \<Rightarrow>
          (case Option.bind (body_members rq) (string_field [''base_url''] ''base_url'') of
             None \<Rightarrow> (bad_text, db)
           | Some url \<Rightarrow>
               if trim_space url = [] then (bad_text, db)
               else (case get_key i (gw_provider_keys db) of
                 Inl e \<Rightarrow> (if e = ErrProviderKeyNotFound then endpoint_missing else internal_text, db)
               | Inr row \<Rightarrow>
                   (case update_base_url (an_clock env 1) i url (gw_provider_keys db) of
                      Inl e \<Rightarrow> (if is_invalid_base_url e then answer 400 (FailureBody e)
                                else if e = ErrProviderKeyNotFound then endpoint_missing else internal_text, db)
                    | Inr t' \<Rightarrow> after_change i t' db (\<lambda>updated db'.
                        (ok_json (StringsBody [(''base_url'', pk_base_url updated), (''status'', ''ok'')]),
                         audited (an_clock env 2) (endpoint_event ''provider_endpoint.update_base_url'' i
                           (row_detail row @ '';base_url='' @ pk_base_url updated)) db'))))))"

definition key_names :: "string list" where "key_names = [''key'', ''api_key'']"

definition handle_endpoints_rotate_key ::
  "admin_deps \<Rightarrow> admin_env \<Rightarrow> admin_request \<Rightarrow> gateway_db \<Rightarrow> admin_reply \<times> gateway_db" where
  "handle_endpoints_rotate_key dp env rq db =
     (case parse_action_id (aq_path rq) endpoints_path ''/rotate-key'' of
        None \<Rightarrow> (bad_api ''bad request'', db)
      | Some i \<Rightarrow>
          (case (case body_members rq of None \<Rightarrow> (None, None)
                 | Some ms \<Rightarrow> (string_field key_names ''key'' ms, string_field key_names ''api_key'' ms)) of
             (Some k, Some a) \<Rightarrow>
               (let raw_key = raw_key_of k a in
                if raw_key = [] then (bad_text, db)
                else (case get_key i (gw_provider_keys db) of
                  Inl _ \<Rightarrow> (internal_text, db)
                | Inr row \<Rightarrow>
                    (case rotate_key (dp_keys dp) (an_nonce env 0) (an_clock env 1) i raw_key (gw_provider_keys db) of
                       Inl _ \<Rightarrow> (internal_text, db)
                     | Inr t' \<Rightarrow> after_change i t' db (\<lambda>updated db'.
                         (ok_json (KeyRotatedBody updated),
                          audited (an_clock env 2) (endpoint_event ''provider_endpoint.rotate_key'' i
                            (row_detail row @ '';fingerprint='' @ pk_fingerprint updated)) db')))))
           | _ \<Rightarrow> (bad_text, db)))"

text \<open>The quota update takes no key: the key column has its own rotation.\<close>

definition handle_endpoints_update_quota ::
  "admin_env \<Rightarrow> admin_request \<Rightarrow> gateway_db \<Rightarrow> admin_reply \<times> gateway_db" where
  "handle_endpoints_update_quota env rq db =
     (case parse_action_id (aq_path rq) endpoints_path ''/update-quota'' of
        None \<Rightarrow> (bad_api ''bad request'', db)
      | Some i \<Rightarrow>
          (case Option.bind (body_members rq) decode_quota_body of
             None \<Rightarrow> (bad_api ''bad request'', db)
           | Some q \<Rightarrow>
               if trim_space (qi_raw_key q) \<noteq> [] then
                 (bad_api ''update-quota does not accept a key; use rotate-quota-key'', db)
               else (case get_key i (gw_provider_keys db) of
                 Inl e \<Rightarrow> (if e = ErrProviderKeyNotFound then endpoint_missing else internal_text, db)
               | Inr row \<Rightarrow>
                   (case update_endpoint_quota (an_clock env 1) i (q\<lparr>qi_raw_key := []\<rparr>) (gw_provider_keys db) of
                      Inl e \<Rightarrow> (if is_invalid_quota_config e \<or> is_invalid_base_url e then answer 400 (FailureBody e)
                                else if e = ErrProviderKeyNotFound then endpoint_missing else internal_text, db)
                    | Inr t' \<Rightarrow> after_change i t' db (\<lambda>updated db'.
                        (ok_json (QuotaUpdatedBody updated),
                         audited (an_clock env 2) (endpoint_event ''provider_endpoint.update_quota'' i
                           (row_detail row @ quota_detail updated)) db'))))))"

definition handle_endpoints_rotate_quota_key ::
  "admin_deps \<Rightarrow> admin_env \<Rightarrow> admin_request \<Rightarrow> gateway_db \<Rightarrow> admin_reply \<times> gateway_db" where
  "handle_endpoints_rotate_quota_key dp env rq db =
     (case parse_action_id (aq_path rq) endpoints_path ''/rotate-quota-key'' of
        None \<Rightarrow> (bad_api ''bad request'', db)
      | Some i \<Rightarrow>
          (case Option.bind (body_members rq) (string_field [''key''] ''key'') of
             None \<Rightarrow> (bad_api ''bad request'', db)
           | Some key \<Rightarrow>
               if trim_space key = [] then (bad_api ''key required'', db)
               else (case get_key i (gw_provider_keys db) of
                 Inl e \<Rightarrow> (if e = ErrProviderKeyNotFound then endpoint_missing else internal_text, db)
               | Inr row \<Rightarrow>
                   (case rotate_endpoint_quota_key (dp_keys dp) (an_nonce env 0) (an_clock env 1) i key (gw_provider_keys db) of
                      Inl e \<Rightarrow> (if is_invalid_quota_config e \<or> e = ErrProviderKeyNotFound then answer 400 (FailureBody e)
                                else internal_text, db)
                    | Inr t' \<Rightarrow> after_change i t' db (\<lambda>updated db'.
                        (ok_json (QuotaKeyRotatedBody updated),
                         audited (an_clock env 2) (endpoint_event ''provider_endpoint.rotate_quota_key'' i
                           (row_detail row @ '';quota_fingerprint='' @
                             (case pk_quota_key_fingerprint updated of None \<Rightarrow> [] | Some fp \<Rightarrow> fp))) db'))))))"

definition endpoint_patch_names :: "string list" where "endpoint_patch_names = [''enabled'', ''base_url'']"

definition endpoint_patch_body :: "admin_request \<Rightarrow> (bool option \<times> string) option" where
  "endpoint_patch_body rq =
     (case body_members rq of
        None \<Rightarrow> None
      | Some ms \<Rightarrow>
          (case (bool_ptr_field endpoint_patch_names ''enabled'' ms, string_field endpoint_patch_names ''base_url'' ms) of
             (Some e, Some u) \<Rightarrow> Some (e, u) | _ \<Rightarrow> None))"

definition switch_key :: "instant \<Rightarrow> rowid \<Rightarrow> bool \<Rightarrow> gateway_db \<Rightarrow> admin_reply \<times> gateway_db" where
  "switch_key now i on db =
     (status_ok, db\<lparr>gw_provider_keys := (if on then enable_key now i (gw_provider_keys db)
                                         else disable_key now i (gw_provider_keys db))\<rparr>)"

definition handle_provider_endpoints_patch :: "admin_env \<Rightarrow> admin_request \<Rightarrow> gateway_db \<Rightarrow> admin_reply \<times> gateway_db" where
  "handle_provider_endpoints_patch env rq db =
     (case parse_provider_endpoint_id (aq_path rq) of
        None \<Rightarrow> (bad_text, db)
      | Some i \<Rightarrow>
          (case endpoint_patch_body rq of
             None \<Rightarrow> (bad_text, db)
           | Some (enabled, url) \<Rightarrow>
               if trim_space url \<noteq> [] then
                 (case update_base_url (an_clock env 1) i url (gw_provider_keys db) of
                    Inl e \<Rightarrow> (if is_invalid_base_url e then answer 400 (FailureBody e)
                              else if e = ErrProviderKeyNotFound then endpoint_missing else internal_text, db)
                  | Inr t' \<Rightarrow> (status_ok, db\<lparr>gw_provider_keys := t'\<rparr>))
               else (case enabled of
                   None \<Rightarrow> (bad_text, db)
                 | Some on \<Rightarrow> switch_key (an_clock env 1) i on db)))"

definition delete_at :: "rowid option \<Rightarrow> gateway_db \<Rightarrow> admin_reply \<times> gateway_db" where
  "delete_at found db =
     (case found of
        None \<Rightarrow> (bad_text, db)
      | Some i \<Rightarrow> (status_ok, db\<lparr>gw_provider_keys := delete_key i (gw_provider_keys db)\<rparr>))"

definition handle_provider_endpoints_delete :: "admin_request \<Rightarrow> gateway_db \<Rightarrow> admin_reply \<times> gateway_db" where
  "handle_provider_endpoints_delete rq db = delete_at (parse_provider_endpoint_id (aq_path rq)) db"

definition run_action ::
  "string \<Rightarrow> string \<Rightarrow> (rowid \<Rightarrow> key_table \<Rightarrow> provider_error + key_table) \<Rightarrow> admin_request \<Rightarrow> gateway_db \<Rightarrow> admin_reply \<times> gateway_db" where
  "run_action pre suf action rq db =
     (case parse_action_id (aq_path rq) pre suf of
        None \<Rightarrow> (bad_api ''bad request'', db)
      | Some i \<Rightarrow>
          (case action i (gw_provider_keys db) of
             Inl _ \<Rightarrow> (internal_text, db)
           | Inr t' \<Rightarrow> (status_ok, db\<lparr>gw_provider_keys := t'\<rparr>)))"

definition handle_provider_endpoint_action ::
  "string \<Rightarrow> (rowid \<Rightarrow> key_table \<Rightarrow> provider_error + key_table) \<Rightarrow> admin_request \<Rightarrow> gateway_db \<Rightarrow> admin_reply \<times> gateway_db" where
  "handle_provider_endpoint_action = run_action endpoints_path"

definition provider_keys_path :: string where "provider_keys_path = ''/admin/api/provider-keys/''"

definition handle_provider_key_action ::
  "string \<Rightarrow> (rowid \<Rightarrow> key_table \<Rightarrow> provider_error + key_table) \<Rightarrow> admin_request \<Rightarrow> gateway_db \<Rightarrow> admin_reply \<times> gateway_db" where
  "handle_provider_key_action = run_action provider_keys_path"

definition handle_provider_keys_patch :: "admin_env \<Rightarrow> admin_request \<Rightarrow> gateway_db \<Rightarrow> admin_reply \<times> gateway_db" where
  "handle_provider_keys_patch env rq db =
     (case parse_provider_key_id (aq_path rq) of
        None \<Rightarrow> (bad_text, db)
      | Some i \<Rightarrow>
          (case Option.bind (body_members rq) (bool_ptr_field [''enabled''] ''enabled'') of
             Some (Some on) \<Rightarrow> switch_key (an_clock env 1) i on db
           | _ \<Rightarrow> (bad_text, db)))"

definition handle_provider_keys_delete :: "admin_request \<Rightarrow> gateway_db \<Rightarrow> admin_reply \<times> gateway_db" where
  "handle_provider_keys_delete rq db = delete_at (parse_provider_key_id (aq_path rq)) db"

section \<open>Base URLs\<close>

definition handle_grok_get :: "gateway_db \<Rightarrow> admin_reply \<times> gateway_db" where
  "handle_grok_get db =
     (case get_base_url (gw_settings db) provider_grok of
        Inl _ \<Rightarrow> (internal_text, db)
      | Inr url \<Rightarrow> (ok_json (StringsBody [(''base_url'', url)]), db))"

definition handle_grok_patch :: "admin_env \<Rightarrow> admin_request \<Rightarrow> gateway_db \<Rightarrow> admin_reply \<times> gateway_db" where
  "handle_grok_patch env rq db =
     (case Option.bind (body_members rq) (string_field [''base_url''] ''base_url'') of
        None \<Rightarrow> (bad_text, db)
      | Some url \<Rightarrow>
          if url = [] then (bad_text, db)
          else (case set_base_url (an_clock env 1) provider_grok url (gw_settings db) of
            Inl e \<Rightarrow> (if is_invalid_base_url e then answer 400 (FailureBody e) else internal_text, db)
          | Inr s \<Rightarrow> (ok_json (StringsBody [(''base_url'', url)]), set_gw_settings s db)))"

fun base_urls :: "settings_db \<Rightarrow> string list \<Rightarrow> provider_error + (string \<times> string) list" where
  "base_urls s [] = Inr []"
| "base_urls s (p # ps) =
     and_then (get_base_url s p) (\<lambda>u. and_then (base_urls s ps) (\<lambda>us. Inr ((p, u) # us)))"

definition handle_provider_settings_list :: "gateway_db \<Rightarrow> admin_reply \<times> gateway_db" where
  "handle_provider_settings_list db =
     (case base_urls (gw_settings db) admin_providers of
        Inl _ \<Rightarrow> (internal_text, db) | Inr items \<Rightarrow> (ok_json (BaseUrlsBody items), db))"

definition handle_provider_settings_patch :: "admin_env \<Rightarrow> admin_request \<Rightarrow> gateway_db \<Rightarrow> admin_reply \<times> gateway_db" where
  "handle_provider_settings_patch env rq db =
     (let provider = trim_prefix ''/admin/api/provider-settings/'' (aq_path rq) in
      case Option.bind (body_members rq) (string_field [''base_url''] ''base_url'') of
        None \<Rightarrow> (bad_api ''bad request'', db)
      | Some url \<Rightarrow>
          if url = [] then (bad_api ''bad request'', db)
          else (case set_base_url (an_clock env 1) provider url (gw_settings db) of
            Inl e \<Rightarrow> (if e = ErrUnknownProvider then bad_api ''unknown provider''
                      else if is_invalid_base_url e then answer 400 (FailureBody e) else internal_text, db)
          | Inr s \<Rightarrow> (ok_json (StringsBody [(''base_url'', url), (''provider'', provider)]), set_gw_settings s db)))"

section \<open>Health and manual test\<close>

definition handle_provider_health :: "admin_env \<Rightarrow> gateway_db \<Rightarrow> admin_reply \<times> gateway_db" where
  "handle_provider_health env db =
     (case build_health (an_clock env 1) (gw_settings db) (gw_provider_keys db) of
        Inl _ \<Rightarrow> (internal_text, db) | Inr items \<Rightarrow> (ok_json (HealthBody items), db))"

definition manual_test_event :: last_event where
  "manual_test_event = \<lparr>le_source = ''manual_test'', le_status_class = ''2xx'', le_http_status = None,
     le_message = ''manual test selected key''\<rparr>"

definition handle_provider_manual_test ::
  "admin_deps \<Rightarrow> admin_env \<Rightarrow> admin_request \<Rightarrow> gateway_db \<Rightarrow> admin_reply \<times> gateway_db" where
  "handle_provider_manual_test dp env rq db =
     (case provider_from_action_path (aq_path rq) ''/admin/api/providers/'' ''/test'' of
        None \<Rightarrow> (bad_api ''bad request'', db)
      | Some provider \<Rightarrow>
          (case select_key (dp_keys dp) (an_clock env 1) provider (gw_provider_keys db) of
             Inl e \<Rightarrow> (if e = ErrNoEnabledKey
                        then ok_json (StringsBody [(''provider'', provider), (''status'', ''missing_key'')])
                        else internal_text, db)
           | Inr ((i, _), t) \<Rightarrow>
               (ok_json (StringsBody [(''provider'', provider), (''status'', ''ok'')]),
                db\<lparr>gw_provider_keys := mark_last_event (an_clock env 2) i manual_test_event t\<rparr>)))"

section \<open>Quotas and pools\<close>

definition unsupported_quota :: "instant \<Rightarrow> string \<Rightarrow> quota_cache" where
  "unsupported_quota now provider =
     \<lparr>qs_source = ''unsupported'', qs_available = False, qs_used = None, qs_limit_value = None, qs_remaining = None,
      qs_period_start = None, qs_period_end = None, qs_checked_at = stamp now, qs_expires_at = stamp (now + 5 * minute),
      qs_message = Some ''upstream quota not available'', qs_details = None, qc_provider = provider, qc_key_id = None\<rparr>"

definition provider_quota_items :: "admin_deps \<Rightarrow> admin_env \<Rightarrow> gateway_db \<Rightarrow> quota_cache list" where
  "provider_quota_items dp env db =
     (let cached = (if dp_quotas dp then map_of (rev (map (\<lambda>q. (qc_provider q, q)) (quota_list (gw_quotas db)))) else Map.empty)
      in map (\<lambda>(n, p). case cached p of Some q \<Rightarrow> q | None \<Rightarrow> unsupported_quota (an_clock env n) p)
           (enumerate 1 admin_providers))"

definition handle_provider_quotas :: "admin_deps \<Rightarrow> admin_env \<Rightarrow> gateway_db \<Rightarrow> admin_reply \<times> gateway_db" where
  "handle_provider_quotas dp env db = (ok_json (QuotasBody (provider_quota_items dp env db)), db)"

definition refresher_env :: "admin_deps \<Rightarrow> admin_env \<Rightarrow> nat \<Rightarrow> quota_env" where
  "refresher_env dp env n = (an_quota env n)\<lparr>qe_keys := dp_keys dp\<rparr>"

definition handle_provider_quota_refresh ::
  "admin_deps \<Rightarrow> admin_env \<Rightarrow> admin_request \<Rightarrow> gateway_db \<Rightarrow> admin_reply \<times> gateway_db" where
  "handle_provider_quota_refresh dp env rq db =
     (case provider_from_action_path (aq_path rq) ''/admin/api/provider-quotas/'' ''/refresh'' of
        None \<Rightarrow> (bad_api ''bad request'', db)
      | Some provider \<Rightarrow>
          (case (if dp_refresher dp then
                   quota_refresh (refresher_env dp env 0) (gw_settings db) (ke_master (dp_keys dp)) provider (gw_provider_keys db)
                 else Inr (unsupported_quota (an_clock env 1) provider, gw_provider_keys db)) of
             Inl _ \<Rightarrow> (internal_text, db)
           | Inr (q, t) \<Rightarrow>
               (let db' = db\<lparr>gw_provider_keys := t\<rparr> in
                if \<not> dp_quotas dp then (ok_json (QuotaBody q), db')
                else (case quota_upsert q (gw_quotas db) of
                  Inl _ \<Rightarrow> (internal_text, db')
                | Inr quotas \<Rightarrow> (ok_json (QuotaBody q), db'\<lparr>gw_quotas := quotas\<rparr>)))))"

definition handle_provider_pool ::
  "admin_deps \<Rightarrow> admin_env \<Rightarrow> admin_request \<Rightarrow> gateway_db \<Rightarrow> admin_reply \<times> gateway_db" where
  "handle_provider_pool dp env rq db =
     (case provider_from_action_path (aq_path rq) ''/admin/api/provider-pools/'' [] of
        None \<Rightarrow> (bad_api ''bad provider'', db)
      | Some provider \<Rightarrow>
          if \<not> dp_key_quotas dp then (internal_text, db)
          else (case limit_offset rq of (limit, offset) \<Rightarrow>
            (case provider_pool (an_clock env 1) (gw_provider_keys db) (gw_key_quotas db) provider
                    \<lparr>po_limit = limit, po_offset = offset, po_view = query_param rq ''view''\<rparr> of
               Inl e \<Rightarrow> (if e = ErrInvalidPoolView then answer 400 (FailureBody e) else internal_text, db)
             | Inr pool \<Rightarrow> (ok_json (PoolBody pool), db))))"

definition key_quotas_path :: string where "key_quotas_path = ''/admin/api/provider-key-quotas/''"

definition handle_key_quota_refresh_one ::
  "admin_deps \<Rightarrow> admin_env \<Rightarrow> admin_request \<Rightarrow> gateway_db \<Rightarrow> admin_reply \<times> gateway_db" where
  "handle_key_quota_refresh_one dp env rq db =
     (case parse_action_id (aq_path rq) key_quotas_path ''/refresh'' of
        None \<Rightarrow> (bad_api ''bad request'', db)
      | Some i \<Rightarrow>
          if \<not> dp_refresher dp then (internal_text, db)
          else (case refresh_key (refresher_env dp env 0) i (gw_provider_keys db) (gw_key_quotas db) of
            (r, t, kq) \<Rightarrow>
              ((case r of Inl _ \<Rightarrow> internal_text | Inr q \<Rightarrow> ok_json (KeyQuotaBody q)),
               db\<lparr>gw_provider_keys := t, gw_key_quotas := kq\<rparr>)))"

definition handle_key_quota_refresh_all ::
  "admin_deps \<Rightarrow> admin_env \<Rightarrow> admin_request \<Rightarrow> gateway_db \<Rightarrow> admin_reply \<times> gateway_db" where
  "handle_key_quota_refresh_all dp env rq db =
     (case provider_from_action_path (aq_path rq) key_quotas_path ''/refresh-all'' of
        None \<Rightarrow> (bad_api ''bad request'', db)
      | Some provider \<Rightarrow>
          if \<not> dp_refresher dp then (internal_text, db)
          else (case refresh_all_keys (an_clock env 1) (refresher_env dp env) provider (gw_provider_keys db) (gw_key_quotas db) of
            (r, t, kq) \<Rightarrow>
              ((case r of Inl _ \<Rightarrow> internal_text | Inr q \<Rightarrow> ok_json (RefreshAllBody q)),
               db\<lparr>gw_provider_keys := t, gw_key_quotas := kq\<rparr>)))"

section \<open>Attempt log and display settings\<close>

definition handle_proxy_attempts :: "admin_deps \<Rightarrow> admin_request \<Rightarrow> gateway_db \<Rightarrow> admin_reply \<times> gateway_db" where
  "handle_proxy_attempts dp rq db =
     (if \<not> dp_attempt_logs dp then (internal_text, db)
      else case limit_offset rq of (limit, offset) \<Rightarrow>
        (case list_attempts \<lparr>af_request_id = query_param rq ''request_id'', af_limit = limit, af_offset = offset\<rparr>
                (Some (gw_attempts db)) of
           Inl _ \<Rightarrow> (internal_text, db) | Inr page \<Rightarrow> (ok_json (AttemptsBody page), db)))"

definition handle_proxy_debug_attempts_get :: "gateway_db \<Rightarrow> admin_reply \<times> gateway_db" where
  "handle_proxy_debug_attempts_get db =
     (ok_json (BoolBody ''enabled'' (get_proxy_debug_attempts (gw_settings db))), db)"

definition handle_proxy_debug_attempts_patch :: "admin_env \<Rightarrow> admin_request \<Rightarrow> gateway_db \<Rightarrow> admin_reply \<times> gateway_db" where
  "handle_proxy_debug_attempts_patch env rq db =
     (case Option.bind (body_members rq) (bool_field [''enabled''] ''enabled'') of
        None \<Rightarrow> (bad_text, db)
      | Some on \<Rightarrow> (ok_json (BoolBody ''enabled'' on),
          set_gw_settings (set_proxy_debug_attempts (an_clock env 1) on (gw_settings db)) db))"

definition handle_display_timezone_get :: "admin_deps \<Rightarrow> gateway_db \<Rightarrow> admin_reply \<times> gateway_db" where
  "handle_display_timezone_get dp db = (ok_json (TimezoneBody (get_display_timezone (dp_host dp) (gw_settings db))), db)"

definition timezone_names :: "string list" where "timezone_names = [''timezone'', ''use_host'']"

definition timezone_body :: "admin_request \<Rightarrow> (string option \<times> bool) option" where
  "timezone_body rq =
     (case body_members rq of
        None \<Rightarrow> None
      | Some ms \<Rightarrow>
          (case (string_ptr_field timezone_names ''timezone'' ms, bool_field timezone_names ''use_host'' ms) of
             (Some z, Some h) \<Rightarrow> Some (z, h) | _ \<Rightarrow> None))"

definition handle_display_timezone_patch ::
  "admin_deps \<Rightarrow> admin_env \<Rightarrow> admin_request \<Rightarrow> gateway_db \<Rightarrow> admin_reply \<times> gateway_db" where
  "handle_display_timezone_patch dp env rq db =
     (case timezone_body rq of
        None \<Rightarrow> (bad_text, db)
      | Some (zone, use_host) \<Rightarrow>
          if use_host \<or> (case zone of None \<Rightarrow> False | Some z \<Rightarrow> trim_space z = []) then
            (case set_display_timezone (dp_host dp) (an_clock env 1) [] (gw_settings db) of
               Inl _ \<Rightarrow> (internal_text, db)
             | Inr s \<Rightarrow> (ok_json (TimezoneBody (get_display_timezone (dp_host dp) s)), set_gw_settings s db))
          else (case zone of
              None \<Rightarrow> (bad_text, db)
            | Some z \<Rightarrow>
                (case set_display_timezone (dp_host dp) (an_clock env 1) z (gw_settings db) of
                   Inl e \<Rightarrow> (answer 400 (FailureBody e), db)
                 | Inr s \<Rightarrow> (ok_json (TimezoneBody (get_display_timezone (dp_host dp) s)), set_gw_settings s db))))"

end
