(* ===== verification/AdminRouter.thy ===== *)
theory AdminRouter
  imports AdminProviders
begin

text \<open>
  internal/adminweb/handlers.go: the dashboard, the audit log and the usage counters as the admin API
  shows them, the settings of the GitHub operator, and the routing with its session and CSRF checks.
  The routes are a table in the order of the switch; the embedded page and its files are not modelled.
\<close>

section \<open>Dashboard, audit and usage\<close>

fun dashboard_rows :: "admin_env \<Rightarrow> nat \<Rightarrow> gateway_db \<Rightarrow> string list \<Rightarrow> provider_error + dashboard_row list" where
  "dashboard_rows env n db [] = Inr []"
| "dashboard_rows env n db (p # ps) =
     and_then (get_base_url (gw_settings db) p) (\<lambda>base.
     and_then (list_keys p (gw_provider_keys db)) (\<lambda>keys.
     and_then (dashboard_rows env (Suc n) db ps) (\<lambda>rest.
       Inr (\<lparr>dr_name = p, dr_base_url = base, dr_key_count = int (length keys),
             dr_cooldown_count = int (length (filter (cooling_at (an_clock env n)) keys))\<rparr> # rest))))"

definition dashboard_events :: "stored_event list \<Rightarrow> stored_event list" where
  "dashboard_events es = (if 20 < length es then drop (length es - 20) es else es)"

definition any_usage :: usage_filter where
  "any_usage = \<lparr>uf_day = [], uf_from = [], uf_to = [], uf_provider = [], uf_family = [], uf_class = []\<rparr>"

definition build_dashboard_data :: "admin_env \<Rightarrow> gateway_db \<Rightarrow> provider_error + dashboard_data" where
  "build_dashboard_data env db =
     and_then (list_all_keys (gw_provider_keys db)) (\<lambda>pkeys.
     and_then (dashboard_rows env 1 db [provider_grok, provider_tavily, provider_firecrawl]) (\<lambda>provs.
       Inr \<lparr>dd_providers = provs, dd_gateway_keys = list_gateway_keys (gw_keys db), dd_provider_keys = pkeys,
            dd_audit = dashboard_events (audit_list no_audit_filter (gw_audit db)),
            dd_usage = usage_list_daily any_usage (gw_usage db)\<rparr>))"

definition handle_dashboard_json :: "admin_env \<Rightarrow> gateway_db \<Rightarrow> admin_reply \<times> gateway_db" where
  "handle_dashboard_json env db =
     (case build_dashboard_data env db of
        Inl _ \<Rightarrow> (internal_text, db) | Inr d \<Rightarrow> (ok_json (DashboardBody d), db))"

definition handle_audit_list :: "admin_request \<Rightarrow> gateway_db \<Rightarrow> admin_reply \<times> gateway_db" where
  "handle_audit_list rq db =
     (case limit_offset rq of (limit, offset) \<Rightarrow>
       (ok_json (AuditBody (audit_list (no_audit_filter\<lparr>ad_action := query_param rq ''action'',
            ad_actor_kind := query_param rq ''actor_kind'', ad_limit := limit, ad_offset := offset\<rparr>) (gw_audit db))
          (limit, offset)), db))"

definition handle_usage_daily :: "admin_request \<Rightarrow> gateway_db \<Rightarrow> admin_reply \<times> gateway_db" where
  "handle_usage_daily rq db =
     (ok_json (UsageBody (usage_list_daily \<lparr>uf_day = query_param rq ''day'', uf_from = query_param rq ''from'',
          uf_to = query_param rq ''to'', uf_provider = query_param rq ''provider'',
          uf_family = query_param rq ''route_family'', uf_class = query_param rq ''status_class''\<rparr> (gw_usage db))
        (limit_offset rq)), db)"

section \<open>The GitHub operator\<close>

definition update_names :: "string list" where
  "update_names = [''enabled'', ''client_id'', ''client_secret'', ''allowed_user_ids'']"

text \<open>\<open>DisallowUnknownFields\<close>: every member names a field.\<close>

definition known_members :: "string list \<Rightarrow> (string \<times> json) list \<Rightarrow> bool" where
  "known_members names ms \<longleftrightarrow>
     list_all (\<lambda>(n, _). n \<in> set names \<or> list_ex (\<lambda>f. fold_name n = fold_name f) names) ms"

definition update_body :: "admin_request \<Rightarrow> login_update option" where
  "update_body rq =
     (if form_was_read rq \<and> form_type rq then None
      else case cr_body (aq_http rq) of
        None \<Rightarrow> None
      | Some s \<Rightarrow>
          (case Option.bind (decode_first (take 16384 s)) elem_members of
             None \<Rightarrow> None
           | Some ms \<Rightarrow>
               if \<not> known_members update_names ms then None
               else (case (bool_field update_names ''enabled'' ms, string_field update_names ''client_id'' ms,
                           string_field update_names ''client_secret'' ms, strings_field update_names ''allowed_user_ids'' ms) of
                 (Some e, Some c, Some k, Some ids) \<Rightarrow>
                   Some \<lparr>lu_enabled = e, lu_client_id = c, lu_client_secret = k, lu_allowed = ids\<rparr>
               | _ \<Rightarrow> None)))"

definition show_login_status :: "login_service \<Rightarrow> gateway_db \<Rightarrow> admin_reply" where
  "show_login_status gh db =
     (case login_status_of gh (gw_login db) of
        Inl _ \<Rightarrow> api_error 500 ''read_failed'' ''Could not read GitHub operator settings.''
      | Inr st \<Rightarrow> ok_json (LoginStatusBody st))"

definition handle_github_operator ::
  "admin_deps \<Rightarrow> admin_env \<Rightarrow> admin_request \<Rightarrow> gateway_db \<Rightarrow> admin_reply \<times> gateway_db" where
  "handle_github_operator dp env rq db =
     (case dp_github dp of
        None \<Rightarrow> (api_error 503 ''unavailable'' ''GitHub operator setup is unavailable on this instance.'', db)
      | Some gh \<Rightarrow>
          if aq_method rq = ''PATCH'' then
            (case update_body rq of
               None \<Rightarrow> (bad_api ''Invalid GitHub operator settings.'', db)
             | Some u \<Rightarrow>
                 (case save_config gh (an_nonce env 0) (an_random env) (an_clock env 1) u (gw_login db) of
                    Inl e \<Rightarrow> (if e = ErrConfig then answer 400 (LoginFailure e)
                              else api_error 500 ''save_failed'' ''Could not save GitHub operator settings.'', db)
                  | Inr l \<Rightarrow>
                      (let db' = audited (an_clock env 2)
                           (web_event ''oauth.github_operator.update'' ''result=ok'' (aq_remote rq)) (set_gw_login l db)
                       in (show_login_status gh db', db'))))
          else (show_login_status gh db, db))"

section \<open>Routes\<close>

datatype admin_route =
    RLogin | RLogout | RSession | RDashboard
  | RGatewayKeysList | RGatewayKeysCreate | RGatewayKeysPatch | RGatewayKeysRevoke | RGatewayKeysDelete
  | REndpointsCreate | REndpointsUpdateBaseURL | REndpointsRotateKey | REndpointsUpdateQuota | REndpointsRotateQuotaKey
  | REndpointsResetCooldown | REndpointsResetSelection | REndpointsDemote | REndpointsArchive | REndpointsRestore
  | REndpointsPatch | REndpointsDelete
  | RKeysList | RKeysCreate | RKeysResetCooldown | RKeysResetSelection | RKeysDemote | RKeysArchive | RKeysRestore
  | RKeysPatch | RKeysDelete
  | RGrokGet | RGrokPatch | RSettingsList | RSettingsPatch | RHealth | RManualTest
  | RQuotas | RQuotaRefresh | RPool | RKeyQuotaRefreshAll | RKeyQuotaRefreshOne
  | RAttempts | RDebugGet | RDebugPatch | RTimezoneGet | RTimezonePatch | RAudit | RUsage
  | RGitHubOperator | ROperatorPassword | RIssuanceGet | RIssuancePatch
  | RInvitesGet | RInvitesPost | RInvitesRevoke | RRevokeUnused

text \<open>A path is named in full, or by its start and its end.\<close>

datatype path_pattern = Exact string | Under string string

fun path_matches :: "path_pattern \<Rightarrow> string \<Rightarrow> bool" where
  "path_matches (Exact q) path \<longleftrightarrow> path = q"
| "path_matches (Under pre suf) path \<longleftrightarrow> prefix pre path \<and> suffix suf path"

definition admin_routes :: "(string \<times> path_pattern \<times> admin_route) list" where
  "admin_routes =
     [(''POST'', Exact ''/admin/api/login'', RLogin),
      (''POST'', Exact ''/admin/api/logout'', RLogout),
      (''GET'', Exact ''/admin/api/session'', RSession),
      (''GET'', Exact ''/admin/api/dashboard'', RDashboard),
      (''GET'', Exact ''/admin/api/gateway-keys'', RGatewayKeysList),
      (''POST'', Exact ''/admin/api/gateway-keys'', RGatewayKeysCreate),
      (''PATCH'', Under ''/admin/api/gateway-keys/'' [], RGatewayKeysPatch),
      (''POST'', Under ''/admin/api/gateway-keys/'' ''/revoke'', RGatewayKeysRevoke),
      (''DELETE'', Under ''/admin/api/gateway-keys/'' [], RGatewayKeysDelete),
      (''GET'', Exact ''/admin/api/provider-endpoints'', RKeysList),
      (''POST'', Exact ''/admin/api/provider-endpoints'', REndpointsCreate),
      (''POST'', Under ''/admin/api/provider-endpoints/'' ''/update-base-url'', REndpointsUpdateBaseURL),
      (''POST'', Under ''/admin/api/provider-endpoints/'' ''/rotate-key'', REndpointsRotateKey),
      (''POST'', Under ''/admin/api/provider-endpoints/'' ''/update-quota'', REndpointsUpdateQuota),
      (''POST'', Under ''/admin/api/provider-endpoints/'' ''/rotate-quota-key'', REndpointsRotateQuotaKey),
      (''POST'', Under ''/admin/api/provider-endpoints/'' ''/reset-cooldown'', REndpointsResetCooldown),
      (''POST'', Under ''/admin/api/provider-endpoints/'' ''/reset-selection'', REndpointsResetSelection),
      (''POST'', Under ''/admin/api/provider-endpoints/'' ''/demote'', REndpointsDemote),
      (''POST'', Under ''/admin/api/provider-endpoints/'' ''/archive'', REndpointsArchive),
      (''POST'', Under ''/admin/api/provider-endpoints/'' ''/restore'', REndpointsRestore),
      (''PATCH'', Under ''/admin/api/provider-endpoints/'' [], REndpointsPatch),
      (''DELETE'', Under ''/admin/api/provider-endpoints/'' [], REndpointsDelete),
      (''GET'', Exact ''/admin/api/provider-keys'', RKeysList),
      (''POST'', Exact ''/admin/api/provider-keys'', RKeysCreate),
      (''POST'', Under ''/admin/api/provider-keys/'' ''/reset-cooldown'', RKeysResetCooldown),
      (''POST'', Under ''/admin/api/provider-keys/'' ''/reset-selection'', RKeysResetSelection),
      (''POST'', Under ''/admin/api/provider-keys/'' ''/demote'', RKeysDemote),
      (''POST'', Under ''/admin/api/provider-keys/'' ''/archive'', RKeysArchive),
      (''POST'', Under ''/admin/api/provider-keys/'' ''/restore'', RKeysRestore),
      (''PATCH'', Under ''/admin/api/provider-keys/'' [], RKeysPatch),
      (''DELETE'', Under ''/admin/api/provider-keys/'' [], RKeysDelete),
      (''GET'', Exact ''/admin/api/providers/grok'', RGrokGet),
      (''PATCH'', Exact ''/admin/api/providers/grok'', RGrokPatch),
      (''GET'', Exact ''/admin/api/provider-settings'', RSettingsList),
      (''PATCH'', Under ''/admin/api/provider-settings/'' [], RSettingsPatch),
      (''GET'', Exact ''/admin/api/provider-health'', RHealth),
      (''POST'', Under ''/admin/api/providers/'' ''/test'', RManualTest),
      (''GET'', Exact ''/admin/api/provider-quotas'', RQuotas),
      (''POST'', Under ''/admin/api/provider-quotas/'' ''/refresh'', RQuotaRefresh),
      (''GET'', Under ''/admin/api/provider-pools/'' [], RPool),
      (''POST'', Under ''/admin/api/provider-key-quotas/'' ''/refresh-all'', RKeyQuotaRefreshAll),
      (''POST'', Under ''/admin/api/provider-key-quotas/'' ''/refresh'', RKeyQuotaRefreshOne),
      (''GET'', Exact ''/admin/api/proxy-attempts'', RAttempts),
      (''GET'', Exact ''/admin/api/settings/proxy-debug-attempts'', RDebugGet),
      (''PATCH'', Exact ''/admin/api/settings/proxy-debug-attempts'', RDebugPatch),
      (''GET'', Exact ''/admin/api/settings/display-timezone'', RTimezoneGet),
      (''PATCH'', Exact ''/admin/api/settings/display-timezone'', RTimezonePatch),
      (''GET'', Exact ''/admin/api/audit-events'', RAudit),
      (''GET'', Exact ''/admin/api/usage-daily'', RUsage),
      (''GET'', Exact ''/admin/api/settings/github-operator'', RGitHubOperator),
      (''PATCH'', Exact ''/admin/api/settings/github-operator'', RGitHubOperator),
      (''POST'', Exact ''/admin/api/operator-password'', ROperatorPassword),
      (''GET'', Exact ''/admin/api/public-issuance'', RIssuanceGet),
      (''PATCH'', Exact ''/admin/api/public-issuance'', RIssuancePatch),
      (''GET'', Exact ''/admin/api/invite-codes'', RInvitesGet),
      (''POST'', Exact ''/admin/api/invite-codes'', RInvitesPost),
      (''POST'', Under ''/admin/api/invite-codes/'' ''/revoke'', RInvitesRevoke),
      (''POST'', Exact ''/admin/api/gateway-keys/revoke-unused'', RRevokeUnused)]"

definition route_of :: "string \<Rightarrow> string \<Rightarrow> admin_route option" where
  "route_of meth path =
     map_option (\<lambda>(_, _, r). r) (List.find (\<lambda>(m, q, _). m = meth \<and> path_matches q path) admin_routes)"

fun run_route :: "admin_route \<Rightarrow> admin_deps \<Rightarrow> admin_env \<Rightarrow> admin_request \<Rightarrow> gateway_db \<Rightarrow> admin_reply \<times> gateway_db" where
  "run_route RLogin dp env rq = handle_login dp env rq"
| "run_route RLogout dp env rq = handle_logout dp rq"
| "run_route RSession dp env rq = handle_session dp env rq"
| "run_route RDashboard dp env rq = handle_dashboard_json env"
| "run_route RGatewayKeysList dp env rq = handle_gateway_keys_list rq"
| "run_route RGatewayKeysCreate dp env rq = handle_gateway_keys_create dp env rq"
| "run_route RGatewayKeysPatch dp env rq = handle_gateway_keys_patch env rq"
| "run_route RGatewayKeysRevoke dp env rq = handle_gateway_keys_revoke env rq"
| "run_route RGatewayKeysDelete dp env rq = handle_gateway_keys_delete rq"
| "run_route REndpointsCreate dp env rq = handle_provider_endpoints_create dp env rq"
| "run_route REndpointsUpdateBaseURL dp env rq = handle_endpoints_update_base_url env rq"
| "run_route REndpointsRotateKey dp env rq = handle_endpoints_rotate_key dp env rq"
| "run_route REndpointsUpdateQuota dp env rq = handle_endpoints_update_quota env rq"
| "run_route REndpointsRotateQuotaKey dp env rq = handle_endpoints_rotate_quota_key dp env rq"
| "run_route REndpointsResetCooldown dp env rq = handle_provider_endpoint_action ''/reset-cooldown'' (reset_cooldown (an_clock env 1)) rq"
| "run_route REndpointsResetSelection dp env rq = handle_provider_endpoint_action ''/reset-selection'' (reset_selection (an_clock env 1)) rq"
| "run_route REndpointsDemote dp env rq = handle_provider_endpoint_action ''/demote'' (demote_to_end (an_clock env 1)) rq"
| "run_route REndpointsArchive dp env rq = handle_provider_endpoint_action ''/archive'' (archive_key (an_clock env 1)) rq"
| "run_route REndpointsRestore dp env rq = handle_provider_endpoint_action ''/restore'' (restore_archived (an_clock env 1)) rq"
| "run_route REndpointsPatch dp env rq = handle_provider_endpoints_patch env rq"
| "run_route REndpointsDelete dp env rq = handle_provider_endpoints_delete rq"
| "run_route RKeysList dp env rq = handle_provider_keys_list rq"
| "run_route RKeysCreate dp env rq = handle_provider_keys_create dp env rq"
| "run_route RKeysResetCooldown dp env rq = handle_provider_key_action ''/reset-cooldown'' (reset_cooldown (an_clock env 1)) rq"
| "run_route RKeysResetSelection dp env rq = handle_provider_key_action ''/reset-selection'' (reset_selection (an_clock env 1)) rq"
| "run_route RKeysDemote dp env rq = handle_provider_key_action ''/demote'' (demote_to_end (an_clock env 1)) rq"
| "run_route RKeysArchive dp env rq = handle_provider_key_action ''/archive'' (archive_key (an_clock env 1)) rq"
| "run_route RKeysRestore dp env rq = handle_provider_key_action ''/restore'' (restore_archived (an_clock env 1)) rq"
| "run_route RKeysPatch dp env rq = handle_provider_keys_patch env rq"
| "run_route RKeysDelete dp env rq = handle_provider_keys_delete rq"
| "run_route RGrokGet dp env rq = handle_grok_get"
| "run_route RGrokPatch dp env rq = handle_grok_patch env rq"
| "run_route RSettingsList dp env rq = handle_provider_settings_list"
| "run_route RSettingsPatch dp env rq = handle_provider_settings_patch env rq"
| "run_route RHealth dp env rq = handle_provider_health env"
| "run_route RManualTest dp env rq = handle_provider_manual_test dp env rq"
| "run_route RQuotas dp env rq = handle_provider_quotas dp env"
| "run_route RQuotaRefresh dp env rq = handle_provider_quota_refresh dp env rq"
| "run_route RPool dp env rq = handle_provider_pool dp env rq"
| "run_route RKeyQuotaRefreshAll dp env rq = handle_key_quota_refresh_all dp env rq"
| "run_route RKeyQuotaRefreshOne dp env rq = handle_key_quota_refresh_one dp env rq"
| "run_route RAttempts dp env rq = handle_proxy_attempts dp rq"
| "run_route RDebugGet dp env rq = handle_proxy_debug_attempts_get"
| "run_route RDebugPatch dp env rq = handle_proxy_debug_attempts_patch env rq"
| "run_route RTimezoneGet dp env rq = handle_display_timezone_get dp"
| "run_route RTimezonePatch dp env rq = handle_display_timezone_patch dp env rq"
| "run_route RAudit dp env rq = handle_audit_list rq"
| "run_route RUsage dp env rq = handle_usage_daily rq"
| "run_route RGitHubOperator dp env rq = handle_github_operator dp env rq"
| "run_route ROperatorPassword dp env rq = handle_operator_password dp env rq"
| "run_route RIssuanceGet dp env rq = handle_public_issuance_get"
| "run_route RIssuancePatch dp env rq = handle_public_issuance_patch env rq"
| "run_route RInvitesGet dp env rq = handle_invite_codes_get dp"
| "run_route RInvitesPost dp env rq = handle_invite_codes_post dp env rq"
| "run_route RInvitesRevoke dp env rq = handle_invite_codes_revoke dp env rq"
| "run_route RRevokeUnused dp env rq = handle_gateway_keys_revoke_unused env rq"

section \<open>The API\<close>

definition forbidden :: admin_reply where "forbidden = http_error 403 ''forbidden''"
definition page_not_found :: admin_reply where "page_not_found = http_error 404 ''404 page not found''"

definition dispatch :: "admin_deps \<Rightarrow> admin_env \<Rightarrow> admin_request \<Rightarrow> gateway_db \<Rightarrow> admin_reply \<times> gateway_db" where
  "dispatch dp env rq db =
     (case route_of (aq_method rq) (aq_path rq) of
        None \<Rightarrow> (page_not_found, db) | Some r \<Rightarrow> run_route r dp env rq db)"

definition serve_api :: "admin_deps \<Rightarrow> admin_env \<Rightarrow> admin_request \<Rightarrow> gateway_db \<Rightarrow> admin_reply \<times> gateway_db" where
  "serve_api dp env rq db =
     (if requires_csrf rq then
        (case validate_csrf (dp_crypto dp) (aq_session rq) (csrf_of rq) (gw_auth db) of
           Inl e \<Rightarrow> (if e = ErrSessionInvalid then forbidden else internal_text, db)
         | Inr ok \<Rightarrow> if ok then dispatch dp env rq db else (forbidden, db))
      else dispatch dp env rq db)"

definition deny_reply :: "written \<Rightarrow> admin_reply" where
  "deny_reply w = (case w of WrittenError status text \<Rightarrow> http_error status text | Written status _ _ \<Rightarrow> answer status (TextBody []))"

definition guarded_api :: "admin_deps \<Rightarrow> admin_env \<Rightarrow> admin_request \<Rightarrow> gateway_db \<Rightarrow> admin_reply \<times> gateway_db" where
  "guarded_api dp env rq db =
     auth_middleware {''/admin/api/login''} (an_clock env 0) (aq_path rq) (aq_cookie rq) (gw_auth db) deny_reply
       (serve_api dp env rq) db"

section \<open>ServeHTTP\<close>

text \<open>A file of the embedded assets, the embedded page, or an answer of the API.\<close>

datatype admin_result = StaticFile string | EmbeddedPage string | Replied admin_reply

definition static_path :: "string \<Rightarrow> string" where
  "static_path path =
     (let p = trim_prefix ''/admin/static'' path in if p = [] \<or> p = ''/'' then ''/admin.css'' else p)"

definition admin_serve_http ::
  "admin_deps \<Rightarrow> admin_env \<Rightarrow> admin_request \<Rightarrow> gateway_db \<Rightarrow> admin_result \<times> gateway_db" where
  "admin_serve_http dp env rq db =
     (let path = aq_path rq in
      if path = ''/admin/static'' \<or> prefix ''/admin/static/'' path then (StaticFile (static_path path), db)
      else if prefix ''/admin/api/'' path then (case guarded_api dp env rq db of (a, db') \<Rightarrow> (Replied a, db'))
      else if path = ''/admin'' \<or> prefix ''/admin/'' path then
        (if aq_method rq \<noteq> ''GET'' then Replied (http_error 405 ''method not allowed'') else EmbeddedPage path, db)
      else (Replied page_not_found, db))"

end
