(* ===== verification/Config.thy ===== *)
theory Config
  imports GoStrings
begin

text \<open>
  internal/config/config.go: the bootstrap settings of the process, read from the environment.
  The environment is a map, as \<open>os.LookupEnv\<close> presents it.
\<close>

type_synonym environment = "string \<rightharpoonup> string"

definition default_addr :: string where "default_addr = ''127.0.0.1:8080''"
definition default_db_path :: string where "default_db_path = ''/var/lib/code-guda-gateway/gateway.db''"
definition default_master_key_path :: string where "default_master_key_path = ''/etc/code-guda-gateway/master.key''"

record config =
  cf_addr :: string
  cf_db_path :: string
  cf_master_key_path :: string
  cf_admin_cookie_secure :: bool
  cf_proxy_debug_attempts :: "bool option"
  cf_internal_token :: string
  cf_oauth_password_hash :: string
  cf_oauth_issuer :: string

datatype config_error = ErrCookieSecure | ErrDebugAttempts

definition lookup_default :: "environment \<Rightarrow> string \<Rightarrow> string \<Rightarrow> string" where
  "lookup_default lookup key fallback =
     (case lookup key of
        None \<Rightarrow> fallback
      | Some val \<Rightarrow> if trim_space val = [] then fallback else trim_space val)"

text \<open>A Boolean variable: unset or blank is no value, anything else must parse.\<close>

definition lookup_bool :: "environment \<Rightarrow> string \<Rightarrow> bool option option" where
  "lookup_bool lookup key =
     (case lookup key of
        None \<Rightarrow> Some None
      | Some v \<Rightarrow>
          if trim_space v = [] then Some None
          else (case parse_bool (trim_space v) of None \<Rightarrow> None | Some b \<Rightarrow> Some (Some b)))"

definition load_from_lookup :: "environment \<Rightarrow> config_error + config" where
  "load_from_lookup lookup =
     (case lookup_bool lookup ''GUDA_ADMIN_COOKIE_SECURE'' of
        None \<Rightarrow> Inl ErrCookieSecure
      | Some secure \<Rightarrow>
          (case lookup_bool lookup ''GUDA_PROXY_DEBUG_ATTEMPTS'' of
             None \<Rightarrow> Inl ErrDebugAttempts
           | Some debug \<Rightarrow>
               Inr \<lparr>cf_addr = lookup_default lookup ''ADDR'' default_addr,
                    cf_db_path = lookup_default lookup ''DB_PATH'' default_db_path,
                    cf_master_key_path = lookup_default lookup ''GUDA_MASTER_KEY_PATH'' default_master_key_path,
                    cf_admin_cookie_secure = (case secure of None \<Rightarrow> True | Some b \<Rightarrow> b),
                    cf_proxy_debug_attempts = debug,
                    cf_internal_token = lookup_default lookup ''GUDA_INTERNAL_TOKEN'' [],
                    cf_oauth_password_hash = lookup_default lookup ''GUDA_OAUTH_OPERATOR_PASSWORD_HASH'' [],
                    cf_oauth_issuer = lookup_default lookup ''GUDA_OAUTH_ISSUER'' []\<rparr>))"

lemma load_defaults:
  "load_from_lookup Map.empty = Inr \<lparr>cf_addr = default_addr, cf_db_path = default_db_path,
     cf_master_key_path = default_master_key_path, cf_admin_cookie_secure = True, cf_proxy_debug_attempts = None,
     cf_internal_token = [], cf_oauth_password_hash = [], cf_oauth_issuer = []\<rparr>"
  by (simp add: load_from_lookup_def lookup_bool_def lookup_default_def)

text \<open>No text setting has surrounding white space.\<close>

lemma load_trimmed:
  assumes "load_from_lookup lookup = Inr c"
  shows "trim_space (cf_internal_token c) = cf_internal_token c \<and> trim_space (cf_oauth_issuer c) = cf_oauth_issuer c"
  using assms by (auto simp: load_from_lookup_def lookup_default_def split: option.splits)

end
