(* ===== verification/Server.thy ===== *)
theory Server
  imports OAuthTokens AdminRouter Config
begin

text \<open>
  internal/server/server.go: the HTTP entry point. It routes by path and method, lets the admin
  pages and the OAuth server answer their own paths, authenticates runtime requests with a
  gateway key and forwards them, and answers the internal verification of keys.
\<close>

section \<open>State and requests\<close>

text \<open>
  A request: as the proxy reads it, as the OAuth handlers read its forms, and the session cookie and
  the remote address that the admin handlers look at.
\<close>

record server_request =
  sq_http :: client_request
  sq_oauth :: oauth_request
  sq_cookie :: "string option"
  sq_remote :: string

record server =
  sr_internal_token :: string
  sr_crypto :: crypto
  sr_key_env :: key_env
  sr_oauth :: "oauth_server option"
  sr_admin :: admin_deps

text \<open>
  What one request draws on: the environment of the proxy, the OAuth server's, the clock of the
  handlers, the times the attempt rows are written at and the environment of the admin handlers.
\<close>

record server_env =
  sn_proxy :: proxy_env
  sn_oauth :: oauth_env
  sn_clock :: "nat \<Rightarrow> instant"
  sn_record_time :: "nat \<Rightarrow> instant"
  sn_admin :: admin_env

datatype server_reply =
    SrvWritten written
  | SrvJson int json
  | SrvOAuth oauth_reply
  | SrvAdmin admin_result

section \<open>Startup\<close>

text \<open>
  \<open>New\<close>: the configuration is applied to the settings, the proxy takes its cooldown settings, and
  the OAuth server exists when issuer and password hash are configured and valid. The admin handlers
  get all their services.
\<close>

record startup =
  su_server :: server
  su_settings :: settings

definition new_server ::
  "crypto \<Rightarrow> scrypt_fun \<Rightarrow> host_zone \<Rightarrow> bytes \<Rightarrow> instant \<Rightarrow> instant \<Rightarrow> config \<Rightarrow> gateway_db \<Rightarrow> startup \<times> gateway_db" where
  "new_server cr scrypt host master now now' cfg db =
     (let settings = (case cf_proxy_debug_attempts cfg of
              None \<Rightarrow> gw_settings db | Some b \<Rightarrow> set_proxy_debug_attempts now b (gw_settings db));
          db1 = set_gw_settings settings db;
          (oauth, odb2) =
            (if cf_oauth_issuer cfg \<noteq> [] \<and> cf_oauth_password_hash cfg \<noteq> [] then
               (case new_oauth_server cr scrypt now' (cf_oauth_issuer cfg) (cf_oauth_password_hash cfg) (gw_oauth db1) of
                  None \<Rightarrow> (None, gw_oauth db1) | Some (os, d) \<Rightarrow> (Some os, d))
             else (None, gw_oauth db1));
          issuer = (case oauth of None \<Rightarrow> [] | Some os \<Rightarrow> trim_suffix ''/mcp'' (resource_url os));
          github = \<lparr>ls_crypto = cr, ls_key = master, ls_issuer = issuer\<rparr>;
          keys = \<lparr>ke_crypto = cr, ke_master = master\<rparr>;
          auth = new_service_with_options (24 * hour) (cf_admin_cookie_secure cfg)
      in (\<lparr>su_server = \<lparr>sr_internal_token = cf_internal_token cfg, sr_crypto = cr, sr_key_env = keys,
             sr_oauth = map_option (\<lambda>os. os\<lparr>os_github := Some github\<rparr>) oauth,
             sr_admin = \<lparr>dp_crypto = cr, dp_scrypt = scrypt, dp_keys = keys, dp_auth = auth, dp_host = host,
               dp_github = Some github, dp_invites = True, dp_quotas = True, dp_key_quotas = True,
               dp_attempt_logs = True, dp_refresher = True\<rparr>\<rparr>,
           su_settings = get_cooldown_settings settings\<rparr>, db1\<lparr>gw_oauth := odb2\<rparr>))"

section \<open>GET /healthz\<close>

definition handle_health :: "client_request \<Rightarrow> server_reply" where
  "handle_health r =
     (if cr_method r \<noteq> ''GET'' then SrvWritten (WrittenError 405 ''method not allowed'')
      else SrvJson 200 (JObj [(''status'', JStr ''ok'')]))"

section \<open>POST /internal/keys/verify\<close>

definition verify_names :: "string list" where "verify_names = [''token'', ''resource'']"

text \<open>\<open>Decode\<close> reads the first JSON value of the body.\<close>

definition decode_verify :: "bytes option \<Rightarrow> (string \<times> string) option" where
  "decode_verify body =
     (case body of
        None \<Rightarrow> None
      | Some s \<Rightarrow>
          (case map_option fst (parse_value (Suc (2 * length s)) 0 s) of
             Some (JObj ms) \<Rightarrow>
               (case (string_field verify_names ''token'' ms, string_field verify_names ''resource'' ms) of
                  (Some t, Some r) \<Rightarrow> Some (t, r) | _ \<Rightarrow> None)
           | Some JNull \<Rightarrow> Some ([], [])
           | _ \<Rightarrow> None))"

text \<open>
  The grant of an OAuth key: its resource, scopes and client, or the refusal. A key that is not
  OAuth-owned needs none.
\<close>

definition verify_grant ::
  "server \<Rightarrow> instant \<Rightarrow> string \<Rightarrow> gateway_key_display \<Rightarrow> gateway_db \<Rightarrow> (string \<times> string list \<times> string) option" where
  "verify_grant sv now req_resource key db =
     (if \<not> gk_oauth_owned key then Some ([], [''mcp''], [])
      else case sr_oauth sv of
        None \<Rightarrow> None
      | Some os \<Rightarrow>
          (case grant_of_key (gk_id key) (gw_oauth db) of
             None \<Rightarrow> None
           | Some g \<Rightarrow>
               if gr_resource g \<noteq> resource_url os \<or> (req_resource \<noteq> [] \<and> req_resource \<noteq> gr_resource g) then None
               else if check_oauth_grant now (gk_id key) (gw_oauth db) \<noteq> AuthDecisionOAuthValid then None
               else Some (gr_resource g, GoStrings.fields (gr_scope g), gr_client_id g)))"

definition verify_reply :: "gateway_key_display \<Rightarrow> string \<times> string list \<times> string \<Rightarrow> server_reply" where
  "verify_reply key g =
     (case g of (resource, scopes, grant_client) \<Rightarrow>
        (let client_id = (if gk_oauth_owned key then grant_client
                          else if trim_space (gk_name key) = [] then gk_prefix key else gk_name key)
         in SrvJson 200 (JObj ([(''name'', JStr (gk_name key)), (''prefix'', JStr (gk_prefix key)),
              (''fingerprint'', JStr (gk_fingerprint key)), (''client_id'', JStr client_id),
              (''scopes'', JArr (map JStr scopes)), (''oauth_owned'', JBool (gk_oauth_owned key))]
              @ omit_empty ''resource'' resource))))"

definition handle_internal_keys_verify ::
  "server \<Rightarrow> (nat \<Rightarrow> instant) \<Rightarrow> client_request \<Rightarrow> gateway_db \<Rightarrow> server_reply \<times> gateway_db" where
  "handle_internal_keys_verify sv clk r db =
     (if cr_method r \<noteq> ''POST'' then (SrvWritten (WrittenError 405 ''method not allowed''), db)
      else if sr_internal_token sv = [] then (SrvWritten (WrittenError 403 ''forbidden''), db)
      else if header_get (cr_header r) ''X-Internal-Token'' \<noteq> sr_internal_token sv then
        (SrvWritten (WrittenError 403 ''forbidden''), db)
      else case decode_verify (cr_body r) of
        None \<Rightarrow> (SrvWritten (WrittenError 400 ''bad request''), db)
      | Some (token, resource) \<Rightarrow>
          if trim_space token = [] then (SrvWritten (WrittenError 400 ''bad request''), db)
          else (case lookup_key (sr_crypto sv) token (gw_keys db) of
            Inl _ \<Rightarrow> (SrvWritten (WrittenError 401 ''unauthorized''), db)
          | Inr None \<Rightarrow> (SrvWritten (WrittenError 401 ''unauthorized''), db)
          | Inr (Some key) \<Rightarrow>
              (case verify_grant sv (clk 0) resource key db of
                 None \<Rightarrow> (SrvWritten (WrittenError 401 ''unauthorized''), db)
               | Some g \<Rightarrow> (verify_reply key g, set_gw_keys (touch_key (clk 1) (gk_id key) (gw_keys db)) db))))"

section \<open>Runtime routes\<close>

definition is_runtime_route :: "string \<Rightarrow> string \<Rightarrow> bool" where
  "is_runtime_route meth path =
     (if meth = ''GET'' \<and> path = ''/grok/v1/models'' then True
      else if meth = ''POST'' \<and> path = ''/grok/v1/chat/completions'' then True
      else if meth = ''POST'' \<and> prefix ''/tavily/'' path then True
      else if meth = ''POST'' \<and> prefix ''/firecrawl/'' path then True
      else False)"

text \<open>The switch of ServeHTTP: the provider and the upstream path; None is its default case.\<close>

definition runtime_target :: "string \<Rightarrow> string \<Rightarrow> (string \<times> string) option" where
  "runtime_target meth path =
     (if meth = ''GET'' \<and> path = ''/grok/v1/models'' then Some (provider_grok, ''/models'')
      else if meth = ''POST'' \<and> path = ''/grok/v1/chat/completions'' then Some (provider_grok, ''/chat/completions'')
      else if meth = ''POST'' \<and> prefix ''/tavily/'' path then Some (provider_tavily, trim_prefix ''/tavily'' path)
      else if meth = ''POST'' \<and> prefix ''/firecrawl/'' path then Some (provider_firecrawl, trim_prefix ''/firecrawl'' path)
      else None)"

definition authorized :: "server \<Rightarrow> instant \<Rightarrow> client_request \<Rightarrow> gateway_db \<Rightarrow> gateway_key_display option \<times> gateway_db" where
  "authorized sv now r db =
     (let h = header_get (cr_header r) ''Authorization'' in
      if \<not> prefix ''Bearer '' h then (None, db)
      else case lookup_key (sr_crypto sv) (trim_space (trim_prefix ''Bearer '' h)) (gw_keys db) of
        Inl _ \<Rightarrow> (None, db)
      | Inr None \<Rightarrow> (None, db)
      | Inr (Some rec) \<Rightarrow>
          if gk_oauth_owned rec then (None, db)
          else (Some rec, set_gw_keys (touch_key now (gk_id rec) (gw_keys db)) db))"

text \<open>\<open>recordUsage\<close>: an error of the increment is only logged.\<close>

definition record_usage ::
  "instant \<Rightarrow> instant \<Rightarrow> gateway_key_display \<Rightarrow> string \<Rightarrow> string \<Rightarrow> result \<Rightarrow> gateway_db \<Rightarrow> gateway_db" where
  "record_usage day_now now key provider path res db =
     (let cls = (if rs_network_error res then status_class_from_network_error
                 else if rs_status_code res \<noteq> 0 then status_class_from_http (rs_status_code res)
                 else [])
      in if \<not> rs_network_error res \<and> rs_status_code res = 0 then db
         else (case usage_increment now
                  \<lparr>ub_day = day_utc day_now, ub_key = Some (gk_id key), ub_provider = provider,
                   ub_family = route_family_from_path path, ub_class = cls\<rparr> (gw_usage db) of
           Inl _ \<Rightarrow> db
         | Inr t \<Rightarrow> db\<lparr>gw_usage := t\<rparr>))"

text \<open>The rows of one Forward go to the recorder in order; its errors are ignored.\<close>

fun record_attempts :: "(nat \<Rightarrow> instant) \<Rightarrow> nat \<Rightarrow> attempt_log list \<Rightarrow> attempt_repo \<Rightarrow> attempt_repo" where
  "record_attempts clk i [] repo = repo"
| "record_attempts clk i (row # rest) repo =
     record_attempts clk (Suc i) rest
       (case record_attempt_row (clk i) row (Some repo) of Inl _ \<Rightarrow> repo | Inr repo' \<Rightarrow> repo')"

definition server_forward ::
  "server \<Rightarrow> server_env \<Rightarrow> client_request \<Rightarrow> gateway_key_display \<Rightarrow> string \<Rightarrow> string \<Rightarrow> gateway_db \<Rightarrow>
   server_reply \<times> gateway_db" where
  "server_forward sv env r key provider path db =
     (let penv = (sn_proxy env)\<lparr>px_logging := get_proxy_debug_attempts (gw_settings db)\<rparr>;
          out = forward penv r \<lparr>tg_path = path, tg_provider = provider,
                  tg_keys = Some (repo_selector (sr_key_env sv))\<rparr> (gw_provider_keys db);
          db1 = db\<lparr>gw_provider_keys := fo_state out,
                   gw_attempts := record_attempts (sn_record_time env) 0 (fo_logs out) (gw_attempts db)\<rparr>
      in (SrvWritten (fo_written out),
          record_usage (sn_clock env 1) (sn_clock env 2) key provider (cr_path r) (fo_result out) db1))"

section \<open>ServeHTTP\<close>

definition serve_runtime ::
  "server \<Rightarrow> server_env \<Rightarrow> client_request \<Rightarrow> gateway_db \<Rightarrow> server_reply \<times> gateway_db" where
  "serve_runtime sv env r db =
     (if \<not> is_runtime_route (cr_method r) (cr_path r) then (SrvWritten not_found, db)
      else case authorized sv (sn_clock env 0) r db of
        (None, db1) \<Rightarrow> (SrvWritten (WrittenError 401 ''unauthorized''), db1)
      | (Some key, db1) \<Rightarrow>
          (case runtime_target (cr_method r) (cr_path r) of
             Some (provider, path) \<Rightarrow> server_forward sv env r key provider path db1
           | None \<Rightarrow> (SrvWritten not_found, db1)))"

definition admin_request_of :: "server_request \<Rightarrow> admin_request" where
  "admin_request_of rq = \<lparr>aq_http = sq_http rq, aq_cookie = sq_cookie rq, aq_remote = sq_remote rq\<rparr>"

definition serve_http ::
  "server \<Rightarrow> server_env \<Rightarrow> server_request \<Rightarrow> reg_limiter \<times> gateway_db \<Rightarrow> server_reply \<times> reg_limiter \<times> gateway_db" where
  "serve_http sv env rq st =
     (case st of (l, db) \<Rightarrow>
       (let r = sq_http rq in
        if prefix ''/admin'' (cr_path r) then
          (case admin_serve_http (sr_admin sv) (sn_admin env) (admin_request_of rq) db of (a, db') \<Rightarrow> (SrvAdmin a, l, db'))
        else if cr_path r = ''/healthz'' then (handle_health r, l, db)
        else if cr_path r = ''/internal/keys/verify'' then
          (case handle_internal_keys_verify sv (sn_clock env) r db of (a, db') \<Rightarrow> (a, l, db'))
        else (case sr_oauth sv of
            Some os \<Rightarrow>
              if is_oauth_route (sq_oauth rq) then
                (case oauth_serve os (sn_oauth env) (sq_oauth rq) (l, gw_oauth db) of
                   (a, l', odb) \<Rightarrow> (SrvOAuth a, l', db\<lparr>gw_oauth := odb\<rparr>))
              else (case serve_runtime sv env r db of (a, db') \<Rightarrow> (a, l, db'))
          | None \<Rightarrow> (case serve_runtime sv env r db of (a, db') \<Rightarrow> (a, l, db')))))"

end
