(* ===== verification/ServerProperties.thy ===== *)
theory ServerProperties
  imports Server IssuanceProperties OAuthLaws
begin

text \<open>The properties of the HTTP entry point: routing, authentication, verification of keys.\<close>

section \<open>Authentication\<close>

lemma authorized_Some:
  assumes "authorized sv now r db = (Some key, db')"
  obtains token where "header_get (cr_header r) ''Authorization'' = ''Bearer '' @ token"
    "lookup_key (sr_crypto sv) (trim_space token) (gw_keys db) = Inr (Some key)" "\<not> gk_oauth_owned key"
    "db' = set_gw_keys (touch_key now (gk_id key) (gw_keys db)) db"
proof -
  let ?h = "header_get (cr_header r) ''Authorization''"
  from assms have p: "prefix ''Bearer '' ?h"
    by (auto simp: authorized_def Let_def split: if_splits)
  then obtain token where t: "?h = ''Bearer '' @ token" by (auto simp: prefix_def)
  have "trim_prefix ''Bearer '' ?h = token" by (simp add: t trim_prefix_def)
  with assms p show thesis
    by (intro that [OF t]) (auto simp: authorized_def Let_def split: sum.splits option.splits if_splits)
qed

lemma authorized_None: "authorized sv now r db = (None, db') \<Longrightarrow> db' = db"
  by (auto simp: authorized_def Let_def split: sum.splits option.splits if_splits)

lemma lookup_row:
  assumes "lookup_key cr raw t = Inr (Some d)"
  obtains r where "r \<in> set (rows t)" "d = display_of r" "gk_enabled r" "gk_revoked_at r = None"
    "gk_key_hash r = hash_key cr raw" "raw_key_re raw"
  using assms by (auto simp: lookup_key_def split: if_splits option.splits dest!: find_row_Some)

lemma display_fields [simp]: "gk_id (display_of r) = gk_id r" "gk_oauth_owned (display_of r) = gk_oauth_owned r"
  by (simp_all add: display_of_def gateway_key_display.truncate_def)

section \<open>Concrete requests\<close>

definition idle_oauth :: oauth_db where
  "idle_oauth = \<lparr>od_clients = [], od_codes = [], od_grants = [], od_history = [], od_keys = empty_table,
     od_invites = empty_table, od_login = \<lparr>ld_settings = \<lparr>sd_providers = Map.empty, sd_settings = Map.empty\<rparr>, ld_flows = []\<rparr>\<rparr>"

definition idle_db :: gateway_db where
  "idle_db = \<lparr>gw_oauth = idle_oauth, gw_provider_keys = demo_keys, gw_usage = [],
     gw_attempts = new_attempt_log_repo empty_table 10,
     gw_auth = \<lparr>ad_tokens = empty_table, ad_sessions = Map.empty\<rparr>, gw_audit = empty_table,
     gw_quotas = Map.empty, gw_key_quotas = Map.empty\<rparr>"

definition idle_host :: host_zone where
  "idle_host = \<lparr>hz_env = [], hz_known = (\<lambda>z. z = ''UTC''), hz_link = None, hz_local = ''UTC''\<rparr>"

definition idle_admin :: admin_deps where
  "idle_admin = \<lparr>dp_crypto = demo_crypto, dp_scrypt = (\<lambda>p s _ _ _ k. Some (take k (s @ p @ replicate k (CHR ''x'')))), dp_keys = demo_env,
     dp_auth = new_auth_service (24 * hour), dp_host = idle_host, dp_github = None, dp_invites = True,
     dp_quotas = True, dp_key_quotas = True, dp_attempt_logs = True, dp_refresher = True\<rparr>"

definition idle_server :: server where
  "idle_server = \<lparr>sr_internal_token = ''secret'', sr_crypto = demo_crypto, sr_key_env = demo_env, sr_oauth = None,
     sr_admin = idle_admin\<rparr>"

definition chat_request :: "string \<Rightarrow> client_request" where
  "chat_request auth = \<lparr>cr_method = ''POST'', cr_path = ''/grok/v1/chat/completions'', cr_raw_query = [],
     cr_header = [''Authorization'' \<mapsto> [auth]], cr_body = Some []\<rparr>"

section \<open>Properties\<close>

text \<open>
  C33. The list of runtime routes agrees with the dispatch: a method and path are let through to
  authentication exactly when the dispatch has a provider and an upstream path for them, so that
  no authenticated request ends in the dispatch's default case.
\<close>

theorem routes_in_sync: "is_runtime_route m path \<longleftrightarrow> runtime_target m path \<noteq> None"
  by (simp add: is_runtime_route_def runtime_target_def)

text \<open>
  C6. Nothing is forwarded without a gateway key: a request that is no runtime route is answered
  404 whatever its credentials; if a runtime request is answered with anything but 401, or changes
  the provider keys, the usage counters or the attempt log, then its Authorization header carries
  a token that an enabled, unrevoked key of the table hashes to, and this key is not OAuth-owned.
\<close>

theorem runtime_requires_gateway_key:
  assumes "serve_runtime sv env r db = (reply, db')"
  shows "(\<not> is_runtime_route (cr_method r) (cr_path r) \<longrightarrow> reply = SrvWritten not_found \<and> db' = db)
    \<and> (is_runtime_route (cr_method r) (cr_path r) \<and>
        (reply \<noteq> SrvWritten (WrittenError 401 ''unauthorized'') \<or> gw_provider_keys db' \<noteq> gw_provider_keys db
         \<or> gw_usage db' \<noteq> gw_usage db \<or> gw_attempts db' \<noteq> gw_attempts db) \<longrightarrow>
       (\<exists>token row. header_get (cr_header r) ''Authorization'' = ''Bearer '' @ token
          \<and> row \<in> set (rows (gw_keys db)) \<and> gk_key_hash row = hash_key (sr_crypto sv) (trim_space token)
          \<and> gk_enabled row \<and> gk_revoked_at row = None \<and> \<not> gk_oauth_owned row))"
proof (cases "is_runtime_route (cr_method r) (cr_path r)")
  case False
  with assms show ?thesis by (simp add: serve_runtime_def)
next
  case True
  obtain who db1 where a: "authorized sv (sn_clock env 0) r db = (who, db1)" by fastforce
  show ?thesis
  proof (cases who)
    case None
    with a authorized_None have "db1 = db" by blast
    with a None True assms show ?thesis by (auto simp: serve_runtime_def)
  next
    case (Some key)
    with a obtain token where t: "header_get (cr_header r) ''Authorization'' = ''Bearer '' @ token"
      "lookup_key (sr_crypto sv) (trim_space token) (gw_keys db) = Inr (Some key)" "\<not> gk_oauth_owned key"
      by (blast elim: authorized_Some)
    from t(2) obtain row where "row \<in> set (rows (gw_keys db))" "key = display_of row" "gk_enabled row"
      "gk_revoked_at row = None" "gk_key_hash row = hash_key (sr_crypto sv) (trim_space token)"
      by (rule lookup_row)
    with t True show ?thesis by auto
  qed
qed

lemma runtime_requires_gateway_key_witness:
  "\<forall>env :: server_env. \<exists>(reply :: server_reply) db'. serve_runtime idle_server env (chat_request ''Bearer nothing'') idle_db = (reply, db')
     \<and> reply = SrvWritten (WrittenError 401 ''unauthorized'')"
proof
  fix env :: server_env
  obtain reply :: "server_reply" and db' where s: "serve_runtime idle_server env (chat_request ''Bearer nothing'') idle_db = (reply, db')"
    by fastforce
  have "is_runtime_route (cr_method (chat_request ''Bearer nothing'')) (cr_path (chat_request ''Bearer nothing''))"
    by (simp add: is_runtime_route_def chat_request_def)
  moreover have "rows (gw_keys idle_db) = []"
    by (simp add: gw_keys_def idle_db_def idle_oauth_def empty_table_def)
  ultimately have "reply = SrvWritten (WrittenError 401 ''unauthorized'')"
    using runtime_requires_gateway_key [OF s] by auto
  with s show "\<exists>(reply :: server_reply) db'. serve_runtime idle_server env (chat_request ''Bearer nothing'') idle_db
      = (reply, db') \<and> reply = SrvWritten (WrittenError 401 ''unauthorized'')" by blast
qed

text \<open>
  An OAuth access token is no gateway key: a key that was issued to an OAuth client never
  authorises a runtime request, whatever happens to the key table after it was issued.
\<close>

theorem oauth_key_never_forwards:
  assumes "wf_gateway t" "create_oauth_tx_with_issuance cr src now name via label ref t = Inr (raw, d, t1)"
    "(gateway_step cr)\<^sup>*\<^sup>* t1 (gw_keys db)" "fst (authorized sv now' r db) = Some k"
  shows "gk_id k \<noteq> gk_id d"
proof -
  from assms(4) obtain db' where a: "authorized sv now' r db = (Some k, db')" by (metis prod.collapse)
  from assms(2) obtain dr where dr: "t1 = snd (insert_row (build_gateway_key dr) t)" "gd_oauth_owned dr"
    "gk_id d = tseq t + 1" by (rule create_oauth_Inr)
  have "owned_as (gk_id d) True t1"
    using assms(1) dr by (auto simp: owned_as_def table_simps wf_gateway_def wf_table_def build_gateway_key_def)
  with assms(3) have o: "owned_as (gk_id d) True (gw_keys db)" by (rule owned_as_forever)
  from a obtain token where "lookup_key (sr_crypto sv) (trim_space token) (gw_keys db) = Inr (Some k)" "\<not> gk_oauth_owned k"
    by (rule authorized_Some)
  then show "gk_id k \<noteq> gk_id d" using o by (auto elim!: lookup_row simp: owned_as_def)
qed

definition manual_key :: string where "manual_key = ''gsk_'' @ replicate 32 (CHR ''B'')"

definition manual_row :: gateway_key where
  "manual_row = demo_used_row\<lparr>gk_key_hash := hash_key demo_crypto manual_key\<rparr>"

definition manual_keys :: gateway_table where
  "manual_keys = \<lparr>tseq = 1, rows = [manual_row]\<rparr>"

lemma manual_key_form: "raw_key_re manual_key" "manual_key \<noteq> []"
  by (simp_all add: manual_key_def) code_simp

lemma manual_keys_wf: "wf_gateway manual_keys"
  by (simp add: wf_gateway_def wf_table_def manual_keys_def manual_row_def demo_used_row_def)

lemma trim_manual: "trim_space manual_key = manual_key"
  unfolding manual_key_def by code_simp

lemma lookup_manual:
  "lookup_key demo_crypto manual_key (manual_keys\<lparr>rows := manual_row # rs\<rparr>) = Inr (Some (display_of manual_row))"
  by (simp add: lookup_key_def manual_key_form find_row_def manual_keys_def manual_row_def demo_used_row_def)

lemma oauth_key_never_forwards_witness:
  "\<exists>d t1 k. create_oauth_tx_with_issuance demo_crypto demo_key_source 0 ''a'' ''operator'' ''a'' None manual_keys
       = Inr (demo_raw_key, d, t1)
     \<and> fst (authorized idle_server 5 (chat_request (''Bearer '' @ manual_key)) (set_gw_keys t1 idle_db)) = Some k
     \<and> gk_id k \<noteq> gk_id d"
proof -
  obtain d t1 where c: "create_oauth_tx_with_issuance demo_crypto demo_key_source 0 ''a'' ''operator'' ''a'' None manual_keys
       = Inr (demo_raw_key, d, t1)"
    using demo_create by blast
  then obtain dr where "t1 = snd (insert_row (build_gateway_key dr) manual_keys)" by (rule create_oauth_Inr)
  then have t1: "t1 = (manual_keys\<lparr>rows := manual_row # [build_gateway_key dr 2]\<rparr>)\<lparr>tseq := 2\<rparr>"
    by (simp add: insert_row_def manual_keys_def)
  have "lookup_key demo_crypto manual_key t1 = Inr (Some (display_of manual_row))"
    by (simp add: t1 lookup_key_def manual_key_form find_row_def manual_row_def demo_used_row_def)
  moreover have "gw_keys (set_gw_keys t1 idle_db) = t1" by (simp add: gw_keys_def set_gw_keys_def)
  ultimately have a: "fst (authorized idle_server 5 (chat_request (''Bearer '' @ manual_key)) (set_gw_keys t1 idle_db))
      = Some (display_of manual_row)"
    by (simp add: authorized_def chat_request_def header_get_def idle_server_def trim_prefix_def trim_manual
        manual_row_def demo_used_row_def Let_def)
  have "(gateway_step demo_crypto)\<^sup>*\<^sup>* t1 (gw_keys (set_gw_keys t1 idle_db))" by (simp add: gw_keys_def set_gw_keys_def)
  from oauth_key_never_forwards [OF manual_keys_wf c this a] c a show ?thesis by blast
qed

text \<open>
  C34. The internal verification vouches for live keys only, and only to a holder of the internal
  token: a JSON reply means the request presented the non-empty token of the configuration and
  named a key that an enabled, unrevoked row of the table hashes to; if the row is OAuth-owned, it
  has a grant for this gateway's resource, the one the request asks for if it asks for one, whose
  access has not expired. The reply changes nothing but the key's time of last use.
\<close>

theorem internal_verify_vouches_for_live_keys:
  assumes "handle_internal_keys_verify sv clk r db = (SrvJson code j, db')"
  shows "code = 200 \<and> sr_internal_token sv \<noteq> []
    \<and> header_get (cr_header r) ''X-Internal-Token'' = sr_internal_token sv
    \<and> (\<exists>token resource row. decode_verify (cr_body r) = Some (token, resource)
        \<and> row \<in> set (rows (gw_keys db)) \<and> gk_key_hash row = hash_key (sr_crypto sv) token
        \<and> gk_enabled row \<and> gk_revoked_at row = None
        \<and> (gk_oauth_owned row \<longrightarrow> (\<exists>os g expiry. sr_oauth sv = Some os
             \<and> grant_of_key (gk_id row) (gw_oauth db) = Some g \<and> gr_resource g = resource_url os
             \<and> (resource = [] \<or> resource = gr_resource g)
             \<and> parse_stamp (gr_access_expires_at g) = Some expiry \<and> clk 0 \<le> expiry))
        \<and> db' = set_gw_keys (touch_key (clk 1) (gk_id row) (gw_keys db)) db)"
proof -
  from assms obtain token resource key g where
    h: "sr_internal_token sv \<noteq> []" "header_get (cr_header r) ''X-Internal-Token'' = sr_internal_token sv"
      "decode_verify (cr_body r) = Some (token, resource)"
      "lookup_key (sr_crypto sv) token (gw_keys db) = Inr (Some key)"
      "verify_grant sv (clk 0) resource key db = Some g" "verify_reply key g = (SrvJson code j :: server_reply)"
      "db' = set_gw_keys (touch_key (clk 1) (gk_id key) (gw_keys db)) db"
    unfolding handle_internal_keys_verify_def by (auto split: if_splits option.splits sum.splits)
  from h(6) have code: "code = 200" by (simp add: verify_reply_def Let_def split: prod.splits)
  from h(4) obtain row where row: "row \<in> set (rows (gw_keys db))" "key = display_of row" "gk_enabled row"
    "gk_revoked_at row = None" "gk_key_hash row = hash_key (sr_crypto sv) token" by (rule lookup_row)
  have "\<exists>os g expiry. sr_oauth sv = Some os \<and> grant_of_key (gk_id row) (gw_oauth db) = Some g
      \<and> gr_resource g = resource_url os \<and> (resource = [] \<or> resource = gr_resource g)
      \<and> parse_stamp (gr_access_expires_at g) = Some expiry \<and> clk 0 \<le> expiry" if "gk_oauth_owned row"
    using h(5) that unfolding verify_grant_def row(2) check_oauth_grant_def
    by (auto split: if_splits option.splits)
  with h row code show ?thesis by auto
qed

definition verify_request :: client_request where
  "verify_request = \<lparr>cr_method = ''POST'', cr_path = ''/internal/keys/verify'', cr_raw_query = [],
     cr_header = [''X-Internal-Token'' \<mapsto> [''secret'']],
     cr_body = Some ([CHR ''{'', CHR 0x22] @ ''token'' @ [CHR 0x22, CHR '':'', CHR 0x22] @ manual_key @ [CHR 0x22, CHR ''}''])\<rparr>"

lemma internal_verify_vouches_for_live_keys_witness:
  "\<exists>j (db' :: gateway_db). handle_internal_keys_verify idle_server (\<lambda>_. 7) verify_request (set_gw_keys manual_keys idle_db)
     = (SrvJson 200 j :: server_reply, db') \<and> map gk_last_used_at (rows (gw_keys db')) = [Some (stamp 7)]"
proof -
  have d: "decode_verify (cr_body verify_request) = Some (manual_key, [])"
    unfolding verify_request_def manual_key_def by code_simp
  have k: "gw_keys (set_gw_keys t idle_db) = t" for t by (simp add: gw_keys_def set_gw_keys_def)
  have "lookup_key demo_crypto manual_key manual_keys = Inr (Some (display_of manual_row))"
    by (simp add: lookup_key_def manual_key_form find_row_def manual_keys_def manual_row_def demo_used_row_def)
  moreover have o: "\<not> gk_oauth_owned manual_row" by (simp add: manual_row_def demo_used_row_def)
  moreover have "cr_method verify_request = ''POST''"
    "header_get (cr_header verify_request) ''X-Internal-Token'' = sr_internal_token idle_server"
    "sr_internal_token idle_server \<noteq> []" "sr_crypto idle_server = demo_crypto"
    by (simp_all add: verify_request_def header_get_def idle_server_def)
  ultimately obtain j db' where e: "handle_internal_keys_verify idle_server (\<lambda>_. 7) verify_request (set_gw_keys manual_keys idle_db)
     = (SrvJson 200 j :: server_reply, db')"
    by (simp add: handle_internal_keys_verify_def d trim_manual manual_key_form k verify_grant_def
        verify_reply_def Let_def)
  from internal_verify_vouches_for_live_keys [OF e] e d k show ?thesis
    by (auto simp: manual_keys_def touch_key_def set_gateway_row_def set_gw_keys_def gw_keys_def update_where_def)
qed

end
