(* ===== verification/Migrations.thy ===== *)
theory Migrations
  imports GoTime
begin

text \<open>
  internal/store/migrations.go: the schema migrations run at startup. What a migration's SQL does to
  the schema and its data is a parameter: SQLite executes it, and a failing statement rolls the
  transaction back. Modelled are the list, the record of applied migrations and the loop.
\<close>

section \<open>State\<close>

text \<open>The applied migrations are None as long as the table schema_migrations does not exist.\<close>

record 's store =
  ms_schema :: 's
  ms_applied :: "(string \<times> timestamp) list option"

type_synonym 's sql_exec = "string \<Rightarrow> 's \<Rightarrow> 's option"

datatype migration_error = ErrExec string | ErrRecord string

definition migrations :: "string list" where
  "migrations = [''0001'', ''0002'', ''0003'', ''0004'', ''0005'', ''0006'', ''0007'', ''0008'', ''0009'',
     ''0010'', ''0011'', ''0012'', ''0013'']"

definition applied_ids :: "'s store \<Rightarrow> string list" where
  "applied_ids st = (case ms_applied st of None \<Rightarrow> [] | Some xs \<Rightarrow> map fst xs)"

section \<open>Operations\<close>

definition migration_applied :: "string \<Rightarrow> 's store \<Rightarrow> bool" where
  "migration_applied m st =
     (case ms_applied st of None \<Rightarrow> False | Some xs \<Rightarrow> 0 < length (filter (\<lambda>x. fst x = m) xs))"

text \<open>0001 creates the table schema_migrations, whose primary key is the id.\<close>

definition apply_migration ::
  "'s sql_exec \<Rightarrow> (string \<Rightarrow> instant) \<Rightarrow> string \<Rightarrow> 's store \<Rightarrow> migration_error + 's store" where
  "apply_migration exec clk m st =
     (case exec m (ms_schema st) of
        None \<Rightarrow> Inl (ErrExec m)
      | Some s \<Rightarrow>
          (let applied = (if m = ''0001'' \<and> ms_applied st = None then Some [] else ms_applied st) in
           case applied of
             None \<Rightarrow> Inl (ErrRecord m)
           | Some xs \<Rightarrow>
               if m \<in> fst ` set xs then Inl (ErrRecord m)
               else Inr \<lparr>ms_schema = s, ms_applied = Some (xs @ [(m, stamp (clk m))])\<rparr>))"

text \<open>Every migration commits by itself, so the store of a failed run keeps those before the failure.\<close>

fun migrate_from ::
  "'s sql_exec \<Rightarrow> (string \<Rightarrow> instant) \<Rightarrow> string list \<Rightarrow> 's store \<Rightarrow> migration_error option \<times> 's store" where
  "migrate_from exec clk [] st = (None, st)"
| "migrate_from exec clk (m # ms) st =
     (if migration_applied m st then migrate_from exec clk ms st
      else case apply_migration exec clk m st of
        Inl e \<Rightarrow> (Some e, st)
      | Inr st' \<Rightarrow> migrate_from exec clk ms st')"

definition migrate :: "'s sql_exec \<Rightarrow> (string \<Rightarrow> instant) \<Rightarrow> 's store \<Rightarrow> migration_error option \<times> 's store" where
  "migrate exec clk st = migrate_from exec clk migrations st"

section \<open>The abstract run\<close>

text \<open>What the migrations are meant to do to the schema: each once, in order, until one fails.\<close>

fun run_all :: "'s sql_exec \<Rightarrow> string list \<Rightarrow> 's \<Rightarrow> 's option" where
  "run_all exec [] s = Some s"
| "run_all exec (m # ms) s = Option.bind (exec m s) (run_all exec ms)"

lemma run_all_append: "run_all exec (ms @ ns) s = Option.bind (run_all exec ms s) (run_all exec ns)"
  by (induction ms arbitrary: s) (auto split: Option.bind_splits)

lemma migrations_distinct: "distinct migrations"
  unfolding migrations_def by code_simp

lemma migration_applied_iff: "migration_applied m st \<longleftrightarrow> m \<in> set (applied_ids st)"
  by (auto simp: migration_applied_def applied_ids_def filter_empty_conv split: option.splits)

lemma migrate_from_skip:
  "set ms \<subseteq> set (applied_ids st) \<Longrightarrow> migrate_from exec clk (ms @ ns) st = migrate_from exec clk ns st"
  by (induction ms) (auto simp: migration_applied_iff)

lemma apply_migration_Inr:
  assumes "apply_migration exec clk m st = Inr st'"
  shows "exec m (ms_schema st) = Some (ms_schema st')" "applied_ids st' = applied_ids st @ [m]"
  using assms by (auto simp: apply_migration_def applied_ids_def Let_def split: option.splits if_splits)

lemma apply_migration_Inl:
  assumes "apply_migration exec clk m st = Inl e" "m \<notin> set (applied_ids st)" "applied_ids st = [] \<Longrightarrow> m = ''0001''"
  shows "exec m (ms_schema st) = None"
  using assms by (auto simp: apply_migration_def applied_ids_def Let_def split: option.splits if_splits)

text \<open>The loop on the rest of the list, once the first \<open>k\<close> are recorded.\<close>

lemma migrate_from_rest:
  assumes "migrate_from exec clk (drop k migrations) st = (err, st')" "k \<le> length migrations"
    "applied_ids st = take k migrations"
  shows "\<exists>j \<ge> k. j \<le> length migrations \<and> applied_ids st' = take j migrations
     \<and> run_all exec (drop k (take j migrations)) (ms_schema st) = Some (ms_schema st')
     \<and> (err = None \<longleftrightarrow> j = length migrations)
     \<and> (err \<noteq> None \<longrightarrow> exec (migrations ! j) (ms_schema st') = None)"
  using assms
proof (induction "length migrations - k" arbitrary: k st)
  case 0
  then show ?case by (intro exI [of _ k]) simp
next
  case (Suc n)
  then have k: "k < length migrations" by simp
  let ?m = "migrations ! k"
  have d: "drop k migrations = ?m # drop (Suc k) migrations" using k by (simp add: Cons_nth_drop_Suc)
  have new: "?m \<notin> set (applied_ids st)"
    using k migrations_distinct Suc.prems(3) by (auto simp: in_set_conv_nth nth_eq_iff_index_eq)
  have first: "applied_ids st = [] \<Longrightarrow> ?m = ''0001''"
    using Suc.prems(3) k by (cases k) (simp_all add: migrations_def)
  show ?case
  proof (cases "apply_migration exec clk ?m st")
    case (Inl e)
    with Suc.prems(1) d new have "err = Some e" "st' = st" by (simp_all add: migration_applied_iff)
    with apply_migration_Inl [OF Inl new first] k Suc.prems(3) show ?thesis
      by (intro exI [of _ k]) simp
  next
    case (Inr st1)
    note a = apply_migration_Inr [OF Inr]
    have "applied_ids st1 = take (Suc k) migrations" using a(2) Suc.prems(3) k by (simp add: take_Suc_conv_app_nth)
    moreover have "migrate_from exec clk (drop (Suc k) migrations) st1 = (err, st')"
      using Suc.prems(1) d new Inr by (simp add: migration_applied_iff)
    moreover have "n = length migrations - Suc k" using Suc.hyps(2) by simp
    ultimately obtain j where j: "Suc k \<le> j" "j \<le> length migrations" "applied_ids st' = take j migrations"
      "run_all exec (drop (Suc k) (take j migrations)) (ms_schema st1) = Some (ms_schema st')"
      "err = None \<longleftrightarrow> j = length migrations" "err \<noteq> None \<longrightarrow> exec (migrations ! j) (ms_schema st') = None"
      using Suc.hyps(1) [of "Suc k" st1] k by auto
    have "drop k (take j migrations) = ?m # drop (Suc k) (take j migrations)"
      using j(1,2) by (simp add: Cons_nth_drop_Suc [symmetric])
    with j a(1) show ?thesis by (intro exI [of _ j]) simp
  qed
qed

section \<open>Properties\<close>

text \<open>
  C20. Migrations run once each, in order, and a failed startup resumes where it stopped: from a
  store in which the first k migrations are recorded, a run records exactly a longer prefix of the
  list and leaves the schema that executing the new ones in sequence gives; it reports an error
  exactly if it stops early, at a migration whose SQL fails. A later run, with whatever SQL engine,
  never executes a recorded migration again: it is the run of the remaining ones.
\<close>

theorem migrations_run_once:
  assumes "migrate exec clk st = (err, st')" "applied_ids st = take k migrations" "k \<le> length migrations"
  shows "\<exists>j \<ge> k. j \<le> length migrations \<and> applied_ids st' = take j migrations
     \<and> run_all exec (drop k (take j migrations)) (ms_schema st) = Some (ms_schema st')
     \<and> (err = None \<longleftrightarrow> j = length migrations)
     \<and> (err \<noteq> None \<longrightarrow> exec (migrations ! j) (ms_schema st') = None)
     \<and> (\<forall>exec' clk'. migrate exec' clk' st' = migrate_from exec' clk' (drop j migrations) st')"
proof -
  have skip: "migrate exec' clk' s = migrate_from exec' clk' (drop i migrations) s"
    if "applied_ids s = take i migrations" for exec' clk' i and s :: "'a store"
    using migrate_from_skip [of "take i migrations" s exec' clk' "drop i migrations"] that
    by (simp add: migrate_def)
  from assms(1) skip [OF assms(2)] have "migrate_from exec clk (drop k migrations) st = (err, st')" by simp
  from migrate_from_rest [OF this assms(3,2)] skip show ?thesis by meson
qed

lemma migrations_run_once_witness:
  "\<exists>st'. migrate (\<lambda>m (s :: nat). if m = ''0003'' then None else Some (Suc s)) (\<lambda>_. 0) \<lparr>ms_schema = 0, ms_applied = None\<rparr>
       = (Some (ErrExec ''0003''), st') \<and> applied_ids st' = [''0001'', ''0002'']
     \<and> (\<forall>exec' clk'. migrate exec' clk' st' = migrate_from exec' clk' (drop 2 migrations) st')"
proof -
  let ?exec = "\<lambda>m (s :: nat). if m = ''0003'' then None else Some (Suc s)"
  obtain st' where e: "migrate ?exec (\<lambda>_. 0) \<lparr>ms_schema = 0, ms_applied = None\<rparr> = (Some (ErrExec ''0003''), st')"
    and n: "applied_ids st' = [''0001'', ''0002'']"
    by (simp add: migrate_def migrations_def migration_applied_def apply_migration_def applied_ids_def)
  have "applied_ids \<lparr>ms_schema = 0 :: nat, ms_applied = None\<rparr> = take 0 migrations" by (simp add: applied_ids_def)
  from migrations_run_once [OF e this] obtain j where
    j: "j \<le> length migrations" "applied_ids st' = take j migrations"
      "\<forall>exec' clk'. migrate exec' clk' st' = migrate_from exec' clk' (drop j migrations) st'" by auto
  from j(1,2) n have "j = 2" by (auto dest: arg_cong [where f = length])
  with e n j(3) show ?thesis by blast
qed

end
