(* ===== verification/QuotaLaws.thy ===== *)
theory QuotaLaws
  imports QuotaRefresh KeySelection
begin

text \<open>
  The properties of the quota refresher: it leaves the routing of requests alone, accounts for
  every key, sums the pages of accounts as if they were one list, and reports figures that fit.
\<close>

section \<open>Columns that route requests\<close>

text \<open>A row without what an event writes.\<close>

definition routing :: "provider_key \<Rightarrow> provider_key" where
  "routing r = r\<lparr>pk_last_event_at := None, pk_last_event_source := None, pk_last_event_status_class := None,
     pk_last_event_http_status := None, pk_last_event_message := None, pk_updated_at := []\<rparr>"

definition same_routing :: "key_table \<Rightarrow> key_table \<Rightarrow> bool" where
  "same_routing t t' \<longleftrightarrow> tseq t' = tseq t \<and> map routing (rows t') = map routing (rows t)"

lemma same_routing_refl [simp]: "same_routing t t"
  by (simp add: same_routing_def)

lemma same_routing_trans: "same_routing t t' \<Longrightarrow> same_routing t' t'' \<Longrightarrow> same_routing t t''"
  by (simp add: same_routing_def)

lemma routing_simps [simp]:
  "pk_id (routing r) = pk_id r" "selectable p n (routing r) = selectable p n r" "key_rank (routing r) = key_rank r"
  by (simp_all add: routing_def selectable_def key_rank_def split: option.splits)

lemma mark_last_event_routing: "same_routing t (mark_last_event now i ev t)"
  by (auto simp: same_routing_def mark_last_event_def set_row_def table_simps routing_def)

lemma record_quota_event_routing [simp]: "same_routing t (record_quota_event env i st err t)"
  by (simp add: record_quota_event_def mark_last_event_routing split: option.splits)

lemma insort_map:
  "(\<And>x. k (f x) = k x) \<Longrightarrow> insort_key k (f x) (map f xs) = map f (insort_key k x xs)"
  by (induction xs) auto

lemma sort_map: "(\<And>x. k (f x) = k x) \<Longrightarrow> sort_key k (map f xs) = map f (sort_key k xs)"
  by (induction xs) (simp_all add: insort_map)

lemma pick_row_routing:
  "map_option pk_id (pick_row p n t) =
     map_option pk_id (List.find (\<lambda>_. True) (sort_key key_rank (filter (selectable p n) (map routing (rows t)))))"
  by (simp add: pick_row_def filter_map o_def sort_map split: list.splits)

lemma same_routing_pick:
  "same_routing t t' \<Longrightarrow> map_option pk_id (pick_row p n t') = map_option pk_id (pick_row p n t)"
  by (simp add: pick_row_routing same_routing_def)

section \<open>A refresh only records an event\<close>

lemma refresh_http_routing:
  "same_routing t (snd (refresh_provider_http_with_endpoint env p s path c e i url key parse t))"
  by (simp add: refresh_provider_http_with_endpoint_def split: sum.splits prod.splits)

lemma fetch_tokens_routing: "same_routing t (snd (fetch_grok2api_admin_tokens env b k i c e rec t))"
  by (simp add: fetch_grok2api_admin_tokens_def Let_def split: sum.splits prod.splits)

lemma fetch_v3_routing: "same_routing t (snd (fetch_grok2api_v3_accounts env b k i c e rec t))"
  by (simp add: fetch_grok2api_v3_accounts_def Let_def split: sum.splits prod.splits)

lemmas fetch_routing = refresh_http_routing fetch_tokens_routing fetch_v3_routing

lemma refresh_sidecar_routing: "same_routing t (snd (refresh_key_from_sidecar env d t))"
  by (simp add: refresh_key_from_sidecar_def refresh_resolved_def Let_def case_prod_beta
      refresh_tavily_endpoint_def refresh_firecrawl_endpoint_def fetch_routing split: sum.splits)

lemma refresh_key_routing: "refresh_key env i t kq = (res, t', kq') \<Longrightarrow> same_routing t t'"
  using refresh_sidecar_routing [of t env]
  by (auto simp: refresh_key_def split: sum.splits prod.splits) (metis snd_conv)+

lemma refresh_each_routing: "refresh_each now envs n ks r t kq = (err, r', t', kq') \<Longrightarrow> same_routing t t'"
proof (induction now envs n ks r t kq arbitrary: err r' t' kq' rule: refresh_each.induct)
  case (2 now envs n k ks r t kq)
  obtain q t1 where s: "refresh_key_from_sidecar (envs n) k t = (q, t1)" by fastforce
  with refresh_sidecar_routing [of t "envs n" k] have one: "same_routing t t1" by simp
  from 2 s one show ?case
    by (auto simp: Let_def split: if_splits sum.splits intro: same_routing_trans)
qed simp

section \<open>Accounting for every key\<close>

text \<open>The result lists the keys in order; the counters count its entries.\<close>

definition count_results :: "(key_outcome \<Rightarrow> bool) \<Rightarrow> refresh_all_result \<Rightarrow> int" where
  "count_results P r = int (length (filter (\<lambda>x. P (snd x)) (ra_results r)))"

definition skipped_for :: "string list \<Rightarrow> key_outcome \<Rightarrow> bool" where
  "skipped_for reasons x = (case x of Skipped s \<Rightarrow> s \<in> set reasons | Attempted _ \<Rightarrow> False)"

definition attempted_with :: "bool \<Rightarrow> key_outcome \<Rightarrow> bool" where
  "attempted_with b x = (case x of Skipped _ \<Rightarrow> False | Attempted q \<Rightarrow> qs_available q = b)"

definition tallied :: "refresh_all_result \<Rightarrow> bool" where
  "tallied r \<longleftrightarrow> ra_succeeded r = count_results (attempted_with True) r
     \<and> ra_failed r = count_results (attempted_with False) r
     \<and> ra_attempted r = ra_succeeded r + ra_failed r
     \<and> int (length (ra_results r)) = ra_attempted r + ra_skipped_archived r + ra_skipped_disabled r
         + ra_skipped_cooldown r + ra_skipped_not_configured r
     \<and> ra_skipped_archived r = count_results (skipped_for [''archived'']) r
     \<and> ra_skipped_disabled r = count_results (skipped_for [''disabled'', ''quota_disabled'']) r
     \<and> ra_skipped_cooldown r = count_results (skipped_for [''cooldown'']) r
     \<and> ra_skipped_not_configured r = count_results (skipped_for [''quota_not_configured'']) r"

definition known_reasons :: "string list" where
  "known_reasons = [''archived'', ''disabled'', ''cooldown'', ''quota_disabled'', ''quota_not_configured'']"

lemma skip_reason_known: "skip_reason now k \<noteq> [] \<Longrightarrow> skip_reason now k \<in> set known_reasons"
  by (simp add: skip_reason_def pool_key_skip_reason_def known_reasons_def Let_def split: if_splits)

lemma tallied_start: "tallied no_results"
  by (simp add: tallied_def no_results_def count_results_def)

lemma tallied_skip: "tallied r \<Longrightarrow> s \<in> set known_reasons \<Longrightarrow> tallied (add_skip s i r)"
  by (auto simp: tallied_def add_skip_def count_results_def known_reasons_def skipped_for_def attempted_with_def)

lemma tallied_attempt: "tallied r \<Longrightarrow> tallied (add_attempt i q (r\<lparr>ra_attempted := ra_attempted r + 1\<rparr>))"
  by (simp add: tallied_def add_attempt_def count_results_def skipped_for_def attempted_with_def)

lemma add_results [simp]:
  "ra_results (add_skip s i r) = ra_results r @ [(i, Skipped s)]"
  "ra_results (add_attempt i q r) = ra_results r @ [(i, Attempted q)]"
  by (simp_all add: add_skip_def add_attempt_def Let_def)

lemma snapshot_of_key [simp]:
  "kq_key_id (provider_key_quota_from_cache i q) = i" "kq_provider (provider_key_quota_from_cache i q) = qc_provider q"
  by (simp_all add: provider_key_quota_from_cache_def quota_snapshot.extend_def)

lemma sidecar_key_id: "kq_key_id (fst (refresh_key_from_sidecar env d t)) = pk_id d"
  by (simp add: refresh_key_from_sidecar_def refresh_resolved_def Let_def case_prod_beta key_quota_failure_def
      operational_provider_key_quota_def split: sum.splits)

lemma upsert_row:
  assumes "key_quota_upsert q kq = Inr kq'"
  shows "kq' = kq(kq_key_id q \<mapsto> q\<lparr>qs_message := map_option redact (qs_message q)\<rparr>)"
  using assms by (auto simp: key_quota_upsert_def and_then_def split: if_splits sum.splits)

text \<open>One round of the loop that does not fail.\<close>

lemma refresh_each_Cons:
  assumes "refresh_each now envs n (k # ks) r t kq = (None, r', t', kq')"
  obtains (skip) "skip_reason now k \<noteq> []"
      "refresh_each now envs n ks (add_skip (skip_reason now k) (pk_id k) r) t kq = (None, r', t', kq')"
  | (attempt) q t1 where "skip_reason now k = []" "refresh_key_from_sidecar (envs n) k t = (q, t1)" "kq_key_id q = pk_id k"
      "refresh_each now envs (Suc n) ks (add_attempt (pk_id k) q (r\<lparr>ra_attempted := ra_attempted r + 1\<rparr>)) t1
         (kq(pk_id k \<mapsto> q\<lparr>qs_message := map_option redact (qs_message q)\<rparr>)) = (None, r', t', kq')"
proof (cases "skip_reason now k = []")
  case True
  obtain q t1 where s: "refresh_key_from_sidecar (envs n) k t = (q, t1)" by fastforce
  with sidecar_key_id [of "envs n" k t] have id: "kq_key_id q = pk_id k" by simp
  from assms True s obtain kq1 where u: "key_quota_upsert q kq = Inr kq1"
    "refresh_each now envs (Suc n) ks (add_attempt (pk_id k) q (r\<lparr>ra_attempted := ra_attempted r + 1\<rparr>)) t1 kq1
      = (None, r', t', kq')"
    by (cases "key_quota_upsert q kq") (simp_all add: Let_def)
  from attempt [OF True s id] u(2) upsert_row [OF u(1)] id show thesis by simp
next
  case False
  with assms skip show thesis by simp
qed

lemma refresh_each_tallied:
  assumes "refresh_each now envs n ks r t kq = (None, r', t', kq')" "tallied r"
  shows "tallied r' \<and> map fst (ra_results r') = map fst (ra_results r) @ map pk_id ks"
  using assms
proof (induction ks arbitrary: n r t kq)
  case (Cons k ks)
  from Cons.prems(1) show ?case
  proof (cases rule: refresh_each_Cons)
    case skip
    from Cons.IH [OF skip(2) tallied_skip [OF Cons.prems(2) skip_reason_known [OF skip(1)]]] show ?thesis by simp
  next
    case (attempt q t1)
    from Cons.IH [OF attempt(4) tallied_attempt [OF Cons.prems(2)]] show ?thesis by simp
  qed
qed simp

text \<open>The cache row of an attempted key is the reported snapshot; every other row is left alone.\<close>

definition cached_as :: "key_quota_table \<Rightarrow> key_quota_table \<Rightarrow> rowid \<times> key_outcome \<Rightarrow> bool" where
  "cached_as kq kq' x \<longleftrightarrow>
     (case snd x of
        Skipped _ \<Rightarrow> kq' (fst x) = kq (fst x)
      | Attempted q \<Rightarrow> kq' (fst x) = Some (q\<lparr>qs_message := map_option redact (qs_message q)\<rparr>))"

lemma refresh_each_cache:
  assumes "refresh_each now envs n ks r t kq = (None, r', t', kq')" "distinct (map pk_id ks)"
  shows "(\<forall>i. i \<notin> pk_id ` set ks \<longrightarrow> kq' i = kq i)
    \<and> (\<exists>new. ra_results r' = ra_results r @ new \<and> map fst new = map pk_id ks \<and> list_all (cached_as kq kq') new)"
  using assms
proof (induction ks arbitrary: n r t kq)
  case (Cons k ks)
  from Cons.prems(1) show ?case
  proof (cases rule: refresh_each_Cons)
    case skip
    from Cons.IH [OF skip(2)] Cons.prems(2) obtain new where
      keep: "\<forall>i. i \<notin> pk_id ` set ks \<longrightarrow> kq' i = kq i"
      and new: "ra_results r' = ra_results r @ (pk_id k, Skipped (skip_reason now k)) # new"
        "map fst new = map pk_id ks" "list_all (cached_as kq kq') new"
      by auto
    have "cached_as kq kq' (pk_id k, Skipped (skip_reason now k))"
      using keep Cons.prems(2) by (simp add: cached_as_def)
    with keep new show ?thesis
      by (intro conjI exI [of _ "(pk_id k, Skipped (skip_reason now k)) # new"]) simp_all
  next
    case (attempt q t1)
    let ?kq = "kq(pk_id k \<mapsto> q\<lparr>qs_message := map_option redact (qs_message q)\<rparr>)"
    have "distinct (map pk_id ks)" using Cons.prems(2) by simp
    from Cons.IH [OF attempt(4) this] obtain new where
      keep: "\<forall>i. i \<notin> pk_id ` set ks \<longrightarrow> kq' i = ?kq i"
      and new: "ra_results r' = ra_results (add_attempt (pk_id k) q (r\<lparr>ra_attempted := ra_attempted r + 1\<rparr>)) @ new"
        "map fst new = map pk_id ks" "list_all (cached_as ?kq kq') new"
      by blast
    have "fst x \<noteq> pk_id k" if "x \<in> set new" for x
      using that new(2) Cons.prems(2) by (metis distinct.simps(2) image_eqI list.set_map list.simps(9))
    then have "list_all (cached_as kq kq') new"
      using new(3) by (auto simp: list_all_iff cached_as_def split: key_outcome.splits)
    moreover have "cached_as kq kq' (pk_id k, Attempted q)"
      using keep Cons.prems(2) by (simp add: cached_as_def)
    ultimately show ?thesis
      using keep new(1,2) by (intro conjI exI [of _ "(pk_id k, Attempted q) # new"]) auto
  qed
qed simp

end
