(* ===== verification/QuotaProperties.thy ===== *)
theory QuotaProperties
  imports QuotaLaws Instances
begin

text \<open>The properties of the quota refresher, and the lemmas on its sums.\<close>

section \<open>Sums over pages\<close>

definition add_totals :: "v3_totals \<Rightarrow> v3_totals \<Rightarrow> v3_totals" where
  "add_totals s t =
     \<lparr>vt_remaining = wrap64 (vt_remaining s + vt_remaining t), vt_limit = wrap64 (vt_limit s + vt_limit t),
      vt_accounts = vt_accounts s + vt_accounts t, vt_windows = vt_windows s + vt_windows t\<rparr>"

definition wrapped :: "v3_totals \<Rightarrow> bool" where
  "wrapped t \<longleftrightarrow> wrap64 (vt_remaining t) = vt_remaining t \<and> wrap64 (vt_limit t) = vt_limit t"

declare wrap64_add [simp]

lemma wrap64_add_right [simp]: "wrap64 (x + wrap64 y) = wrap64 (x + y)"
  by (metis add.commute wrap64_add)

lemma wrap64_idem [simp]: "wrap64 (wrap64 x) = wrap64 x"
  using wrap64_add [of x 0] by simp

lemma add_totals_none: "wrapped t \<Longrightarrow> add_totals t no_totals = t"
  by (cases t) (simp add: add_totals_def no_totals_def wrapped_def)

lemma add_totals_assoc: "add_totals (add_totals s t) u = add_totals s (add_totals t u)"
  by (simp add: add_totals_def add.assoc)

lemma wrapped_add_totals [simp]: "wrapped (add_totals s t)"
  by (simp add: wrapped_def add_totals_def)

lemma wrapped_no_totals [simp]: "wrapped no_totals"
  by (simp add: wrapped_def no_totals_def wrap64_def)

lemma add_window_totals: "add_window w (add_totals s t) = add_totals s (add_window w t)"
  by (simp add: add_window_def add_totals_def add.assoc)

lemma add_windows_totals: "fold add_window ws (add_totals s t) = add_totals s (fold add_window ws t)"
  by (induction ws arbitrary: t) (simp_all add: add_window_totals)

lemma add_amounts_totals: "add_amounts r l (add_totals s t) = add_totals s (add_amounts r l t)"
  by (simp add: add_amounts_def add_totals_def add.assoc)

lemma count_account_totals:
  "(add_totals s t)\<lparr>vt_accounts := vt_accounts (add_totals s t) + 1\<rparr> = add_totals s (t\<lparr>vt_accounts := vt_accounts t + 1\<rparr>)"
  by (simp add: add_totals_def)

lemma add_account_totals: "add_account a (add_totals s t) = add_totals s (add_account a t)"
  by (simp add: add_account_def Let_def count_account_totals add_windows_totals add_amounts_totals split: option.splits)

lemma normalize_append:
  "normalize_grok2api_v3_accounts (xs @ ys)
     = add_totals (normalize_grok2api_v3_accounts xs) (normalize_grok2api_v3_accounts ys)"
proof -
  have shift: "fold add_account ys (add_totals s t) = add_totals s (fold add_account ys t)" for ys s t
    by (induction ys arbitrary: t) (simp_all add: add_account_totals)
  have "wrapped (fold add_account xs (add_totals no_totals no_totals))"
    unfolding shift by (rule wrapped_add_totals)
  then have "wrapped (normalize_grok2api_v3_accounts xs)"
    by (simp add: normalize_grok2api_v3_accounts_def add_totals_none)
  then show ?thesis
    using shift [of ys "normalize_grok2api_v3_accounts xs" no_totals]
    by (simp add: normalize_grok2api_v3_accounts_def add_totals_none)
qed

section \<open>The paging loop\<close>

text \<open>Call \<open>n\<close> of the loop answers with a page of accounts and a declared total.\<close>

definition answers_page :: "quota_env \<Rightarrow> string \<Rightarrow> string \<Rightarrow> nat \<Rightarrow> v3_account list \<Rightarrow> int \<Rightarrow> bool" where
  "answers_page env admin_base token n items d \<longleftrightarrow>
     (\<exists>status body. get_json env n (v3_page_url admin_base n) token = (status, Inr body)
        \<and> decode_v3_accounts body = Some (items, d))"

lemma v3_pages_done:
  assumes "v3_pages env b tok k page p = PagesDone p'" "wrapped (vp_totals p)"
  shows "\<exists>pages. length pages \<le> k
     \<and> (\<forall>i < length pages. \<exists>d. answers_page env b tok (page + i) (pages ! i) d)
     \<and> vp_totals p' = add_totals (vp_totals p) (normalize_grok2api_v3_accounts (concat pages))
     \<and> vp_fetched p' = vp_fetched p + int (length (concat pages))
     \<and> (k \<noteq> 0 \<longrightarrow> (\<exists>i < k. \<exists>items. answers_page env b tok (page + i) items (vp_declared p')))"
  using assms
proof (induction k arbitrary: page p)
  case 0
  then show ?case
    by (intro exI [of _ "[]"]) (simp add: normalize_grok2api_v3_accounts_def add_totals_none)
next
  case (Suc k)
  from Suc.prems(1) obtain status body items d where
    call: "get_json env page (v3_page_url b page) tok = (status, Inr body)" "decode_v3_accounts body = Some (items, d)"
    by (auto split: prod.splits sum.splits option.splits)
  then have ans: "answers_page env b tok page items d" by (auto simp: answers_page_def)
  let ?p1 = "p\<lparr>vp_declared := d, vp_status := status\<rparr>" and ?n = normalize_grok2api_v3_accounts
  let ?p2 = "add_page items ?p1"
  have p2: "vp_totals ?p2 = add_totals (vp_totals p) (?n items)" "vp_fetched ?p2 = vp_fetched p + int (length items)"
    "vp_declared ?p2 = d"
    by (simp_all add: add_page_def add_totals_def Let_def)
  have step: "v3_pages env b tok (Suc k) page p =
      (if items = [] then PagesDone ?p1
       else if (0 < d \<and> d \<le> vp_fetched ?p2) \<or> length items < v3_page_size then PagesDone ?p2
       else v3_pages env b tok k (Suc page) ?p2)"
    by (simp add: call Let_def)
  consider (empty) "items = []" "p' = ?p1"
    | (stop) "p' = ?p2"
    | (more) "v3_pages env b tok k (Suc page) ?p2 = PagesDone p'"
    using Suc.prems(1) unfolding step by (metis v3_end.inject(3))
  then show ?case
  proof cases
    case empty
    with ans Suc.prems(2) show ?thesis
      by (intro exI [of _ "[]"]) (auto simp: normalize_grok2api_v3_accounts_def add_totals_none intro!: exI [of _ 0])
  next
    case stop
    have "\<exists>i < Suc k. \<exists>items. answers_page env b tok (page + i) items d"
      using ans by (intro exI [of _ 0]) auto
    with stop ans p2 show ?thesis by (intro exI [of _ "[items]"]) auto
  next
    case more
    have "wrapped (vp_totals ?p2)" by (simp add: p2)
    from Suc.IH [OF more this] obtain pages where pages: "length pages \<le> k"
      "\<forall>i < length pages. \<exists>d. answers_page env b tok (Suc page + i) (pages ! i) d"
      "vp_totals p' = add_totals (vp_totals ?p2) (?n (concat pages))"
      "vp_fetched p' = vp_fetched ?p2 + int (length (concat pages))"
      "k \<noteq> 0 \<longrightarrow> (\<exists>i < k. \<exists>items. answers_page env b tok (Suc page + i) items (vp_declared p'))"
      by blast
    have each: "\<forall>i < length (items # pages). \<exists>d. answers_page env b tok (page + i) ((items # pages) ! i) d"
    proof (intro allI impI)
      fix i assume "i < length (items # pages)"
      then show "\<exists>d. answers_page env b tok (page + i) ((items # pages) ! i) d"
        using pages(2) ans by (cases i) auto
    qed
    have last: "\<exists>i < Suc k. \<exists>items. answers_page env b tok (page + i) items (vp_declared p')"
    proof (cases "k = 0")
      case True
      with more p2(3) have "vp_declared p' = d" by simp
      with ans show ?thesis by (intro exI [of _ 0]) auto
    next
      case False
      with pages(5) obtain i items' where "i < k" "answers_page env b tok (Suc page + i) items' (vp_declared p')" by blast
      then show ?thesis by (intro exI [of _ "Suc i"]) auto
    qed
    have "vp_totals p' = add_totals (vp_totals p) (?n (concat (items # pages)))"
      using pages(3) p2(1) by (simp add: normalize_append add_totals_assoc)
    moreover have "vp_fetched p' = vp_fetched p + int (length (concat (items # pages)))"
      using pages(4) p2(2) by simp
    ultimately show ?thesis
      using pages(1) each last by (intro exI [of _ "items # pages"] conjI) auto
  qed
qed

text \<open>The loop makes at most one call for each page it is allowed.\<close>

lemma v3_pages_calls:
  assumes "\<And>n. n < page + k \<Longrightarrow> qe_transport env' n = qe_transport env n" "qe_json_error env' = qe_json_error env"
  shows "v3_pages env' b tok k page p = v3_pages env b tok k page p"
  using assms(1)
proof (induction k arbitrary: page p)
  case (Suc k)
  have "get_json env' page url tok = get_json env page url tok" for url
    using Suc.prems [of page] by (simp add: get_json_def request_http_def)
  with Suc.IH [of "Suc page"] Suc.prems assms(2) show ?case
    by (simp add: Let_def split: prod.splits sum.splits option.splits)
qed simp

section \<open>Concrete refreshes\<close>

definition demo_answer :: "string \<Rightarrow> quota_env" where
  "demo_answer body = \<lparr>qe_keys = demo_env, qe_transport = (\<lambda>_ _. Answer 200 (Inr body)), qe_now = 0,
     qe_select_time = 0, qe_mark_time = 7, qe_json_error = (\<lambda>_. [])\<rparr>"

definition demo_tavily_key :: provider_key where
  "demo_tavily_key = (build_key (demo_draft ''tavily'' ''one'') 1)\<lparr>pk_base_url := ''https://api.tavily.com'',
     pk_quota_mode := quota_endpoint_credentials, pk_quota_flow := flow_tavily_usage\<rparr>"

definition demo_tavily_keys :: key_table where
  "demo_tavily_keys = \<lparr>tseq = 1, rows = [demo_tavily_key]\<rparr>"

definition demo_usage_body :: bytes where
  "demo_usage_body = map (\<lambda>c. if c = CHR ''~'' then CHR 0x22 else c) ''{~key~:{~usage~:3,~limit~:10}}''"

section \<open>Properties\<close>

text \<open>
  C36. Refreshing quotas never affects the routing of requests: whatever the upstream answers, a
  refresh of one key or of all keys of a provider, successful or not, changes nothing in the key
  table but the last event and the update time of rows, so that at every time the same key is
  selected for every provider as before.
\<close>

theorem quota_refresh_keeps_routing:
  assumes "refresh_key env i t kq = (res, t1, kq1) \<or> refresh_all_keys now envs provider t kq = (res', t1, kq1)"
  shows "same_routing t t1 \<and> map_option pk_id (pick_row p n t1) = map_option pk_id (pick_row p n t)"
proof -
  have "same_routing t t1"
    using assms
  proof
    assume "refresh_all_keys now envs provider t kq = (res', t1, kq1)"
    then show ?thesis
      by (auto simp: refresh_all_keys_def split: sum.splits prod.splits option.splits dest: refresh_each_routing)
  qed (rule refresh_key_routing)
  with same_routing_pick show ?thesis by blast
qed

lemma demo_resolve:
  "resolve_endpoint_quota demo_env 1 demo_tavily_keys
     = Inr \<lparr>rq_endpoint_id = 1, rq_provider = ''tavily'', rq_mode = quota_endpoint_credentials,
            rq_flow = flow_tavily_usage, rq_base_url = ''https://api.tavily.com'', rq_api_key = ''xai-abc''\<rparr>"
  by (simp add: resolve_endpoint_quota_def row_by_id_def find_row_def demo_tavily_keys_def demo_tavily_key_def
      build_key_def demo_draft_def quota_names)

lemma quota_refresh_keeps_routing_witness:
  "\<exists>res t1 kq1. refresh_key (demo_answer demo_usage_body) 1 demo_tavily_keys Map.empty = (res, t1, kq1)
     \<and> pick_row ''tavily'' ''2027'' t1 \<noteq> None"
proof -
  obtain res t1 kq1 where e: "refresh_key (demo_answer demo_usage_body) 1 demo_tavily_keys Map.empty = (res, t1, kq1)"
    by (metis prod.exhaust)
  have "pick_row ''tavily'' ''2027'' demo_tavily_keys \<noteq> None"
    by (simp add: pick_row_None demo_tavily_keys_def selectable_def demo_tavily_key_def build_key_def demo_draft_def)
  with quota_refresh_keeps_routing [OF disjI1 [OF e], of "''tavily''" "''2027''"] e show ?thesis
    by (metis map_option_is_None)
qed

section \<open>A refresh of all keys ends with a result\<close>

lemma snapshot_provider [simp]:
  "qc_provider (quota_cache_shell p s c e i) = p" "qc_provider (failed_snapshot m p s c e i) = p"
  "qc_provider (quota_failure p s c e i err) = p" "qc_provider (quota_http_failure p s c e i st m) = p"
  "qc_provider (quota_malformed p s c e i) = p" "qc_provider (normalize_tavily_usage p i c e x) = p"
  "qc_provider (normalize_firecrawl_credit_usage p i c e y) = p" "qc_provider (normalize_grok2api_tokens p i c e z) = p"
  "qc_provider (v3_snapshot t c e i) = provider_grok"
  by (simp_all add: quota_cache_shell_def failed_snapshot_def quota_failure_def quota_http_failure_def quota_malformed_def
      normalize_tavily_usage_def normalize_firecrawl_credit_usage_def normalize_grok2api_tokens_def v3_snapshot_def
      Let_def split: prod.splits option.splits)

lemma fetch_provider [simp]:
  "qc_provider (fst (refresh_tavily_endpoint env i u k c e t)) = provider_tavily"
  "qc_provider (fst (refresh_firecrawl_endpoint env i u k c e t)) = provider_firecrawl"
  "qc_provider (fst (fetch_grok2api_admin_tokens env b k ki c e rec t)) = provider_grok"
  "qc_provider (fst (fetch_grok2api_v3_accounts env b k ki c e rec t)) = provider_grok"
  by (simp_all add: refresh_tavily_endpoint_def refresh_firecrawl_endpoint_def refresh_provider_http_with_endpoint_def
      parse_tavily_def parse_firecrawl_def fetch_grok2api_admin_tokens_def fetch_grok2api_v3_accounts_def v3_outcome_def
      Let_def split: sum.splits prod.splits option.splits v3_end.splits if_splits)

lemma sidecar_provider:
  assumes "validate_provider (pk_provider d) = Inr ()"
  shows "validate_provider (kq_provider (fst (refresh_key_from_sidecar env d t))) = Inr ()"
proof -
  have "validate_provider provider_grok = Inr ()" "validate_provider provider_tavily = Inr ()"
    "validate_provider provider_firecrawl = Inr ()" by (simp_all add: validate_provider_def)
  with assms show ?thesis
    by (simp add: refresh_key_from_sidecar_def refresh_resolved_def Let_def case_prod_beta key_quota_failure_def
        operational_provider_key_quota_def split: sum.splits)
qed

lemma refresh_each_total:
  assumes "\<And>k. k \<in> set ks \<Longrightarrow> validate_provider (pk_provider k) = Inr () \<and> 0 < pk_id k"
  shows "\<exists>r' t' kq'. refresh_each now envs n ks r t kq = (None, r', t', kq')"
  using assms
proof (induction ks arbitrary: n r t kq)
  case (Cons k ks)
  obtain q t1 where s: "refresh_key_from_sidecar (envs n) k t = (q, t1)" by fastforce
  from Cons.prems [of k] have "validate_provider (kq_provider q) = Inr ()" "kq_key_id q = pk_id k" "0 < pk_id k"
    using sidecar_provider [of k "envs n" t] sidecar_key_id [of "envs n" k t] s by auto
  then obtain kq1 where "key_quota_upsert q kq = Inr kq1" by (auto simp: key_quota_upsert_def)
  with Cons s show ?case by (simp add: Let_def)
qed simp

text \<open>
  C37. Refreshing all keys of a known provider ends with a result that accounts for every key: it
  lists the keys of the provider in the order of their ids, counts each under exactly one heading,
  and has stored for every attempted key the snapshot it reports, redacted; the cached row of a
  skipped key, or of a key of another provider, is left as it was. No answer of an upstream and no
  undecryptable credential stops it.
\<close>

theorem refresh_all_accounts_for_every_key:
  assumes "wf_table pk_id t" "validate_provider provider = Inr ()"
  shows "\<exists>r t1 kq1. refresh_all_keys now envs provider t kq = (Inr r, t1, kq1)
    \<and> map fst (ra_results r) = map pk_id (filter (\<lambda>k. pk_provider k = provider) (rows t)) \<and> tallied r
    \<and> list_all (cached_as kq kq1) (ra_results r)
    \<and> (\<forall>i. i \<notin> fst ` set (ra_results r) \<longrightarrow> kq1 i = kq i)"
proof -
  let ?rows = "filter (\<lambda>k. pk_provider k = provider) (rows t)"
  have sc: "pk_id (scan_display_key k) = pk_id k" "pk_provider (scan_display_key k) = pk_provider k" for k
    by (simp_all add: scan_display_key_def key_columns.extend_def key_columns.truncate_def)
  have ks: "list_keys provider t = Inr (map scan_display_key ?rows)"
    using assms(2) wf_sorted_rows [OF assms(1)] by (simp add: list_keys_def)
  have ids: "map pk_id (map scan_display_key ?rows) = map pk_id ?rows" by (simp add: sc o_def)
  have dist: "distinct (map pk_id (map scan_display_key ?rows))"
    unfolding ids by (intro distinct_map_filter wf_table_distinct [OF assms(1)])
  have "validate_provider (pk_provider k) = Inr () \<and> 0 < pk_id k" if "k \<in> set (map scan_display_key ?rows)" for k
    using that assms by (auto simp: sc wf_table_def)
  then obtain r t1 kq1 where e: "refresh_each now envs 0 (map scan_display_key ?rows) no_results t kq = (None, r, t1, kq1)"
    using refresh_each_total by blast
  from refresh_each_cache [OF e dist] obtain new where
    new: "\<forall>i. i \<notin> pk_id ` set (map scan_display_key ?rows) \<longrightarrow> kq1 i = kq i" "ra_results r = ra_results no_results @ new"
      "map fst new = map pk_id (map scan_display_key ?rows)" "list_all (cached_as kq kq1) new" by blast
  have res: "ra_results r = new" using new(2) by (simp add: no_results_def)
  have "fst ` set new = pk_id ` set (map scan_display_key ?rows)" using new(3) by (metis list.set_map)
  with new(1,3,4) ids res ks e refresh_each_tallied [OF e tallied_start] show ?thesis
    by (simp add: refresh_all_keys_def)
qed

lemma refresh_all_accounts_for_every_key_witness:
  "\<exists>r t1 kq1. refresh_all_keys 0 (\<lambda>_. demo_answer demo_usage_body) ''tavily'' demo_tavily_keys Map.empty = (Inr r, t1, kq1)
     \<and> map fst (ra_results r) = [1]"
proof -
  have "wf_table pk_id demo_tavily_keys" "validate_provider ''tavily'' = Inr ()"
    "map pk_id (filter (\<lambda>k. pk_provider k = ''tavily'') (rows demo_tavily_keys)) = [1]"
    by (simp_all add: wf_table_def demo_tavily_keys_def demo_tavily_key_def build_key_def demo_draft_def validate_provider_def)
  with refresh_all_accounts_for_every_key [OF this(1,2), of 0 "\<lambda>_. demo_answer demo_usage_body" Map.empty]
  show ?thesis by auto
qed

text \<open>
  C38. A quota summed over pages is the quota of all accounts together, or none is reported: if the
  refresh of a Grok2API v3 endpoint reports a snapshot as available, then at most 50 pages of
  accounts were read, the figures are those of the concatenation of these pages, and some answer
  declared a total that the accounts read reach. The used figure is never negative.
\<close>

theorem v3_snapshot_complete:
  assumes "fetch_grok2api_v3_accounts env base cred key_id checked expires rec t = (q, t1)" "qs_available q"
  shows "\<exists>token pages n items declared totals. length pages \<le> 50
    \<and> (\<forall>i < length pages. \<exists>d. answers_page env (trim_right_slash base) token (1 + i) (pages ! i) d)
    \<and> n \<le> 50 \<and> answers_page env (trim_right_slash base) token n items declared \<and> declared \<le> int (length (concat pages))
    \<and> totals = normalize_grok2api_v3_accounts (concat pages)
    \<and> qs_remaining q = Some (vt_remaining totals) \<and> qs_limit_value q = Some (vt_limit totals)
    \<and> qs_used q = Some (max 0 (wrap64 (vt_limit totals - vt_remaining totals)))"
proof -
  let ?b = "trim_right_slash base"
  have un: "\<not> qs_available (failed_snapshot m p s c e i)" for m p s c e i by (simp add: failed_snapshot_def)
  from assms obtain token status p where p: "v3_pages env ?b token v3_max_pages 1 (v3_start status) = PagesDone p"
    "\<not> vp_fetched p < vp_declared p" "q = v3_snapshot (vp_totals p) checked expires key_id"
    by (auto simp: fetch_grok2api_v3_accounts_def Let_def v3_outcome_def quota_failure_def quota_http_failure_def
        quota_malformed_def un split: sum.splits prod.splits v3_end.splits if_splits)
  have start: "vp_totals (v3_start status) = no_totals" "vp_fetched (v3_start status) = 0" by (simp_all add: v3_start_def)
  have "wrapped (vp_totals (v3_start status))" by (simp add: start)
  from v3_pages_done [OF p(1) this] obtain pages where pages: "length pages \<le> v3_max_pages"
    "\<forall>i < length pages. \<exists>d. answers_page env ?b token (1 + i) (pages ! i) d"
    "vp_totals p = add_totals no_totals (normalize_grok2api_v3_accounts (concat pages))"
    "vp_fetched p = int (length (concat pages))"
    "v3_max_pages \<noteq> 0 \<longrightarrow> (\<exists>i < v3_max_pages. \<exists>items. answers_page env ?b token (1 + i) items (vp_declared p))"
    unfolding start by auto
  have "add_totals no_totals (normalize_grok2api_v3_accounts xs) = normalize_grok2api_v3_accounts xs" for xs
    using normalize_append [of "[]" xs] by (simp add: normalize_grok2api_v3_accounts_def)
  with pages(3) have tot: "vp_totals p = normalize_grok2api_v3_accounts (concat pages)" by simp
  from pages(5) obtain i items where "i < 50" "answers_page env ?b token (1 + i) items (vp_declared p)"
    by (auto simp: v3_max_pages_def)
  moreover have "qs_used q = Some (max 0 (wrap64 (vt_limit (vp_totals p) - vt_remaining (vp_totals p))))"
    by (simp add: p(3) v3_snapshot_def clamp_used_non_negative_def max_def)
  moreover have "qs_remaining q = Some (vt_remaining (vp_totals p))" "qs_limit_value q = Some (vt_limit (vp_totals p))"
    by (simp_all add: p(3) v3_snapshot_def)
  ultimately show ?thesis
    using pages(1,2,4) p(2) unfolding tot v3_max_pages_def
    by (intro exI [of _ token] exI [of _ pages] exI [of _ "1 + i"] exI [of _ items] exI [of _ "vp_declared p"]) auto
qed

definition demo_json :: "string \<Rightarrow> bytes" where
  "demo_json s = map (\<lambda>c. if c = CHR ''~'' then CHR 0x22 else c) s"

definition demo_v3 :: quota_env where
  "demo_v3 = (demo_answer [])\<lparr>qe_transport := (\<lambda>n _. Answer 200 (Inr
     (if n = 0 then demo_json ''{~data~:{~tokens~:{~accessToken~:~t~}}}''
      else demo_json ''{~data~:{~items~:[{~enabled~:true,~authStatus~:~active~,~quotaWindows~:[{~remaining~:3,~total~:5}]}],~total~:1}}'')))\<rparr>"

definition demo_v3_account :: v3_account where
  "demo_v3_account = \<lparr>va_enabled = True, va_auth_status = ''active'', va_windows = [(3, 5)], va_billing = None, va_quota = None\<rparr>"

lemma demo_v3_decode:
  "decode_v3_login (demo_json ''{~data~:{~tokens~:{~accessToken~:~t~}}}'') = Some ''t''"
  "decode_v3_accounts (demo_json ''{~data~:{~items~:[{~enabled~:true,~authStatus~:~active~,~quotaWindows~:[{~remaining~:3,~total~:5}]}],~total~:1}}'')
     = Some ([demo_v3_account], 1)"
  unfolding demo_v3_account_def by code_simp+

lemma demo_v3_urls:
  "parse_url ''https://g.example/api/admin/v1/auth/login'' \<noteq> None"
  "parse_url ''https://g.example/api/admin/v1/accounts?page=1&pageSize=100'' \<noteq> None"
  by code_simp+

lemma demo_v3_url: "v3_page_url ''https://g.example'' 1 = ''https://g.example/api/admin/v1/accounts?page=1&pageSize=100''"
  by (simp add: v3_page_url_def v3_page_size_def nat_dec.simps digit_def, code_simp)

lemma demo_v3_login: "login_grok2api_v3 demo_v3 ''https://g.example'' u p = (200, Inr ''t'')"
proof -
  have "trim_space ''t'' = ''t''" by code_simp
  then show ?thesis
    using demo_v3_urls demo_v3_decode
    by (simp add: login_grok2api_v3_def post_json_def request_http_def demo_v3_def max_quota_response_bytes_def
        demo_json_def)
qed

lemma demo_v3_page:
  "get_json demo_v3 1 (v3_page_url ''https://g.example'' 1) ''t'' = (200, Inr (demo_json
     ''{~data~:{~items~:[{~enabled~:true,~authStatus~:~active~,~quotaWindows~:[{~remaining~:3,~total~:5}]}],~total~:1}}''))"
  using demo_v3_urls
  by (simp add: demo_v3_url [unfolded One_nat_def] get_json_def request_http_def demo_v3_def max_quota_response_bytes_def demo_json_def)

lemma v3_snapshot_complete_witness:
  "\<exists>q t1. fetch_grok2api_v3_accounts demo_v3 ''https://g.example/'' ''u:p'' None ''c'' ''e'' True demo_keys = (q, t1)
     \<and> qs_available q \<and> qs_remaining q = Some 3 \<and> qs_limit_value q = Some 5 \<and> (\<exists>n \<ge> 0. qs_used q = Some n)"
proof -
  have cred: "parse_v3_admin_cred ''u:p'' = Inr (''u'', ''p'')" by code_simp
  have base: "trim_right_slash ''https://g.example/'' = ''https://g.example''" by code_simp
  let ?p = "add_page [demo_v3_account] ((v3_start 200)\<lparr>vp_declared := 1, vp_status := 200\<rparr>)"
  have fetched: "vp_fetched ?p = 1" "vp_declared ?p = 1"
    by (simp_all add: add_page_def v3_start_def Let_def)
  have max: "v3_max_pages = Suc 49" by (simp add: v3_max_pages_def)
  have pages: "v3_pages demo_v3 ''https://g.example'' ''t'' v3_max_pages 1 (v3_start 200) = PagesDone ?p"
    unfolding max v3_pages.simps demo_v3_page by (simp add: demo_v3_decode fetched Let_def)
  have tot: "vt_remaining (vp_totals ?p) = 3" "vt_limit (vp_totals ?p) = 5"
    by (simp_all add: add_page_def v3_start_def normalize_grok2api_v3_accounts_def no_totals_def add_account_def
        add_window_def demo_v3_account_def Let_def wrap64_def)
  have "\<exists>q t1. fetch_grok2api_v3_accounts demo_v3 ''https://g.example/'' ''u:p'' None ''c'' ''e'' True demo_keys = (q, t1)
     \<and> qs_available q \<and> qs_remaining q = Some 3 \<and> qs_limit_value q = Some 5"
    by (simp add: fetch_grok2api_v3_accounts_def cred base demo_v3_login pages [unfolded One_nat_def] v3_outcome_def fetched
        v3_snapshot_def tot quota_cache_shell_def)
  then obtain q t1 where q: "fetch_grok2api_v3_accounts demo_v3 ''https://g.example/'' ''u:p'' None ''c'' ''e'' True demo_keys = (q, t1)"
     "qs_available q" "qs_remaining q = Some 3" "qs_limit_value q = Some 5" by blast
  with v3_snapshot_complete [OF q(1,2)] show ?thesis by fastforce
qed

text \<open>A figure that is absent or a natural number of 63 bits.\<close>

definition nat63 :: "int option \<Rightarrow> bool" where
  "nat63 x = (case x of None \<Rightarrow> True | Some n \<Rightarrow> 0 \<le> n \<and> n < 2 ^ 63)"

lemma nat63_diff:
  "nat63 (Some l) \<Longrightarrow> nat63 (Some u) \<Longrightarrow> wrap64 (l - u) = l - u"
  by (rule wrap64_id) (simp_all add: nat63_def)

text \<open>
  C39. The figures of a normalised snapshot fit together. From non-negative Tavily figures, a
  remaining quota is only shown beside the used figure and the limit it is the difference of,
  floored at zero. From non-negative Firecrawl figures the used credits are never negative, a
  limit is only shown if the remaining credits do not exceed it (extra credit packs hide it), and
  unless the upstream says otherwise the used credits are then the difference.
\<close>

theorem quota_figures_consistent:
  assumes "list_all nat63 [tk_usage k, tk_limit k, ta_plan_usage a, ta_plan_limit a]"
    "case firecrawl_figures p of (used, limit, remaining) \<Rightarrow> list_all nat63 [limit, remaining]"
    "q = normalize_tavily_usage prov i c e (k, a)" "q' = normalize_firecrawl_credit_usage prov i c e p"
  shows "(case qs_remaining q of None \<Rightarrow> True | Some r \<Rightarrow>
       \<exists>u l. qs_used q = Some u \<and> qs_limit_value q = Some l \<and> r = max 0 (l - u))
    \<and> (case qs_used q' of None \<Rightarrow> True | Some u \<Rightarrow> 0 \<le> u)
    \<and> (case (qs_limit_value q', qs_remaining q') of
         (Some l, Some r) \<Rightarrow> r \<le> l \<and> (fu_used p = None \<longrightarrow> qs_used q' = Some (l - r)) | _ \<Rightarrow> True)"
proof -
  have "case qs_remaining q of None \<Rightarrow> True | Some r \<Rightarrow>
       \<exists>u l. qs_used q = Some u \<and> qs_limit_value q = Some l \<and> r = max 0 (l - u)"
    using assms(1) nat63_diff
    by (auto simp: assms(3) normalize_tavily_usage_def tavily_figures_def remaining_from_limit_usage_def
        quota_cache_shell_def coalesce_int64_def Let_def max_def)
  moreover have "case qs_used q' of None \<Rightarrow> True | Some u \<Rightarrow> 0 \<le> u"
    by (auto simp: assms(4) normalize_firecrawl_credit_usage_def clamp_used_non_negative_def quota_cache_shell_def
        Let_def split: prod.splits option.splits)
  moreover have "case (qs_limit_value q', qs_remaining q') of
         (Some l, Some r) \<Rightarrow> r \<le> l \<and> (fu_used p = None \<longrightarrow> qs_used q' = Some (l - r)) | _ \<Rightarrow> True"
  proof -
    obtain used limit remaining where f: "firecrawl_figures p = (used, limit, remaining)" by (metis prod_cases3)
    have "used = (case (fu_used p, limit, remaining) of
                    (None, Some l, Some r) \<Rightarrow> Some (wrap64 (l - r)) | _ \<Rightarrow> fu_used p)"
      using f by (auto simp: firecrawl_figures_def Let_def)
    then show ?thesis
      using assms(2) nat63_diff
      by (auto simp: assms(4) f normalize_firecrawl_credit_usage_def clamp_used_non_negative_def quota_cache_shell_def
          Let_def split: option.splits)
  qed
  ultimately show ?thesis by blast
qed

definition demo_tavily_figures :: tavily_key where
  "demo_tavily_figures = \<lparr>tk_usage = Some 3, tk_limit = Some 10, tk_search = None, tk_extract = None, tk_crawl = None,
     tk_map = None, tk_research = None\<rparr>"

definition demo_account_figures :: tavily_account where
  "demo_account_figures = \<lparr>ta_plan = [], ta_plan_usage = None, ta_plan_limit = None, ta_paygo_usage = None, ta_paygo_limit = None\<rparr>"

definition demo_firecrawl :: firecrawl_usage where
  "demo_firecrawl = \<lparr>fu_success = True, fu_data = None, fu_total = Some 100, fu_used = None, fu_remaining = Some 40\<rparr>"

lemma quota_figures_consistent_witness:
  "qs_used (normalize_tavily_usage ''tavily'' None ''c'' ''e'' (demo_tavily_figures, demo_account_figures)) = Some 3
   \<and> qs_remaining (normalize_tavily_usage ''tavily'' None ''c'' ''e'' (demo_tavily_figures, demo_account_figures)) = Some 7
   \<and> qs_used (normalize_firecrawl_credit_usage ''tavily'' None ''c'' ''e'' demo_firecrawl) = Some 60"
proof -
  let ?q = "normalize_tavily_usage ''tavily'' None ''c'' ''e'' (demo_tavily_figures, demo_account_figures)"
  let ?f = "normalize_firecrawl_credit_usage ''tavily'' None ''c'' ''e'' demo_firecrawl"
  have fig: "firecrawl_figures demo_firecrawl = (Some (wrap64 60), Some 100, Some 40)"
    by (simp add: firecrawl_figures_def demo_firecrawl_def)
  have k: "list_all nat63 [tk_usage demo_tavily_figures, tk_limit demo_tavily_figures,
      ta_plan_usage demo_account_figures, ta_plan_limit demo_account_figures]"
    by (simp add: nat63_def demo_tavily_figures_def demo_account_figures_def)
  have p: "case firecrawl_figures demo_firecrawl of (used, limit, remaining) \<Rightarrow> list_all nat63 [limit, remaining]"
    by (simp add: fig nat63_def)
  note c = quota_figures_consistent [OF k p, of ?q "''tavily''" None "''c''" "''e''" ?f, OF refl refl]
  have "qs_used ?q = Some 3" "qs_limit_value ?q = Some 10" "qs_remaining ?q \<noteq> None"
    by (simp_all add: normalize_tavily_usage_def tavily_figures_def demo_tavily_figures_def coalesce_int64_def
        remaining_from_limit_usage_def)
  moreover have "qs_limit_value ?f = Some 100" "qs_remaining ?f = Some 40" "fu_used demo_firecrawl = None"
    by (simp_all add: normalize_firecrawl_credit_usage_def fig) (simp add: demo_firecrawl_def)
  ultimately show ?thesis using c by auto
qed

section \<open>The refresh ends\<close>

text \<open>
  C14. The refresh of the grok accounts ends whatever the upstream answers: after the login (call 0) it
  asks for at most 50 pages, so that answers to calls beyond number 50 have no part in the snapshot
  nor in the event it records, not even when every page comes full and the declared total grows.
\<close>

theorem v3_refresh_ends:
  assumes "\<forall>n \<le> 50. transport n = qe_transport env n"
  shows "fetch_grok2api_v3_accounts (env\<lparr>qe_transport := transport\<rparr>) base cred key_id checked expires record_event t
    = fetch_grok2api_v3_accounts env base cred key_id checked expires record_event t"
proof -
  let ?env' = "env\<lparr>qe_transport := transport\<rparr>"
  have pages: "v3_pages ?env' b tok v3_max_pages 1 p = v3_pages env b tok v3_max_pages 1 p" for b tok p
    by (rule v3_pages_calls) (use assms in \<open>simp_all add: v3_max_pages_def\<close>)
  have "login_grok2api_v3 ?env' b u pw = login_grok2api_v3 env b u pw" for b u pw
    using assms by (simp add: login_grok2api_v3_def post_json_def request_http_def)
  moreover have "record_quota_event ?env' k st e = record_quota_event env k st e" for k st e
    by (rule ext) (simp add: record_quota_event_def split: option.split)
  ultimately show ?thesis
    unfolding fetch_grok2api_v3_accounts_def pages Let_def by (auto split: sum.split prod.split)
qed

lemma v3_refresh_ends_witness:
  "fetch_grok2api_v3_accounts ((demo_answer [])\<lparr>qe_transport := \<lambda>n c. if n \<le> 50 then Answer 200 (Inr []) else NetError ''down''\<rparr>)
      ''https://grok.example'' ''user:pass'' None [] [] False empty_table
   = fetch_grok2api_v3_accounts (demo_answer []) ''https://grok.example'' ''user:pass'' None [] [] False empty_table"
  by (rule v3_refresh_ends) (simp add: demo_answer_def)

end
