(* ===== verification/AdminLaws.thy ===== *)
theory AdminLaws
  imports AdminRouter AuthLaws QuotaLaws
begin

text \<open>
  What a request of the admin API does to the database, in terms of the components: every handler
  moves each table by steps of the component that keeps it, the audit log only grows, and a request
  that reads leaves everything as it was.
\<close>

section \<open>Steps of the components\<close>

text \<open>
  The database evolves: the gateway keys, the admin secret and the sessions by their step relations,
  the provider keys and the invite codes along their histories, the audit log by new rows at its end.
\<close>

definition evolves :: "crypto \<Rightarrow> auth_service \<Rightarrow> key_env \<Rightarrow> gateway_db \<Rightarrow> gateway_db \<Rightarrow> bool" where
  "evolves cr sv kenv db db' \<longleftrightarrow>
     (gateway_step cr)\<^sup>*\<^sup>* (gw_keys db) (gw_keys db')
     \<and> (auth_step cr sv)\<^sup>*\<^sup>* (gw_auth db) (gw_auth db')
     \<and> (key_history kenv (gw_provider_keys db) \<longrightarrow> key_history kenv (gw_provider_keys db'))
     \<and> (\<forall>l. invite_history (gw_invites db) l \<longrightarrow> (\<exists>l'. invite_history (gw_invites db') (l' @ l)))
     \<and> (\<exists>new. rows (gw_audit db') = rows (gw_audit db) @ new)"

lemma evolves_refl: "evolves cr sv kenv db db"
  by (auto simp: evolves_def intro: exI [of _ "[]"])

lemma evolves_trans:
  assumes "evolves cr sv kenv db1 db2" "evolves cr sv kenv db2 db3"
  shows "evolves cr sv kenv db1 db3"
  unfolding evolves_def
proof (intro conjI allI impI)
  show "(gateway_step cr)\<^sup>*\<^sup>* (gw_keys db1) (gw_keys db3)" "(auth_step cr sv)\<^sup>*\<^sup>* (gw_auth db1) (gw_auth db3)"
    using assms by (auto simp: evolves_def intro: rtranclp_trans)
  show "key_history kenv (gw_provider_keys db3)" if "key_history kenv (gw_provider_keys db1)"
    using assms that by (simp add: evolves_def)
  show "\<exists>l'. invite_history (gw_invites db3) (l' @ l)" if "invite_history (gw_invites db1) l" for l
    using assms that unfolding evolves_def by (metis append_assoc)
  show "\<exists>new. rows (gw_audit db3) = rows (gw_audit db1) @ new"
    using assms unfolding evolves_def by (metis append_assoc)
qed

lemma audit_ignored_rows: "\<exists>new. rows (audit_ignored now ev t) = rows t @ new"
  by (auto simp: audit_ignored_def audit_record_def table_simps split: sum.splits)

lemma evolves_audited: "evolves cr sv kenv db x \<Longrightarrow> evolves cr sv kenv db (audited now ev x)"
  by (erule evolves_trans) (simp add: evolves_def audit_ignored_rows exI [of _ "[]"])

lemma evolves_keys: "(gateway_step cr)\<^sup>*\<^sup>* (gw_keys db) t \<Longrightarrow> evolves cr sv kenv db (set_gw_keys t db)"
  by (simp add: evolves_def exI [of _ "[]"])

lemma evolves_key: "gateway_step cr (gw_keys db) t \<Longrightarrow> evolves cr sv kenv db (set_gw_keys t db)"
  by (rule evolves_keys) (rule r_into_rtranclp)

lemma evolves_provider:
  "(key_history kenv (gw_provider_keys db) \<Longrightarrow> key_history kenv t) \<Longrightarrow> evolves cr sv kenv db (db\<lparr>gw_provider_keys := t\<rparr>)"
  by (auto simp: evolves_def intro: exI [of _ "[]"])

lemma evolves_auth: "auth_step cr sv (gw_auth db) a \<Longrightarrow> evolves cr sv kenv db (db\<lparr>gw_auth := a\<rparr>)"
  by (auto simp: evolves_def intro: exI [of _ "[]"])

lemma evolves_invites:
  "(\<And>l. invite_history (gw_invites db) l \<Longrightarrow> \<exists>l'. invite_history t (l' @ l)) \<Longrightarrow> evolves cr sv kenv db (set_gw_invites t db)"
  by (auto simp: evolves_def)

lemma evolves_settings: "evolves cr sv kenv db (set_gw_settings s db)" "evolves cr sv kenv db (set_gw_login l db)"
  by (auto simp: evolves_def intro: exI [of _ "[]"])

lemma evolves_quotas:
  "evolves cr sv kenv db x \<Longrightarrow> evolves cr sv kenv db (x\<lparr>gw_quotas := q\<rparr>)"
  "evolves cr sv kenv db x \<Longrightarrow> evolves cr sv kenv db (x\<lparr>gw_key_quotas := kq\<rparr>)"
  by (auto simp: evolves_def)

lemmas evolves_intros = evolves_refl evolves_audited evolves_keys evolves_key evolves_provider evolves_auth
  evolves_settings evolves_quotas

section \<open>Histories of the provider keys\<close>

lemma add_endpoint_history:
  "add_endpoint env n nq now p name url raw t = Inr (d, t') \<Longrightarrow> key_history env t \<Longrightarrow> key_history env t'"
  unfolding add_endpoint_def by (auto simp: and_then_Inr intro: key_history.add)

lemma add_key_history:
  "add_key s env n nq now p name raw t = Inr (d, t') \<Longrightarrow> key_history env t \<Longrightarrow> key_history env t'"
  unfolding add_key_def by (auto simp: and_then_Inr intro: add_endpoint_history)

lemma switch_history: "key_history env t \<Longrightarrow> key_history env (enable_key now i t)"
  "key_history env t \<Longrightarrow> key_history env (disable_key now i t)"
  by (simp_all add: enable_key_def disable_key_def key_history.enable)

lemma select_key_history:
  "select_key env now p t = Inr (x, t') \<Longrightarrow> key_history env t \<Longrightarrow> key_history env t'"
  unfolding select_key_def by (auto simp: and_then_Inr intro: key_history.select)

lemma record_event_history: "key_history env t \<Longrightarrow> key_history env (record_quota_event qe i st err t)"
  by (auto simp: record_quota_event_def split: option.splits intro: key_history.event)

lemma refresh_http_history:
  "key_history env t \<Longrightarrow> key_history env (snd (refresh_provider_http_with_endpoint qe p src path c e i url k parse t))"
  by (auto simp: refresh_provider_http_with_endpoint_def record_event_history split: sum.splits prod.splits)

lemma fetch_history:
  "key_history env t \<Longrightarrow> key_history env (snd (fetch_grok2api_admin_tokens qe b k i c e rec t))"
  "key_history env t \<Longrightarrow> key_history env (snd (fetch_grok2api_v3_accounts qe b k i c e rec t))"
  by (auto simp: fetch_grok2api_admin_tokens_def fetch_grok2api_v3_accounts_def Let_def record_event_history
      split: sum.splits prod.splits)

lemma sidecar_history: "key_history env t \<Longrightarrow> key_history env (snd (refresh_key_from_sidecar qe d t))"
  by (simp add: refresh_key_from_sidecar_def refresh_resolved_def Let_def case_prod_beta
      refresh_tavily_endpoint_def refresh_firecrawl_endpoint_def refresh_http_history fetch_history split: sum.splits)

lemma refresh_key_history:
  "refresh_key qe i t kq = (res, t', kq') \<Longrightarrow> key_history env t \<Longrightarrow> key_history env t'"
  using sidecar_history [of env t qe]
  by (auto simp: refresh_key_def split: sum.splits prod.splits) (metis snd_conv)+

lemma refresh_each_history:
  "refresh_each now qes n ks r t kq = (err, r', t', kq') \<Longrightarrow> key_history env t \<Longrightarrow> key_history env t'"
proof (induction now qes n ks r t kq arbitrary: err r' t' kq' rule: refresh_each.induct)
  case (2 now qes n k ks r t kq)
  obtain q t1 where s: "refresh_key_from_sidecar (qes n) k t = (q, t1)" by fastforce
  with sidecar_history [OF 2(4), of "qes n" k] have one: "key_history env t1" by simp
  from 2 s one show ?case by (auto simp: Let_def split: if_splits sum.splits)
qed simp

lemma refresh_all_history:
  "refresh_all_keys now qes p t kq = (res, t', kq') \<Longrightarrow> key_history env t \<Longrightarrow> key_history env t'"
  by (auto simp: refresh_all_keys_def split: sum.splits prod.splits option.splits dest: refresh_each_history)

lemma quota_refresh_history:
  assumes "quota_refresh qe s master p t = Inr (q, t')" "key_history (qe_keys qe) t"
  shows "key_history (qe_keys qe) t'"
proof -
  have http: "key_history (qe_keys qe) (snd (refresh_provider_http qe p src path c e parse t))" for p src path c e parse
    using assms(2) by (auto simp: refresh_provider_http_def refresh_http_history key_history.select split: sum.splits)
  have grok: "key_history (qe_keys qe) (snd (refresh_grok2api qe s master c e t))" for c e
    using assms(2) by (auto simp: refresh_grok2api_def Let_def fetch_history split: sum.splits)
  from assms(1) show ?thesis
    by (auto simp: quota_refresh_def and_then_Inr Let_def split: if_splits) (metis http grok snd_conv)+
qed

section \<open>Every route steps the components\<close>

abbreviation steps :: "admin_deps \<Rightarrow> gateway_db \<Rightarrow> gateway_db \<Rightarrow> bool" where
  "steps dp \<equiv> evolves (dp_crypto dp) (dp_auth dp) (dp_keys dp)"

lemma login_steps: "steps dp db (snd (handle_login dp env rq db))"
  by (auto simp: handle_login_def split: option.splits sum.splits intro!: evolves_intros auth_step.login)

lemma logout_steps: "steps dp db (snd (handle_logout dp rq db))"
  by (auto simp: handle_logout_def split: prod.splits intro!: evolves_auth auth_step.logout)

lemma settings_steps:
  "steps dp db (snd (handle_operator_password dp env rq db))"
  "steps dp db (snd (handle_public_issuance_patch env rq db))"
  "steps dp db (snd (handle_grok_patch env rq db))"
  "steps dp db (snd (handle_provider_settings_patch env rq db))"
  "steps dp db (snd (handle_proxy_debug_attempts_patch env rq db))"
  "steps dp db (snd (handle_display_timezone_patch dp env rq db))"
  "steps dp db (snd (handle_github_operator dp env rq db))"
  unfolding handle_operator_password_def handle_public_issuance_patch_def handle_grok_patch_def
    handle_provider_settings_patch_def handle_proxy_debug_attempts_patch_def handle_display_timezone_patch_def
    handle_github_operator_def Let_def
  by (auto split: option.splits sum.splits prod.splits intro!: evolves_intros)

lemma invite_steps:
  "steps dp db (snd (handle_invite_codes_post dp env rq db))"
  "steps dp db (snd (handle_invite_codes_revoke dp env rq db))"
proof -
  have create: "evolves c s k db (set_gw_invites t db)"
    if "create_invite src now bd mx ex (gw_invites db) = Inr (r, t)" for c s k src now bd mx ex r t
    by (rule evolves_invites) (metis append_Nil invite_history.create that)
  have revoke: "evolves c s k db (set_gw_invites t db)"
    if "revoke_invite now i (gw_invites db) = (e, t)" for c s k now i e t
    by (rule evolves_invites) (metis append_Nil invite_history.revoke that)
  show "steps dp db (snd (handle_invite_codes_post dp env rq db))"
    by (auto simp: handle_invite_codes_post_def Let_def split: option.splits sum.splits prod.splits
        intro!: evolves_refl evolves_audited intro: create)
  show "steps dp db (snd (handle_invite_codes_revoke dp env rq db))"
    by (auto simp: handle_invite_codes_revoke_def split: option.splits sum.splits prod.splits
        intro!: evolves_refl evolves_audited intro: revoke)
qed

lemma gateway_key_steps:
  "steps dp db (snd (handle_gateway_keys_create dp env rq db))"
  "steps dp db (snd (handle_gateway_keys_patch env rq db))"
  "steps dp db (snd (handle_gateway_keys_revoke env rq db))"
  "steps dp db (snd (handle_gateway_keys_revoke_unused env rq db))"
  "steps dp db (snd (handle_gateway_keys_delete rq db))"
  unfolding handle_gateway_keys_create_def handle_gateway_keys_patch_def handle_gateway_keys_revoke_def
    handle_gateway_keys_revoke_unused_def handle_gateway_keys_delete_def create_key_def create_tx_def insert_key_def
  by (auto split: option.splits sum.splits prod.splits bool.splits
      intro!: evolves_refl evolves_audited evolves_key intro: gateway_step.intros)

lemmas key_histories = add_endpoint_history add_key_history key_history.intros switch_history

lemma provider_key_steps:
  "steps dp db (snd (handle_provider_keys_create dp env rq db))"
  "steps dp db (snd (handle_provider_endpoints_create dp env rq db))"
  "steps dp db (snd (handle_provider_endpoints_patch env rq db))"
  "steps dp db (snd (handle_provider_keys_patch env rq db))"
  "steps dp db (snd (handle_provider_endpoints_delete rq db))"
  "steps dp db (snd (handle_provider_keys_delete rq db))"
  unfolding handle_provider_keys_create_def handle_provider_endpoints_create_def handle_provider_endpoints_patch_def
    handle_provider_keys_patch_def handle_provider_endpoints_delete_def handle_provider_keys_delete_def
    delete_at_def switch_key_def Let_def
  by (auto split: option.splits sum.splits prod.splits if_splits
      intro!: evolves_refl evolves_audited evolves_provider intro: key_histories)

lemma after_change_steps:
  assumes "key_history (dp_keys dp) (gw_provider_keys db) \<Longrightarrow> key_history (dp_keys dp) t'"
    and "\<And>updated x. steps dp db x \<Longrightarrow> steps dp db (snd (k updated x))"
  shows "steps dp db (snd (after_change i t' db k))"
  using assms evolves_provider [of "dp_keys dp" db t']
  by (auto simp: after_change_def Let_def split: sum.splits)

lemma endpoint_change_steps:
  "steps dp db (snd (handle_endpoints_update_base_url env rq db))"
  "steps dp db (snd (handle_endpoints_rotate_key dp env rq db))"
  "steps dp db (snd (handle_endpoints_update_quota env rq db))"
  "steps dp db (snd (handle_endpoints_rotate_quota_key dp env rq db))"
  unfolding handle_endpoints_update_base_url_def handle_endpoints_rotate_key_def handle_endpoints_update_quota_def
    handle_endpoints_rotate_quota_key_def Let_def
  by (auto split: option.splits sum.splits prod.splits
      intro!: evolves_refl after_change_steps evolves_audited intro: key_history.intros)

lemma run_action_steps:
  assumes "\<And>i t t'. action i t = Inr t' \<Longrightarrow> key_history (dp_keys dp) t \<Longrightarrow> key_history (dp_keys dp) t'"
  shows "steps dp db (snd (run_action pre suf action rq db))"
  unfolding run_action_def
  by (auto split: option.splits sum.splits intro!: evolves_refl evolves_provider intro: assms)

lemma action_steps:
  "steps dp db (snd (run_action pre suf (reset_cooldown now) rq db))"
  "steps dp db (snd (run_action pre suf (reset_selection now) rq db))"
  "steps dp db (snd (run_action pre suf (demote_to_end now) rq db))"
  "steps dp db (snd (run_action pre suf (archive_key now) rq db))"
  "steps dp db (snd (run_action pre suf (restore_archived now) rq db))"
  by (rule run_action_steps; erule (1) key_history.intros)+

lemma quota_steps:
  "steps dp db (snd (handle_provider_manual_test dp env rq db))"
  "steps dp db (snd (handle_provider_quota_refresh dp env rq db))"
  "steps dp db (snd (handle_key_quota_refresh_one dp env rq db))"
  "steps dp db (snd (handle_key_quota_refresh_all dp env rq db))"
proof -
  have keys: "qe_keys (refresher_env dp env n) = dp_keys dp" for n by (simp add: refresher_env_def)
  have refresh: "key_history (dp_keys dp) t'"
    if "quota_refresh (refresher_env dp env n) s m p t = Inr (q, t')" "key_history (dp_keys dp) t" for n s m p t q t'
    using quota_refresh_history [OF that(1)] that(2) by (simp add: keys)
  show "steps dp db (snd (handle_provider_manual_test dp env rq db))"
    unfolding handle_provider_manual_test_def
    by (auto split: option.splits sum.splits prod.splits intro!: evolves_refl evolves_provider key_history.event
        intro: select_key_history)
  show "steps dp db (snd (handle_provider_quota_refresh dp env rq db))"
    unfolding handle_provider_quota_refresh_def Let_def
    by (auto split: option.splits sum.splits prod.splits if_splits
        intro!: evolves_refl evolves_quotas evolves_provider intro: refresh)
  show "steps dp db (snd (handle_key_quota_refresh_one dp env rq db))"
    "steps dp db (snd (handle_key_quota_refresh_all dp env rq db))"
    unfolding handle_key_quota_refresh_one_def handle_key_quota_refresh_all_def
    by (auto split: option.splits sum.splits prod.splits if_splits
        intro!: evolves_refl evolves_quotas evolves_provider intro: refresh_key_history refresh_all_history)
qed

section \<open>Requests that only read\<close>

lemmas read_defs = handle_session_def handle_dashboard_json_def handle_gateway_keys_list_def handle_provider_keys_list_def
  handle_grok_get_def handle_provider_settings_list_def handle_provider_health_def handle_provider_quotas_def
  handle_provider_pool_def handle_proxy_attempts_def handle_proxy_debug_attempts_get_def handle_display_timezone_get_def
  handle_audit_list_def handle_usage_daily_def handle_public_issuance_get_def handle_invite_codes_get_def

lemma reads_change_nothing:
  "snd (handle_session dp env rq db) = db" "snd (handle_dashboard_json env db) = db"
  "snd (handle_gateway_keys_list rq db) = db" "snd (handle_provider_keys_list rq db) = db"
  "snd (handle_grok_get db) = db" "snd (handle_provider_settings_list db) = db"
  "snd (handle_provider_health env db) = db" "snd (handle_provider_quotas dp env db) = db"
  "snd (handle_provider_pool dp env rq db) = db" "snd (handle_proxy_attempts dp rq db) = db"
  "snd (handle_proxy_debug_attempts_get db) = db" "snd (handle_display_timezone_get dp db) = db"
  "snd (handle_audit_list rq db) = db" "snd (handle_usage_daily rq db) = db"
  "snd (handle_public_issuance_get db) = db" "snd (handle_invite_codes_get dp db) = db"
  by (simp_all add: read_defs Let_def split: sum.split option.split prod.split)

definition reading_routes :: "admin_route list" where
  "reading_routes = [RSession, RDashboard, RGatewayKeysList, RKeysList, RGrokGet, RSettingsList, RHealth, RQuotas,
     RPool, RAttempts, RDebugGet, RTimezoneGet, RAudit, RUsage, RIssuanceGet, RInvitesGet]"

lemma reading_route: "r \<in> set reading_routes \<Longrightarrow> snd (run_route r dp env rq db) = db"
  by (auto simp: reading_routes_def reads_change_nothing)

lemma github_get: "aq_method rq \<noteq> ''PATCH'' \<Longrightarrow> snd (handle_github_operator dp env rq db) = db"
  by (simp add: handle_github_operator_def split: option.split)

lemma route_entry: "route_of m path = Some r \<Longrightarrow> \<exists>q. (m, q, r) \<in> set admin_routes \<and> path_matches q path"
  by (force simp: route_of_def dest: list_find_Some)

text \<open>The methods of the routes: a route of GET reads, and there is no route of a method without CSRF check.\<close>

lemma get_routes:
  "list_all (\<lambda>(m, q, r). (m = ''GET'' \<longrightarrow> r \<in> set reading_routes \<or> r = RGitHubOperator)
     \<and> m \<in> {''GET'', ''POST'', ''PATCH'', ''DELETE''} \<and> (r = RLogin \<longrightarrow> q = Exact ''/admin/api/login'' \<and> m = ''POST'')) admin_routes"
  unfolding admin_routes_def reading_routes_def by simp

lemma route_facts:
  assumes "route_of m path = Some r"
  shows "m = ''GET'' \<Longrightarrow> r \<in> set reading_routes \<or> r = RGitHubOperator"
    and "m \<in> {''GET'', ''POST'', ''PATCH'', ''DELETE''}"
    and "r = RLogin \<Longrightarrow> path = ''/admin/api/login'' \<and> m = ''POST''"
proof -
  obtain q where q: "(m, q, r) \<in> set admin_routes" "path_matches q path" using route_entry [OF assms] by blast
  with get_routes have "(m = ''GET'' \<longrightarrow> r \<in> set reading_routes \<or> r = RGitHubOperator)
     \<and> m \<in> {''GET'', ''POST'', ''PATCH'', ''DELETE''} \<and> (r = RLogin \<longrightarrow> q = Exact ''/admin/api/login'' \<and> m = ''POST'')"
    using bspec [OF get_routes [unfolded list_all_iff] q(1)] by simp
  with q(2) show "m = ''GET'' \<Longrightarrow> r \<in> set reading_routes \<or> r = RGitHubOperator"
    "m \<in> {''GET'', ''POST'', ''PATCH'', ''DELETE''}" "r = RLogin \<Longrightarrow> path = ''/admin/api/login'' \<and> m = ''POST''" by auto
qed

lemma route_steps: "steps dp db (snd (run_route r dp env rq db))"
proof (cases "r \<in> set reading_routes")
  case True
  then show ?thesis by (simp add: reading_route evolves_refl)
next
  case False
  then show ?thesis
    by (cases r) (simp_all add: reading_routes_def login_steps logout_steps settings_steps invite_steps gateway_key_steps
        provider_key_steps endpoint_change_steps handle_provider_endpoint_action_def handle_provider_key_action_def
        action_steps quota_steps)
qed

lemma admin_steps: "steps dp db (snd (admin_serve_http dp env rq db))"
proof -
  have d: "steps dp db (snd (dispatch dp env rq db))"
    by (simp add: dispatch_def route_steps evolves_refl split: option.split)
  then have a: "steps dp db (snd (serve_api dp env rq db))"
    by (simp add: serve_api_def evolves_refl split: sum.split)
  have "steps dp db (snd (guarded_api dp env rq db))"
    by (simp add: guarded_api_def auth_middleware_def a evolves_refl split: sum.split auth_error.split)
  then show ?thesis by (simp add: admin_serve_http_def Let_def evolves_refl case_prod_beta)
qed

end
