(* ===== verification/SystemLaws.thy ===== *)
theory SystemLaws
  imports Server AdminLaws ProxyProperties OAuthLaws
begin

text \<open>
  What one HTTP request does to the database, whichever component answers it: the tables move by
  the steps of the components that keep them. The runs of the server are the closure of this step.
\<close>

section \<open>The state a handler leaves\<close>

text \<open>A property of the state is shown on every branch of a handler.\<close>

lemma snd_cases:
  "(x = None \<Longrightarrow> P (snd a)) \<Longrightarrow> (\<And>y. x = Some y \<Longrightarrow> P (snd (f y))) \<Longrightarrow> P (snd (case x of None \<Rightarrow> a | Some y \<Rightarrow> f y))"
  "(\<And>e. z = Inl e \<Longrightarrow> P (snd (g e))) \<Longrightarrow> (\<And>y. z = Inr y \<Longrightarrow> P (snd (h y))) \<Longrightarrow>
    P (snd (case z of Inl e \<Rightarrow> g e | Inr y \<Rightarrow> h y))"
  "(\<And>u v. p = (u, v) \<Longrightarrow> P (snd (k u v))) \<Longrightarrow> P (snd (case p of (u, v) \<Rightarrow> k u v))"
  "(c \<Longrightarrow> P (snd a)) \<Longrightarrow> (\<not> c \<Longrightarrow> P (snd b)) \<Longrightarrow> P (snd (if c then a else b))"
  "(\<And>m. P (snd (q m))) \<Longrightarrow> P (snd (Let n q))"
  by (auto split: option.split sum.split prod.split)

section \<open>The OAuth server\<close>

definition oauth_evolves :: "crypto \<Rightarrow> oauth_db \<Rightarrow> oauth_db \<Rightarrow> bool" where
  "oauth_evolves cr db db' \<longleftrightarrow>
     (gateway_step cr)\<^sup>*\<^sup>* (od_keys db) (od_keys db')
     \<and> (\<forall>l. invite_history (od_invites db) l \<longrightarrow> (\<exists>l'. invite_history (od_invites db') (l' @ l)))"

lemma oauth_refl: "od_keys db' = od_keys db \<Longrightarrow> od_invites db' = od_invites db \<Longrightarrow> oauth_evolves cr db db'"
  by (auto simp: oauth_evolves_def intro: exI [of _ "[]"])

lemma oauth_keys:
  "(gateway_step cr)\<^sup>*\<^sup>* (od_keys db) (od_keys db') \<Longrightarrow> od_invites db' = od_invites db \<Longrightarrow> oauth_evolves cr db db'"
  by (auto simp: oauth_evolves_def intro: exI [of _ "[]"])

lemma evolves_oauth: "oauth_evolves cr (gw_oauth db) odb \<Longrightarrow> evolves cr sv kenv db (db\<lparr>gw_oauth := odb\<rparr>)"
  by (auto simp: oauth_evolves_def evolves_def gw_keys_def gw_invites_def)

lemma insert_grant_keys:
  "insert_grant g db = Some db' \<Longrightarrow> od_keys db' = od_keys db \<and> od_invites db' = od_invites db"
  by (auto dest: insert_grant_Some)

lemma mint_grant_evolves:
  assumes "mint_grant cr rnd now name via label ref mk db0 db = (reply, db')"
    "(gateway_step cr)\<^sup>*\<^sup>* (od_keys db0) (od_keys db)" "od_invites db = od_invites db0"
  shows "oauth_evolves cr db0 db'"
  using assms(1)
proof (cases rule: mint_grant_cases)
  case failed
  then show ?thesis by (simp add: oauth_refl)
next
  case (minted raw d keys b)
  from minted(1) have "gateway_step cr (od_keys db) keys"
    unfolding create_oauth_tx_with_issuance_def by (rule gateway_step.issue)
  with assms(2) have "(gateway_step cr)\<^sup>*\<^sup>* (od_keys db0) keys" by (rule rtranclp.rtrancl_into_rtrancl)
  with insert_grant_keys [OF minted(3)] assms(3) show ?thesis by (intro oauth_keys) simp_all
qed

text \<open>Disabling every key of a family is disabling them one after the other.\<close>

lemma disable_fold_rows:
  "rows (fold disable_gateway_key is t) = map (\<lambda>r. if gk_id r \<in> set is then r\<lparr>gk_enabled := False\<rparr> else r) (rows t)
   \<and> tseq (fold disable_gateway_key is t) = tseq t"
  by (induction "is" arbitrary: t) (auto simp: disable_gateway_key_def rows_set_gateway_row tseq_set_gateway_row)

lemma disable_many:
  "snd (update_where (\<lambda>r. gk_id r \<in> set is) (\<lambda>r. r\<lparr>gk_enabled := False\<rparr>) t) = fold disable_gateway_key is t"
  using disable_fold_rows [of "is" t] by (intro table.equality) (simp_all add: table_simps)

lemma fold_disable_steps: "(gateway_step cr)\<^sup>*\<^sup>* t (fold disable_gateway_key is t)"
  by (induction "is" arbitrary: t)
     (auto intro: gateway_step.disable converse_rtranclp_into_rtranclp)

lemma revoke_family_evolves: "oauth_evolves cr db (revoke_family fam db)"
  by (rule oauth_keys) (simp_all add: revoke_family_def disable_many fold_disable_steps)

lemma replayed_token_evolves: "oauth_evolves cr db (replayed_token now h db)"
  by (simp add: replayed_token_def oauth_refl revoke_family_evolves split: option.split)

lemma token_evolves: "oauth_evolves (os_crypto sv) db (snd (handle_token sv clk rnd r db))"
proof -
  have code: "oauth_evolves (os_crypto sv) db (snd (handle_token_auth_code sv clk rnd form db))" for form
  proof -
    let ?h = "hash_key (os_crypto sv) (values_get form ''code'')"
    have del: "od_keys (delete_code ?h db) = od_keys db" "od_invites (delete_code ?h db) = od_invites db"
      by (simp_all add: delete_code_def)
    have "oauth_evolves (os_crypto sv) db (snd (mint_from_code sv clk rnd (values_get form ''client_id'') c (delete_code ?h db)))" for c
    proof -
      obtain reply db' where m: "mint_from_code sv clk rnd (values_get form ''client_id'') c (delete_code ?h db) = (reply, db')"
        by (metis surj_pair)
      then have "oauth_evolves (os_crypto sv) (delete_code ?h db) db'"
        unfolding mint_from_code_def Let_def by (rule mint_grant_evolves) simp_all
      with m del show ?thesis by (simp add: oauth_evolves_def)
    qed
    with del show ?thesis by (simp add: handle_token_auth_code_def Let_def oauth_refl split: option.split)
  qed
  have rotate: "oauth_evolves (os_crypto sv) db
      (snd (rotate_grant sv clk rnd g db (db\<lparr>od_grants := gs\<rparr>)))" for g gs
  proof -
    obtain reply db' where m: "rotate_grant sv clk rnd g db (db\<lparr>od_grants := gs\<rparr>) = (reply, db')" by fastforce
    have d: "(gateway_step (os_crypto sv))\<^sup>*\<^sup>* (od_keys db) (disable_gateway_key (gr_key_id g) (od_keys db))"
      by (rule r_into_rtranclp) (rule gateway_step.disable)
    have "oauth_evolves (os_crypto sv) db db'"
    proof (cases "db' = db")
      case False
      with m show ?thesis unfolding rotate_grant_def
        by (auto split: option.splits if_splits simp: d elim!: mint_grant_evolves)
    qed (simp add: oauth_refl)
    with m show ?thesis by simp
  qed
  have "oauth_evolves (os_crypto sv) db (snd (handle_token_refresh sv clk rnd form db))" for form
    by (simp add: handle_token_refresh_def Let_def oauth_refl replayed_token_evolves rotate split: option.split)
  with code show ?thesis
    by (simp add: handle_token_def oauth_refl split: option.split prod.split)
qed

lemma issue_code_keys:
  "issue_code sv now rnd d via db = (reply, db') \<Longrightarrow> od_keys db' = od_keys db \<and> od_invites db' = od_invites db"
  by (auto simp: issue_code_def Let_def split: option.splits if_splits)

lemma approve_evolves:
  assumes "approve_authorize sv clk rnd client d invite approved db = (reply, db')"
  shows "oauth_evolves cr db db'"
proof (cases "db' = db")
  case True
  then show ?thesis by (simp add: oauth_refl)
next
  case False
  with assms obtain via db1 where m: "mint_decision (clk 1) approved invite (cd_label d) db = Inr (via, db1)"
    and i: "issue_code sv (clk 2) (ar_code rnd) d via db1 = (reply, db')"
    by (auto simp: approve_authorize_def split: if_splits sum.splits)
  have k: "od_keys db1 = od_keys db"
    using m by (auto simp: mint_decision_def Let_def split: if_splits sum.splits)
  have inv: "\<exists>l'. invite_history (od_invites db1) (l' @ l)" if "invite_history (od_invites db) l" for l
  proof (cases "od_invites db1 = od_invites db")
    case True
    with that show ?thesis by (intro exI [of _ "[]"]) simp
  next
    case False
    with m obtain item t where "redeem_tx (clk 1) invite (cd_label d) (od_invites db) = Inr (item, t)" "od_invites db1 = t"
      by (auto simp: mint_decision_def Let_def split: if_splits sum.splits)
    with that show ?thesis by (intro exI [of _ "[ic_id item]"]) (auto intro: invite_history.redeem)
  qed
  from issue_code_keys [OF i] k inv show ?thesis by (simp add: oauth_evolves_def)
qed

lemma authorize_post_evolves: "oauth_evolves cr db (snd (handle_authorize_post sv fetch clk rnd r db))"
proof -
  have a: "oauth_evolves cr db (snd (approve_authorize sv clk rnd client d invite approved (db\<lparr>od_login := l\<rparr>)))"
    for client d invite approved l
  proof -
    obtain reply db' where "approve_authorize sv clk rnd client d invite approved (db\<lparr>od_login := l\<rparr>) = (reply, db')" by fastforce
    with approve_evolves [OF this, of cr] show ?thesis by (simp add: oauth_evolves_def)
  qed
  have b: "oauth_evolves cr db (snd (approve_authorize sv clk rnd client d invite approved db))"
    for client d invite approved
    using approve_evolves [of sv clk rnd client d invite approved db] by (metis surj_pair snd_conv)
  show ?thesis
    unfolding handle_authorize_post_def
    by (intro snd_cases [where P = "oauth_evolves cr db"]) (simp_all add: oauth_refl a b)
qed

lemma oauth_serve_evolves: "oauth_serve sv env r (l, db) = (reply, l', db') \<Longrightarrow> oauth_evolves (os_crypto sv) db db'"
proof -
  assume s: "oauth_serve sv env r (l, db) = (reply, l', db')"
  have c: "oauth_evolves (os_crypto sv) db (snd (handle_github_callback sv env r db))"
    by (simp add: handle_github_callback_def Let_def oauth_refl split: option.split prod.split sum.split)
  have g: "oauth_evolves (os_crypto sv) db (snd (snd (handle_register clk rnd r l db)))" for clk rnd
    by (rule oauth_refl)
       (simp_all add: handle_register_def Let_def split: option.split prod.split bool.split)
  from s c g authorize_post_evolves [of "os_crypto sv" db sv] token_evolves [of sv db] show ?thesis
    by (auto simp: oauth_serve_def Let_def oauth_refl split: if_splits prod.splits) (metis snd_conv)+
qed

section \<open>One request\<close>

text \<open>All parts of a server use the same cryptography and the same key material.\<close>

definition wired :: "server \<Rightarrow> bool" where
  "wired sv \<longleftrightarrow> dp_crypto (sr_admin sv) = sr_crypto sv \<and> dp_keys (sr_admin sv) = sr_key_env sv
     \<and> ke_crypto (sr_key_env sv) = sr_crypto sv \<and> (\<forall>os. sr_oauth sv = Some os \<longrightarrow> os_crypto os = sr_crypto sv)"

lemma new_server_wired: "wired (su_server (fst (new_server cr scrypt host master now now' cfg db)))"
  by (auto simp: wired_def new_server_def new_oauth_server_def Let_def split: option.splits if_splits)

abbreviation request_evolves :: "server \<Rightarrow> gateway_db \<Rightarrow> gateway_db \<Rightarrow> bool" where
  "request_evolves sv \<equiv> evolves (sr_crypto sv) (dp_auth (sr_admin sv)) (sr_key_env sv)"

lemma authorized_evolves: "request_evolves sv db (snd (authorized sv now r db))"
  by (auto simp: authorized_def Let_def split: sum.split option.split intro!: evolves_intros gateway_step.touch)

lemma verify_evolves: "request_evolves sv db (snd (handle_internal_keys_verify sv clk r db))"
  by (auto simp: handle_internal_keys_verify_def split: sum.split option.split prod.split
      intro!: evolves_intros gateway_step.touch)

lemma evolves_others: "evolves cr s k db x \<Longrightarrow> evolves cr s k db (x\<lparr>gw_usage := u\<rparr>)"
  "evolves cr s k db x \<Longrightarrow> evolves cr s k db (x\<lparr>gw_attempts := ar\<rparr>)"
  by (auto simp: evolves_def gw_keys_def gw_invites_def)

lemma record_usage_evolves: "evolves cr s k db x \<Longrightarrow> evolves cr s k db (record_usage d n key p path res x)"
  by (auto simp: record_usage_def Let_def evolves_others split: sum.split)

lemma forward_evolves: "request_evolves sv db (snd (server_forward sv env r key provider path db))"
  unfolding server_forward_def Let_def
  by (auto intro!: record_usage_evolves evolves_others evolves_provider intro: repo_history.forward_inv)

lemma runtime_evolves: "request_evolves sv db (snd (serve_runtime sv env r db))"
proof -
  obtain who db1 where a: "authorized sv (sn_clock env 0) r db = (who, db1)" by fastforce
  with authorized_evolves [of sv db "sn_clock env 0" r] have one: "request_evolves sv db db1" by simp
  from evolves_trans [OF one forward_evolves] one show ?thesis
    by (auto simp: serve_runtime_def a evolves_refl split: option.split)
qed

lemma serve_http_evolves:
  assumes "wired sv" "serve_http sv env rq (l, db) = (reply, l', db')"
  shows "request_evolves sv db db'"
proof -
  have admin: "request_evolves sv db (snd (admin_serve_http (sr_admin sv) aenv aq db))" for aenv aq
    using admin_steps [of "sr_admin sv" db aenv aq] assms(1) by (simp add: wired_def)
  have oauth: "request_evolves sv db (db\<lparr>gw_oauth := odb\<rparr>)"
    if "sr_oauth sv = Some os" "oauth_serve os oenv oq (l, gw_oauth db) = (a, l1, odb)" for os oenv oq a l1 odb
    using evolves_oauth [OF oauth_serve_evolves [OF that(2)]] that(1) assms(1) by (simp add: wired_def)
  from assms(2) show ?thesis
    unfolding serve_http_def Let_def
    using admin [of "sn_admin env" "admin_request_of rq"] verify_evolves [of sv db "sn_clock env" "sq_http rq"]
      runtime_evolves [of sv db env "sq_http rq"]
    by (auto simp: evolves_refl split: if_splits option.splits prod.splits intro: oauth)
qed

section \<open>Runs\<close>

text \<open>One request leads from a state to the next, whatever it is and whatever the environment gives it.\<close>

definition server_step :: "server \<Rightarrow> reg_limiter \<times> gateway_db \<Rightarrow> reg_limiter \<times> gateway_db \<Rightarrow> bool" where
  "server_step sv st st' \<longleftrightarrow> (\<exists>env rq. snd (serve_http sv env rq st) = st')"

lemma server_run_evolves:
  assumes "wired sv" "(server_step sv)\<^sup>*\<^sup>* st st'"
  shows "request_evolves sv (snd st) (snd st')"
  using assms(2)
proof (induction rule: rtranclp_induct)
  case (step st1 st2)
  from step(2) obtain env rq where "snd (serve_http sv env rq st1) = st2" by (auto simp: server_step_def)
  then obtain reply where "serve_http sv env rq (fst st1, snd st1) = (reply, fst st2, snd st2)" by (metis prod.collapse)
  from evolves_trans [OF step(3) serve_http_evolves [OF assms(1) this]] show ?case .
qed (rule evolves_refl)

end
