(* ===== verification/AdminReplies.thy ===== *)
theory AdminReplies
  imports AdminLaws
begin

text \<open>
  The answers of the admin API: which statuses there are, and that a request that is refused as the
  client's fault has changed nothing.
\<close>

definition api_statuses :: "int list" where
  "api_statuses = [200, 302, 400, 401, 403, 404, 500, 503]"

definition settled :: "gateway_db \<Rightarrow> admin_reply \<times> gateway_db \<Rightarrow> bool" where
  "settled db x \<longleftrightarrow> ay_status (fst x) \<in> set api_statuses
     \<and> (400 \<le> ay_status (fst x) \<and> ay_status (fst x) < 500 \<longrightarrow> snd x = db)"

section \<open>Answers that settle a request\<close>

lemmas reply_defs = answer_def http_error_def api_error_def bad_text_def bad_api_def internal_text_def ok_json_def status_ok_def

lemma settled_same [simp]: "settled db (a, db) \<longleftrightarrow> ay_status a \<in> set api_statuses"
  by (simp add: settled_def)

lemma reply_statuses [simp]:
  "ay_status (answer k b) = k" "ay_status (http_error k t) = k" "ay_status (api_error k c m) = k"
  "ay_status bad_text = 400" "ay_status (bad_api m) = 400" "ay_status internal_text = 500" "ay_status (ok_json b) = 200"
  "ay_status status_ok = 200"
  by (simp_all add: reply_defs)

lemma settled_done [simp]:
  "settled db (ok_json b, db')" "settled db (status_ok, db')" "settled db (internal_text, db')" "settled db (answer 302 b, db')"
  "settled db ((ok_json b)\<lparr>ay_cookie := c\<rparr>, db')" "settled db (status_ok\<lparr>ay_cookie := c\<rparr>, db')"
  "settled db ((answer 302 b)\<lparr>ay_cookie := c\<rparr>, db')" "settled db (api_error 500 c' m, db')"
  by (simp_all add: settled_def api_statuses_def)

lemma statuses [simp]: "set api_statuses = {200, 302, 400, 401, 403, 404, 500, 503}"
  by (auto simp: api_statuses_def)

section \<open>Handlers\<close>

lemma login_settled:
  "settled db (handle_login dp env rq db)" "settled db (handle_logout dp rq db)" "settled db (handle_session dp env rq db)"
  by (simp_all add: handle_login_def handle_logout_def handle_session_def session_failure_def
      split: option.split sum.split prod.split)

lemma settings_settled:
  "settled db (handle_operator_password dp env rq db)" "settled db (handle_public_issuance_patch env rq db)"
  "settled db (handle_grok_patch env rq db)" "settled db (handle_provider_settings_patch env rq db)"
  "settled db (handle_proxy_debug_attempts_patch env rq db)" "settled db (handle_display_timezone_patch dp env rq db)"
  "settled db (handle_github_operator dp env rq db)"
  unfolding handle_operator_password_def handle_public_issuance_patch_def handle_grok_patch_def
    handle_provider_settings_patch_def handle_proxy_debug_attempts_patch_def handle_display_timezone_patch_def
    handle_github_operator_def show_login_status_def Let_def
  by (auto split: option.split sum.split prod.split)

lemma gateway_keys_settled:
  "settled db (handle_gateway_keys_create dp env rq db)" "settled db (handle_gateway_keys_patch env rq db)"
  "settled db (handle_gateway_keys_revoke env rq db)" "settled db (handle_gateway_keys_revoke_unused env rq db)"
  "settled db (handle_gateway_keys_delete rq db)"
  unfolding handle_gateway_keys_create_def handle_gateway_keys_patch_def handle_gateway_keys_revoke_def
    handle_gateway_keys_revoke_unused_def handle_gateway_keys_delete_def
  by (auto split: option.split sum.split prod.split bool.split)

lemma provider_keys_settled:
  "settled db (handle_provider_keys_create dp env rq db)" "settled db (handle_provider_endpoints_create dp env rq db)"
  "settled db (handle_provider_endpoints_patch env rq db)" "settled db (handle_provider_keys_patch env rq db)"
  "settled db (handle_provider_endpoints_delete rq db)" "settled db (handle_provider_keys_delete rq db)"
  "settled db (run_action pre suf action rq db)"
  unfolding handle_provider_keys_create_def handle_provider_endpoints_create_def handle_provider_endpoints_patch_def
    handle_provider_keys_patch_def handle_provider_endpoints_delete_def handle_provider_keys_delete_def
    delete_at_def switch_key_def run_action_def endpoint_missing_def Let_def
  by (auto split: option.split sum.split prod.split)

lemma after_change_settled:
  "(\<And>u x. settled db (k u x)) \<Longrightarrow> settled db (after_change i t' db k)"
  by (simp add: after_change_def Let_def split: sum.split)

lemma endpoint_changes_settled:
  "settled db (handle_endpoints_update_base_url env rq db)" "settled db (handle_endpoints_rotate_key dp env rq db)"
  "settled db (handle_endpoints_update_quota env rq db)" "settled db (handle_endpoints_rotate_quota_key dp env rq db)"
  unfolding handle_endpoints_update_base_url_def handle_endpoints_rotate_key_def handle_endpoints_update_quota_def
    handle_endpoints_rotate_quota_key_def endpoint_missing_def Let_def
  by (auto split: option.split sum.split prod.split intro: after_change_settled)

lemma quotas_settled:
  "settled db (handle_provider_manual_test dp env rq db)" "settled db (handle_provider_quota_refresh dp env rq db)"
  "settled db (handle_key_quota_refresh_one dp env rq db)" "settled db (handle_key_quota_refresh_all dp env rq db)"
  unfolding handle_provider_manual_test_def handle_provider_quota_refresh_def handle_key_quota_refresh_one_def
    handle_key_quota_refresh_all_def Let_def
  by (auto split: option.split sum.split prod.split)

lemma reads_settled:
  "settled db (handle_dashboard_json env db)" "settled db (handle_gateway_keys_list rq db)"
  "settled db (handle_provider_keys_list rq db)" "settled db (handle_grok_get db)" "settled db (handle_provider_settings_list db)"
  "settled db (handle_provider_health env db)" "settled db (handle_provider_quotas dp env db)"
  "settled db (handle_provider_pool dp env rq db)" "settled db (handle_proxy_attempts dp rq db)"
  "settled db (handle_proxy_debug_attempts_get db)" "settled db (handle_display_timezone_get dp db)"
  "settled db (handle_audit_list rq db)" "settled db (handle_usage_daily rq db)"
  "settled db (handle_public_issuance_get db)" "settled db (handle_invite_codes_get dp db)"
  by (simp_all add: read_defs Let_def split: sum.split option.split prod.split)

lemma update_where_none: "fst (update_where P f t) = 0 \<Longrightarrow> snd (update_where P f t) = t"
proof -
  assume "fst (update_where P f t) = 0"
  then have "\<forall>r \<in> set (rows t). \<not> P r" by (simp add: fst_update_where_0)
  then have "map (\<lambda>r. if P r then f r else r) (rows t) = rows t" by (intro map_idI) simp
  then show ?thesis by (simp add: update_where_def)
qed

lemma invites_settled:
  "settled db (handle_invite_codes_post dp env rq db)" "settled db (handle_invite_codes_revoke dp env rq db)"
proof -
  show "settled db (handle_invite_codes_post dp env rq db)"
    unfolding handle_invite_codes_post_def Let_def by (auto split: option.split sum.split prod.split)
  have "set_gw_invites t db = db" if "revoke_invite now i (gw_invites db) = (Some e, t)" for now i e t
  proof -
    have "t = gw_invites db"
      using that update_where_none by (auto simp: revoke_invite_def case_prod_beta split: if_splits)
    then show ?thesis by (simp add: gw_invites_def set_gw_invites_def)
  qed
  then show "settled db (handle_invite_codes_revoke dp env rq db)"
    unfolding handle_invite_codes_revoke_def by (auto split: option.split prod.split)
qed

lemma routes_settled: "settled db (run_route r dp env rq db)"
  by (cases r) (simp_all add: login_settled settings_settled gateway_keys_settled provider_keys_settled
      handle_provider_endpoint_action_def handle_provider_key_action_def endpoint_changes_settled quotas_settled
      reads_settled invites_settled)

text \<open>The session and CSRF checks refuse without touching the database.\<close>

lemma guarded_settled: "settled db (guarded_api dp env rq db)"
proof -
  have d: "settled db (dispatch dp env rq db)"
    by (simp add: dispatch_def page_not_found_def routes_settled split: option.split)
  then have s: "settled db (serve_api dp env rq db)"
    by (simp add: serve_api_def forbidden_def split: sum.split)
  show ?thesis
    by (simp add: guarded_api_def auth_middleware_def deny_reply_def s split: sum.split auth_error.split)
qed

end
