(* ===== verification/SystemProperties.thy ===== *)
theory SystemProperties
  imports SystemLaws AdminReplies ServerProperties KeyProperties
begin

text \<open>
  The properties that span components: what any sequence of HTTP requests keeps, what it takes to
  change something through the admin API, and what an administrator's actions mean for later requests.
\<close>

section \<open>A concrete administrator\<close>

text \<open>A session that is open for an hour, and the request that revokes the key 1 in it.\<close>

definition demo_csrf :: string where "demo_csrf = csrf_token_for_session demo_crypto ''sid'' []"

definition signed_in :: auth_db where
  "signed_in = \<lparr>ad_tokens = empty_table, ad_sessions = [''sid'' \<mapsto> \<lparr>as_token_hash = [],
     as_csrf_hash = hash_token demo_crypto demo_csrf, as_created_at = stamp 0, as_expires_at = stamp hour\<rparr>]\<rparr>"

definition staffed_db :: gateway_db where
  "staffed_db = (set_gw_keys manual_keys idle_db)\<lparr>gw_provider_keys := empty_table, gw_auth := signed_in\<rparr>"

definition admin_post :: "string \<Rightarrow> string \<Rightarrow> client_request" where
  "admin_post path body = \<lparr>cr_method = ''POST'', cr_path = path, cr_raw_query = [],
     cr_header = [''X-CSRF-Token'' \<mapsto> [demo_csrf], ''Content-Type'' \<mapsto> [''application/json'']], cr_body = Some body\<rparr>"

definition demo_admin_env :: admin_env where
  "demo_admin_env = \<lparr>an_clock = (\<lambda>n. int n), an_random = [], an_session = None, an_salt = Some ''0123456789abcdef'',
     an_nonce = (\<lambda>_. demo_nonce), an_quota = undefined\<rparr>"

definition as_admin :: "client_request \<Rightarrow> admin_request" where
  "as_admin r = \<lparr>aq_http = r, aq_cookie = Some ''sid'', aq_remote = ''192.0.2.1:4711''\<rparr>"

lemma demo_csrf_nonempty: "demo_csrf \<noteq> []"
  by (simp add: demo_csrf_def csrf_token_for_session_def hash_token_nonempty)

lemma demo_expiry: "parse_stamp (stamp hour) = Some hour"
  by (rule parse_stamp_stamp) (simp add: in_range_def)

lemma sid_plain: "aq_session (as_admin r) = ''sid''"
  unfolding aq_session_def as_admin_def by code_simp

lemma post_header: "aq_header (as_admin (admin_post path body)) ''X-CSRF-Token'' = demo_csrf"
  by (simp add: aq_header_def as_admin_def admin_post_def header_get_def)

lemma signed_in_valid:
  "validate_session 0 ''sid'' signed_in = Inr ()" "validate_csrf demo_crypto ''sid'' demo_csrf signed_in = Inr True"
  by (simp_all add: validate_session_def validate_csrf_def signed_in_def demo_expiry [simplified] demo_csrf_nonempty
      hash_token_nonempty)

lemma demo_guarded:
  assumes "path \<noteq> ''/admin/api/login''"
  shows "guarded_api idle_admin demo_admin_env (as_admin (admin_post path body)) staffed_db
    = dispatch idle_admin demo_admin_env (as_admin (admin_post path body)) staffed_db"
proof -
  let ?rq = "as_admin (admin_post path body)"
  have "csrf_of ?rq = demo_csrf" "requires_csrf ?rq" "aq_path ?rq = path"
    using assms post_header demo_csrf_nonempty
    by (simp_all add: csrf_of_def requires_csrf_def) (simp_all add: as_admin_def admin_post_def)
  moreover have "session_id_from_request (aq_cookie ?rq) = ''sid''"
    using sid_plain [of "admin_post path body"] by (simp add: aq_session_def)
  ultimately show ?thesis
    using signed_in_valid sid_plain assms
    by (simp add: guarded_api_def auth_middleware_def serve_api_def staffed_db_def idle_admin_def demo_admin_env_def)
qed

text \<open>A call of the API that is not refused is an answer of its route.\<close>

lemma api_success:
  assumes "admin_serve_http dp env rq db = (Replied a, db')" "prefix ''/admin/api/'' (aq_path rq)"
    "ay_status a \<notin> {401, 403, 404, 500}"
  obtains r where "route_of (aq_method rq) (aq_path rq) = Some r" "run_route r dp env rq db = (a, db')"
proof -
  have "\<not> prefix ''/admin/static/'' (aq_path rq)" "aq_path rq \<noteq> ''/admin/static''"
    using assms(2) by (auto simp: prefix_def)
  with assms(1,2) have g: "guarded_api dp env rq db = (a, db')"
    by (simp add: admin_serve_http_def Let_def split: prod.splits)
  have "serve_api dp env rq db = (a, db')"
    using g assms(3) by (auto simp: guarded_api_def auth_middleware_def deny_reply_def http_error_def answer_def
        split: if_splits sum.splits auth_error.splits)
  then have "dispatch dp env rq db = (a, db')"
    using assms(3) by (auto simp: serve_api_def forbidden_def internal_text_def http_error_def answer_def
        split: if_splits sum.splits)
  then show thesis
    using assms(3) that by (auto simp: dispatch_def page_not_found_def http_error_def answer_def split: option.splits)
qed

lemma revoke_route:
  assumes "path = gateway_keys_path @ x @ ''/revoke''"
  shows "route_of ''POST'' path = Some RGatewayKeysRevoke"
  unfolding assms
  by (simp add: route_of_def admin_routes_def gateway_keys_path_def) ((rule suffix_ConsI)+, rule suffixI, rule refl)

lemma revoke_id:
  assumes "0 \<le> i" "i < 2 ^ 63"
  shows "parse_action_id (gateway_keys_path @ itoa i @ ''/revoke'') gateway_keys_path ''/revoke'' = Some i"
proof -
  obtain d ds where d: "rev (itoa i) = d # ds" "is_digit d"
  proof (cases "rev (itoa i)")
    case Nil
    then show thesis using assms(1) by (simp add: itoa_def)
  next
    case (Cons d ds)
    then have "d \<in> set (nat_dec (nat i))" using assms(1) by (metis itoa_def linorder_not_less list.set_intros(1) set_rev)
    then have "is_digit d" using nat_dec_digits [of "nat i"] by (simp only: list_all_iff)
    with Cons that show thesis by blast
  qed
  then have "\<not> suffix ''/'' (itoa i)" by (auto simp: suffix_to_prefix is_digit_def)
  moreover have "suffix ''/revoke'' (itoa i @ ''/revoke'')" by (rule suffixI) (rule refl)
  ultimately show ?thesis
    using parse_int64_itoa [of i] assms by (simp add: parse_action_id_def trim_prefix_def trim_suffix_def)
qed

section \<open>Every request\<close>

text \<open>Whatever evolves from a sound database is a sound database.\<close>

lemma evolves_sound:
  assumes ev: "request_evolves sv db db'" and "wired sv" "aead_ok (sr_crypto sv)"
    "key_history (sr_key_env sv) (gw_provider_keys db)" "wf_gateway (gw_keys db)"
    "wf_auth (sr_crypto sv) (gw_auth db)" "invite_history (gw_invites db) redeemed"
  shows "wf_keys (sr_key_env sv) (gw_provider_keys db') \<and> wf_gateway (gw_keys db')
    \<and> wf_auth (sr_crypto sv) (gw_auth db')
    \<and> (\<exists>more. accounted (gw_invites db') (more @ redeemed))
    \<and> (\<exists>new. rows (gw_audit db') = rows (gw_audit db) @ new)"
proof -
  have "ke_crypto (sr_key_env sv) = sr_crypto sv" using assms(2) by (simp add: wired_def)
  with assms(3,4) ev have "wf_keys (sr_key_env sv) (gw_provider_keys db')"
    by (simp add: evolves_def history_wf)
  moreover from ev have "(gateway_step (sr_crypto sv))\<^sup>*\<^sup>* (gw_keys db) (gw_keys db')" by (simp add: evolves_def)
  then have "wf_gateway (gw_keys db')" using assms(5) by (induction) (auto dest: gateway_step_wf)
  moreover from ev have "(auth_step (sr_crypto sv) (dp_auth (sr_admin sv)))\<^sup>*\<^sup>* (gw_auth db) (gw_auth db')"
    by (simp add: evolves_def)
  then have "wf_auth (sr_crypto sv) (gw_auth db')" using assms(6) by (induction) (auto dest: auth_step_wf)
  moreover have "\<exists>more. accounted (gw_invites db') (more @ redeemed)"
    using ev assms(7) invite_history_accounted unfolding evolves_def by blast
  ultimately show ?thesis using ev by (auto simp: evolves_def)
qed

text \<open>
  Any sequence of HTTP requests moves the database only by operations of the components: from a
  sound database it leads to a sound one. The provider keys stay unique, sealed and within their quota
  rules, the ids of the gateway keys unique, there is at most one admin secret and every session
  carries its own CSRF hash, every invite has been redeemed as often as its counter says and within
  its limit, and no audit row is changed or lost.
\<close>

theorem requests_keep_the_database_sound:
  assumes "wired sv" "aead_ok (sr_crypto sv)" "(server_step sv)\<^sup>*\<^sup>* (l, db) (l', db')"
    "key_history (sr_key_env sv) (gw_provider_keys db)" "wf_gateway (gw_keys db)"
    "wf_auth (sr_crypto sv) (gw_auth db)" "invite_history (gw_invites db) redeemed"
  shows "wf_keys (sr_key_env sv) (gw_provider_keys db') \<and> wf_gateway (gw_keys db')
    \<and> wf_auth (sr_crypto sv) (gw_auth db')
    \<and> (\<exists>more. accounted (gw_invites db') (more @ redeemed))
    \<and> (\<exists>new. rows (gw_audit db') = rows (gw_audit db) @ new)"
  using evolves_sound [OF _ assms(1,2,4-7)] server_run_evolves [OF assms(1,3)] by simp

lemma idle_wired: "wired idle_server"
  by (simp add: wired_def idle_server_def idle_admin_def)

definition revoke_request :: server_request where
  "revoke_request = \<lparr>sq_http = admin_post (gateway_keys_path @ itoa 1 @ ''/revoke'') [], sq_oauth = undefined,
     sq_cookie = Some ''sid'', sq_remote = ''192.0.2.1:4711''\<rparr>"

definition demo_server_env :: server_env where
  "demo_server_env = \<lparr>sn_proxy = undefined, sn_oauth = undefined, sn_clock = int, sn_record_time = int, sn_admin = demo_admin_env\<rparr>"

definition revoked_db :: gateway_db where
  "revoked_db = set_gw_keys (revoke_gateway_key 1 1 manual_keys) staffed_db"

lemma demo_revoke:
  "serve_http idle_server demo_server_env revoke_request (lim, staffed_db) = (SrvAdmin (Replied status_ok), lim, revoked_db)"
proof -
  let ?path = "gateway_keys_path @ itoa 1 @ ''/revoke''"
  have rq: "admin_request_of revoke_request = as_admin (admin_post ?path [])"
    by (simp add: admin_request_of_def revoke_request_def as_admin_def)
  have p: "aq_path (as_admin (admin_post ?path [])) = ?path" "aq_method (as_admin (admin_post ?path [])) = ''POST''"
    by (simp_all add: as_admin_def admin_post_def)
  have "?path \<noteq> ''/admin/api/login''" by (simp add: gateway_keys_path_def)
  from demo_guarded [OF this, of "[]"]
  have "guarded_api idle_admin demo_admin_env (as_admin (admin_post ?path [])) staffed_db = (status_ok, revoked_db)"
    by (simp add: dispatch_def p revoke_route [OF refl] handle_gateway_keys_revoke_def revoke_id)
       (simp add: revoked_db_def staffed_db_def demo_admin_env_def gw_keys_def set_gw_keys_def)
  then have "admin_serve_http idle_admin demo_admin_env (as_admin (admin_post ?path [])) staffed_db = (Replied status_ok, revoked_db)"
    by (simp add: admin_serve_http_def p) (simp add: gateway_keys_path_def)
  moreover have "prefix ''/admin'' (cr_path (sq_http revoke_request))"
    by (simp add: revoke_request_def admin_post_def gateway_keys_path_def)
  ultimately show ?thesis
    by (simp add: serve_http_def Let_def rq) (simp add: idle_server_def demo_server_env_def)
qed

lemma demo_revoke_step: "server_step idle_server (lim, staffed_db) (lim, revoked_db)"
  unfolding server_step_def
  by (intro exI [of _ demo_server_env] exI [of _ revoke_request]) (simp add: demo_revoke)

lemma staffed_sound:
  "key_history demo_env (gw_provider_keys staffed_db)" "wf_gateway (gw_keys staffed_db)"
  "wf_auth demo_crypto (gw_auth staffed_db)" "invite_history (gw_invites staffed_db) []"
proof -
  show "key_history demo_env (gw_provider_keys staffed_db)" by (simp add: staffed_db_def key_history.start)
  show "wf_gateway (gw_keys staffed_db)" by (simp add: staffed_db_def manual_keys_wf)
  show "wf_auth demo_crypto (gw_auth staffed_db)"
    by (simp add: staffed_db_def signed_in_def wf_auth_def sessions_bound_def empty_table_def demo_csrf_def)
  have "gw_invites staffed_db = empty_table"
    by (simp add: staffed_db_def) (simp add: gw_invites_def idle_db_def idle_oauth_def)
  then show "invite_history (gw_invites staffed_db) []" by (simp add: invite_history.fresh)
qed

lemma idle_parts: "sr_crypto idle_server = demo_crypto" "sr_key_env idle_server = demo_env" "sr_admin idle_server = idle_admin"
  by (simp_all add: idle_server_def)

lemma requests_keep_the_database_sound_witness:
  "server_step idle_server (\<lparr>rl_window = None, rl_count = 0\<rparr>, staffed_db) (\<lparr>rl_window = None, rl_count = 0\<rparr>, revoked_db)
   \<and> wf_gateway (gw_keys revoked_db) \<and> wf_auth demo_crypto (gw_auth revoked_db)"
proof -
  let ?l = "\<lparr>rl_window = None, rl_count = 0\<rparr> :: reg_limiter"
  have run: "(server_step idle_server)\<^sup>*\<^sup>* (?l, staffed_db) (?l, revoked_db)"
    by (rule r_into_rtranclp) (rule demo_revoke_step)
  have "aead_ok (sr_crypto idle_server)" by (simp add: idle_parts)
  from requests_keep_the_database_sound [OF idle_wired this run, unfolded idle_parts, OF staffed_sound] demo_revoke_step
  show ?thesis by blast
qed

section \<open>Changes through the admin API\<close>

lemma authorized_session:
  assumes "guarded_api dp env rq db = (a, db')" "aq_path rq \<noteq> ''/admin/api/login''" "db' \<noteq> db"
  obtains s expires where "ad_sessions (gw_auth db) (aq_session rq) = Some s"
    "parse_stamp (as_expires_at s) = Some expires" "an_clock env 0 \<le> expires"
    "serve_api dp env rq db = (a, db')"
proof -
  have v: "validate_session (an_clock env 0) (aq_session rq) (gw_auth db) = Inr ()" "serve_api dp env rq db = (a, db')"
    using assms
    by (auto simp: guarded_api_def auth_middleware_def aq_session_def split: sum.splits auth_error.splits)
  then show thesis
    by (auto simp: validate_session_def split: if_splits option.splits intro: that)
qed

text \<open>
  C3. Nothing changes through the admin pages without the administrator: if a request under /admin
  changes the database, it is a call of the API; a sign-in changes it only with the admin secret; and
  every other call then is a POST, PATCH or DELETE whose cookie names a session that has not expired
  and whose token hashes to the CSRF hash of this session.
\<close>

theorem admin_change_needs_session_and_csrf:
  assumes "admin_serve_http dp env rq db = (reply, db')" "db' \<noteq> db"
  shows "prefix ''/admin/api/'' (aq_path rq)
    \<and> (if aq_path rq = ''/admin/api/login'' then
         aq_method rq = ''POST'' \<and> (\<exists>t. login_token rq = Some t \<and> verify_token (dp_crypto dp) t (gw_auth db))
       else aq_method rq \<in> {''POST'', ''PATCH'', ''DELETE''}
         \<and> (\<exists>s expires. ad_sessions (gw_auth db) (aq_session rq) = Some s
              \<and> parse_stamp (as_expires_at s) = Some expires \<and> an_clock env 0 \<le> expires
              \<and> as_csrf_hash s = hash_token (dp_crypto dp) (csrf_of rq)))"
proof -
  from assms obtain a where api: "prefix ''/admin/api/'' (aq_path rq)" "guarded_api dp env rq db = (a, db')"
    by (auto simp: admin_serve_http_def Let_def split: if_splits prod.splits)
  have route: "\<exists>r. route_of (aq_method rq) (aq_path rq) = Some r \<and> db' = snd (run_route r dp env rq db)"
    if "dispatch dp env rq db = (a, db')"
    using that assms(2) by (auto simp: dispatch_def split: option.splits)
  show ?thesis
  proof (cases "aq_path rq = ''/admin/api/login''")
    case True
    with api(2) have "dispatch dp env rq db = (a, db')"
      by (auto simp: guarded_api_def auth_middleware_def serve_api_def requires_csrf_def split: if_splits)
    with route obtain r where r: "route_of (aq_method rq) ''/admin/api/login'' = Some r"
      "db' = snd (run_route r dp env rq db)" unfolding True by blast
    from r(1) have "r = RLogin \<and> aq_method rq = ''POST''"
      by (auto simp: route_of_def admin_routes_def split: if_splits)
    with r(2) assms(2) have "aq_method rq = ''POST'' \<and> (\<exists>t. login_token rq = Some t \<and> verify_token (dp_crypto dp) t (gw_auth db))"
      by (auto simp: handle_login_def split: option.splits sum.splits elim: login_Inr)
    with True api(1) show ?thesis by simp
  next
    case False
    from api(2) False assms(2) obtain s expires where s: "ad_sessions (gw_auth db) (aq_session rq) = Some s"
      "parse_stamp (as_expires_at s) = Some expires" "an_clock env 0 \<le> expires" "serve_api dp env rq db = (a, db')"
      by (rule authorized_session)
    show ?thesis
    proof (cases "requires_csrf rq")
      case True
      with s(4) assms(2) have "validate_csrf (dp_crypto dp) (aq_session rq) (csrf_of rq) (gw_auth db) = Inr True"
        by (auto simp: serve_api_def split: sum.splits if_splits)
      with s(1) have "as_csrf_hash s = hash_token (dp_crypto dp) (csrf_of rq)"
        by (auto simp: validate_csrf_def split: if_splits)
      with True s False api(1) show ?thesis by (auto simp: requires_csrf_def split: if_splits)
    next
      case no_check: False
      with s(4) have "dispatch dp env rq db = (a, db')" by (simp add: serve_api_def)
      with route obtain r where r: "route_of (aq_method rq) (aq_path rq) = Some r"
        "db' = snd (run_route r dp env rq db)" by blast
      from route_facts(2) [OF r(1)] no_check False have get: "aq_method rq = ''GET''"
        by (auto simp: requires_csrf_def split: if_splits)
      from route_facts(1) [OF r(1) get] r(2) assms(2) get show ?thesis
        by (auto simp: reading_route github_get)
    qed
  qed
qed

lemma revoked_differs: "revoked_db \<noteq> staffed_db"
proof
  assume "revoked_db = staffed_db"
  then have "map gk_revoked_at (rows (gw_keys revoked_db)) = map gk_revoked_at (rows (gw_keys staffed_db))" by simp
  then show False
    by (simp add: revoked_db_def staffed_db_def revoke_gateway_key_def rows_set_gateway_row manual_keys_def
        manual_row_def demo_used_row_def)
qed

lemma admin_change_needs_session_and_csrf_witness:
  "\<exists>reply. admin_serve_http idle_admin demo_admin_env (as_admin (admin_post (gateway_keys_path @ itoa 1 @ ''/revoke'') []))
      staffed_db = (reply, revoked_db) \<and> revoked_db \<noteq> staffed_db
    \<and> (\<exists>s. ad_sessions (gw_auth staffed_db) ''sid'' = Some s \<and> as_csrf_hash s = hash_token demo_crypto demo_csrf)"
proof -
  let ?rq = "as_admin (admin_post (gateway_keys_path @ itoa 1 @ ''/revoke'') [])"
  have rq: "admin_request_of revoke_request = ?rq"
    by (simp add: admin_request_of_def revoke_request_def as_admin_def)
  obtain reply db' where d: "admin_serve_http idle_admin demo_admin_env ?rq staffed_db = (reply, db')" by fastforce
  have "prefix ''/admin'' (cr_path (sq_http revoke_request))"
    by (simp add: revoke_request_def admin_post_def gateway_keys_path_def)
  with demo_revoke d have db': "db' = revoked_db"
    by (auto simp: serve_http_def Let_def rq idle_parts demo_server_env_def)
  have "aq_path ?rq \<noteq> ''/admin/api/login''"
    by (simp add: as_admin_def admin_post_def gateway_keys_path_def)
  moreover have "csrf_of ?rq = demo_csrf"
    using post_header demo_csrf_nonempty by (simp add: csrf_of_def)
  moreover have "dp_crypto idle_admin = demo_crypto" by (simp add: idle_admin_def)
  ultimately have "\<exists>s. ad_sessions (gw_auth staffed_db) ''sid'' = Some s \<and> as_csrf_hash s = hash_token demo_crypto demo_csrf"
    using admin_change_needs_session_and_csrf [OF d [unfolded db'] revoked_differs] sid_plain by simp blast
  with d db' revoked_differs show ?thesis by blast
qed

text \<open>
  C4. The admin API answers every call with one of its eight statuses, and when the status is a client
  error (400 to 499: a bad body or path, no session, no CSRF token, an unknown row or route) the
  database is exactly what it was, audit log included.
\<close>

theorem refused_call_changes_nothing:
  assumes "guarded_api dp env rq db = (a, db')"
  shows "ay_status a \<in> {200, 302, 400, 401, 403, 404, 500, 503}
    \<and> (400 \<le> ay_status a \<and> ay_status a < 500 \<longrightarrow> db' = db)"
  using guarded_settled [of db dp env rq] assms by (simp add: settled_def)

lemma refused_call_changes_nothing_witness:
  "\<exists>a db'. guarded_api idle_admin demo_admin_env ((as_admin (admin_post gateway_keys_path []))\<lparr>aq_cookie := None\<rparr>) staffed_db = (a, db')
    \<and> ay_status a = 401 \<and> db' = staffed_db"
proof -
  have "session_id_from_request None = []" by (simp add: session_id_from_request_def)
  then have "guarded_api idle_admin demo_admin_env ((as_admin (admin_post gateway_keys_path []))\<lparr>aq_cookie := None\<rparr>) staffed_db
      = (http_error 401 ''unauthorized'', staffed_db)"
    by (simp add: guarded_api_def auth_middleware_def as_admin_def admin_post_def gateway_keys_path_def validate_session_def deny_reply_def)
  from refused_call_changes_nothing [OF this] this show ?thesis by simp
qed

section \<open>What an administrator's action means\<close>

text \<open>A key that is gone or revoked stays so, whatever happens next, and nothing is authorised as it.\<close>

lemma dead_key_refused:
  assumes "request_evolves sv db1 db2" "dead_key i (gw_keys db1)"
  shows "(\<forall>token d. lookup_key (sr_crypto sv) token (gw_keys db2) = Inr (Some d) \<longrightarrow> gk_id d \<noteq> i)
    \<and> (\<forall>now r k. fst (authorized sv now r db2) = Some k \<longrightarrow> gk_id k \<noteq> i)"
proof -
  have "(gateway_step (sr_crypto sv))\<^sup>*\<^sup>* (gw_keys db1) (gw_keys db2)" using assms(1) by (simp add: evolves_def)
  then have dead: "dead_key i (gw_keys db2)" using assms(2) dead_key_forever by blast
  have "gk_id k \<noteq> i" if "fst (authorized sv now r db2) = Some k" for now r k
  proof -
    from that obtain db3 where "authorized sv now r db2 = (Some k, db3)" by (metis prod.collapse)
    then show ?thesis by (rule authorized_Some) (use dead dead_key_lookup in blast)
  qed
  with dead dead_key_lookup show ?thesis by blast
qed

text \<open>
  C2. A revocation is final: once the admin API has answered 200 to the revocation of a gateway key,
  then whatever requests follow, in any order and with any environment, sign-ins, rotations and OAuth
  exchanges included, no token looks up to this key any more, so that no runtime request is ever
  authorised as it.
\<close>

theorem revoked_key_stays_out:
  assumes "wired sv" "cr_method (sq_http rq) = ''POST''"
    "cr_path (sq_http rq) = gateway_keys_path @ itoa i @ ''/revoke''" "0 < i" "i < 2 ^ 63" "i \<le> tseq (gw_keys db)"
    "serve_http sv env rq (l, db) = (SrvAdmin (Replied a), st1)" "ay_status a = 200"
    "(server_step sv)\<^sup>*\<^sup>* st1 (l2, db2)"
  shows "(\<forall>token d. lookup_key (sr_crypto sv) token (gw_keys db2) = Inr (Some d) \<longrightarrow> gk_id d \<noteq> i)
    \<and> (\<forall>now r k. fst (authorized sv now r db2) = Some k \<longrightarrow> gk_id k \<noteq> i)"
proof -
  let ?rq = "admin_request_of rq" and ?env = "sn_admin env"
  have rq: "aq_method ?rq = ''POST''" "aq_path ?rq = gateway_keys_path @ itoa i @ ''/revoke''"
    using assms(2,3) by (simp_all add: admin_request_of_def)
  have "prefix ''/admin'' (cr_path (sq_http rq))" by (simp add: assms(3) gateway_keys_path_def)
  with assms(7) have s: "admin_serve_http (sr_admin sv) ?env ?rq db = (Replied a, snd st1)"
    by (auto simp: serve_http_def Let_def split: prod.splits)
  have p: "prefix ''/admin/api/'' (aq_path ?rq)" by (simp add: rq(2) gateway_keys_path_def)
  from assms(8) have "ay_status a \<notin> {401, 403, 404, 500}" by simp
  with s p obtain r where r: "route_of ''POST'' (aq_path ?rq) = Some r" "run_route r (sr_admin sv) ?env ?rq db = (a, snd st1)"
    unfolding rq(1) [symmetric] by (rule api_success)
  have "r = RGatewayKeysRevoke" using r(1) revoke_route [OF rq(2)] by simp
  moreover have "parse_action_id (aq_path ?rq) gateway_keys_path ''/revoke'' = Some i"
    unfolding rq(2) by (rule revoke_id) (use assms(4,5) in simp_all)
  ultimately have "snd st1 = set_gw_keys (revoke_gateway_key (an_clock ?env 1) i (gw_keys db)) db"
    using r(2) by (simp add: handle_gateway_keys_revoke_def)
  then have keys: "gw_keys (snd st1) = revoke_gateway_key (an_clock ?env 1) i (gw_keys db)" by simp
  then have "dead_key i (gw_keys (snd st1))" using dead_key_revoked [OF assms(6)] by simp
  then show ?thesis using dead_key_refused [of sv "snd st1" db2] server_run_evolves [OF assms(1,9)] by simp
qed

lemma revoked_key_stays_out_witness:
  "lookup_key demo_crypto manual_key (gw_keys staffed_db) = Inr (Some (display_of manual_row)) \<and> gk_id manual_row = 1
   \<and> (\<nexists>token d. lookup_key demo_crypto token (gw_keys revoked_db) = Inr (Some d) \<and> gk_id d = 1)"
proof -
  have r: "cr_method (sq_http revoke_request) = ''POST''"
    "cr_path (sq_http revoke_request) = gateway_keys_path @ itoa 1 @ ''/revoke''"
    by (simp_all add: revoke_request_def admin_post_def)
  have t: "1 \<le> tseq (gw_keys staffed_db)" by (simp add: staffed_db_def manual_keys_def)
  have ok: "ay_status status_ok = 200" by (simp add: status_ok_def ok_json_def answer_def)
  have "\<nexists>token d. lookup_key demo_crypto token (gw_keys revoked_db) = Inr (Some d) \<and> gk_id d = 1"
    using revoked_key_stays_out [OF idle_wired r _ _ t demo_revoke ok rtranclp.rtrancl_refl] by (simp add: idle_parts)
  moreover have "gw_keys staffed_db = manual_keys\<lparr>rows := manual_row # []\<rparr>"
    by (simp add: staffed_db_def manual_keys_def)
  then have "lookup_key demo_crypto manual_key (gw_keys staffed_db) = Inr (Some (display_of manual_row))"
    using lookup_manual by simp
  ultimately show ?thesis by (simp add: manual_row_def demo_used_row_def)
qed

text \<open>
  C9. Once the admin API has accepted a new operator password, it was given twice alike and is not
  empty, and from then on the OAuth consent form accepts exactly the passwords that derive the same
  key under the same salt: the new password is accepted and no other one that scrypt tells apart.
\<close>

theorem operator_password_effective:
  assumes "\<forall>pw salt n r p k d. dp_scrypt dp pw salt n r p k = Some d \<longrightarrow> length d = k"
    "os_scrypt os = dp_scrypt dp" "an_salt env = Some (b # bs)"
    "aq_method rq = ''POST''" "aq_path rq = ''/admin/api/operator-password''"
    "admin_serve_http dp env rq db = (Replied a, db')" "ay_status a = 200 \<or> ay_status a = 302"
  shows "\<exists>p. operator_passwords rq = Some (p, p) \<and> p \<noteq> []
    \<and> (\<forall>q. operator_approved os False q (gw_oauth db') \<longleftrightarrow> q \<noteq> []
          \<and> dp_scrypt dp q (base64_encode base64_url (b # bs)) 16384 8 1 32
            = dp_scrypt dp p (base64_encode base64_url (b # bs)) 16384 8 1 32)"
proof -
  have len: "length x = k" if "dp_scrypt dp pw salt n r p k = Some x" for pw salt n r p k x using assms(1) that by blast
  have "route_of ''POST'' ''/admin/api/operator-password'' = Some ROperatorPassword"
    unfolding route_of_def admin_routes_def by code_simp
  moreover have "prefix ''/admin/api/'' (aq_path rq)" "ay_status a \<notin> {401, 403, 404, 500}" using assms(5,7) by auto
  then obtain r where r: "route_of (aq_method rq) (aq_path rq) = Some r" "run_route r dp env rq db = (a, db')"
    using assms(6) by (blast elim: api_success)
  ultimately have run: "handle_operator_password dp env rq db = (a, db')" using assms(4,5) by simp
  show ?thesis
  proof (cases "operator_passwords rq")
    case None
    with run assms(7) show ?thesis by (auto simp: handle_operator_password_def bad_api_def api_error_def answer_def)
  next
    case (Some pc)
    then obtain p c where pc: "operator_passwords rq = Some (p, c)" by (cases pc) auto
    have "p = c" "p \<noteq> []" using run assms(7) pc
      by (auto simp: handle_operator_password_def bad_api_def api_error_def answer_def split: if_splits)
    obtain h where h: "hash_password (dp_scrypt dp) (an_salt env) p = Some h"
      and db': "db' = audited (an_clock env 2) (web_event ''oauth.operator_password.rotate'' ''result=ok'' (aq_remote rq))
                 (set_gw_settings (set_cooldown_setting (an_clock env 1) setting_oauth_operator_password_hash h
                    (gw_settings db)) db)"
      using run assms(7) pc \<open>p = c\<close> \<open>p \<noteq> []\<close>
      by (cases "hash_password (dp_scrypt dp) (an_salt env) p")
         (auto simp: handle_operator_password_def internal_text_def http_error_def answer_def)
    from h assms(3) have h': "hash_password (dp_scrypt dp) (Some (b # bs)) p = Some h" by simp
    have valid: "validate_password_hash h"
      by (rule hash_password_parses [OF h' len]) (simp_all add: validate_password_hash_def)
    have "ld_settings (od_login (gw_oauth db')) = gw_settings db'" by (simp add: gw_settings_def)
    then have "effective_password_hash os (gw_oauth db') = h"
      using valid by (simp add: effective_password_hash_def db' set_cooldown_setting_def)
    then have "operator_approved os False q (gw_oauth db') \<longleftrightarrow> q \<noteq> [] \<and> verify_password (dp_scrypt dp) q h" for q
      by (simp add: operator_approved_def assms(2))
    with pc \<open>p = c\<close> \<open>p \<noteq> []\<close> verify_hash_password [OF h' len] show ?thesis by auto
  qed
qed

definition password_request :: admin_request where
  \<open>password_request = as_admin (admin_post ''/admin/api/operator-password'' ''{"password":"pw","confirm":"pw"}'')\<close>

definition idle_oauth_server :: oauth_server where
  "idle_oauth_server = \<lparr>os_issuer = [], os_password_hash = [], os_github = None, os_crypto = demo_crypto,
     os_scrypt = dp_scrypt idle_admin\<rparr>"

lemma demo_password:
  "\<exists>a db'. admin_serve_http idle_admin demo_admin_env password_request staffed_db = (Replied a, db')
    \<and> (ay_status a = 200 \<or> ay_status a = 302)"
proof -
  have path: "aq_path password_request = ''/admin/api/operator-password''" "aq_method password_request = ''POST''"
    by (simp_all add: password_request_def as_admin_def admin_post_def)
  have "operator_passwords password_request = Some (''pw'', ''pw'')"
    unfolding operator_passwords_def password_request_def as_admin_def admin_post_def by code_simp
  moreover have "route_of ''POST'' ''/admin/api/operator-password'' = Some ROperatorPassword"
    unfolding route_of_def admin_routes_def by code_simp
  ultimately have "\<exists>a db'. dispatch idle_admin demo_admin_env password_request staffed_db = (a, db')
      \<and> (ay_status a = 200 \<or> ay_status a = 302)"
    by (simp add: dispatch_def path handle_operator_password_def demo_admin_env_def idle_admin_def hash_password_def Let_def
        answer_def status_ok_def ok_json_def)
  moreover have "guarded_api idle_admin demo_admin_env password_request staffed_db
      = dispatch idle_admin demo_admin_env password_request staffed_db"
    unfolding password_request_def by (rule demo_guarded) simp
  ultimately show ?thesis using path by (auto simp: admin_serve_http_def Let_def split: prod.splits)
qed

lemma operator_password_effective_witness:
  "\<exists>a db'. admin_serve_http idle_admin demo_admin_env password_request staffed_db = (Replied a, db')
    \<and> (\<exists>p. operator_passwords password_request = Some (p, p) \<and> operator_approved idle_oauth_server False p (gw_oauth db'))"
proof -
  obtain a db' where d: "admin_serve_http idle_admin demo_admin_env password_request staffed_db = (Replied a, db')"
    "ay_status a = 200 \<or> ay_status a = 302" using demo_password by blast
  have m: "aq_path password_request = ''/admin/api/operator-password''" "aq_method password_request = ''POST''"
    by (simp_all add: password_request_def as_admin_def admin_post_def)
  have len: "\<forall>pw salt n r p k d. dp_scrypt idle_admin pw salt n r p k = Some d \<longrightarrow> length d = k"
    by (auto simp: idle_admin_def)
  have s: "an_salt demo_admin_env = Some (CHR ''0'' # ''123456789abcdef'')" by (simp add: demo_admin_env_def)
  have "os_scrypt idle_oauth_server = dp_scrypt idle_admin" by (simp add: idle_oauth_server_def)
  from operator_password_effective [OF len this s m(2,1) d] d show ?thesis by blast
qed

end
