(* ===== verification/EnvFile.thy ===== *)
theory EnvFile
  imports GoStrings
begin

text \<open>
  cmd/guda-gateway-admin/commands.go: the file of shell variables the command line tool keeps its
  secret in (\<open>writeEnvBinding\<close>), with the part of \<open>path/filepath\<close> that names it.
\<close>

section \<open>Lines\<close>

definition newline :: char where "newline = CHR 0x0A"
definition is_eol :: "char \<Rightarrow> bool" where "is_eol c \<longleftrightarrow> c = CHR 0x0A \<or> c = CHR 0x0D"

text \<open>\<open>strings.SplitAfter\<close> at the line feed, without the empty piece at the end.\<close>

fun line_pieces :: "string \<Rightarrow> string list" where
  "line_pieces [] = []"
| "line_pieces (c # s) =
     (if c = newline then [c] # line_pieces s
      else (case line_pieces s of [] \<Rightarrow> [[c]] | l # ls \<Rightarrow> (c # l) # ls))"

definition trim_eol :: "string \<Rightarrow> string" where
  "trim_eol line = rev (dropWhile is_eol (rev line))"

definition env_line_matches_key :: "string \<Rightarrow> string \<Rightarrow> bool" where
  "env_line_matches_key line key \<longleftrightarrow>
     prefix (key @ ''='') (trim_space line) \<or> prefix (''export '' @ key @ ''='') (trim_space line)"

definition bind_line :: "string \<Rightarrow> string \<Rightarrow> string \<Rightarrow> string" where
  "bind_line key binding line =
     (let trimmed = trim_eol line; ending = trim_prefix trimmed line in
      if env_line_matches_key trimmed key then binding @ (if ending = [] then [newline] else ending) else line)"

text \<open>The text of the file after the write.\<close>

definition env_binding :: "string \<Rightarrow> string \<Rightarrow> string \<Rightarrow> string" where
  "env_binding existing key val =
     (let binding = key @ ''='' @ val; pieces = line_pieces existing;
          body = concat (map (bind_line key binding) pieces) in
      if list_ex (\<lambda>l. env_line_matches_key (trim_eol l) key) pieces then body
      else (if body \<noteq> [] \<and> last body \<noteq> newline then body @ [newline] else body) @ binding @ [newline])"

section \<open>Paths\<close>

text \<open>\<open>filepath.Clean\<close> on slash-separated paths, over the elements in reverse.\<close>

fun clean_elems :: "bool \<Rightarrow> string list \<Rightarrow> string list \<Rightarrow> string list" where
  "clean_elems rooted acc [] = rev acc"
| "clean_elems rooted acc (e # es) =
     (if e = [] \<or> e = ''.'' then clean_elems rooted acc es
      else if e = ''..'' then
        (case acc of
           [] \<Rightarrow> clean_elems rooted (if rooted then [] else [e]) es
         | a # as \<Rightarrow> clean_elems rooted (if a = ''..'' then e # acc else as) es)
      else clean_elems rooted (e # acc) es)"

definition clean_path :: "string \<Rightarrow> string" where
  "clean_path p =
     (let rooted = prefix ''/'' p; out = join_with ''/'' (clean_elems rooted [] (split_on (CHR ''/'') p)) in
      if rooted then ''/'' @ out else if out = [] then ''.'' else out)"

definition join_path :: "string \<Rightarrow> string \<Rightarrow> string" where
  "join_path a b =
     (case filter (\<lambda>e. e \<noteq> []) [a, b] of [] \<Rightarrow> [] | es \<Rightarrow> clean_path (join_with ''/'' es))"

definition expand_home_path :: "string option \<Rightarrow> string \<Rightarrow> string option" where
  "expand_home_path home path =
     (if path = ''~'' \<or> prefix ''~/'' path then
        (case home of
           None \<Rightarrow> None
         | Some h \<Rightarrow> Some (if path = ''~'' then h else join_path h (trim_prefix ''~/'' path)))
      else Some path)"

section \<open>The lines of the file after a write\<close>

text \<open>A piece has no line feed but at its end.\<close>

lemma line_pieces_line:
  "newline \<notin> set l \<Longrightarrow> line_pieces (l @ newline # s) = (l @ [newline]) # line_pieces s"
  by (induction l) auto

lemma line_pieces_open: "newline \<notin> set l \<Longrightarrow> l \<noteq> [] \<Longrightarrow> line_pieces l = [l]"
proof -
  assume "newline \<notin> set l" "l \<noteq> []"
  moreover have "newline \<notin> set l \<Longrightarrow> line_pieces l = (if l = [] then [] else [l])" by (induction l) auto
  ultimately show ?thesis by simp
qed

text \<open>Induction over the lines of a text.\<close>

lemma lines_cases:
  obtains "s = []" | l where "newline \<notin> set l" "l \<noteq> []" "s = l"
    | l t where "newline \<notin> set l" "s = l @ newline # t"
  by (metis split_list_first)

lemma lines_induct [case_names Nil open_line line]:
  assumes "P []" "\<And>l. newline \<notin> set l \<Longrightarrow> l \<noteq> [] \<Longrightarrow> P l"
    "\<And>l s. newline \<notin> set l \<Longrightarrow> P s \<Longrightarrow> P (l @ newline # s)"
  shows "P s"
proof (induction "length s" arbitrary: s rule: less_induct)
  case less
  show ?case
  proof (cases s rule: lines_cases)
    case (3 l t)
    with less [of t] assms(3) show ?thesis by simp
  qed (use assms in auto)
qed

lemma trim_eol_line: "trim_eol (l @ [newline]) = trim_eol l"
  by (simp add: trim_eol_def is_eol_def newline_def)

lemma trim_eol_clean: "\<forall>c \<in> set l. \<not> is_eol c \<Longrightarrow> trim_eol l = l"
  by (cases l rule: rev_cases) (simp_all add: trim_eol_def)

lemma trim_eol_append: "\<forall>c \<in> set e. is_eol c \<Longrightarrow> trim_eol (l @ e) = trim_eol l"
  by (induction e rule: rev_induct) (simp_all add: trim_eol_def flip: append_assoc)

lemma eol_ending:
  obtains e where "l = trim_eol l @ e" "\<forall>c \<in> set e. is_eol c" "trim_prefix (trim_eol l) l = e"
proof -
  have "l = rev (dropWhile is_eol (rev l)) @ rev (takeWhile is_eol (rev l))"
    by (metis rev_append rev_rev_ident takeWhile_dropWhile_id)
  then have s: "l = trim_eol l @ rev (takeWhile is_eol (rev l))" by (simp add: trim_eol_def)
  then have "trim_prefix (trim_eol l) l = rev (takeWhile is_eol (rev l))"
    by (metis append_eq_conv_conj prefixI trim_prefix_def)
  with s show thesis by (intro that) (auto dest: set_takeWhileD)
qed

text \<open>The text of a file as the lines a reader sees.\<close>

definition file_lines :: "string \<Rightarrow> string list" where
  "file_lines s = map trim_eol (line_pieces s)"

lemma file_lines_simps [simp]:
  "file_lines [] = []"
  "newline \<notin> set l \<Longrightarrow> file_lines (l @ newline # s) = trim_eol l # file_lines s"
  "newline \<notin> set l \<Longrightarrow> l \<noteq> [] \<Longrightarrow> file_lines l = [trim_eol l]"
  by (simp_all add: file_lines_def line_pieces_line line_pieces_open trim_eol_line)

lemma file_lines_append: "b = [] \<or> last b = newline \<Longrightarrow> file_lines (b @ t) = file_lines b @ file_lines t"
proof (induction b rule: lines_induct)
  case (open_line l)
  then show ?case by (metis last_in_set)
next
  case (line l s)
  then show ?case by (cases "s = []") auto
qed simp

lemma file_lines_close: "b \<noteq> [] \<Longrightarrow> last b \<noteq> newline \<Longrightarrow> file_lines (b @ [newline]) = file_lines b"
proof (induction b rule: lines_induct)
  case (open_line l)
  then show ?case using file_lines_simps(2) [of l "[]"] by simp
next
  case (line l s)
  then show ?case by (cases "s = []") auto
qed simp

lemma bind_line_lines:
  assumes "\<forall>c \<in> set binding. \<not> is_eol c" "newline \<notin> set l"
  shows "file_lines (bind_line key binding (l @ [newline]) @ t)
    = (if env_line_matches_key (trim_eol l) key then binding else trim_eol l) # file_lines t"
proof -
  obtain e where e: "l @ [newline] = trim_eol (l @ [newline]) @ e" "\<forall>c \<in> set e. is_eol c"
    "trim_prefix (trim_eol (l @ [newline])) (l @ [newline]) = e" by (rule eol_ending)
  have "length (trim_eol (l @ [newline])) \<le> length l" unfolding trim_eol_line using length_dropWhile_le [of is_eol "rev l"] by (simp add: trim_eol_def)
  then have "e \<noteq> []" using arg_cong [OF e(1), of length] by auto
  then obtain e' where e': "e = e' @ [newline]" using arg_cong [OF e(1), of last] by (metis append_butlast_last_id last_appendR last_snoc)
  with e(1) have "newline \<notin> set e'" using assms(2) by (metis Un_iff append_assoc append_same_eq set_append)
  moreover have "newline \<notin> set binding" using assms(1) by (auto simp: is_eol_def newline_def)
  moreover have "trim_eol (binding @ e') = binding"
    using e(2) e' assms(1) by (simp add: trim_eol_append trim_eol_clean)
  ultimately have "file_lines (binding @ e @ t) = binding # file_lines t"
    using file_lines_simps(2) [of "binding @ e'" t] by (simp add: e')
  then show ?thesis
    using assms(2) e(3) \<open>e \<noteq> []\<close> by (simp add: bind_line_def Let_def trim_eol_line)
qed

lemma bind_open_lines:
  assumes "\<forall>c \<in> set binding. \<not> is_eol c" "binding \<noteq> []" "newline \<notin> set l" "l \<noteq> []"
  shows "file_lines (bind_line key binding l) = [if env_line_matches_key (trim_eol l) key then binding else trim_eol l]"
proof -
  obtain e where e: "l = trim_eol l @ e" "\<forall>c \<in> set e. is_eol c" "trim_prefix (trim_eol l) l = e" by (rule eol_ending)
  have "newline \<notin> set e" using e(1) assms(3) by (metis Un_iff set_append)
  moreover have "newline \<notin> set binding" using assms(1) by (auto simp: is_eol_def newline_def)
  moreover have "trim_eol (binding @ e) = binding" using e(2) assms(1) by (simp add: trim_eol_append trim_eol_clean)
  moreover have "trim_eol binding = binding" using assms(1) by (rule trim_eol_clean)
  ultimately show ?thesis
    using assms(2-4) e(3) file_lines_simps(2) [of binding "[]"] by (simp add: bind_line_def Let_def)
qed

lemma bound_lines:
  assumes "\<forall>c \<in> set binding. \<not> is_eol c" "binding \<noteq> []"
  shows "file_lines (concat (map (bind_line key binding) (line_pieces s)))
    = map (\<lambda>l. if env_line_matches_key l key then binding else l) (file_lines s)"
proof (induction s rule: lines_induct)
  case (open_line l)
  then show ?case using bind_open_lines [OF assms] by (simp add: line_pieces_open)
next
  case (line l s)
  then show ?case using bind_line_lines [OF assms(1)] by (simp add: line_pieces_line)
qed simp

text \<open>
  The lines of the written file: every binding of the variable is the new one, the others are kept in
  their order, and a file without a binding gets it as its last line.
\<close>

lemma env_binding_lines:
  assumes "\<forall>c \<in> set (key @ val). \<not> is_eol c"
  shows "file_lines (env_binding existing key val) =
    map (\<lambda>l. if env_line_matches_key l key then key @ ''='' @ val else l) (file_lines existing)
    @ (if list_ex (\<lambda>l. env_line_matches_key l key) (file_lines existing) then [] else [key @ ''='' @ val])"
proof -
  define b where "b = key @ ''='' @ val"
  define body where "body = concat (map (bind_line key b) (line_pieces existing))"
  have b: "\<forall>c \<in> set b. \<not> is_eol c" "b \<noteq> []" using assms by (auto simp: is_eol_def b_def)
  have "newline \<notin> set b" using b(1) by (auto simp: is_eol_def newline_def)
  then have one: "file_lines (b @ [newline]) = [b]"
    using file_lines_simps(2) [of b "[]"] trim_eol_clean [OF b(1)] by simp
  have "file_lines ((if body \<noteq> [] \<and> last body \<noteq> newline then body @ [newline] else body) @ b @ [newline])
      = file_lines body @ [b]"
    using file_lines_append [of body "b @ [newline]"] file_lines_append [of "body @ [newline]" "b @ [newline]"]
      file_lines_close [of body] one by auto
  moreover have "list_ex (\<lambda>l. env_line_matches_key (trim_eol l) key) (line_pieces existing)
      \<longleftrightarrow> list_ex (\<lambda>l. env_line_matches_key l key) (file_lines existing)"
    by (simp add: file_lines_def list_ex_iff)
  moreover have "file_lines body = map (\<lambda>l. if env_line_matches_key l key then b else l) (file_lines existing)"
    unfolding body_def by (rule bound_lines [OF b])
  ultimately show ?thesis
    unfolding env_binding_def Let_def b_def [symmetric] body_def [symmetric] by simp
qed

lemma plain_not_eol: "plain_char c \<Longrightarrow> \<not> is_eol c"
  by (auto simp: plain_char_def is_eol_def)

text \<open>The variable is bound, to the new value and nothing else.\<close>

lemma env_binding_bound:
  assumes "list_all plain_char (key @ val)"
  shows "filter (\<lambda>l. env_line_matches_key l key) (file_lines (env_binding existing key val)) \<noteq> []"
    "list_all (\<lambda>l. env_line_matches_key l key \<longrightarrow> l = key @ ''='' @ val) (file_lines (env_binding existing key val))"
proof -
  let ?b = "key @ ''='' @ val"
  have "\<forall>c \<in> set (key @ val). \<not> is_eol c" using assms plain_not_eol by (auto simp: list_all_iff)
  note ls = env_binding_lines [OF this, of existing]
  have "list_all plain_char ?b" using assms by (simp add: plain_char_def)
  then have "env_line_matches_key ?b key" by (simp add: env_line_matches_key_def trim_space_plain)
  then show "filter (\<lambda>l. env_line_matches_key l key) (file_lines (env_binding existing key val)) \<noteq> []"
    unfolding ls by (auto simp: filter_empty_conv list_ex_iff)
  show "list_all (\<lambda>l. env_line_matches_key l key \<longrightarrow> l = ?b) (file_lines (env_binding existing key val))"
    unfolding ls by (auto simp: list_all_iff)
qed

end
