(* ===== verification/Cli.thy ===== *)
theory Cli
  imports AdminProviders EnvFile
begin

text \<open>
  cmd/guda-gateway-admin/commands.go: the command line tool of the control plane. A command works on
  the database, the master key file and the files of the machine, and gives an exit code and what it
  prints: lines, the cells of a table before \<open>text/tabwriter\<close> aligns them, and notes on the error
  stream. The text of an error value is not spelled out.
\<close>

section \<open>The world of a command\<close>

record cli_file =
  cf_text :: string
  cf_mode :: nat

record cli_world =
  cw_db :: gateway_db
  cw_files :: "string \<Rightarrow> cli_file option"
  cw_master :: "bytes option option"

text \<open>
  What the process sees: its environment, the first part of its input, random bytes, nonces and the
  clock (numbered by its readings), and the error of opening the database, if it cannot be opened.
\<close>

record cli_env =
  ce_crypto :: crypto
  ce_getenv :: "string \<Rightarrow> string"
  ce_home :: "string option"
  ce_stdin :: string
  ce_open_error :: "string option"
  ce_fresh_master :: bytes
  ce_random :: bytes
  ce_nonce :: "nat \<Rightarrow> bytes"
  ce_clock :: "nat \<Rightarrow> instant"

datatype cli_failure =
    OfAuth auth_error
  | OfGateway gateway_error
  | OfProvider provider_error
  | OfSecrets secrets_error
  | OfText string

datatype cli_line = Line string | Cells "string list list"
datatype cli_note = Note string | Unknown string string | Failed string cli_failure | UsageText

record cli_result =
  cx_code :: int
  cx_out :: "cli_line list"
  cx_err :: "cli_note list"

definition exit_ok :: int where "exit_ok = 0"
definition exit_error :: int where "exit_error = 1"
definition exit_usage :: int where "exit_usage = 2"

type_synonym cli_command = "cli_env \<Rightarrow> string list \<Rightarrow> cli_world \<Rightarrow> cli_result \<times> cli_world"

definition succeed :: "cli_line list \<Rightarrow> cli_world \<Rightarrow> cli_result \<times> cli_world" where
  "succeed out w = (\<lparr>cx_code = exit_ok, cx_out = out, cx_err = []\<rparr>, w)"

definition misuse :: "cli_note \<Rightarrow> cli_world \<Rightarrow> cli_result \<times> cli_world" where
  "misuse n w = (\<lparr>cx_code = exit_usage, cx_out = [], cx_err = [n]\<rparr>, w)"

definition give_up :: "cli_note \<Rightarrow> cli_world \<Rightarrow> cli_result \<times> cli_world" where
  "give_up n w = (\<lparr>cx_code = exit_error, cx_out = [], cx_err = [n]\<rparr>, w)"

definition set_db :: "gateway_db \<Rightarrow> cli_world \<Rightarrow> cli_world" where
  "set_db db w = w\<lparr>cw_db := db\<rparr>"

section \<open>Flags and input\<close>

fun flag_value :: "string list \<Rightarrow> string \<Rightarrow> string option" where
  "flag_value (a # v # r) n = (if a = n then Some v else flag_value (v # r) n)"
| "flag_value _ n = None"

definition flag_int64 :: "string list \<Rightarrow> string \<Rightarrow> rowid option" where
  "flag_int64 args n = Option.bind (flag_value args n) parse_int64"

text \<open>A flag that is missing reads as the empty string.\<close>

definition flag_text :: "string list \<Rightarrow> string \<Rightarrow> string" where
  "flag_text args n = (case flag_value args n of None \<Rightarrow> [] | Some v \<Rightarrow> v)"

datatype read_error = EndOfInput | LineTooLong

text \<open>\<open>bufio.Scanner\<close> gives the first line without its end, if it fits its buffer of 64 kB.\<close>

definition read_line :: "string \<Rightarrow> read_error + string" where
  "read_line input =
     (let line = takeWhile (\<lambda>c. c \<noteq> newline) input in
      if input = [] then Inl EndOfInput
      else if 65536 \<le> length line then Inl LineTooLong
      else Inr (if line \<noteq> [] \<and> last line = CHR 0x0D then butlast line else line))"

definition line_too_long :: cli_failure where "line_too_long = OfText ''bufio.Scanner: token too long''"

text \<open>The secret a command reads from its input: the exit and note of its absence, or the secret.\<close>

definition read_secret :: "string \<Rightarrow> string \<Rightarrow> cli_env \<Rightarrow> (cli_world \<Rightarrow> cli_result \<times> cli_world) + string" where
  "read_secret empty_note what env =
     (case read_line (ce_stdin env) of
        Inl EndOfInput \<Rightarrow> Inl (misuse (Note empty_note))
      | Inl LineTooLong \<Rightarrow> Inl (give_up (Failed what line_too_long))
      | Inr s \<Rightarrow> if trim_space s = [] then Inl (misuse (Note empty_note)) else Inr (trim_space s))"

definition read_secret_file :: "string \<Rightarrow> cli_world \<Rightarrow> string + string" where
  "read_secret_file path w =
     (case cw_files w path of
        None \<Rightarrow> Inl ''no such file or directory''
      | Some f \<Rightarrow> if trim_space (cf_text f) = [] then Inl ''empty quota key'' else Inr (trim_space (cf_text f)))"

section \<open>Database, key file and audit\<close>

definition open_store ::
  "string \<Rightarrow> cli_env \<Rightarrow> cli_world \<Rightarrow> (cli_world \<Rightarrow> cli_result \<times> cli_world) \<Rightarrow> cli_result \<times> cli_world" where
  "open_store what env w k =
     (case ce_open_error env of Some e \<Rightarrow> give_up (Failed what (OfText e)) w | None \<Rightarrow> k w)"

definition with_master ::
  "cli_env \<Rightarrow> cli_world \<Rightarrow> (key_env \<Rightarrow> cli_world \<Rightarrow> cli_result \<times> cli_world) \<Rightarrow> cli_result \<times> cli_world" where
  "with_master env w k =
     (case load_or_create (ce_fresh_master env) (cw_master w) of
        Inl e \<Rightarrow> give_up (Failed ''master key'' (OfSecrets e)) w
      | Inr (mk, file) \<Rightarrow> k \<lparr>ke_crypto = ce_crypto env, ke_master = mk\<rparr> (w\<lparr>cw_master := file\<rparr>))"

definition cli_event :: "string \<Rightarrow> string \<Rightarrow> string \<Rightarrow> string \<Rightarrow> audit_event" where
  "cli_event action kind target detail =
     no_event\<lparr>ae_actor_kind := ''cli'', ae_action := action, ae_target_kind := kind, ae_target_id := target,
       ae_detail := detail\<rparr>"

definition record_cli_audit :: "cli_env \<Rightarrow> string \<Rightarrow> string \<Rightarrow> string \<Rightarrow> string \<Rightarrow> gateway_db \<Rightarrow> gateway_db" where
  "record_cli_audit env action kind target detail db = audited (ce_clock env 2) (cli_event action kind target detail) db"

definition result_ok :: string where "result_ok = ''result=ok''"

section \<open>token\<close>

record token_env_options =
  te_save_path :: string
  te_env_key :: string
  te_from_env :: bool

definition default_token_options :: token_env_options where
  "default_token_options = \<lparr>te_save_path = [], te_env_key = ''GUDA_ADMIN_TOKEN'', te_from_env = False\<rparr>"

fun token_flags :: "token_env_options \<Rightarrow> string list \<Rightarrow> cli_note + token_env_options" where
  "token_flags opts [] = Inr opts"
| "token_flags opts (f # r) =
     (if f = ''--from-env'' then token_flags (opts\<lparr>te_from_env := True\<rparr>) r
      else if f = ''--save-env'' then
        (case r of
           [] \<Rightarrow> Inl (Note ''token --save-env requires PATH'')
         | p # r' \<Rightarrow> if trim_space p = [] then Inl (Note ''token --save-env requires PATH'')
                     else token_flags (opts\<lparr>te_save_path := p\<rparr>) r')
      else if f = ''--env-key'' then
        (case r of
           [] \<Rightarrow> Inl (Note ''token --env-key requires NAME'')
         | n # r' \<Rightarrow> if trim_space n = [] then Inl (Note ''token --env-key requires NAME'')
                     else token_flags (opts\<lparr>te_env_key := trim_space n\<rparr>) r')
      else Inl (Unknown ''token flag'' f))"

definition parse_token_env_options :: "string list \<Rightarrow> cli_note + token_env_options" where
  "parse_token_env_options flags = token_flags default_token_options flags"

text \<open>The permissions 0600.\<close>

definition private_mode :: nat where "private_mode = 6 * 8 * 8"

text \<open>The files are the caller's: their directory can be made and they can be written.\<close>

definition write_env_binding ::
  "string \<Rightarrow> string \<Rightarrow> string \<Rightarrow> (string \<Rightarrow> cli_file option) \<Rightarrow> string + (string \<Rightarrow> cli_file option)" where
  "write_env_binding path key val files =
     (if trim_space key = [] then Inl ''env key is empty''
      else (let existing = (case files path of None \<Rightarrow> [] | Some f \<Rightarrow> cf_text f)
            in Inr (files(path \<mapsto> \<lparr>cf_text = env_binding existing key val, cf_mode = private_mode\<rparr>))))"

definition write_admin_token ::
  "cli_env \<Rightarrow> string \<Rightarrow> token_env_options \<Rightarrow> cli_world \<Rightarrow> cli_result \<times> cli_world" where
  "write_admin_token env raw opts w =
     (let fail = (\<lambda>e. (\<lparr>cx_code = exit_error, cx_out = [Line raw], cx_err = [Failed ''save env'' (OfText e)]\<rparr>, w)) in
      if te_save_path opts = [] then succeed [Line raw] w
      else (case expand_home_path (ce_home env) (te_save_path opts) of
          None \<Rightarrow> fail ''resolve home directory''
        | Some path \<Rightarrow>
            (case write_env_binding path (te_env_key opts) raw (cw_files w) of
               Inl e \<Rightarrow> fail e
             | Inr files \<Rightarrow>
                 (\<lparr>cx_code = exit_ok, cx_out = [Line raw],
                   cx_err = [Note (''saved '' @ te_env_key opts @ '' to '' @ path)]\<rparr>, w\<lparr>cw_files := files\<rparr>))))"

definition read_token_for_verify :: "cli_env \<Rightarrow> string list \<Rightarrow> read_error + string" where
  "read_token_for_verify env flags =
     (let from_flag = flag_text flags ''--token'' in
      if from_flag \<noteq> [] then Inr (trim_space from_flag)
      else (case read_line (ce_stdin env) of
          Inl LineTooLong \<Rightarrow> Inl LineTooLong
        | Inl EndOfInput \<Rightarrow> Inr []
        | Inr s \<Rightarrow> Inr (trim_space s)))"

text \<open>The secret of the environment variable is used as it is trimmed.\<close>

definition env_secret :: "cli_env \<Rightarrow> token_env_options \<Rightarrow> string" where
  "env_secret env opts = trim_space (ce_getenv env (te_env_key opts))"

definition invalid_env :: "string \<Rightarrow> string \<Rightarrow> string \<Rightarrow> cli_note" where
  "invalid_env what key hint = Note (what @ '': invalid '' @ key @ hint)"

definition secret_hint :: string where
  "secret_hint = '' (need gat_'' @ [CHR 0xE2, CHR 0x80, CHR 0xA6] @ '' or 16'' @ [CHR 0xE2, CHR 0x80, CHR 0x93]
     @ ''128 printable chars)''"

definition store_token ::
  "cli_env \<Rightarrow> string \<Rightarrow> string \<Rightarrow> token_env_options \<Rightarrow> auth_db \<Rightarrow> cli_world \<Rightarrow> cli_result \<times> cli_world" where
  "store_token env action raw opts auth w =
     write_admin_token env raw opts
       (set_db (record_cli_audit env action ''admin_token'' [] result_ok ((cw_db w)\<lparr>gw_auth := auth\<rparr>)) w)"

definition token_init :: "cli_env \<Rightarrow> token_env_options \<Rightarrow> cli_world \<Rightarrow> cli_result \<times> cli_world" where
  "token_init env opts w =
     (let raw = env_secret env opts; auth = gw_auth (cw_db w) in
      if te_from_env opts then
        (if raw = [] then give_up (Note (''token init --from-env: '' @ te_env_key opts @ '' is empty'')) w
         else (case init_from_raw (ce_crypto env) (ce_clock env 1) raw auth of
             Inl e \<Rightarrow> give_up (if e = ErrTokenAlreadySet then Note ''admin token already initialized''
                 else if e = ErrInvalidToken then invalid_env ''token init --from-env'' (te_env_key opts) secret_hint
                 else Failed ''token init'' (OfAuth e)) w
           | Inr auth' \<Rightarrow> store_token env ''admin_token.init'' raw opts auth' w))
      else (case init_token (ce_crypto env) (ce_random env) (ce_clock env 1) auth of
          Inl e \<Rightarrow> give_up (if e = ErrTokenAlreadySet then Note ''admin token already initialized''
              else Failed ''token init'' (OfAuth e)) w
        | Inr (tok, auth') \<Rightarrow> store_token env ''admin_token.init'' tok opts auth' w))"

definition default_save_path :: string where
  "default_save_path = ''/var/lib/code-guda-gateway/admin-credentials.env''"

definition token_sync_env :: "cli_env \<Rightarrow> token_env_options \<Rightarrow> cli_world \<Rightarrow> cli_result \<times> cli_world" where
  "token_sync_env env opts w =
     (let raw = env_secret env opts in
      if raw = [] then give_up (Note (''token sync-env: '' @ te_env_key opts @ '' is empty'')) w
      else (case set_from_raw (ce_crypto env) (ce_clock env 1) raw (gw_auth (cw_db w)) of
          Inl e \<Rightarrow> give_up (if e = ErrInvalidToken then invalid_env ''token sync-env'' (te_env_key opts) secret_hint
              else Failed ''token sync-env'' (OfAuth e)) w
        | Inr auth' \<Rightarrow>
            store_token env ''admin_token.sync_env'' raw
              (if te_save_path opts = [] then opts\<lparr>te_save_path := default_save_path\<rparr> else opts) auth' w))"

definition token_rotate :: "cli_env \<Rightarrow> token_env_options \<Rightarrow> cli_world \<Rightarrow> cli_result \<times> cli_world" where
  "token_rotate env opts w =
     (let raw = env_secret env opts; auth = gw_auth (cw_db w) in
      if te_from_env opts then
        (if raw = [] then give_up (Note (''token rotate --from-env: '' @ te_env_key opts @ '' is empty'')) w
         else (case set_from_raw (ce_crypto env) (ce_clock env 1) raw auth of
             Inl e \<Rightarrow> give_up (if e = ErrInvalidToken then invalid_env ''token rotate --from-env'' (te_env_key opts) []
                 else Failed ''token rotate'' (OfAuth e)) w
           | Inr auth' \<Rightarrow> store_token env ''admin_token.rotate'' raw opts auth' w))
      else (case rotate_token (ce_crypto env) (ce_random env) (ce_clock env 1) auth of
          Inl e \<Rightarrow> give_up (Failed ''token rotate'' (OfAuth e)) w
        | Inr (tok, auth') \<Rightarrow> store_token env ''admin_token.rotate'' tok opts auth' w))"

definition token_verify :: "cli_env \<Rightarrow> string list \<Rightarrow> cli_world \<Rightarrow> cli_result \<times> cli_world" where
  "token_verify env flags w =
     (case read_token_for_verify env flags of
        Inl _ \<Rightarrow> misuse (Failed [] line_too_long) w
      | Inr raw \<Rightarrow>
          succeed [Line (if verify_token (ce_crypto env) raw (gw_auth (cw_db w)) then ''valid'' else ''invalid'')] w)"

definition with_token_options ::
  "string list \<Rightarrow> (token_env_options \<Rightarrow> cli_world \<Rightarrow> cli_result \<times> cli_world) \<Rightarrow> cli_world \<Rightarrow> cli_result \<times> cli_world" where
  "with_token_options flags k w =
     (case parse_token_env_options flags of Inl n \<Rightarrow> misuse n w | Inr opts \<Rightarrow> k opts w)"

definition token_usage :: string where
  "token_usage = ''usage: token init|sync-env|rotate [--from-env] [--save-env PATH] [--env-key NAME] | token verify [--token TOKEN]''"

definition cmd_token :: cli_command where
  "cmd_token env args w =
     (case args of
        [] \<Rightarrow> misuse (Note token_usage) w
      | sub # flags \<Rightarrow>
          open_store ''open db'' env w
            (if sub = ''init'' then with_token_options flags (token_init env)
             else if sub = ''sync-env'' then with_token_options flags (token_sync_env env)
             else if sub = ''rotate'' then with_token_options flags (token_rotate env)
             else if sub = ''verify'' then token_verify env flags
             else misuse (Unknown ''token subcommand'' sub)))"

end
