(* ===== verification/CliCommands.thy ===== *)
theory CliCommands
  imports Cli
begin

text \<open>
  cmd/guda-gateway-admin/commands.go: the commands on gateway keys, provider keys and endpoints, the
  grok settings and the audit log, and their dispatch.
\<close>

section \<open>gateway-key\<close>

definition text_of :: "string option \<Rightarrow> string" where
  "text_of s = (case s of None \<Rightarrow> [] | Some x \<Rightarrow> x)"

definition bool_text :: "bool \<Rightarrow> string" where
  "bool_text b = (if b then ''true'' else ''false'')"

definition gateway_key_create :: cli_command where
  "gateway_key_create env args w =
     (let key_name = flag_text args ''--name''; db = cw_db w in
      if key_name = [] then misuse (Note ''gateway-key create requires --name'') w
      else (case create_key (ce_crypto env) (ce_random env) (ce_clock env 1) key_name (gw_keys db) of
          Inl e \<Rightarrow> give_up (Failed ''gateway-key create'' (OfGateway e)) w
        | Inr (raw, d, t) \<Rightarrow>
            succeed [Line raw]
              (set_db (record_cli_audit env ''gateway_key.create'' ''gateway_key'' (itoa (gk_id d))
                 (''name='' @ key_name @ '';'' @ result_ok) (set_gw_keys t db)) w)))"

definition gateway_key_cells :: "gateway_key_display \<Rightarrow> string list" where
  "gateway_key_cells k =
     [itoa (gk_id k), gk_name k, gk_prefix k, gk_fingerprint k, bool_text (gk_enabled k), gk_created_at k,
      text_of (gk_last_used_at k)]"

definition gateway_key_list :: cli_command where
  "gateway_key_list env args w =
     succeed [Cells ([''ID'', ''NAME'', ''PREFIX'', ''FINGERPRINT'', ''ENABLED'', ''CREATED_AT'', ''LAST_USED_AT'']
       # map gateway_key_cells (list_gateway_keys (gw_keys (cw_db w))))] w"

definition gateway_key_actions :: "(string \<times> (instant \<Rightarrow> rowid \<Rightarrow> gateway_table \<Rightarrow> gateway_table)) list" where
  "gateway_key_actions =
     [(''disable'', \<lambda>_. disable_gateway_key), (''enable'', \<lambda>_. enable_gateway_key), (''revoke'', revoke_gateway_key),
      (''delete'', \<lambda>_. delete_gateway_key)]"

definition gateway_key_act ::
  "string \<Rightarrow> (instant \<Rightarrow> rowid \<Rightarrow> gateway_table \<Rightarrow> gateway_table) \<Rightarrow> cli_command" where
  "gateway_key_act sub act env args w =
     (case flag_int64 args ''--id'' of
        None \<Rightarrow> misuse (Note (''gateway-key '' @ sub @ '' requires --id'')) w
      | Some i \<Rightarrow>
          succeed []
            (set_db (record_cli_audit env (''gateway_key.'' @ sub) ''gateway_key'' (itoa i) result_ok
               (set_gw_keys (act (ce_clock env 1) i (gw_keys (cw_db w))) (cw_db w))) w))"

definition cmd_gateway_key :: cli_command where
  "cmd_gateway_key env args w =
     (case args of
        [] \<Rightarrow> misuse (Note ''usage: gateway-key create|list|disable|enable|revoke|delete'') w
      | sub # flags \<Rightarrow>
          open_store ''open db'' env w
            (if sub = ''create'' then gateway_key_create env flags
             else if sub = ''list'' then gateway_key_list env flags
             else (case map_of gateway_key_actions sub of
                 Some act \<Rightarrow> gateway_key_act sub act env flags
               | None \<Rightarrow> misuse (Unknown ''gateway-key subcommand'' sub))))"

section \<open>What provider keys and endpoints share\<close>

definition provider_key_actions ::
  "(string \<times> (instant \<Rightarrow> rowid \<Rightarrow> key_table \<Rightarrow> provider_error + key_table)) list" where
  "provider_key_actions =
     [(''disable'', \<lambda>now i t. Inr (disable_key now i t)), (''enable'', \<lambda>now i t. Inr (enable_key now i t)),
      (''archive'', archive_key), (''restore'', restore_archived), (''reset-cooldown'', reset_cooldown),
      (''reset-selection'', reset_selection), (''demote'', demote_to_end), (''delete'', \<lambda>_ i t. Inr (delete_key i t))]"

definition underscored :: "string \<Rightarrow> string" where
  "underscored = map (\<lambda>c. if c = CHR ''-'' then CHR ''_'' else c)"

text \<open>\<open>label\<close> is the command, \<open>kind\<close> the target kind of its audit events.\<close>

definition provider_key_act ::
  "string \<Rightarrow> string \<Rightarrow> string \<Rightarrow> (instant \<Rightarrow> rowid \<Rightarrow> key_table \<Rightarrow> provider_error + key_table) \<Rightarrow> cli_command" where
  "provider_key_act label kind sub act env args w =
     (case flag_int64 args ''--id'' of
        None \<Rightarrow> misuse (Note (label @ '' '' @ sub @ '' requires --id'')) w
      | Some i \<Rightarrow>
          (case act (ce_clock env 1) i (gw_provider_keys (cw_db w)) of
             Inl e \<Rightarrow> give_up (Failed (label @ '' '' @ sub) (OfProvider e)) w
           | Inr t \<Rightarrow>
               succeed []
                 (set_db (record_cli_audit env (kind @ ''.'' @ underscored sub) kind (itoa i) result_ok
                    ((cw_db w)\<lparr>gw_provider_keys := t\<rparr>)) w)))"

definition failed_provider :: "string \<Rightarrow> provider_error \<Rightarrow> cli_world \<Rightarrow> cli_result \<times> cli_world" where
  "failed_provider what e w = give_up (Failed what (OfProvider e)) w"

text \<open>
  The commands that change an endpoint read its row before the change and again after it; the
  events and the lines they print show the first row's name and the second one's values.
\<close>

definition change_endpoint ::
  "string \<Rightarrow> string \<Rightarrow> cli_env \<Rightarrow> rowid \<Rightarrow> (key_table \<Rightarrow> provider_error + key_table) \<Rightarrow>
   (display_key \<Rightarrow> string) \<Rightarrow> (display_key \<Rightarrow> display_key \<Rightarrow> string) \<Rightarrow> cli_world \<Rightarrow> cli_result \<times> cli_world" where
  "change_endpoint what action env i change line detail w =
     (let db = cw_db w; t = gw_provider_keys db in
      case get_key i t of
        Inl e \<Rightarrow> failed_provider what e w
      | Inr row \<Rightarrow>
          (case change t of
             Inl e \<Rightarrow> failed_provider what e w
           | Inr t' \<Rightarrow>
               (let db' = db\<lparr>gw_provider_keys := t'\<rparr> in
                case get_key i t' of
                  Inl e \<Rightarrow> failed_provider what e (set_db db' w)
                | Inr updated \<Rightarrow>
                    succeed [Line (line updated)]
                      (set_db (record_cli_audit env action ''provider_endpoint'' (itoa i) (detail row updated) db') w))))"

section \<open>provider-key\<close>

definition provider_key_add :: "key_env \<Rightarrow> cli_command" where
  "provider_key_add kenv env args w =
     (let provider = flag_text args ''--provider''; key_name = flag_text args ''--name''; db = cw_db w in
      if provider = [] \<or> key_name = [] then misuse (Note ''provider-key add requires --provider and --name'') w
      else (case read_secret ''empty provider key'' ''read provider key from stdin'' env of
          Inl stop \<Rightarrow> stop w
        | Inr raw \<Rightarrow>
            (case add_key (gw_settings db) kenv (ce_nonce env 0) (ce_nonce env 1) (ce_clock env 1) provider key_name raw
                    (gw_provider_keys db) of
               Inl e \<Rightarrow> failed_provider ''provider-key add'' e w
             | Inr (d, t) \<Rightarrow>
                 succeed [Line (''id='' @ itoa (pk_id d) @ '' provider='' @ pk_provider d @ '' name='' @ pk_name d
                     @ '' prefix='' @ pk_key_prefix d @ '' fingerprint='' @ pk_fingerprint d)]
                   (set_db (record_cli_audit env ''provider_key.add'' ''provider_key'' (itoa (pk_id d))
                      (''provider='' @ provider @ '';name='' @ key_name @ '';'' @ result_ok) (db\<lparr>gw_provider_keys := t\<rparr>)) w))))"

definition provider_key_cells :: "display_key \<Rightarrow> string list" where
  "provider_key_cells k =
     [itoa (pk_id k), pk_provider k, pk_name k, pk_key_prefix k, pk_fingerprint k, bool_text (pk_enabled k),
      text_of (pk_cooldown_until k)]"

definition list_table ::
  "string \<Rightarrow> string list \<Rightarrow> (display_key \<Rightarrow> string list) \<Rightarrow> cli_world \<Rightarrow> cli_result \<times> cli_world" where
  "list_table what header cells w =
     (case list_all_keys (gw_provider_keys (cw_db w)) of
        Inl e \<Rightarrow> failed_provider what e w
      | Inr ks \<Rightarrow> succeed [Cells (header # map cells ks)] w)"

definition provider_key_list :: "cli_world \<Rightarrow> cli_result \<times> cli_world" where
  "provider_key_list =
     list_table ''provider-key list''
       [''ID'', ''PROVIDER'', ''NAME'', ''PREFIX'', ''FINGERPRINT'', ''ENABLED'', ''COOLDOWN_UNTIL''] provider_key_cells"

definition provider_key_usage :: string where
  "provider_key_usage =
     ''usage: provider-key add|list|disable|enable|archive|restore|reset-cooldown|reset-selection|demote|delete''"

definition cmd_provider_key :: cli_command where
  "cmd_provider_key env args w =
     (case args of
        [] \<Rightarrow> misuse (Note provider_key_usage) w
      | sub # flags \<Rightarrow>
          with_master env w (\<lambda>kenv w. open_store ''open db'' env w
            (if sub = ''add'' then provider_key_add kenv env flags
             else if sub = ''list'' then provider_key_list
             else (case map_of provider_key_actions sub of
                 Some act \<Rightarrow> provider_key_act ''provider-key'' ''provider_key'' sub act env flags
               | None \<Rightarrow> misuse (Unknown ''provider-key subcommand'' sub)))))"

section \<open>provider-endpoint\<close>

text \<open>The quota input of \<open>add\<close>, if a quota flag is given; \<open>Inl\<close> ends the command.\<close>

definition quota_flags ::
  "string \<Rightarrow> string list \<Rightarrow> cli_world \<Rightarrow> (cli_world \<Rightarrow> cli_result \<times> cli_world) + endpoint_quota_input option" where
  "quota_flags provider args w =
     (let mode_flag = flag_value args ''--quota-mode''; flow_flag = flag_value args ''--quota-flow'';
          url = trim_space (flag_text args ''--quota-base-url''); key_file = flag_value args ''--quota-key-file'' in
      if mode_flag = None \<and> flow_flag = None \<and> url = [] \<and> key_file = None then Inr None
      else (case (if mode_flag = None \<or> flow_flag = None then default_quota_config provider else Inr ([], [])) of
          Inl e \<Rightarrow> Inl (failed_provider ''provider-endpoint add'' e)
        | Inr (def_mode, def_flow) \<Rightarrow>
            (let mode = (case mode_flag of None \<Rightarrow> def_mode | Some m \<Rightarrow> trim_space m);
                 flow = (case flow_flag of None \<Rightarrow> def_flow | Some f \<Rightarrow> trim_space f);
                 input = \<lparr>qi_mode = mode, qi_flow = flow, qi_base_url = url, qi_raw_key = []\<rparr> in
             if mode = quota_separate_credentials then
               (if trim_space (text_of key_file) = [] then
                  Inl (misuse (Note ''provider-endpoint add with separate_credentials requires --quota-key-file PATH''))
                else (case read_secret_file (text_of key_file) w of
                    Inl e \<Rightarrow> Inl (give_up (Failed ''provider-endpoint add: read --quota-key-file'' (OfText e)))
                  | Inr q \<Rightarrow> Inr (Some (input\<lparr>qi_raw_key := q\<rparr>))))
             else if key_file \<noteq> None then
               Inl (misuse (Note ''provider-endpoint add: --quota-key-file is only valid with --quota-mode separate_credentials''))
             else Inr (Some input))))"

definition quota_line :: "display_key \<Rightarrow> string" where
  "quota_line d =
     '' quota_mode='' @ pk_quota_mode d @ '' quota_flow='' @ pk_quota_flow d
     @ (case pk_quota_base_url d of None \<Rightarrow> [] | Some u \<Rightarrow> '' quota_base_url='' @ u)
     @ '' quota_key_configured='' @ bool_text (dk_quota_key_configured d)"

definition named :: "display_key \<Rightarrow> string" where
  "named row = ''provider='' @ pk_provider row @ '';name='' @ pk_name row"

definition endpoint_add :: "key_env \<Rightarrow> cli_command" where
  "endpoint_add kenv env args w =
     (let provider = flag_text args ''--provider''; key_name = flag_text args ''--name'';
          url = flag_text args ''--base-url''; db = cw_db w; t = gw_provider_keys db in
      if provider = [] \<or> key_name = [] \<or> trim_space url = [] then
        misuse (Note ''provider-endpoint add requires --provider, --name, and --base-url'') w
      else (case read_secret ''empty provider key'' ''read provider key from stdin'' env of
          Inl stop \<Rightarrow> stop w
        | Inr raw \<Rightarrow>
            (case quota_flags provider args w of
               Inl stop \<Rightarrow> stop w
             | Inr quota \<Rightarrow>
                 (case (case quota of
                          Some q \<Rightarrow> add_endpoint_with_quota kenv (ce_nonce env 0) (ce_nonce env 1) (ce_clock env 1)
                                      provider key_name url raw q t
                        | None \<Rightarrow> add_endpoint kenv (ce_nonce env 0) (ce_nonce env 1) (ce_clock env 1)
                                      provider key_name url raw t) of
                    Inl e \<Rightarrow> failed_provider ''provider-endpoint add'' e w
                  | Inr (d, t') \<Rightarrow>
                      succeed [Line (''id='' @ itoa (pk_id d) @ '' provider='' @ pk_provider d @ '' name='' @ pk_name d
                          @ '' base_url='' @ pk_base_url d @ '' prefix='' @ pk_key_prefix d @ '' fingerprint='' @ pk_fingerprint d
                          @ quota_line d)]
                        (set_db (record_cli_audit env ''provider_endpoint.add'' ''provider_endpoint'' (itoa (pk_id d))
                           (''provider='' @ provider @ '';name='' @ key_name @ '';base_url='' @ pk_base_url d @ '';quota_mode=''
                            @ pk_quota_mode d @ '';quota_flow='' @ pk_quota_flow d @ '';'' @ result_ok)
                           (db\<lparr>gw_provider_keys := t'\<rparr>)) w)))))"

definition endpoint_cells :: "display_key \<Rightarrow> string list" where
  "endpoint_cells k =
     [itoa (pk_id k), pk_provider k, pk_name k, pk_base_url k, pk_key_prefix k, pk_fingerprint k, bool_text (pk_enabled k),
      text_of (pk_cooldown_until k), pk_quota_mode k, pk_quota_flow k, text_of (pk_quota_base_url k),
      bool_text (dk_quota_key_configured k), text_of (pk_quota_key_prefix k), text_of (pk_quota_key_fingerprint k)]"

definition endpoint_list :: "cli_world \<Rightarrow> cli_result \<times> cli_world" where
  "endpoint_list =
     list_table ''provider-endpoint list''
       [''ID'', ''PROVIDER'', ''NAME'', ''BASE_URL'', ''PREFIX'', ''FINGERPRINT'', ''ENABLED'', ''COOLDOWN_UNTIL'', ''QUOTA_MODE'',
        ''QUOTA_FLOW'', ''QUOTA_BASE_URL'', ''QUOTA_CONFIGURED'', ''QUOTA_PREFIX'', ''QUOTA_FINGERPRINT''] endpoint_cells"

definition endpoint_set_base_url :: cli_command where
  "endpoint_set_base_url env args w =
     (let url = flag_text args ''--url'' in
      case flag_int64 args ''--id'' of
        None \<Rightarrow> misuse (Note ''provider-endpoint set-base-url requires --id and --url'') w
      | Some i \<Rightarrow>
          if trim_space url = [] then misuse (Note ''provider-endpoint set-base-url requires --id and --url'') w
          else change_endpoint ''provider-endpoint set-base-url'' ''provider_endpoint.update_base_url'' env i
            (update_base_url (ce_clock env 1) i url)
            (\<lambda>u. ''id='' @ itoa i @ '' base_url='' @ pk_base_url u)
            (\<lambda>row u. named row @ '';base_url='' @ pk_base_url u @ '';'' @ result_ok) w)"

definition endpoint_rotate_key :: "key_env \<Rightarrow> cli_command" where
  "endpoint_rotate_key kenv env args w =
     (case flag_int64 args ''--id'' of
        None \<Rightarrow> misuse (Note ''provider-endpoint rotate-key requires --id'') w
      | Some i \<Rightarrow>
          (case read_secret ''empty provider key'' ''read provider key from stdin'' env of
             Inl stop \<Rightarrow> stop w
           | Inr raw \<Rightarrow>
               change_endpoint ''provider-endpoint rotate-key'' ''provider_endpoint.rotate_key'' env i
                 (rotate_key kenv (ce_nonce env 0) (ce_clock env 1) i raw)
                 (\<lambda>u. ''id='' @ itoa (pk_id u) @ '' prefix='' @ pk_key_prefix u @ '' fingerprint='' @ pk_fingerprint u)
                 (\<lambda>row u. named row @ '';fingerprint='' @ pk_fingerprint u @ '';'' @ result_ok) w))"

definition endpoint_set_quota :: cli_command where
  "endpoint_set_quota env args w =
     (let mode = trim_space (flag_text args ''--mode''); flow = trim_space (flag_text args ''--flow'') in
      case flag_int64 args ''--id'' of
        None \<Rightarrow> misuse (Note ''provider-endpoint set-quota requires --id, --mode, and --flow'') w
      | Some i \<Rightarrow>
          if mode = [] \<or> flow = [] then misuse (Note ''provider-endpoint set-quota requires --id, --mode, and --flow'') w
          else change_endpoint ''provider-endpoint set-quota'' ''provider_endpoint.update_quota'' env i
            (update_endpoint_quota (ce_clock env 1) i
               \<lparr>qi_mode = mode, qi_flow = flow, qi_base_url = trim_space (flag_text args ''--base-url''), qi_raw_key = []\<rparr>)
            (\<lambda>u. ''id='' @ itoa (pk_id u) @ quota_line u)
            (\<lambda>row u. named row @ '';quota_mode='' @ pk_quota_mode u @ '';quota_flow='' @ pk_quota_flow u @ '';'' @ result_ok
               @ (case pk_quota_base_url u of None \<Rightarrow> [] | Some url \<Rightarrow> '';quota_base_url='' @ url)) w)"

definition endpoint_rotate_quota_key :: "key_env \<Rightarrow> cli_command" where
  "endpoint_rotate_quota_key kenv env args w =
     (case flag_int64 args ''--id'' of
        None \<Rightarrow> misuse (Note ''provider-endpoint rotate-quota-key requires --id'') w
      | Some i \<Rightarrow>
          (case read_secret ''empty quota key'' ''read quota key from stdin'' env of
             Inl stop \<Rightarrow> stop w
           | Inr raw \<Rightarrow>
               change_endpoint ''provider-endpoint rotate-quota-key'' ''provider_endpoint.rotate_quota_key'' env i
                 (rotate_endpoint_quota_key kenv (ce_nonce env 0) (ce_clock env 1) i raw)
                 (\<lambda>u. ''id='' @ itoa (pk_id u) @ '' quota_key_prefix='' @ text_of (pk_quota_key_prefix u)
                    @ '' quota_key_fingerprint='' @ text_of (pk_quota_key_fingerprint u)
                    @ '' quota_key_configured='' @ bool_text (dk_quota_key_configured u))
                 (\<lambda>row u. named row @ '';quota_fingerprint='' @ text_of (pk_quota_key_fingerprint u) @ '';'' @ result_ok) w))"

definition endpoint_usage :: string where
  "endpoint_usage =
     ''usage: provider-endpoint add|list|set-base-url|rotate-key|set-quota|rotate-quota-key|disable|enable|archive|restore|reset-cooldown|reset-selection|demote|delete''"

definition cmd_provider_endpoint :: cli_command where
  "cmd_provider_endpoint env args w =
     (case args of
        [] \<Rightarrow> misuse (Note endpoint_usage) w
      | sub # flags \<Rightarrow>
          with_master env w (\<lambda>kenv w. open_store ''open db'' env w
            (if sub = ''add'' then endpoint_add kenv env flags
             else if sub = ''list'' then endpoint_list
             else if sub = ''set-base-url'' then endpoint_set_base_url env flags
             else if sub = ''rotate-key'' then endpoint_rotate_key kenv env flags
             else if sub = ''set-quota'' then endpoint_set_quota env flags
             else if sub = ''rotate-quota-key'' then endpoint_rotate_quota_key kenv env flags
             else (case map_of provider_key_actions sub of
                 Some act \<Rightarrow> provider_key_act ''provider-endpoint'' ''provider_endpoint'' sub act env flags
               | None \<Rightarrow> misuse (Unknown ''provider-endpoint subcommand'' sub)))))"

section \<open>grok\<close>

definition print_line :: "string \<Rightarrow> cli_world \<Rightarrow> cli_result \<times> cli_world" where
  "print_line s w = succeed [Line s] w"

text \<open>A setting that was stored, with the lines to print and the event that names its key.\<close>

definition store_setting ::
  "cli_env \<Rightarrow> string \<Rightarrow> string \<Rightarrow> string \<Rightarrow> string \<Rightarrow> cli_line list \<Rightarrow> settings_db \<Rightarrow> cli_world \<Rightarrow> cli_result \<times> cli_world" where
  "store_setting env action kind key detail out s w =
     succeed out (set_db (record_cli_audit env action kind key detail (set_gw_settings s (cw_db w))) w)"

definition grok_set_base_url :: cli_command where
  "grok_set_base_url env args w =
     (case args of
        [] \<Rightarrow> misuse (Note ''grok set-base-url requires <url>'') w
      | a # _ \<Rightarrow>
          (case set_base_url (ce_clock env 1) provider_grok (trim_space a) (gw_settings (cw_db w)) of
             Inl e \<Rightarrow> failed_provider ''grok set-base-url'' e w
           | Inr s \<Rightarrow> store_setting env ''provider_setting.update'' ''provider_setting'' provider_grok
               (''provider=grok;'' @ result_ok) [] s w))"

definition grok_get_base_url :: "cli_world \<Rightarrow> cli_result \<times> cli_world" where
  "grok_get_base_url w =
     (case get_base_url (gw_settings (cw_db w)) provider_grok of
        Inl e \<Rightarrow> failed_provider ''grok get-base-url'' e w
      | Inr url \<Rightarrow> print_line url w)"

definition grok_set_quota_mode :: cli_command where
  "grok_set_quota_mode env args w =
     (case args of
        [] \<Rightarrow> misuse (Note ''grok set-quota-mode requires <unsupported|grok2api_admin>'') w
      | a # _ \<Rightarrow>
          (case set_grok_quota_mode (ce_clock env 1) (trim_space a) (gw_settings (cw_db w)) of
             Inl e \<Rightarrow> failed_provider ''grok set-quota-mode'' e w
           | Inr s \<Rightarrow> store_setting env ''setting.update'' ''setting'' ''grok_quota_mode''
               (''value='' @ trim_space a @ '';'' @ result_ok) [] s w))"

definition grok_set_admin_base_url :: cli_command where
  "grok_set_admin_base_url env args w =
     (case args of
        [] \<Rightarrow> misuse (Note ''grok set-admin-base-url requires <url>'') w
      | a # _ \<Rightarrow>
          store_setting env ''setting.update'' ''setting'' ''grok2api_admin_base_url''
            (''value='' @ trim_space a @ '';'' @ result_ok) []
            (set_grok2api_admin_base_url (ce_clock env 1) (trim_space a) (gw_settings (cw_db w))) w)"

text \<open>An empty line clears the key, no line at all is an error.\<close>

definition grok_set_admin_key :: "cli_env \<Rightarrow> cli_world \<Rightarrow> cli_result \<times> cli_world" where
  "grok_set_admin_key env w0 =
     with_master env w0 (\<lambda>kenv w.
       (case read_line (ce_stdin env) of
          Inl EndOfInput \<Rightarrow> misuse (Note ''empty admin key'') w
        | Inl LineTooLong \<Rightarrow> give_up (Failed ''read admin key from stdin'' line_too_long) w
        | Inr line \<Rightarrow>
            (case set_grok2api_admin_key (ke_crypto kenv) (ke_master kenv) (ce_nonce env 0) (ce_clock env 1)
                    (trim_space line) (gw_settings (cw_db w)) of
               Inl e \<Rightarrow> failed_provider ''grok set-admin-key'' e w
             | Inr s \<Rightarrow> store_setting env ''setting.update'' ''setting'' ''grok2api_admin_key_encrypted'' result_ok
                 [Line ''grok2api admin key updated successfully''] s w)))"

definition grok_usage :: string where
  "grok_usage =
     ''usage: grok set-base-url|get-base-url|set-quota-mode|get-quota-mode|set-admin-base-url|get-admin-base-url|set-admin-key''"

definition grok_deprecation :: string where
  "grok_deprecation =
     ''note: global Grok quota settings (set-quota-mode, set-admin-base-url, set-admin-key) are deprecated through v0.4.x; prefer provider-endpoint set-quota / rotate-quota-key''"

definition cmd_grok :: cli_command where
  "cmd_grok env args w =
     (case args of
        [] \<Rightarrow> (\<lparr>cx_code = exit_usage, cx_out = [], cx_err = [Note grok_usage, Note grok_deprecation]\<rparr>, w)
      | sub # rest \<Rightarrow>
          open_store ''open db'' env w
            (if sub = ''set-base-url'' then grok_set_base_url env rest
             else if sub = ''get-base-url'' then grok_get_base_url
             else if sub = ''set-quota-mode'' then grok_set_quota_mode env rest
             else if sub = ''get-quota-mode'' then (\<lambda>w. print_line (get_grok_quota_mode (gw_settings (cw_db w))) w)
             else if sub = ''set-admin-base-url'' then grok_set_admin_base_url env rest
             else if sub = ''get-admin-base-url'' then (\<lambda>w. print_line (get_grok2api_admin_base_url (gw_settings (cw_db w))) w)
             else if sub = ''set-admin-key'' then grok_set_admin_key env
             else misuse (Unknown ''grok subcommand'' sub)))"

section \<open>audit and db\<close>

fun tail_limit :: "string list \<Rightarrow> int option" where
  "tail_limit (f # v # r) =
     (if f = ''--limit'' then (case parse_int64 v of None \<Rightarrow> None | Some n \<Rightarrow> if n < 1 then None else Some n)
      else tail_limit (v # r))"
| "tail_limit _ = Some 50"

definition audit_cells :: "stored_event \<Rightarrow> string list" where
  "audit_cells e =
     [itoa (av_id e), av_occurred_at e,
      av_actor_kind e @ (case av_actor_id e of None \<Rightarrow> [] | Some i \<Rightarrow> '':'' @ i), av_action e,
      (case av_target_kind e of
         None \<Rightarrow> [] | Some k \<Rightarrow> k @ (case av_target_id e of None \<Rightarrow> [] | Some i \<Rightarrow> ''/'' @ i)), av_detail e]"

definition cmd_audit :: cli_command where
  "cmd_audit env args w =
     (if args = [] \<or> hd args \<noteq> ''tail'' then misuse (Note ''usage: audit tail [--limit N]'') w
      else (case tail_limit (tl args) of
          None \<Rightarrow> misuse (Note ''invalid --limit'') w
        | Some n \<Rightarrow>
            open_store ''open db'' env w (\<lambda>w.
              (case audit_list_recent n (gw_audit (cw_db w)) of
                 Inl e \<Rightarrow> give_up (Failed ''audit tail'' (OfText e)) w
               | Inr es \<Rightarrow>
                   succeed [Cells ([''ID'', ''OCCURRED_AT'', ''ACTOR'', ''ACTION'', ''TARGET'', ''DETAIL''] # map audit_cells es)] w))))"

definition cmd_db :: cli_command where
  "cmd_db env args w =
     (if args = [] \<or> hd args \<noteq> ''migrate'' then misuse (Note ''usage: db migrate'') w
      else open_store ''db migrate'' env w (\<lambda>w.
        succeed [Line ''migrations applied'']
          (set_db (record_cli_audit env ''db.migrate'' ''db'' [] result_ok (cw_db w)) w)))"

section \<open>Dispatch\<close>

definition cli_commands :: "(string \<times> cli_command) list" where
  "cli_commands =
     [(''token'', cmd_token), (''gateway-key'', cmd_gateway_key), (''provider-key'', cmd_provider_key),
      (''provider-endpoint'', cmd_provider_endpoint), (''grok'', cmd_grok), (''audit'', cmd_audit), (''db'', cmd_db)]"

definition cli_dispatch :: cli_command where
  "cli_dispatch env args w =
     (case args of
        [] \<Rightarrow> misuse UsageText w
      | c # rest \<Rightarrow>
          (case map_of cli_commands c of
             Some cmd \<Rightarrow> cmd env rest w
           | None \<Rightarrow>
               if c = ''help'' \<or> c = ''-h'' \<or> c = ''--help'' then
                 (\<lparr>cx_code = exit_ok, cx_out = [], cx_err = [UsageText]\<rparr>, w)
               else (\<lparr>cx_code = exit_usage, cx_out = [], cx_err = [Unknown ''command'' c, UsageText]\<rparr>, w)))"

end
