(* ===== verification/CliLaws.thy ===== *)
theory CliLaws
  imports CliCommands SystemLaws
begin

text \<open>
  What a command does to the database, in terms of the components, and the runs of the whole system:
  requests of the server and commands of the administrator in any order on one database.
\<close>

section \<open>The world a command leaves\<close>

lemma outcome_simps [simp]:
  "snd (succeed out w) = w" "snd (misuse n w) = w" "snd (give_up n w) = w" "snd (failed_provider what e w) = w"
  "cx_code (fst (succeed out w)) = exit_ok" "cx_code (fst (misuse n w)) = exit_usage"
  "cx_code (fst (give_up n w)) = exit_error" "cx_code (fst (failed_provider what e w)) = exit_error"
  by (simp_all add: succeed_def misuse_def give_up_def failed_provider_def)

lemma set_db_simps [simp]:
  "cw_db (set_db db w) = db" "cw_files (set_db db w) = cw_files w" "cw_master (set_db db w) = cw_master w"
  by (simp_all add: set_db_def)

lemma exit_codes [simp]: "exit_ok \<noteq> exit_usage" "exit_error \<noteq> exit_usage" "exit_ok \<noteq> exit_error"
  by (simp_all add: exit_ok_def exit_error_def exit_usage_def)

lemma write_admin_token_world [simp]:
  "cw_db (snd (write_admin_token env raw opts w)) = cw_db w"
  "cw_master (snd (write_admin_token env raw opts w)) = cw_master w"
  by (simp_all add: write_admin_token_def Let_def split: option.split sum.split)

lemma open_store_cases:
  "(ce_open_error env = None \<Longrightarrow> P (k w)) \<Longrightarrow> (\<And>n. P (give_up n w)) \<Longrightarrow> P (open_store what env w k)"
  by (simp add: open_store_def split: option.split)

lemma with_master_cases:
  "(\<And>mk file. load_or_create (ce_fresh_master env) (cw_master w) = Inr (mk, file) \<Longrightarrow>
      P (k \<lparr>ke_crypto = ce_crypto env, ke_master = mk\<rparr> (w\<lparr>cw_master := file\<rparr>)))
    \<Longrightarrow> (\<And>n. P (give_up n w)) \<Longrightarrow> P (with_master env w k)"
  by (simp add: with_master_def split: sum.split)

section \<open>Commands step the components\<close>

abbreviation cli_steps :: "cli_env \<Rightarrow> auth_service \<Rightarrow> key_env \<Rightarrow> cli_world \<Rightarrow> cli_result \<times> cli_world \<Rightarrow> bool" where
  "cli_steps env sv kenv w x \<equiv> evolves (ce_crypto env) sv kenv (cw_db w) (cw_db (snd x))"

lemma record_cli_evolves:
  "evolves cr sv kenv db x \<Longrightarrow> evolves cr sv kenv db (record_cli_audit env action kind i detail x)"
  by (simp add: record_cli_audit_def evolves_audited)

lemmas cli_intros = record_cli_evolves evolves_intros

lemma store_token_steps:
  "auth_step (ce_crypto env) sv (gw_auth (cw_db w)) a \<Longrightarrow> cli_steps env sv kenv w (store_token env action raw opts a w)"
  by (simp add: store_token_def record_cli_evolves evolves_auth)

lemma token_steps: "cli_steps env sv kenv w (cmd_token env args w)"
proof -
  have i: "cli_steps env sv kenv w (token_init env opts w)" for opts
    by (auto simp: token_init_def Let_def evolves_refl split: sum.split
        intro!: store_token_steps intro: auth_step.init auth_step.init_raw)
  have s: "cli_steps env sv kenv w (token_sync_env env opts w)" for opts
    by (auto simp: token_sync_env_def Let_def evolves_refl split: sum.split
        intro!: store_token_steps intro: auth_step.set_raw)
  have r: "cli_steps env sv kenv w (token_rotate env opts w)" for opts
    by (auto simp: token_rotate_def Let_def evolves_refl split: sum.split
        intro!: store_token_steps intro: auth_step.rotate auth_step.set_raw)
  show ?thesis
    by (auto simp: cmd_token_def open_store_def with_token_options_def token_verify_def evolves_refl i s r
        split: list.split option.split sum.split)
qed

lemma gateway_key_act_steps:
  "map_of gateway_key_actions sub = Some act \<Longrightarrow> cli_steps env sv kenv w (gateway_key_act sub act env args w)"
  by (auto simp: gateway_key_act_def gateway_key_actions_def evolves_refl
      split: option.split if_splits intro!: cli_intros intro: gateway_step.intros)

lemma gateway_key_command_steps: "cli_steps env sv kenv w (cmd_gateway_key env args w)"
proof -
  have "cli_steps env sv kenv w (gateway_key_create env flags w)" for flags
    by (auto simp: gateway_key_create_def Let_def evolves_refl create_key_def create_tx_def insert_key_def
        split: sum.split intro!: record_cli_evolves evolves_key intro: gateway_step.issue)
  then show ?thesis
    by (auto simp: cmd_gateway_key_def open_store_def gateway_key_list_def evolves_refl gateway_key_act_steps
        split: list.split option.split)
qed

lemma set_db_steps:
  "(key_history kenv (gw_provider_keys db) \<Longrightarrow> key_history kenv t) \<Longrightarrow>
   evolves cr sv kenv db (record_cli_audit env action kind i detail (db\<lparr>gw_provider_keys := t\<rparr>))"
  by (rule record_cli_evolves) (rule evolves_provider)

lemma provider_key_act_steps:
  "map_of provider_key_actions sub = Some act \<Longrightarrow>
   cli_steps env sv kenv w (provider_key_act label kind sub act env args w)"
  by (auto simp: provider_key_act_def provider_key_actions_def evolves_refl
      split: option.split sum.split if_splits intro!: set_db_steps intro: key_histories)

lemma change_endpoint_steps:
  assumes "\<And>t t'. change t = Inr t' \<Longrightarrow> key_history kenv t \<Longrightarrow> key_history kenv t'"
  shows "cli_steps env sv kenv w (change_endpoint what action env i change line detail w)"
  unfolding change_endpoint_def Let_def
  by (auto simp: evolves_refl split: sum.split intro!: set_db_steps evolves_provider intro: assms)

text \<open>What ends a command early leaves the world as it is.\<close>

lemma early_end:
  "read_secret n what env = Inl stop \<Longrightarrow> snd (stop w) = w"
  "quota_flags p args w' = Inl stop \<Longrightarrow> snd (stop w) = w"
  by (auto simp: read_secret_def quota_flags_def Let_def split: sum.splits read_error.splits if_splits)

lemma list_table_world [simp]: "snd (list_table what header cells w) = w"
  by (simp add: list_table_def split: sum.split)

lemma provider_commands_steps:
  assumes "ke_crypto kenv = ce_crypto env"
  shows "cli_steps env sv kenv w (provider_key_add kenv env args w)"
    "cli_steps env sv kenv w (endpoint_add kenv env args w)"
    "cli_steps env sv kenv w (endpoint_set_base_url env args w)"
    "cli_steps env sv kenv w (endpoint_rotate_key kenv env args w)"
    "cli_steps env sv kenv w (endpoint_set_quota env args w)"
    "cli_steps env sv kenv w (endpoint_rotate_quota_key kenv env args w)"
proof -
  show "cli_steps env sv kenv w (provider_key_add kenv env args w)"
    by (auto simp: provider_key_add_def Let_def evolves_refl early_end split: sum.split
        intro!: set_db_steps intro: key_histories)
  show "cli_steps env sv kenv w (endpoint_add kenv env args w)"
    by (auto simp: endpoint_add_def Let_def evolves_refl early_end split: sum.split option.splits
        intro!: set_db_steps intro: key_histories)
  show "cli_steps env sv kenv w (endpoint_set_base_url env args w)"
    by (auto simp: endpoint_set_base_url_def Let_def evolves_refl split: option.split
        intro!: change_endpoint_steps intro: key_history.base_url)
  show "cli_steps env sv kenv w (endpoint_rotate_key kenv env args w)"
    by (auto simp: endpoint_rotate_key_def evolves_refl early_end split: option.split sum.split
        intro!: change_endpoint_steps intro: key_history.rotate)
  show "cli_steps env sv kenv w (endpoint_set_quota env args w)"
    by (auto simp: endpoint_set_quota_def Let_def evolves_refl split: option.split
        intro!: change_endpoint_steps intro: key_history.quota)
  show "cli_steps env sv kenv w (endpoint_rotate_quota_key kenv env args w)"
    by (auto simp: endpoint_rotate_quota_key_def evolves_refl early_end split: option.split sum.split
        intro!: change_endpoint_steps intro: key_history.quota_key)
qed

lemma grok_steps: "cli_steps env sv kenv w (cmd_grok env args w)"
proof -
  have s: "evolves cr sv kenv (cw_db x) (cw_db (snd (store_setting env action kind key detail out st x)))"
    for cr action kind key detail out st x
    by (simp add: store_setting_def record_cli_evolves evolves_settings)
  have m: "cli_steps env sv kenv w (grok_set_admin_key env w)"
    by (simp add: grok_set_admin_key_def with_master_def store_setting_def record_cli_evolves evolves_settings evolves_refl
        split: sum.split read_error.split prod.split)
  show ?thesis
    by (auto simp: cmd_grok_def open_store_def grok_set_base_url_def grok_get_base_url_def grok_set_quota_mode_def
        grok_set_admin_base_url_def print_line_def evolves_refl s m split: list.split option.split sum.split)
qed

section \<open>Every command\<close>

text \<open>The master key file of a machine whose server runs: it has the server's key.\<close>

definition holds_master :: "key_env \<Rightarrow> cli_world \<Rightarrow> bool" where
  "holds_master kenv w \<longleftrightarrow> cw_master w = Some (Some (ke_master kenv)) \<and> length (ke_master kenv) = master_key_size"

lemma holds_master_load:
  "holds_master kenv w \<Longrightarrow> load_or_create fresh (cw_master w) = Inr (ke_master kenv, cw_master w)"
  by (simp add: holds_master_def load_or_create_def)

lemma with_master_held:
  assumes "holds_master kenv w" "ke_crypto kenv = ce_crypto env"
  shows "with_master env w k = k kenv w"
proof -
  have "\<lparr>ke_crypto = ce_crypto env, ke_master = ke_master kenv\<rparr> = kenv" using assms(2) by simp
  then show ?thesis by (simp add: with_master_def holds_master_load [OF assms(1)])
qed

lemma cli_dispatch_cases:
  assumes "\<And>cmd args. (c, cmd) \<in> set cli_commands \<Longrightarrow> P (cmd env args w)"
    "\<And>r. P (r, w)"
  shows "P (cli_dispatch env (c # rest) w)"
  using assms by (auto simp: cli_dispatch_def split: option.split dest: map_of_SomeD)

lemma cli_dispatch_steps:
  assumes "holds_master kenv w" "ke_crypto kenv = ce_crypto env"
  shows "cli_steps env sv kenv w (cli_dispatch env args w)"
proof (cases args)
  case Nil
  then show ?thesis by (simp add: cli_dispatch_def evolves_refl)
next
  case (Cons c rest)
  note m = with_master_held [OF assms] and p = provider_commands_steps [OF assms(2)]
  have k: "cli_steps env sv kenv w (cmd_provider_key env a w)" for a
    by (auto simp: cmd_provider_key_def m open_store_def provider_key_list_def evolves_refl p provider_key_act_steps
        split: list.split option.split)
  have e: "cli_steps env sv kenv w (cmd_provider_endpoint env a w)" for a
    by (auto simp: cmd_provider_endpoint_def m open_store_def endpoint_list_def evolves_refl p provider_key_act_steps
        split: list.split option.split)
  have "cli_steps env sv kenv w (cmd_audit env a w)" "cli_steps env sv kenv w (cmd_db env a w)" for a
    by (auto simp: cmd_audit_def cmd_db_def open_store_def evolves_refl record_cli_evolves split: option.split sum.split)
  with k e have "cli_steps env sv kenv w (cmd env a w)" if "(c, cmd) \<in> set cli_commands" for cmd a
    using that by (auto simp: cli_commands_def token_steps gateway_key_command_steps grok_steps)
  then show ?thesis
    unfolding Cons by (rule cli_dispatch_cases [where P = "\<lambda>x. cli_steps env sv kenv w x"]) (simp_all add: evolves_refl)
qed

section \<open>Runs of the system\<close>

text \<open>A machine that has its master key keeps it.\<close>

definition keeps_master :: "cli_world \<Rightarrow> cli_result \<times> cli_world \<Rightarrow> bool" where
  "keeps_master w x \<longleftrightarrow> cw_master (snd x) = cw_master w"

lemma keeps_master_ends [simp]:
  "keeps_master w (succeed out w') \<longleftrightarrow> cw_master w' = cw_master w" "keeps_master w (misuse n w)"
  "keeps_master w (give_up n w)" "keeps_master w (failed_provider what e w') \<longleftrightarrow> cw_master w' = cw_master w"
  "keeps_master w (r, w)" "keeps_master w (store_token env action raw opts a w)"
  "keeps_master w (store_setting env act kind key detail out s w)" "keeps_master w (list_table what header cells w)"
  "keeps_master w (provider_key_act label kind sub pact env args w)" "keeps_master w (gateway_key_act sub gact env args w)"
  "keeps_master w (change_endpoint what action env i change line det w)"
  by (simp_all add: keeps_master_def store_token_def store_setting_def list_table_def provider_key_act_def
      gateway_key_act_def change_endpoint_def Let_def split: option.split sum.split)

lemma early_master:
  "read_secret n what env = Inl stop \<Longrightarrow> keeps_master w (stop w)" "quota_flags p args w' = Inl stop \<Longrightarrow> keeps_master w (stop w)"
  by (simp_all add: keeps_master_def early_end)

text \<open>
  A command that reads the master key makes a missing file before it does anything else; every other
  command leaves the file alone.
\<close>

definition makes_master :: "cli_env \<Rightarrow> cli_world \<Rightarrow> cli_result \<times> cli_world \<Rightarrow> bool" where
  "makes_master env w x \<longleftrightarrow> cw_master w = None \<and> cw_master (snd x) = Some (Some (ce_fresh_master env))"

lemma with_master_makes:
  assumes "\<And>kenv w'. keeps_master w' (k kenv w')"
  shows "keeps_master w (with_master env w k) \<or> makes_master env w (with_master env w k)"
  using assms by (auto simp: with_master_def load_or_create_def keeps_master_def makes_master_def give_up_def
      split: option.split)

lemma endpoint_commands_keep_master:
  "keeps_master w (provider_key_add kenv env a w)" "keeps_master w (endpoint_add kenv env a w)"
  "keeps_master w (endpoint_rotate_key kenv env a w)" "keeps_master w (endpoint_rotate_quota_key kenv env a w)"
  "keeps_master w (endpoint_set_base_url env a w)" "keeps_master w (endpoint_set_quota env a w)"
  by (auto simp: provider_key_add_def endpoint_add_def endpoint_rotate_key_def endpoint_rotate_quota_key_def
      endpoint_set_base_url_def endpoint_set_quota_def Let_def early_master split: option.split sum.split)

lemma other_commands_keep_master:
  "keeps_master w (cmd_token env a w)" "keeps_master w (cmd_gateway_key env a w)"
  "keeps_master w (cmd_audit env a w)" "keeps_master w (cmd_db env a w)"
  by (simp_all add: cmd_token_def cmd_gateway_key_def open_store_def with_token_options_def token_init_def
      token_sync_env_def token_rotate_def token_verify_def gateway_key_create_def gateway_key_list_def cmd_audit_def
      cmd_db_def Let_def split: list.split option.split sum.split prod.split)

lemma master_commands:
  "keeps_master w (cmd_provider_key env a w) \<or> a \<noteq> [] \<and> makes_master env w (cmd_provider_key env a w)"
  "keeps_master w (cmd_provider_endpoint env a w) \<or> a \<noteq> [] \<and> makes_master env w (cmd_provider_endpoint env a w)"
  "keeps_master w (cmd_grok env a w) \<or> (\<exists>b. a = ''set-admin-key'' # b) \<and> makes_master env w (cmd_grok env a w)"
proof -
  show "keeps_master w (cmd_provider_key env a w) \<or> a \<noteq> [] \<and> makes_master env w (cmd_provider_key env a w)"
  proof (cases a)
    case (Cons sub flags)
    have "keeps_master w (cmd_provider_key env a w) \<or> makes_master env w (cmd_provider_key env a w)"
      unfolding cmd_provider_key_def Cons list.case
      by (rule with_master_makes) (simp add: open_store_def provider_key_list_def endpoint_commands_keep_master split: option.split)
    with Cons show ?thesis by simp
  qed (simp add: cmd_provider_key_def)
  show "keeps_master w (cmd_provider_endpoint env a w) \<or> a \<noteq> [] \<and> makes_master env w (cmd_provider_endpoint env a w)"
  proof (cases a)
    case (Cons sub flags)
    have "keeps_master w (cmd_provider_endpoint env a w) \<or> makes_master env w (cmd_provider_endpoint env a w)"
      unfolding cmd_provider_endpoint_def Cons list.case
      by (rule with_master_makes) (simp add: open_store_def endpoint_list_def endpoint_commands_keep_master split: option.split)
    with Cons show ?thesis by simp
  qed (simp add: cmd_provider_endpoint_def)
  have "keeps_master w (grok_set_admin_key env w) \<or> makes_master env w (grok_set_admin_key env w)"
    unfolding grok_set_admin_key_def
    by (rule with_master_makes) (simp split: sum.split read_error.split)
  then show "keeps_master w (cmd_grok env a w) \<or> (\<exists>b. a = ''set-admin-key'' # b) \<and> makes_master env w (cmd_grok env a w)"
    by (auto simp: cmd_grok_def open_store_def grok_set_base_url_def grok_get_base_url_def grok_set_quota_mode_def
        grok_set_admin_base_url_def print_line_def split: list.split option.split sum.split)
qed

definition reads_master :: "string list \<Rightarrow> bool" where
  "reads_master args \<longleftrightarrow> (\<exists>sub rest. args = ''provider-key'' # sub # rest \<or> args = ''provider-endpoint'' # sub # rest)
     \<or> (\<exists>rest. args = ''grok'' # ''set-admin-key'' # rest)"

lemma cli_dispatch_makes_master:
  "keeps_master w (cli_dispatch env args w) \<or> reads_master args \<and> makes_master env w (cli_dispatch env args w)"
proof (cases args)
  case (Cons c rest)
  show ?thesis
  proof (cases "map_of cli_commands c")
    case None
    then show ?thesis by (simp add: Cons cli_dispatch_def)
  next
    case (Some cmd)
    then have d: "cli_dispatch env args w = cmd env rest w" by (simp add: Cons cli_dispatch_def)
    show ?thesis
      using Some master_commands [of w env rest] unfolding d
      by (auto simp: cli_commands_def other_commands_keep_master Cons reads_master_def neq_Nil_conv split: if_splits)
  qed
qed (simp add: cli_dispatch_def)

lemma cli_dispatch_master:
  "holds_master kenv w \<Longrightarrow> cw_master (snd (cli_dispatch env args w)) = cw_master w"
  using cli_dispatch_makes_master [of w env args] by (auto simp: holds_master_def keeps_master_def makes_master_def)

text \<open>A step of the system is a request of the server or a command on its machine.\<close>

inductive system_step :: "server \<Rightarrow> reg_limiter \<times> cli_world \<Rightarrow> reg_limiter \<times> cli_world \<Rightarrow> bool" for sv where
  request: "serve_http sv env rq (l, cw_db w) = (reply, l', db') \<Longrightarrow> system_step sv (l, w) (l', set_db db' w)"
| command: "ce_crypto env = sr_crypto sv \<Longrightarrow> cli_dispatch env args w = (r, w') \<Longrightarrow> system_step sv (l, w) (l, w')"

lemma system_step_evolves:
  assumes "wired sv" "system_step sv st st'" "holds_master (sr_key_env sv) (snd st)"
  shows "request_evolves sv (cw_db (snd st)) (cw_db (snd st')) \<and> holds_master (sr_key_env sv) (snd st')"
  using assms(2)
proof cases
  case (request env rq l w reply l' db')
  with serve_http_evolves [OF assms(1)] assms(3) show ?thesis by (simp add: holds_master_def)
next
  case (command env args w r w' l)
  have c: "ke_crypto (sr_key_env sv) = ce_crypto env" using assms(1) command(3) by (simp add: wired_def)
  have h: "holds_master (sr_key_env sv) w" using assms(3) command(1) by simp
  from cli_dispatch_steps [OF h c, of "dp_auth (sr_admin sv)" args] cli_dispatch_master [OF h, of env args] command h
  show ?thesis by (simp add: holds_master_def)
qed

lemma system_run_evolves:
  assumes "wired sv" "(system_step sv)\<^sup>*\<^sup>* st st'" "holds_master (sr_key_env sv) (snd st)"
  shows "request_evolves sv (cw_db (snd st)) (cw_db (snd st')) \<and> holds_master (sr_key_env sv) (snd st')"
  using assms(2)
proof (induction rule: rtranclp_induct)
  case (step st1 st2)
  with system_step_evolves [OF assms(1) step(2)] show ?case by (blast intro: evolves_trans)
qed (simp add: evolves_refl assms(3))

end
