(* ===== verification/CliProperties.thy ===== *)
theory CliProperties
  imports CliLaws SystemProperties AuthProperties
begin

text \<open>
  The properties of the command line tool and of the whole system, in which the server's requests and
  the administrator's commands work on one database.
\<close>

section \<open>Commands that fail\<close>

text \<open>The world is as it was; the master key file is the matter of \<open>cli_dispatch_makes_master\<close>.\<close>

definition untouched :: "cli_world \<Rightarrow> cli_result \<times> cli_world \<Rightarrow> bool" where
  "untouched w x \<longleftrightarrow> cx_code (fst x) \<noteq> exit_ok \<and> cx_out (fst x) = [] \<longrightarrow>
     cw_db (snd x) = cw_db w \<and> cw_files (snd x) = cw_files w"

lemma untouched_ends [simp]:
  "untouched w (succeed out w')" "untouched w (misuse n w)" "untouched w (give_up n w)" "untouched w (failed_provider what e w)"
  "untouched w (r, w)"
  by (simp_all add: untouched_def)

lemma untouched_store [simp]:
  "untouched w (store_token env action raw opts a w')" "untouched w (store_setting env act kind key detail out s w')"
  by (auto simp: untouched_def store_token_def write_admin_token_def store_setting_def succeed_def exit_ok_def Let_def
      split: option.split sum.split)



text \<open>A row that was changed can be read again.\<close>

lemma changed_row_read:
  assumes "\<And>r. pk_id (f r) = pk_id r" "change_row i f t = Inr t'"
  shows "\<exists>d. get_key i t' = Inr d"
  using assms find_update_id [where rid = pk_id and f = f and i = i and j = i and t = t]
  by (auto simp: change_row_Inr row_by_id_def get_key_def set_row_def)

lemma changes_read:
  "update_base_url now i url t = Inr t' \<Longrightarrow> \<exists>d. get_key i t' = Inr d"
  "rotate_key kenv n now i raw t = Inr t' \<Longrightarrow> \<exists>d. get_key i t' = Inr d"
  "update_endpoint_quota now i q t = Inr t' \<Longrightarrow> \<exists>d. get_key i t' = Inr d"
  "rotate_endpoint_quota_key kenv n now i raw t = Inr t' \<Longrightarrow> \<exists>d. get_key i t' = Inr d"
  by (auto simp: update_base_url_def rotate_key_def update_endpoint_quota_def rotate_endpoint_quota_key_def and_then_Inr Let_def
      split: if_splits option.splits prod.splits elim!: changed_row_read [rotated])

lemma change_endpoint_untouched:
  assumes "\<And>t t'. change t = Inr t' \<Longrightarrow> \<exists>d. get_key i t' = Inr d"
  shows "untouched w (change_endpoint what action env i change line detail w)"
  unfolding change_endpoint_def Let_def by (auto split: sum.split dest: assms)

lemma early_untouched:
  "read_secret n what env = Inl stop \<Longrightarrow> untouched w (stop w)" "quota_flags p args w' = Inl stop \<Longrightarrow> untouched w (stop w)"
  by (auto simp: read_secret_def quota_flags_def Let_def split: sum.splits read_error.splits if_splits)

lemma provider_key_act_untouched [simp]: "untouched w (provider_key_act label kind sub act env args w)"
  by (simp add: provider_key_act_def failed_provider_def [symmetric] split: option.split sum.split)

lemma list_table_untouched [simp]: "untouched w (list_table what header cells w)"
  by (simp add: list_table_def split: sum.split)


lemma key_add_untouched [simp]: "untouched w (provider_key_add kenv env args w)"
  by (auto simp: provider_key_add_def Let_def early_untouched split: sum.split)

lemma endpoint_add_untouched [simp]: "untouched w (endpoint_add kenv env args w)"
  by (auto simp: endpoint_add_def Let_def early_untouched split: sum.split)

lemma endpoint_changes_untouched [simp]:
  "untouched w (endpoint_set_base_url env args w)" "untouched w (endpoint_rotate_key kenv env args w)"
  "untouched w (endpoint_set_quota env args w)" "untouched w (endpoint_rotate_quota_key kenv env args w)"
  unfolding endpoint_set_base_url_def endpoint_rotate_key_def endpoint_set_quota_def endpoint_rotate_quota_key_def Let_def
  by (auto split: option.split sum.split intro!: change_endpoint_untouched intro: early_untouched changes_read)






definition demo_cli_env :: cli_env where
  "demo_cli_env = \<lparr>ce_crypto = demo_crypto, ce_getenv = (\<lambda>n. if n = ''GUDA_ADMIN_TOKEN'' then demo_secret else []),
     ce_home = None, ce_stdin = [], ce_open_error = None, ce_fresh_master = replicate 32 (CHR ''m''), ce_random = [],
     ce_nonce = (\<lambda>_. demo_nonce), ce_clock = int\<rparr>"

definition demo_world :: cli_world where
  "demo_world = \<lparr>cw_db = staffed_db, cw_files = Map.empty, cw_master = Some (Some (ke_master demo_env))\<rparr>"


section \<open>The whole system\<close>

text \<open>
  C1. Requests and commands may come in any order: from a sound database whose master key file is the
  server's, every run of the system leads to a sound database, and no command replaces the master key.
\<close>

theorem system_stays_sound:
  assumes "wired sv" "aead_ok (sr_crypto sv)" "holds_master (sr_key_env sv) w" "(system_step sv)\<^sup>*\<^sup>* (l, w) (l', w')"
    "key_history (sr_key_env sv) (gw_provider_keys (cw_db w))" "wf_gateway (gw_keys (cw_db w))"
    "wf_auth (sr_crypto sv) (gw_auth (cw_db w))" "invite_history (gw_invites (cw_db w)) redeemed"
  shows "wf_keys (sr_key_env sv) (gw_provider_keys (cw_db w')) \<and> wf_gateway (gw_keys (cw_db w'))
    \<and> wf_auth (sr_crypto sv) (gw_auth (cw_db w'))
    \<and> (\<exists>more. accounted (gw_invites (cw_db w')) (more @ redeemed))
    \<and> (\<exists>new. rows (gw_audit (cw_db w')) = rows (gw_audit (cw_db w)) @ new)
    \<and> holds_master (sr_key_env sv) w'"
  using evolves_sound [OF _ assms(1,2,5-8)] system_run_evolves [OF assms(1,4)] assms(3) by simp

text \<open>The administrator revokes a key by command and then over the API.\<close>

definition revoke_args :: "string list" where
  "revoke_args = [''gateway-key'', ''revoke'', ''--id'', ''1'']"

lemma demo_cli_revoke:
  "\<exists>w'. cli_dispatch demo_cli_env revoke_args demo_world = (\<lparr>cx_code = exit_ok, cx_out = [], cx_err = []\<rparr>, w')"
proof -
  have "flag_int64 [''--id'', ''1''] ''--id'' = Some 1" unfolding flag_int64_def by code_simp
  then show ?thesis
    by (simp add: revoke_args_def cli_dispatch_def cli_commands_def cmd_gateway_key_def open_store_def demo_cli_env_def
        gateway_key_actions_def gateway_key_act_def succeed_def)
qed

lemma demo_holds_master: "holds_master (sr_key_env idle_server) demo_world"
  by (simp add: holds_master_def demo_world_def idle_parts demo_env_def master_key_size_def)

lemma system_stays_sound_witness:
  "\<exists>w'. (system_step idle_server)\<^sup>*\<^sup>* (\<lparr>rl_window = None, rl_count = 0\<rparr>, demo_world) (\<lparr>rl_window = None, rl_count = 0\<rparr>, w')
    \<and> wf_gateway (gw_keys (cw_db w')) \<and> holds_master (sr_key_env idle_server) w'"
proof -
  obtain w' where "cli_dispatch demo_cli_env revoke_args demo_world = (\<lparr>cx_code = exit_ok, cx_out = [], cx_err = []\<rparr>, w')"
    using demo_cli_revoke by blast
  moreover have "ce_crypto demo_cli_env = sr_crypto idle_server" by (simp add: demo_cli_env_def idle_parts)
  ultimately have run: "(system_step idle_server)\<^sup>*\<^sup>* (\<lparr>rl_window = None, rl_count = 0\<rparr>, demo_world) (\<lparr>rl_window = None, rl_count = 0\<rparr>, w')"
    by (intro r_into_rtranclp system_step.command)
  have db: "cw_db demo_world = staffed_db" by (simp add: demo_world_def)
  have "aead_ok (sr_crypto idle_server)" by (simp add: idle_parts)
  from system_stays_sound [OF idle_wired this demo_holds_master run, unfolded db idle_parts, OF staffed_sound] run
  show ?thesis by (auto simp: idle_parts)
qed

text \<open>
  C8. A revocation by command is final as well: once \<open>gateway-key revoke\<close> has exited with 0, no token
  looks up to the key and no request is authorised as it, whatever requests and commands follow; not
  even \<open>gateway-key enable\<close> brings it back.
\<close>

theorem revoked_by_command_stays_out:
  assumes "wired sv" "holds_master (sr_key_env sv) w" "ce_crypto env = sr_crypto sv"
    "flag_int64 flags ''--id'' = Some i" "i \<le> tseq (gw_keys (cw_db w))"
    "cli_dispatch env (''gateway-key'' # ''revoke'' # flags) w = (r, w1)" "cx_code r = 0"
    "(system_step sv)\<^sup>*\<^sup>* (l, w1) (l2, w2)"
  shows "(\<forall>token d. lookup_key (sr_crypto sv) token (gw_keys (cw_db w2)) = Inr (Some d) \<longrightarrow> gk_id d \<noteq> i)
    \<and> (\<forall>now rq k. fst (authorized sv now rq (cw_db w2)) = Some k \<longrightarrow> gk_id k \<noteq> i)"
proof -
  have "gw_keys (cw_db w1) = revoke_gateway_key (ce_clock env 1) i (gw_keys (cw_db w))"
    using assms(4,6,7)
    by (auto simp: cli_dispatch_def cli_commands_def cmd_gateway_key_def open_store_def gateway_key_actions_def
        gateway_key_act_def give_up_def exit_error_def record_cli_audit_def succeed_def split: option.splits)
  then have dead: "dead_key i (gw_keys (cw_db w1))" using dead_key_revoked [OF assms(5)] by simp
  from cli_dispatch_master [OF assms(2), of env "''gateway-key'' # ''revoke'' # flags"] assms(2,6)
  have "holds_master (sr_key_env sv) w1" by (simp add: holds_master_def)
  with system_run_evolves [OF assms(1,8)] have "request_evolves sv (cw_db w1) (cw_db w2)" by simp
  from dead_key_refused [OF this dead] show ?thesis .
qed

lemma revoked_by_command_stays_out_witness:
  "lookup_key demo_crypto manual_key (gw_keys staffed_db) = Inr (Some (display_of manual_row)) \<and> gk_id manual_row = 1
   \<and> (\<exists>r w1. cli_dispatch demo_cli_env revoke_args demo_world = (r, w1)
       \<and> (\<nexists>token d. lookup_key demo_crypto token (gw_keys (cw_db w1)) = Inr (Some d) \<and> gk_id d = 1))"
proof -
  obtain w1 where d: "cli_dispatch demo_cli_env revoke_args demo_world = (\<lparr>cx_code = exit_ok, cx_out = [], cx_err = []\<rparr>, w1)"
    using demo_cli_revoke by blast
  have f: "flag_int64 [''--id'', ''1''] ''--id'' = Some 1" unfolding flag_int64_def by code_simp
  have t: "1 \<le> tseq (gw_keys (cw_db demo_world))" by (simp add: demo_world_def staffed_db_def manual_keys_def)
  have c: "ce_crypto demo_cli_env = sr_crypto idle_server" by (simp add: demo_cli_env_def idle_parts)
  have ok: "cx_code \<lparr>cx_code = exit_ok, cx_out = [], cx_err = []\<rparr> = 0" by (simp add: exit_ok_def)
  have "\<nexists>token d. lookup_key demo_crypto token (gw_keys (cw_db w1)) = Inr (Some d) \<and> gk_id d = 1"
    using revoked_by_command_stays_out [OF idle_wired demo_holds_master c f t d [unfolded revoke_args_def] ok rtranclp.rtrancl_refl]
    by (simp add: idle_parts)
  moreover have "gw_keys staffed_db = manual_keys\<lparr>rows := manual_row # []\<rparr>"
    by (simp add: staffed_db_def manual_keys_def)
  then have "lookup_key demo_crypto manual_key (gw_keys staffed_db) = Inr (Some (display_of manual_row))"
    using lookup_manual by simp
  ultimately show ?thesis using d by (simp add: manual_row_def demo_used_row_def)
qed

section \<open>The admin secret of the environment\<close>

lemma valid_secret_plain: "valid_admin_secret s \<Longrightarrow> list_all plain_char s"
proof -
  assume v: "valid_admin_secret s"
  have "list_all plain_char s" if "raw_token_re s"
  proof -
    have "list_all plain_char (drop 4 s)"
      using that alnum_plain by (auto simp: raw_token_re_def list_all_iff)
    moreover have "list_all plain_char ''gat_''" by (simp add: plain_char_def)
    then have "list_all plain_char (take 4 s)" using that by (simp only: raw_token_re_def)
    ultimately show ?thesis by (metis append_take_drop_id list_all_append)
  qed
  moreover have "list_all plain_char s" if "list_all secret_char s"
    using that by (auto simp: list_all_iff secret_char_def plain_char_def)
  ultimately show ?thesis using v by (auto simp: valid_admin_secret_def split: if_splits)
qed

lemma store_token_ok:
  assumes "store_token env action raw opts a w = (r, w')" "cx_code r = 0" "te_save_path opts \<noteq> []"
  obtains path where "expand_home_path (ce_home env) (te_save_path opts) = Some path" "gw_auth (cw_db w') = a"
    "cw_files w' path = Some \<lparr>cf_text = env_binding (case cw_files w path of None \<Rightarrow> [] | Some f \<Rightarrow> cf_text f) (te_env_key opts) raw,
       cf_mode = private_mode\<rparr>"
  using assms
  by (auto simp: store_token_def write_admin_token_def write_env_binding_def Let_def exit_error_def record_cli_audit_def
      split: option.splits sum.splits if_splits)

text \<open>Of a flag that is given several times the last one counts.\<close>

lemma token_flags_ConsE:
  assumes "token_flags o0 (f # r) = Inr o1"
  obtains "f = ''--from-env''" "token_flags (o0\<lparr>te_from_env := True\<rparr>) r = Inr o1"
  | p r' where "f = ''--save-env''" "r = p # r'" "trim_space p \<noteq> []" "token_flags (o0\<lparr>te_save_path := p\<rparr>) r' = Inr o1"
  | n r' where "f = ''--env-key''" "r = n # r'" "trim_space n \<noteq> []"
      "token_flags (o0\<lparr>te_env_key := trim_space n\<rparr>) r' = Inr o1"
proof -
  consider "f = ''--from-env''" | "f = ''--save-env''" | "f = ''--env-key''"
    | "f \<noteq> ''--from-env'' \<and> f \<noteq> ''--save-env'' \<and> f \<noteq> ''--env-key''" by blast
  then show thesis
  proof cases
    case 1
    with assms that(1) show thesis by simp
  next
    case 2
    with assms that(2) show thesis by (cases r) (simp_all split: if_split_asm)
  next
    case 3
    with assms that(3) show thesis by (cases r) (simp_all split: if_split_asm)
  next
    case 4
    with assms show thesis by simp
  qed
qed

lemma token_flags_append:
  "token_flags o0 xs = Inr o1 \<Longrightarrow> token_flags o0 (xs @ ys) = token_flags o1 ys"
proof (induction "length xs" arbitrary: o0 xs rule: less_induct)
  case less
  show ?case
  proof (cases xs)
    case (Cons f r)
    from less.prems [unfolded Cons] show ?thesis by (rule token_flags_ConsE) (simp_all add: Cons less.hyps)
  qed (use less.prems in simp)
qed

lemma token_flags_keep:
  "token_flags o0 ys = Inr o1 \<Longrightarrow> (''--save-env'' \<notin> set ys \<longrightarrow> te_save_path o1 = te_save_path o0)
    \<and> (''--env-key'' \<notin> set ys \<longrightarrow> te_env_key o1 = te_env_key o0)"
proof (induction "length ys" arbitrary: o0 ys rule: less_induct)
  case less
  show ?case
  proof (cases ys)
    case (Cons f r)
    from less.prems [unfolded Cons] show ?thesis
    proof (rule token_flags_ConsE)
      assume f: "f = ''--from-env''" "token_flags (o0\<lparr>te_from_env := True\<rparr>) r = Inr o1"
      from less.hyps [OF _ f(2)] show ?thesis by (simp add: Cons f(1))
    next
      fix p r'
      assume f: "f = ''--save-env''" "r = p # r'" "token_flags (o0\<lparr>te_save_path := p\<rparr>) r' = Inr o1"
      from less.hyps [OF _ f(3)] show ?thesis by (simp add: Cons f(1,2))
    next
      fix n r'
      assume f: "f = ''--env-key''" "r = n # r'" "token_flags (o0\<lparr>te_env_key := trim_space n\<rparr>) r' = Inr o1"
      from less.hyps [OF _ f(3)] show ?thesis by (simp add: Cons f(1,2))
    qed
  qed (use less.prems in simp)
qed

text \<open>The value \<open>v\<close> of the last flag \<open>n\<close> in the place of an option.\<close>

definition last_flag :: "string \<Rightarrow> string list \<Rightarrow> string \<Rightarrow> bool" where
  "last_flag n flags v \<longleftrightarrow>
     (\<exists>xs ys. flags = xs @ n # v # ys \<and> (\<exists>before. parse_token_env_options xs = Inr before) \<and> n \<notin> set ys)"

lemma saved_flag:
  assumes "parse_token_env_options flags = Inr opts"
  shows "''--save-env'' \<notin> set flags \<Longrightarrow> te_save_path opts = []"
    and "last_flag ''--save-env'' flags p \<Longrightarrow> te_save_path opts = p \<and> p \<noteq> []"
    and "''--env-key'' \<notin> set flags \<Longrightarrow> te_env_key opts = ''GUDA_ADMIN_TOKEN''"
    and "last_flag ''--env-key'' flags n \<Longrightarrow> te_env_key opts = trim_space n"
proof -
  note f = assms [unfolded parse_token_env_options_def]
  show "te_save_path opts = []" if "''--save-env'' \<notin> set flags"
    using token_flags_keep [OF f] that by (simp add: default_token_options_def)
  show "te_env_key opts = ''GUDA_ADMIN_TOKEN''" if "''--env-key'' \<notin> set flags"
    using token_flags_keep [OF f] that by (simp add: default_token_options_def)
  have split: "token_flags o1 (n # v # ys) = Inr opts" if "flags = xs @ n # v # ys" "parse_token_env_options xs = Inr o1"
    for xs n v ys o1
    using token_flags_append [OF that(2) [unfolded parse_token_env_options_def]] f that(1) by simp
  show "te_save_path opts = p \<and> p \<noteq> []" if lf: "last_flag ''--save-env'' flags p"
  proof -
    from lf obtain xs ys o1 where x: "flags = xs @ ''--save-env'' # p # ys" "parse_token_env_options xs = Inr o1"
      "''--save-env'' \<notin> set ys" by (auto simp: last_flag_def)
    from split [OF x(1,2)] show ?thesis
    proof (rule token_flags_ConsE)
      fix q r
      assume "p # ys = q # r" "trim_space q \<noteq> []" "token_flags (o1\<lparr>te_save_path := q\<rparr>) r = Inr opts"
      with token_flags_keep [OF this(3)] x(3) show ?thesis by auto
    qed simp_all
  qed
  show "te_env_key opts = trim_space n" if lf: "last_flag ''--env-key'' flags n"
  proof -
    from lf obtain xs ys o1 where x: "flags = xs @ ''--env-key'' # n # ys" "parse_token_env_options xs = Inr o1"
      "''--env-key'' \<notin> set ys" by (auto simp: last_flag_def)
    from split [OF x(1,2)] show ?thesis
    proof (rule token_flags_ConsE)
      fix q r
      assume "n # ys = q # r" "token_flags (o1\<lparr>te_env_key := trim_space q\<rparr>) r = Inr opts"
      with token_flags_keep [OF this(2)] x(3) show ?thesis by auto
    qed simp_all
  qed
qed

text \<open>
  C7. \<open>token sync-env\<close> makes the secret of the environment the admin secret and keeps it. Once it has
  exited with 0, the secrets that log in are those that hash to the trimmed value of the variable that
  --env-key names (GUDA_ADMIN_TOKEN without the flag), which is one of them. The file that --save-env names
  (without the flag the one under /var/lib/code-guda-gateway) is readable and writable by its owner alone and
  binds the variable to that value and to nothing else, so that a later start that reads it finds the
  secret that logs in. Only a path whose first element is a tilde is expanded.
\<close>

theorem synced_secret_is_saved:
  assumes "wf_auth (ce_crypto env) (gw_auth (cw_db w))"
    "cli_dispatch env (''token'' # ''sync-env'' # flags) w = (r, w')" "cx_code r = 0"
    "''--save-env'' \<notin> set flags \<and> save = ''/var/lib/code-guda-gateway/admin-credentials.env''
       \<or> last_flag ''--save-env'' flags save"
    "''--env-key'' \<notin> set flags \<and> key = ''GUDA_ADMIN_TOKEN''
       \<or> (\<exists>n. last_flag ''--env-key'' flags n \<and> key = trim_space n)"
    "list_all plain_char key" "secret = trim_space (ce_getenv env key)"
  shows "verify_token (ce_crypto env) secret (gw_auth (cw_db w'))
    \<and> (\<forall>q. verify_token (ce_crypto env) q (gw_auth (cw_db w')) \<longrightarrow>
          hash_token (ce_crypto env) (trim_space q) = hash_token (ce_crypto env) secret)
    \<and> (\<exists>path f. expand_home_path (ce_home env) save = Some path \<and> (if save = ''~'' \<or> prefix ''~/'' save then True else path = save)
        \<and> cw_files w' path = Some f \<and> cf_mode f = 6 * 8 * 8
        \<and> key @ ''='' @ secret \<in> set (file_lines (cf_text f))
        \<and> list_all (\<lambda>l. prefix (key @ ''='') (trim_space l) \<or> prefix (''export '' @ key @ ''='') (trim_space l) \<longrightarrow>
              l = key @ ''='' @ secret) (file_lines (cf_text f)))"
proof -
  let ?cr = "ce_crypto env"
  obtain opts where opts: "parse_token_env_options flags = Inr opts" and sync: "token_sync_env env opts w = (r, w')"
    using assms(2,3)
    by (auto simp: cli_dispatch_def cli_commands_def cmd_token_def open_store_def with_token_options_def give_up_def
        misuse_def exit_error_def exit_usage_def split: option.splits sum.splits)
  let ?o = "if te_save_path opts = [] then opts\<lparr>te_save_path := default_save_path\<rparr> else opts"
  note flag = saved_flag [OF opts]
  have o: "te_save_path ?o = save" "te_save_path ?o \<noteq> []" "te_env_key ?o = key" "te_env_key opts = key"
    using assms(4,5) flag by (auto simp: default_save_path_def)
  have raw: "env_secret env opts = secret" by (simp add: env_secret_def o(4) assms(7))
  from sync assms(3) obtain a where a: "set_from_raw ?cr (ce_clock env 1) secret (gw_auth (cw_db w)) = Inr a"
    and st: "store_token env ''admin_token.sync_env'' secret ?o a w = (r, w')"
    by (auto simp: token_sync_env_def raw Let_def give_up_def exit_error_def split: sum.splits if_splits)
  obtain path where p: "expand_home_path (ce_home env) save = Some path" "gw_auth (cw_db w') = a"
    "cw_files w' path = Some \<lparr>cf_text = env_binding (case cw_files w path of None \<Rightarrow> [] | Some f \<Rightarrow> cf_text f) key secret,
       cf_mode = private_mode\<rparr>"
    using store_token_ok [OF st assms(3) o(2)] unfolding o(1,3) by blast
  have v: "verify_token ?cr secret a" "wf_auth ?cr a" using set_from_raw_Inr [OF assms(1) a] by simp_all
  have "has_token a" using v(1) by (auto simp: verify_token_def newest_token_def has_token_def Let_def split: if_splits)
  from single_token [OF v(2) this] obtain row where row: "rows (ad_tokens a) = [row]" by blast
  have hash: "hash_token ?cr (trim_space q) = hash_token ?cr secret" if "verify_token ?cr q a" for q
    using that v(1) by (simp add: verify_token_single [OF row] assms(7))
  have "valid_admin_secret secret" using v(1) by (simp add: verify_token_def assms(7) Let_def split: if_splits)
  then have "list_all plain_char (key @ secret)" using assms(6) valid_secret_plain by simp
  note b = env_binding_bound [OF this, unfolded env_line_matches_key_def]
  let ?text = "env_binding (case cw_files w path of None \<Rightarrow> [] | Some f \<Rightarrow> cf_text f) key secret"
  from b [of "case cw_files w path of None \<Rightarrow> [] | Some f \<Rightarrow> cf_text f"]
  have "key @ ''='' @ secret \<in> set (file_lines ?text)" by (fastforce simp: filter_empty_conv list_all_iff)
  with b p(3) have "\<exists>f. cw_files w' path = Some f \<and> cf_mode f = 6 * 8 * 8
      \<and> key @ ''='' @ secret \<in> set (file_lines (cf_text f))
      \<and> list_all (\<lambda>l. prefix (key @ ''='') (trim_space l) \<or> prefix (''export '' @ key @ ''='') (trim_space l) \<longrightarrow>
            l = key @ ''='' @ secret) (file_lines (cf_text f))"
    unfolding p(3) by (simp add: private_mode_def)
  moreover have "if save = ''~'' \<or> prefix ''~/'' save then True else path = save"
    using p(1) by (auto simp: expand_home_path_def split: if_splits)
  ultimately show ?thesis using p(1,2) v(1) hash by auto
qed

text \<open>The first start of a container: no admin secret yet, the file to save it in is named.\<close>

definition fresh_world :: cli_world where
  "fresh_world = set_db (staffed_db\<lparr>gw_auth := empty_auth\<rparr>) demo_world"

lemma demo_sync:
  "\<exists>r w'. cli_dispatch demo_cli_env [''token'', ''sync-env'', ''--save-env'', ''/tmp/x''] fresh_world = (r, w') \<and> cx_code r = 0"
proof -
  have p: "parse_token_env_options [''--save-env'', ''/tmp/x''] = Inr (default_token_options\<lparr>te_save_path := ''/tmp/x''\<rparr>)"
    unfolding parse_token_env_options_def default_token_options_def by code_simp
  have k: "te_env_key default_token_options = ''GUDA_ADMIN_TOKEN''" by (simp add: default_token_options_def)
  have "env_secret demo_cli_env (default_token_options\<lparr>te_save_path := ''/tmp/x''\<rparr>) = demo_secret"
    by (simp add: env_secret_def demo_cli_env_def k)
  moreover have "ce_crypto demo_cli_env = demo_crypto" "ce_clock demo_cli_env = int" "ce_open_error demo_cli_env = None"
    "gw_auth (cw_db fresh_world) = empty_auth"
    by (simp_all add: demo_cli_env_def fresh_world_def)
  moreover have "\<exists>a. set_from_raw demo_crypto 1 demo_secret empty_auth = Inr a"
    by (simp add: set_from_raw_def has_token_def empty_auth_def empty_table_def insert_admin_token_def)
  moreover have "trim_space ''GUDA_ADMIN_TOKEN'' \<noteq> []" by code_simp
  ultimately show ?thesis
    by (auto simp: cli_dispatch_def cli_commands_def cmd_token_def open_store_def with_token_options_def p token_sync_env_def
        store_token_def write_admin_token_def write_env_binding_def expand_home_path_def k exit_ok_def Let_def)
qed

lemma synced_secret_is_saved_witness:
  "\<exists>r w' f. cli_dispatch demo_cli_env [''token'', ''sync-env'', ''--save-env'', ''/tmp/x''] fresh_world = (r, w')
    \<and> verify_token demo_crypto demo_secret (gw_auth (cw_db w'))
    \<and> cw_files w' ''/tmp/x'' = Some f \<and> ''GUDA_ADMIN_TOKEN'' @ ''='' @ demo_secret \<in> set (file_lines (cf_text f))"
proof -
  obtain r w' where d: "cli_dispatch demo_cli_env [''token'', ''sync-env'', ''--save-env'', ''/tmp/x''] fresh_world = (r, w')"
    "cx_code r = 0" using demo_sync by blast
  have wf: "wf_auth (ce_crypto demo_cli_env) (gw_auth (cw_db fresh_world))"
    by (simp add: fresh_world_def wf_empty_auth)
  have "last_flag ''--save-env'' [''--save-env'', ''/tmp/x''] ''/tmp/x''"
    unfolding last_flag_def by (intro exI [of _ "[]"]) (simp add: parse_token_env_options_def)
  then have save: "''--save-env'' \<notin> set [''--save-env'', ''/tmp/x''] \<and> ''/tmp/x'' = ''/var/lib/code-guda-gateway/admin-credentials.env''
      \<or> last_flag ''--save-env'' [''--save-env'', ''/tmp/x''] ''/tmp/x''" by (rule disjI2)
  have key: "''--env-key'' \<notin> set [''--save-env'', ''/tmp/x''] \<and> ''GUDA_ADMIN_TOKEN'' = ''GUDA_ADMIN_TOKEN''
      \<or> (\<exists>n. last_flag ''--env-key'' [''--save-env'', ''/tmp/x''] n \<and> ''GUDA_ADMIN_TOKEN'' = trim_space n)" by simp
  have plain: "list_all plain_char ''GUDA_ADMIN_TOKEN''" by (simp add: plain_char_def)
  have secret: "demo_secret = trim_space (ce_getenv demo_cli_env ''GUDA_ADMIN_TOKEN'')" by (simp add: demo_cli_env_def)
  have "ce_crypto demo_cli_env = demo_crypto" by (simp add: demo_cli_env_def)
  moreover have "\<not> prefix ''~/'' ''/tmp/x''" "''/tmp/x'' \<noteq> ''~''" by simp_all
  ultimately show ?thesis
    using synced_secret_is_saved [OF wf d save key plain secret] d(1) by auto
qed

end
