(* ===== verification/GatewayLedger.thy ===== *)
theory GatewayLedger
  imports IssuanceProperties
begin

text \<open>
  What the gateway keys promise, without their rows: a ledger of credentials, each with its hash and a
  status. The table of internal/gatewaykeys refines it, operation by operation.
\<close>

section \<open>The ledger\<close>

datatype credential_status = Active | Suspended | Retired

type_synonym ledger = "rowid \<Rightarrow> (string \<times> credential_status) option"

text \<open>
  What is done to the ledger, in the order of internal/gatewaykeys. An id is given out only while it is
  free; nothing but a removal changes a retired credential.
\<close>

datatype ledger_op =
    Issue rowid string
  | Use rowid
  | Suspend rowid
  | Resume rowid
  | Retire rowid
  | RetireIdle "rowid set"
  | Remove rowid

definition with_status :: "rowid \<Rightarrow> (credential_status \<Rightarrow> credential_status) \<Rightarrow> ledger \<Rightarrow> ledger" where
  "with_status i g L = L(i := map_option (\<lambda>(h, s). (h, g s)) (L i))"

fun ledger_after :: "ledger_op \<Rightarrow> ledger \<Rightarrow> ledger" where
  "ledger_after (Issue i h) L = L(i \<mapsto> (h, Active))"
| "ledger_after (Use i) L = L"
| "ledger_after (Suspend i) L = with_status i (\<lambda>s. if s = Retired then Retired else Suspended) L"
| "ledger_after (Resume i) L = with_status i (\<lambda>s. if s = Retired then Retired else Active) L"
| "ledger_after (Retire i) L = with_status i (\<lambda>_. Retired) L"
| "ledger_after (RetireIdle idle) L =
     (\<lambda>i. if i \<in> idle then map_option (\<lambda>(h, s). (h, if s = Active then Retired else s)) (L i) else L i)"
| "ledger_after (Remove i) L = L(i := None)"

fun ledger_allows :: "ledger_op \<Rightarrow> ledger \<Rightarrow> bool" where
  "ledger_allows (Issue i h) L = (L i = None)"
| "ledger_allows _ L = True"

fun ledger_run :: "ledger_op list \<Rightarrow> ledger \<Rightarrow> ledger \<Rightarrow> bool" where
  "ledger_run [] L L' = (L' = L)"
| "ledger_run (l # ls) L L' = (ledger_allows l L \<and> ledger_run ls (ledger_after l L) L')"

text \<open>A retired credential stays retired until it is removed.\<close>

lemma retired_after:
  "L i = Some (h, Retired) \<Longrightarrow> l \<noteq> Remove i \<Longrightarrow> ledger_allows l L \<Longrightarrow> ledger_after l L i = Some (h, Retired)"
  by (cases l) (auto simp: with_status_def)

lemma retired_run:
  "ledger_run ls L L' \<Longrightarrow> L i = Some (h, Retired) \<Longrightarrow> Remove i \<notin> set ls \<Longrightarrow> L' i = Some (h, Retired)"
  by (induction ls arbitrary: L) (auto intro: retired_after)

section \<open>The operations of the table, with what each does to the ledger\<close>

inductive gateway_does :: "crypto \<Rightarrow> ledger_op \<Rightarrow> gateway_table \<Rightarrow> gateway_table \<Rightarrow> bool" for cr where
  issue: "insert_key_details cr src now name owned via label ref t = Inr (raw, d, t') \<Longrightarrow>
    gateway_does cr (Issue (gk_id d) (hash_key cr raw)) t t'"
| touch: "gateway_does cr (Use i) t (touch_key now i t)"
| disable: "gateway_does cr (Suspend i) t (disable_gateway_key i t)"
| enable: "gateway_does cr (Resume i) t (enable_gateway_key i t)"
| revoke: "gateway_does cr (Retire i) t (revoke_gateway_key now i t)"
| unused: "revoke_unused c now days t = Inr (n, t') \<Longrightarrow>
    idle = {gk_id r | r. r \<in> set (rows t) \<and> gk_created_at r < stamp (c - days * day)
      \<and> (case gk_last_used_at r of None \<Rightarrow> True | Some u \<Rightarrow> u < stamp (c - days * day))} \<Longrightarrow>
    gateway_does cr (RetireIdle idle) t t'"
| delete: "gateway_does cr (Remove i) t (delete_gateway_key i t)"

inductive gateway_run :: "crypto \<Rightarrow> ledger_op list \<Rightarrow> gateway_table \<Rightarrow> gateway_table \<Rightarrow> bool" for cr where
  stop: "gateway_run cr [] t t"
| step: "gateway_does cr l t t1 \<Longrightarrow> gateway_run cr ls t1 t' \<Longrightarrow> gateway_run cr (l # ls) t t'"

section \<open>The abstraction\<close>

definition status_of :: "gateway_key \<Rightarrow> credential_status" where
  "status_of r = (if gk_revoked_at r \<noteq> None then Retired else if gk_enabled r then Active else Suspended)"

definition ledger_of :: "gateway_table \<Rightarrow> ledger" where
  "ledger_of t i = map_option (\<lambda>r. (gk_key_hash r, status_of r)) (find_row (\<lambda>r. gk_id r = i) t)"

section \<open>The operations on the ledger\<close>

lemma ledger_set_row:
  assumes "\<And>r. gk_id (f r) = gk_id r"
  shows "ledger_of (set_gateway_row i f t) = (ledger_of t)(i := map_option (\<lambda>r. (gk_key_hash (f r), status_of (f r)))
    (find_row (\<lambda>r. gk_id r = i) t))"
  using find_update_id [where rid = gk_id and f = f and j = i and t = t, OF assms]
  by (auto simp: ledger_of_def set_gateway_row_def map_option.compositionality o_def)

text \<open>An update of one row changes the status of one credential.\<close>

lemma ledger_set_status:
  assumes "\<And>r. gk_id (f r) = gk_id r" "\<And>r. gk_key_hash (f r) = gk_key_hash r" "\<And>r. status_of (f r) = g (status_of r)"
  shows "ledger_of (set_gateway_row i f t) = with_status i g (ledger_of t)"
  using assms by (auto simp: ledger_set_row with_status_def ledger_of_def map_option.compositionality o_def)

lemma revoked_status:
  "status_of (r\<lparr>gk_enabled := False, gk_revoked_at := Some s\<rparr>) = Retired"
  by (simp add: status_of_def)

lemma status_cases:
  "status_of (r\<lparr>gk_last_used_at := u\<rparr>) = status_of r"
  "status_of (r\<lparr>gk_enabled := False\<rparr>) = (if status_of r = Retired then Retired else Suspended)"
  "status_of (r\<lparr>gk_enabled := True\<rparr>) = (if status_of r = Retired then Retired else Active)"
  by (cases "gk_revoked_at r"; cases "gk_enabled r"; simp add: status_of_def)+

lemma ledger_updates:
  "ledger_of (touch_key now i t) = ledger_of t"
  "ledger_of (disable_gateway_key i t) = ledger_after (Suspend i) (ledger_of t)"
  "ledger_of (enable_gateway_key i t) = ledger_after (Resume i) (ledger_of t)"
  "ledger_of (revoke_gateway_key now i t) = ledger_after (Retire i) (ledger_of t)"
proof -
  have "with_status i (\<lambda>s. s) L = L" for L
    by (cases "L i") (auto simp: with_status_def)
  then show "ledger_of (touch_key now i t) = ledger_of t"
    unfolding touch_key_def by (subst ledger_set_status [where g = "\<lambda>s. s"]) (simp_all add: status_cases)
  show "ledger_of (disable_gateway_key i t) = ledger_after (Suspend i) (ledger_of t)"
    unfolding disable_gateway_key_def ledger_after.simps by (rule ledger_set_status) (simp_all add: status_cases)
  show "ledger_of (enable_gateway_key i t) = ledger_after (Resume i) (ledger_of t)"
    unfolding enable_gateway_key_def ledger_after.simps by (rule ledger_set_status) (simp_all add: status_cases)
  show "ledger_of (revoke_gateway_key now i t) = ledger_after (Retire i) (ledger_of t)"
    unfolding revoke_gateway_key_def ledger_after.simps by (rule ledger_set_status) (simp_all add: revoked_status)
qed

text \<open>The rows that RevokeUnused finds are the active ones among the idle.\<close>

lemma unused_row:
  assumes "wf_gateway t" "find_row (\<lambda>r. gk_id r = i) t = Some r"
  shows "unused_since c r \<longleftrightarrow> status_of r = Active
    \<and> i \<in> {gk_id r | r. r \<in> set (rows t) \<and> gk_created_at r < c
        \<and> (case gk_last_used_at r of None \<Rightarrow> True | Some u \<Rightarrow> u < c)}"
proof -
  from find_row_Some [OF assms(2)] have r: "r \<in> set (rows t)" "gk_id r = i" by auto
  have "x = r" if "x \<in> set (rows t)" "gk_id x = i" for x
    using wf_table_inj [of gk_id t x r] assms(1) that r by (simp add: wf_gateway_def)
  then have "i \<in> {gk_id r | r. r \<in> set (rows t) \<and> gk_created_at r < c
        \<and> (case gk_last_used_at r of None \<Rightarrow> True | Some u \<Rightarrow> u < c)}
      \<longleftrightarrow> gk_created_at r < c \<and> (case gk_last_used_at r of None \<Rightarrow> True | Some u \<Rightarrow> u < c)"
    using r by blast
  then show ?thesis unfolding unused_since_def status_of_def by auto
qed

lemma ledger_expire:
  assumes "wf_gateway t"
  shows "ledger_of (snd (update_where (unused_since c) (\<lambda>r. r\<lparr>gk_enabled := False, gk_revoked_at := Some s\<rparr>) t))
    = ledger_after (RetireIdle {gk_id r | r. r \<in> set (rows t) \<and> gk_created_at r < c
        \<and> (case gk_last_used_at r of None \<Rightarrow> True | Some u \<Rightarrow> u < c)}) (ledger_of t)"
proof
  fix i
  let ?f = "\<lambda>r. r\<lparr>gk_enabled := False, gk_revoked_at := Some s\<rparr>"
  have found: "List.find (\<lambda>r. gk_id r = i) (map (\<lambda>r. if unused_since c r then ?f r else r) xs)
      = map_option (\<lambda>r. if unused_since c r then ?f r else r) (List.find (\<lambda>r. gk_id r = i) xs)" for xs
    by (induction xs) auto
  have l: "ledger_of (snd (update_where (unused_since c) ?f t)) i
      = map_option (\<lambda>r. (gk_key_hash r, if unused_since c r then Retired else status_of r)) (find_row (\<lambda>r. gk_id r = i) t)"
    by (cases "List.find (\<lambda>r. gk_id r = i) (rows t)")
      (simp_all add: ledger_of_def find_row_def table_simps found revoked_status)
  show "ledger_of (snd (update_where (unused_since c) ?f t)) i
      = ledger_after (RetireIdle {gk_id r | r. r \<in> set (rows t) \<and> gk_created_at r < c
          \<and> (case gk_last_used_at r of None \<Rightarrow> True | Some u \<Rightarrow> u < c)}) (ledger_of t) i"
  proof (cases "find_row (\<lambda>r. gk_id r = i) t")
    case (Some r)
    show ?thesis
      unfolding l unfolding ledger_after.simps ledger_of_def Some option.map prod.case unused_row [OF assms Some] by auto
  qed (simp add: l, simp add: ledger_of_def)
qed

lemma ledger_issue:
  assumes "wf_gateway t" "insert_key_details cr src now name owned via label ref t = Inr (raw, d, t')"
  shows "ledger_of t (gk_id d) = None \<and> ledger_of t' = (ledger_of t)(gk_id d \<mapsto> (hash_key cr raw, Active))"
proof -
  from assms(2) obtain dr where dr: "gd_hash dr = hash_key cr raw" "d = display_of (build_gateway_key dr (tseq t + 1))"
    "t' = snd (insert_row (build_gateway_key dr) t)" by (rule insert_key_details_Inr)
  let ?r = "build_gateway_key dr (tseq t + 1)"
  have r: "gk_id ?r = tseq t + 1" "gk_key_hash ?r = hash_key cr raw" "status_of ?r = Active"
    by (simp_all add: build_gateway_key_def dr(1) status_of_def)
  have free: "find_row (\<lambda>r. gk_id r = tseq t + 1) t = None"
    using assms(1) by (force simp: wf_gateway_def wf_table_def find_row_None)
  have "List.find P (xs @ [x]) = (case List.find P xs of None \<Rightarrow> if P x then Some x else None | Some y \<Rightarrow> Some y)"
    for P :: "gateway_key \<Rightarrow> bool" and xs x by (induction xs) auto
  then have "ledger_of t' i = ((ledger_of t)(tseq t + 1 \<mapsto> (hash_key cr raw, Active))) i" for i
    using free r by (auto simp: ledger_of_def find_row_def dr(3) table_simps split: option.split)
  with free r(1) dr(2) show ?thesis by (auto simp: ledger_of_def)
qed

lemma ledger_remove: "ledger_of (delete_gateway_key i t) = (ledger_of t)(i := None)"
proof
  fix j
  have "List.find (\<lambda>r. gk_id r = j) (filter (\<lambda>r. gk_id r \<noteq> i) xs)
      = (if j = i then None else List.find (\<lambda>r. gk_id r = j) xs)" for xs :: "gateway_key list"
    by (induction xs) auto
  then show "ledger_of (delete_gateway_key i t) j = ((ledger_of t)(i := None)) j"
    by (simp add: ledger_of_def find_row_def delete_gateway_key_def table_simps)
qed

section \<open>Refinement\<close>

lemma does_step: "gateway_does cr l t t' \<Longrightarrow> gateway_step cr t t'"
  by (induction rule: gateway_does.induct) (auto intro: gateway_step.intros)

lemma does_refines:
  assumes "wf_gateway t" "gateway_does cr l t t'"
  shows "ledger_allows l (ledger_of t) \<and> ledger_of t' = ledger_after l (ledger_of t)"
  using assms(2)
proof cases
  case (issue src now name owned via label ref raw d)
  from ledger_issue [OF assms(1) issue(2)] issue(1) show ?thesis by simp
next
  case (unused c now days n idle)
  have "ledger_of t' = ledger_after l (ledger_of t)"
    unfolding revoke_unused_Inr [OF unused(2)] unused(1,3) by (rule ledger_expire [OF assms(1)])
  with unused(1) show ?thesis by simp
qed (simp_all add: ledger_updates ledger_remove)

lemma run_refines:
  "gateway_run cr ls t t' \<Longrightarrow> wf_gateway t \<Longrightarrow> wf_gateway t' \<and> ledger_run ls (ledger_of t) (ledger_of t')"
proof (induction rule: gateway_run.induct)
  case (step l t t1 ls t')
  from does_refines [OF step.prems step.hyps(1)] gateway_step_wf [OF does_step [OF step.hyps(1)] step.prems] step.IH
  show ?case by simp
qed simp

text \<open>
  C0. The table of gateway keys refines a ledger of credentials. Each operation of the service does to the
  ledger what its name says: Disable suspends, Enable resumes what is suspended, Revoke retires, RevokeUnused
  retires the active keys that were made and last used before the cutoff, Delete removes, Touch does
  nothing, and a new key takes a free id. So along every run of operations a revoked key stays retired until
  it is deleted, and a text is accepted only as a credential that is active and has its hash.
\<close>

theorem gateway_keys_refine_ledger:
  assumes "wf_gateway t" "gateway_run cr ls t t'"
  shows "ledger_run ls (ledger_of t) (ledger_of t')
    \<and> (\<forall>i h. ledger_of t i = Some (h, Retired) \<and> Remove i \<notin> set ls \<longrightarrow> ledger_of t' i = Some (h, Retired))
    \<and> (\<forall>raw d. lookup_key cr raw t' = Inr (Some d) \<longrightarrow> ledger_of t' (gk_id d) = Some (hash_key cr raw, Active))"
proof (intro conjI allI impI)
  show run: "ledger_run ls (ledger_of t) (ledger_of t')" using run_refines [OF assms(2,1)] by simp
  show "ledger_of t' i = Some (h, Retired)" if "ledger_of t i = Some (h, Retired) \<and> Remove i \<notin> set ls" for i h
    using retired_run [OF run] that by blast
  fix raw d
  assume "lookup_key cr raw t' = Inr (Some d)"
  then obtain r where r: "find_row (\<lambda>r. gk_key_hash r = hash_key cr raw) t' = Some r" "gk_enabled r" "gk_revoked_at r = None"
    "d = display_of r" by (auto simp: lookup_key_def split: if_splits option.splits)
  from find_row_Some [OF r(1)] have "r \<in> set (rows t')" "gk_key_hash r = hash_key cr raw" by auto
  moreover have "wf_table gk_id t'" using run_refines [OF assms(2,1)] by (simp add: wf_gateway_def)
  ultimately show "ledger_of t' (gk_id d) = Some (hash_key cr raw, Active)"
    using wf_table_find [of gk_id t' r] r by (simp add: ledger_of_def status_of_def)
qed

text \<open>A key is issued, revoked and enabled again.\<close>

lemma gateway_keys_refine_ledger_witness:
  "\<exists>d t'. insert_key_details demo_crypto demo_key_source 0 ''agent'' False ''operator'' ''agent'' None empty_table
      = Inr (demo_raw_key, d, t')
    \<and> ledger_of (enable_gateway_key (gk_id d) (revoke_gateway_key 1 (gk_id d) t')) (gk_id d)
      = Some (hash_key demo_crypto demo_raw_key, Retired)"
proof -
  obtain d t' where i: "insert_key_details demo_crypto demo_key_source 0 ''agent'' False ''operator'' ''agent'' None empty_table
      = Inr (demo_raw_key, d, t')" using demo_issue by blast
  let ?ls = "[Issue (gk_id d) (hash_key demo_crypto demo_raw_key), Retire (gk_id d), Resume (gk_id d)]"
  have "gateway_run demo_crypto ?ls empty_table (enable_gateway_key (gk_id d) (revoke_gateway_key 1 (gk_id d) t'))"
    by (rule gateway_run.step [OF gateway_does.issue [OF i]], rule gateway_run.step [OF gateway_does.revoke],
        rule gateway_run.step [OF gateway_does.enable], rule gateway_run.stop)
  moreover have "wf_gateway empty_table" by (simp add: wf_gateway_def)
  ultimately have "ledger_run ?ls (ledger_of empty_table)
      (ledger_of (enable_gateway_key (gk_id d) (revoke_gateway_key 1 (gk_id d) t')))"
    using gateway_keys_refine_ledger by blast
  with i show ?thesis by (simp add: with_status_def)
qed

end
