(* ===== verification/SpaPage.thy ===== *)
theory SpaPage
  imports EnvFile AdminRouter
begin

text \<open>
  internal/adminweb/staticspa.go: the page embedded in the program. The embedded file system is a
  parameter, what opening each name gives; the reply names the file that \<open>http.ServeFileFS\<close> is called with.
\<close>

section \<open>The handler\<close>

datatype open_result = Opens | OpenNotExist | OpenFails

type_synonym embedded_files = "string \<Rightarrow> open_result"

datatype cache_rule = NoCacheHeader | NoCache | Immutable

datatype spa_reply = MissingAssets | SpaNotFound | SpaFile string cache_rule

definition dist_dir :: string where "dist_dir = ''assets/dist/''"
definition index_file :: string where "index_file = ''assets/dist/index.html''"

definition real_spa_assets_built :: "embedded_files \<Rightarrow> bool" where
  "real_spa_assets_built fs \<longleftrightarrow> fs index_file = Opens"

definition spa_name :: "string \<Rightarrow> string" where
  "spa_name path =
     (let name = trim_prefix ''/admin'' path in
      if name = [] \<or> name = ''/'' then ''index.html'' else trim_prefix ''/'' (clean_path (''/'' @ name)))"

definition cache_of :: "string \<Rightarrow> cache_rule" where
  "cache_of name =
     (if prefix ''assets/'' name then Immutable else if name = ''index.html'' then NoCache else NoCacheHeader)"

definition serve_spa :: "embedded_files \<Rightarrow> string \<Rightarrow> spa_reply" where
  "serve_spa fs path =
     (if \<not> real_spa_assets_built fs then MissingAssets
      else (let name = spa_name path in
        if prefix ''..'' name then SpaNotFound
        else (case fs (dist_dir @ name) of
            Opens \<Rightarrow> SpaFile (dist_dir @ name) (cache_of name)
          | OpenNotExist \<Rightarrow> SpaFile index_file NoCache
          | OpenFails \<Rightarrow> SpaNotFound)))"

section \<open>Cleaned names\<close>

definition plain_elem :: "string \<Rightarrow> bool" where
  "plain_elem e \<longleftrightarrow> e \<noteq> [] \<and> e \<noteq> ''.'' \<and> e \<noteq> ''..'' \<and> CHR ''/'' \<notin> set e"

lemma clean_elems_plain:
  "\<forall>e \<in> set acc. plain_elem e \<Longrightarrow> \<forall>e \<in> set es. CHR ''/'' \<notin> set e \<Longrightarrow>
   \<forall>e \<in> set (clean_elems True acc es). plain_elem e"
proof (induction es arbitrary: acc)
  case (Cons e es)
  have up: "clean_elems True acc (''..'' # es) = clean_elems True (tl acc) es"
    using Cons.prems(1) by (cases acc) (simp_all add: plain_elem_def)
  have tl: "\<forall>e \<in> set (tl acc). plain_elem e" using Cons.prems(1) by (cases acc) simp_all
  consider "e = [] \<or> e = ''.''" | "e = ''..''" | "plain_elem e"
    using Cons.prems(2) by (auto simp: plain_elem_def)
  then show ?case
  proof cases
    case 1
    then show ?thesis using Cons.IH [OF Cons.prems(1)] Cons.prems(2) by auto
  next
    case 2
    then show ?thesis using Cons.IH [OF tl] Cons.prems(2) by (simp only: up) simp
  next
    case 3
    then have "clean_elems True acc (e # es) = clean_elems True (e # acc) es" by (simp add: plain_elem_def)
    with Cons.IH [of "e # acc"] Cons.prems 3 show ?thesis by simp
  qed
qed simp

lemma split_on_elems: "e \<in> set (split_on c s) \<Longrightarrow> c \<notin> set e"
proof (induction s arbitrary: e)
  case (Cons x xs)
  then show ?case by (cases "split_on c xs") (auto split: if_splits)
qed simp

text \<open>A name the handler looks up has no element that leaves the directory, and none that is empty.\<close>

lemma spa_name_elems:
  obtains es where "spa_name path = join_with ''/'' es" "\<forall>e \<in> set es. plain_elem e"
proof (cases "trim_prefix ''/admin'' path \<in> {[], ''/''}")
  case True
  then have "spa_name path = join_with ''/'' [''index.html'']" by (auto simp: spa_name_def)
  then show thesis by (rule that) (simp add: plain_elem_def)
next
  case False
  let ?es = "clean_elems True [] (split_on (CHR ''/'') (''/'' @ trim_prefix ''/admin'' path))"
  have "spa_name path = join_with ''/'' ?es"
    using False by (auto simp: spa_name_def clean_path_def Let_def trim_prefix_def simp del: split_on.simps)
  moreover have "\<forall>e \<in> set ?es. plain_elem e"
    by (rule clean_elems_plain) (auto dest: split_on_elems simp del: split_on.simps append_Cons append_Nil)
  ultimately show thesis by (rule that)
qed

section \<open>Properties\<close>

text \<open>
  C40. Whatever path is asked for, the embedded page serves the index or a file of the distribution directory
  that exists and whose path under it has no empty element and none that is a dot or two dots; only
  files below assets may be kept by the client forever, and the page of a missing build is shown only without an index.
\<close>

theorem page_stays_in_dist:
  "case serve_spa fs path of
     MissingAssets \<Rightarrow> fs ''assets/dist/index.html'' \<noteq> Opens
   | SpaNotFound \<Rightarrow> prefix ''..'' (spa_name path) \<or> fs (''assets/dist/'' @ spa_name path) = OpenFails
   | SpaFile f cache \<Rightarrow> fs f = Opens
       \<and> (\<exists>n. f = ''assets/dist/'' @ n \<and> (n = [] \<or> list_all plain_elem (split_on (CHR ''/'') n))
            \<and> (if cache = Immutable then prefix ''assets/'' n else True))"
proof -
  obtain es where es: "spa_name path = join_with ''/'' es" "\<forall>e \<in> set es. plain_elem e" by (rule spa_name_elems)
  have "spa_name path = [] \<or> list_all plain_elem (split_on (CHR ''/'') (spa_name path))"
  proof (cases es)
    case (Cons a as)
    with es(2) have "split_on (CHR ''/'') (spa_name path) = es"
      unfolding es(1) by (intro split_join) (auto simp: plain_elem_def)
    with es(2) show ?thesis by (simp add: list_all_iff)
  qed (simp add: es(1))
  moreover have "list_all plain_elem (split_on (CHR ''/'') ''index.html'')" by (simp add: plain_elem_def)
  ultimately show ?thesis
    by (auto simp: serve_spa_def real_spa_assets_built_def dist_dir_def index_file_def cache_of_def Let_def
        simp del: split_on.simps split: open_result.split)
qed

end
