(* ===== verification/Spec2Isabelle.thy ===== *)
theory Spec2Isabelle
  imports KeyProperties ProxyProperties PoolProperties IssuanceProperties AuthProperties OAuthProperties
    ConsentProperties ServerProperties AuditLog Migrations QuotaProperties SystemProperties CliProperties
    GatewayLedger SpaPage
begin

text \<open>
  This development models the guda gateway (a Go program): an HTTP gateway that authenticates agents
  by gateway keys, forwards their requests to one of three providers (grok, tavily, firecrawl) with a
  provider key from a pool, cools down keys that fail, counts usage, and offers an OAuth server for MCP
  clients and an admin API. All its state is one SQLite database, which the model keeps as records of
  tables; a handler is a function from a request, an environment and the database to an answer and the
  new database.

  \<^bold>\<open>Go's library.\<close> \<open>Prelude\<close> holds tables with an increasing row id, the map over errors and shared
  lemmas; \<open>GoStrings\<close> the strings package and strconv; \<open>GoTime\<close> instants, durations and RFC 3339 with
  nanoseconds; \<open>GoUrl\<close>, \<open>GoForm\<close>, \<open>GoHttp\<close> and \<open>GoNetip\<close> URLs, form values, headers and addresses;
  \<open>GoJson\<close>, \<open>GoJsonText\<close> and \<open>GoJsonFields\<close> the JSON decoder with its rules for fields; \<open>Instances\<close> the
  class instances of the model's types.

  \<^bold>\<open>Providers\<close> (internal/providers, internal/cooldown, internal/secrets, internal/idgen).
  \<open>ProviderConfig\<close>: providers.go, endpoints.go, endpoint_quota.go, paging.go. \<open>Cooldown\<close>: cooldown.go.
  \<open>Secrets\<close>: encryption over a record \<open>crypto\<close> of the cipher and hash the program calls, the master key
  file, base62 identifiers. \<open>ProviderSettings\<close>: settings.go. \<open>Redact\<close> and \<open>ProviderKeys\<close>: keys.go, every
  operation of \<open>KeyRepo\<close>. \<open>KeyQuota\<close>: quota.go and key_quota.go. \<open>ProviderHealth\<close>: health.go.
  \<open>QuotaPayloads\<close> and \<open>QuotaRefresh\<close>: quota_refresh.go. \<open>KeySelection\<close> and \<open>KeyLaws\<close> prove the laws of
  selection and a history predicate over all operations with its invariant; \<open>KeyProperties\<close>,
  \<open>PoolProperties\<close>, \<open>QuotaLaws\<close> and \<open>QuotaProperties\<close> state what a caller relies on.

  \<^bold>\<open>Proxy and usage\<close> (internal/proxy, internal/usage). \<open>AttemptLog\<close>: attemptlog.go; \<open>Proxy\<close>: proxy.go and
  tavily_diagnostic.go, the retry loop over a parameter for the network; \<open>UsageDaily\<close>: usage.go. The
  key selector of the proxy is a locale in \<open>ProxyLaws\<close>, interpreted on the repository of keys;
  \<open>ProxyProperties\<close> bounds the attempts and shows what is retried, logged and forwarded.

  \<^bold>\<open>Keys, invites and administrators\<close> (internal/gatewaykeys, internal/adminauth, internal/operatorlogin).
  \<open>GatewayKeys\<close>, \<open>Invites\<close>, \<open>AdminAuth\<close>, \<open>OperatorLogin\<close>, with \<open>IssuanceProperties\<close>, \<open>AuthLaws\<close> and
  \<open>AuthProperties\<close>. \<open>GatewayLedger\<close> states what the keys promise as a ledger of credentials and
  shows that the operations on the table of keys refine it.

  \<^bold>\<open>OAuth\<close> (internal/mcpoauth). \<open>OAuthUrls\<close>: issuer.go and client_metadata.go; \<open>OAuthStore\<close>: the tables,
  crypto.go, decision.go, grants.go; \<open>OAuthServer\<close>: registration, consent and codes; \<open>OAuthTokens\<close>: tokens,
  rotation and replay. \<open>OAuthLaws\<close>, \<open>OAuthProperties\<close> and \<open>ConsentProperties\<close> prove the protocol's rules.

  \<^bold>\<open>The server\<close> (internal/config, internal/store, internal/audit, internal/server, internal/adminweb).
  \<open>Config\<close>; \<open>Migrations\<close>: store.go and the loop of migrations.go, refined to an abstract specification;
  \<open>AuditLog\<close>; \<open>GatewayDb\<close>: the whole database; \<open>AdminWeb\<close>, \<open>AdminProviders\<close> and \<open>AdminRouter\<close>:
  handlers.go, the routes as a table in the order of the switch; \<open>Server\<close>: server.go, which ties all of it
  together. \<open>AdminLaws\<close> and \<open>SystemLaws\<close> show that every request is a sequence of operations of the
  components (the relation \<open>evolves\<close>), so that the components' invariants carry over to all runs;
  \<open>AdminReplies\<close> shows that a call refused as the client's fault changes nothing;
  \<open>SpaPage\<close>: staticspa.go, over a parameter for the embedded files;
  \<open>ServerProperties\<close> and \<open>SystemProperties\<close> hold what spans components.

  \<^bold>\<open>The command line tool\<close> (cmd/guda-gateway-admin/commands.go). \<open>EnvFile\<close>: the file of variables that
  keeps the admin secret, with its lines after a write; \<open>Cli\<close>: the world of a command, its flags and
  input, and the token commands; \<open>CliCommands\<close>: every other command and the dispatch. \<open>CliLaws\<close> shows that
  a command moves the database by the same steps as a request and defines the runs of the whole
  system, in which requests and commands interleave; \<open>CliProperties\<close> states what holds in them.

  \<^bold>\<open>Conventions.\<close> The clock is an argument: an instant in nanoseconds, or a function from the number of the
  reading where an operation reads it several times. Random bytes, nonces and the answers of the network
  are arguments as well. Timestamps are stored as text and SQL compares them as text, which the model
  keeps. Errors are values of sum types with the source's error names. Integers keep Go's 64-bit
  range where a product or a parsed number can leave it. Loops are structural recursion, or recursion
  with a measure; the only bound is the code's own (the number of attempts of \<open>Forward\<close>, the 50 pages of
  the quota refresh), and both loops are shown to return. The database is sequential, as the program opens it
  with a single connection, and a transaction that fails returns the database it began with.

  \<^bold>\<open>Not modelled.\<close> Failures of SQLite itself and of the disk; the SQL of the migrations, which is a
  parameter; HTML and the contents of the embedded files (a page is the record of what it shows);
  TLS, sockets and concurrency of the HTTP server; the cryptographic primitives, which are parameters with
  their documented behaviour as hypotheses; multipart forms and the 10 MB limit of forms; the pragmas and
  file paths of internal/store; the two main functions under cmd/, which parse global flags and start the
  server; the alignment of the tables the command line tool prints.
\<close>

end
